(* ===== verification/Telemy_Prelude.thy ===== *)
theory Telemy_Prelude
  imports Main "HOL-Library.Word" "HOL-Library.AList"
begin

text \<open>
  Shared vocabulary of the development: names for Rust's machine integers and results, the
  collections of rewrite rules that the component theories fill, generic lemmas on lists,
  association lists and words, and the interface of a transition system with an invariant
  that the session, the pipe server and the HTTP state reuse.
\<close>

section \<open>Types\<close>

type_synonym u8 = "8 word"
type_synonym u16 = "16 word"
type_synonym u32 = "32 word"
type_synonym u64 = "64 word"

text \<open>\<open>Result<T, E>\<close> is the sum \<open>'e + 'a\<close>; \<open>Inl\<close> is \<open>Err\<close>, \<open>Inr\<close> is \<open>Ok\<close>.\<close>

type_synonym ('a, 'e) result = "'e + 'a"

abbreviation Ok :: "'a \<Rightarrow> ('a, 'e) result" where
  "Ok \<equiv> Inr"

abbreviation Err :: "'e \<Rightarrow> ('a, 'e) result" where
  "Err \<equiv> Inl"

definition is_ok :: "('a, 'e) result \<Rightarrow> bool" where
  "is_ok r = (case r of Inl _ \<Rightarrow> False | Inr _ \<Rightarrow> True)"

definition map_err :: "('e \<Rightarrow> 'f) \<Rightarrow> ('a, 'e) result \<Rightarrow> ('a, 'f) result" where
  "map_err f r = (case r of Inl e \<Rightarrow> Inl (f e) | Inr a \<Rightarrow> Inr a)"

text \<open>The \<open>?\<close> operator: an error returns at once, a value goes on.\<close>

definition and_then :: "('a, 'e) result \<Rightarrow> ('a \<Rightarrow> ('b, 'e) result) \<Rightarrow> ('b, 'e) result" where
  "and_then r k = (case r of Inl e \<Rightarrow> Inl e | Inr a \<Rightarrow> k a)"

text \<open>\<open>Option::ok_or\<close> and \<open>Option::unwrap_or\<close>.\<close>

definition ok_or :: "'a option \<Rightarrow> 'e \<Rightarrow> ('a, 'e) result" where
  "ok_or x e = (case x of None \<Rightarrow> Inl e | Some a \<Rightarrow> Inr a)"

definition unwrap_or :: "'a option \<Rightarrow> 'a \<Rightarrow> 'a" where
  "unwrap_or x d = (case x of None \<Rightarrow> d | Some a \<Rightarrow> a)"

section \<open>Collections of facts\<close>

named_theorems result_simps \<open>rewrite rules for results and options\<close>
named_theorems rust_str \<open>rewrite rules for the string operations of Rust's library\<close>
named_theorems ipc_simps \<open>what the IPC session's primitives leave unchanged\<close>
named_theorems auth_simps \<open>rewrite rules for the request guards of the HTTP server\<close>

lemma is_ok_simps [result_simps, simp]:
  "is_ok (Inr a) = True" "is_ok (Inl e) = False"
  by (simp_all add: is_ok_def)

lemma map_err_simps [result_simps, simp]:
  "map_err f (Inr a) = Inr a" "map_err f (Inl e) = Inl (f e)"
  by (simp_all add: map_err_def)

lemma map_err_eq_Ok [result_simps, simp]: "map_err f r = Inr x \<longleftrightarrow> r = Inr x"
  by (auto simp: map_err_def split: sum.splits)

lemma and_then_simps [result_simps, simp]:
  "and_then (Inr a) k = k a" "and_then (Inl e) k = Inl e"
  by (simp_all add: and_then_def)

lemma and_then_eq_Ok [result_simps]:
  "and_then r k = Inr b \<longleftrightarrow> (\<exists>a. r = Inr a \<and> k a = Inr b)"
  by (cases r) auto

lemma ok_or_simps [result_simps, simp]:
  "ok_or None e = Inl e" "ok_or (Some a) e = Inr a"
  by (simp_all add: ok_or_def)

lemma unwrap_or_simps [result_simps, simp]:
  "unwrap_or None d = d" "unwrap_or (Some a) d = a"
  by (simp_all add: unwrap_or_def)

section \<open>Association lists with distinct keys (hash maps)\<close>

lemmas map_of_update = update_conv'
lemmas map_of_delete_eq = delete_conv'

lemma keys_delete [simp]: "fst ` set (AList.delete k m) = fst ` set m - {k}"
  by (induction m) auto

lemma distinct_keys_delete: "distinct (map fst m) \<Longrightarrow> distinct (map fst (AList.delete k m))"
  by (rule distinct_delete)

lemma length_update_fresh:
  "map_of m k = None \<Longrightarrow> length (AList.update k v m) = Suc (length m)"
  by (induction m) (auto split: if_splits)

lemma length_update_present:
  "map_of m k \<noteq> None \<Longrightarrow> length (AList.update k v m) = length m"
  by (induction m) (auto split: if_splits)

lemma delete_absent [simp]: "map_of m k = None \<Longrightarrow> AList.delete k m = m"
  by (induction m) (auto split: if_splits)

section \<open>Words\<close>

text \<open>\<open>saturating_add\<close> and \<open>saturating_sub\<close> of Rust's unsigned integers.\<close>

definition saturating_add :: "'a::len word \<Rightarrow> 'a word \<Rightarrow> 'a word" where
  "saturating_add a b = (if unat a + unat b < 2 ^ LENGTH('a) then a + b else - 1)"

definition saturating_sub :: "'a::len word \<Rightarrow> 'a word \<Rightarrow> 'a word" where
  "saturating_sub a b = (if b \<le> a then a - b else 0)"

lemma unat_saturating_add:
  fixes a b :: "'a::len word"
  shows "unat (saturating_add a b) = min (2 ^ LENGTH('a) - 1) (unat a + unat b)"
  by (auto simp: saturating_add_def unat_word_ariths min_def unsigned_minus_1_eq_mask mask_eq_exp_minus_1)

lemma unat_saturating_sub:
  fixes a b :: "'a::len word"
  shows "unat (saturating_sub a b) = unat a - unat b"
  by (auto simp: saturating_sub_def unat_sub word_le_nat_alt not_le)

text \<open>\<open>Ord::clamp\<close>.\<close>

definition clamp :: "'a::linorder \<Rightarrow> 'a \<Rightarrow> 'a \<Rightarrow> 'a" where
  "clamp lo hi x = (if x < lo then lo else if hi < x then hi else x)"

lemma clamp_bounds: "lo \<le> hi \<Longrightarrow> lo \<le> clamp lo hi x \<and> clamp lo hi x \<le> hi"
  by (auto simp: clamp_def)

lemma clamp_id: "lo \<le> x \<Longrightarrow> x \<le> hi \<Longrightarrow> clamp lo hi x = x"
  by (auto simp: clamp_def)

section \<open>Transition systems with an invariant\<close>

inductive reach :: "('s \<Rightarrow> bool) \<Rightarrow> ('s \<Rightarrow> 's \<Rightarrow> bool) \<Rightarrow> 's \<Rightarrow> bool"
  for init :: "'s \<Rightarrow> bool" and step :: "'s \<Rightarrow> 's \<Rightarrow> bool" where
  reach_init: "init s \<Longrightarrow> reach init step s"
| reach_step: "reach init step s \<Longrightarrow> step s t \<Longrightarrow> reach init step t"

locale invariant_system =
  fixes init :: "'s \<Rightarrow> bool"
    and step :: "'s \<Rightarrow> 's \<Rightarrow> bool"
    and inv :: "'s \<Rightarrow> bool"
  assumes inv_init: "init s \<Longrightarrow> inv s"
    and inv_step: "inv s \<Longrightarrow> step s t \<Longrightarrow> inv t"
begin

lemma inv_reach: "reach init step s \<Longrightarrow> inv s"
  by (induction rule: reach.induct) (auto intro: inv_init inv_step)

lemma inv_rtranclp: "inv s \<Longrightarrow> step\<^sup>*\<^sup>* s t \<Longrightarrow> inv t"
  by (rotate_tac 1, induction rule: rtranclp_induct) (auto intro: inv_step)

end

section \<open>Persistent values\<close>

text \<open>A value saved to some storage and loaded back. Loading may normalise the value, as the
  configuration does with its environment overrides; \<open>good\<close> delimits the values that the storage
  carries faithfully.\<close>

locale persistent =
  fixes save :: "'s \<Rightarrow> 'a \<Rightarrow> ('u, 'e) result \<times> 's"
    and load :: "'s \<Rightarrow> ('a, 'e) result"
    and norm :: "'a \<Rightarrow> 'a"
    and good :: "'a \<Rightarrow> bool"
  assumes load_save: "save s a = (Ok u, s') \<Longrightarrow> good a \<Longrightarrow> load s' = Ok (norm a)"
    and norm_idem: "norm (norm a) = norm a"
    and good_norm: "good a \<Longrightarrow> good (norm a)"
begin

lemma save_load_save:
  assumes "save s a = (Ok u, s1)" and "good a" and "load s1 = Ok b" and "save s1 b = (Ok u', s2)"
  shows "b = norm a \<and> load s2 = Ok b"
proof -
  have b: "b = norm a" using load_save [OF assms(1,2)] assms(3) by simp
  with load_save [OF assms(4)] good_norm [OF assms(2)] norm_idem show ?thesis by simp
qed

lemma last_save_wins:
  assumes "save s a = (Ok u, s1)" and "save s1 b = (Ok u', s2)" and "good b"
  shows "load s2 = Ok (norm b)"
  using assms by (auto intro: load_save)

end

end
