(* ===== verification/Rust_Std.thy ===== *)
theory Rust_Std
  imports Telemy_Prelude "HOL-Library.Sublist"
begin

text \<open>
  The parts of Rust's standard library that the program calls: instants and durations,
  strings, integer and boolean parsing, decimal printing, and \<open>IpAddr::from_str\<close>.

  A Rust string is its UTF-8 byte sequence, written as a HOL \<open>string\<close> (one HOL character
  per byte), so equality, ordering, prefixes and searches for ASCII characters are those of
  Rust. \<open>trim\<close> removes the characters with the Unicode property \<open>White_Space\<close>, given by
  their one-, two- and three-byte encodings.
\<close>

section \<open>Instants and durations\<close>

text \<open>An \<open>Instant\<close> is a reading of the monotonic clock in nanoseconds, a \<open>Duration\<close> a
  number of nanoseconds. \<open>duration_since\<close> saturates at zero.\<close>

type_synonym instant = int
type_synonym duration = nat

definition from_millis :: "nat \<Rightarrow> duration" where
  "from_millis n = n * 1000000"

definition from_secs :: "nat \<Rightarrow> duration" where
  "from_secs n = n * 1000000000"

definition duration_since :: "instant \<Rightarrow> instant \<Rightarrow> duration" where
  "duration_since now earlier = nat (now - earlier)"

lemma duration_since_le: "duration_since now t \<le> d \<longleftrightarrow> now \<le> t + int d"
  by (auto simp: duration_since_def)

lemma duration_since_gt: "d < duration_since now t \<longleftrightarrow> t + int d < now"
  by (auto simp: duration_since_def)

lemma duration_since_mono: "a \<le> b \<Longrightarrow> duration_since a t \<le> duration_since b t"
  by (auto simp: duration_since_def)

section \<open>Characters and trimming\<close>

definition byte :: "char \<Rightarrow> nat" where
  "byte c = of_char c"

definition is_ascii_digit :: "char \<Rightarrow> bool" where
  "is_ascii_digit c \<longleftrightarrow> 48 \<le> byte c \<and> byte c \<le> 57"

text \<open>The encodings of white space: U+0009..U+000D and U+0020; U+0085 and U+00A0; U+1680,
  U+2000..U+200A, U+2028, U+2029, U+202F, U+205F and U+3000.\<close>

definition ws1 :: "nat \<Rightarrow> bool" where
  "ws1 a \<longleftrightarrow> (9 \<le> a \<and> a \<le> 13) \<or> a = 32"

definition ws2 :: "nat \<Rightarrow> nat \<Rightarrow> bool" where
  "ws2 a b \<longleftrightarrow> a = 0xC2 \<and> (b = 0x85 \<or> b = 0xA0)"

definition ws3 :: "nat \<Rightarrow> nat \<Rightarrow> nat \<Rightarrow> bool" where
  "ws3 a b c \<longleftrightarrow>
     (a = 0xE1 \<and> b = 0x9A \<and> c = 0x80)
   \<or> (a = 0xE2 \<and> b = 0x80 \<and> (0x80 \<le> c \<and> c \<le> 0x8A \<or> c = 0xA8 \<or> c = 0xA9 \<or> c = 0xAF))
   \<or> (a = 0xE2 \<and> b = 0x81 \<and> c = 0x9F)
   \<or> (a = 0xE3 \<and> b = 0x80 \<and> c = 0x80)"

text \<open>The number of bytes of the white-space character at the front (0: there is none), and
  the same at the back of a reversed string.\<close>

fun ws_len :: "string \<Rightarrow> nat" where
  "ws_len (a # b # c # s) =
     (if ws1 (byte a) then 1 else if ws2 (byte a) (byte b) then 2
      else if ws3 (byte a) (byte b) (byte c) then 3 else 0)"
| "ws_len [a, b] = (if ws1 (byte a) then 1 else if ws2 (byte a) (byte b) then 2 else 0)"
| "ws_len [a] = (if ws1 (byte a) then 1 else 0)"
| "ws_len [] = 0"

fun ws_len_rev :: "string \<Rightarrow> nat" where
  "ws_len_rev (a # b # c # s) =
     (if ws1 (byte a) then 1 else if ws2 (byte b) (byte a) then 2
      else if ws3 (byte c) (byte b) (byte a) then 3 else 0)"
| "ws_len_rev [a, b] = (if ws1 (byte a) then 1 else if ws2 (byte b) (byte a) then 2 else 0)"
| "ws_len_rev [a] = (if ws1 (byte a) then 1 else 0)"
| "ws_len_rev [] = 0"

function strip_ws :: "(string \<Rightarrow> nat) \<Rightarrow> string \<Rightarrow> string" where
  "strip_ws w s = (if s = [] \<or> w s = 0 then s else strip_ws w (drop (w s) s))"
  by pat_completeness auto
termination
  by (relation "measure (\<lambda>(w, s). length s)") auto

declare strip_ws.simps [simp del]

definition trim_start :: "string \<Rightarrow> string" where
  "trim_start s = strip_ws ws_len s"

definition trim_end :: "string \<Rightarrow> string" where
  "trim_end s = rev (strip_ws ws_len_rev (rev s))"

definition trim :: "string \<Rightarrow> string" where
  "trim s = trim_end (trim_start s)"

lemma strip_ws_stop: "w s = 0 \<Longrightarrow> strip_ws w s = s"
  by (subst strip_ws.simps) simp

lemma strip_ws_done: "w [] = 0 \<Longrightarrow> w (strip_ws w s) = 0"
proof (induction w s rule: strip_ws.induct)
  case (1 w s)
  then show ?case by (subst strip_ws.simps) auto
qed

lemma strip_ws_suffix: "suffix (strip_ws w s) s"
proof (induction w s rule: strip_ws.induct)
  case (1 w s)
  show ?case
  proof (cases "s = [] \<or> w s = 0")
    case True
    then show ?thesis by (subst strip_ws.simps) simp
  next
    case False
    then have "strip_ws w s = strip_ws w (drop (w s) s)"
      by (subst strip_ws.simps) simp
    with "1.IH" [OF False] show ?thesis
      using suffix_drop suffix_order.order_trans by metis
  qed
qed

lemma ws_len_append: "ws_len p \<noteq> 0 \<Longrightarrow> ws_len (p @ q) \<noteq> 0"
  by (cases p rule: ws_len.cases; cases q rule: ws_len.cases) (auto split: if_splits)

lemma ws_len_trim_start: "ws_len (trim_start s) = 0"
  by (simp add: trim_start_def strip_ws_done)

lemma trim_end_prefix: "prefix (trim_end s) s"
  using strip_ws_suffix [of ws_len_rev "rev s"]
  by (metis rev_rev_ident suffix_to_prefix trim_end_def)

lemma ws_len_trim: "ws_len (trim s) = 0"
proof -
  obtain q where "trim_start s = trim s @ q"
    using trim_end_prefix [of "trim_start s"] by (auto simp: trim_def prefix_def)
  then show ?thesis
    using ws_len_trim_start ws_len_append by metis
qed

lemma ws_len_rev_trim: "ws_len_rev (rev (trim s)) = 0"
  by (simp add: trim_def trim_end_def strip_ws_done)

lemma trim_id: "ws_len s = 0 \<Longrightarrow> ws_len_rev (rev s) = 0 \<Longrightarrow> trim s = s"
  by (simp add: trim_def trim_end_def trim_start_def strip_ws_stop)

lemma trim_idem [rust_str, simp]: "trim (trim s) = trim s"
  by (rule trim_id) (simp_all add: ws_len_trim ws_len_rev_trim)

lemma trim_Nil [rust_str, simp]: "trim [] = []"
  by (rule trim_id) simp_all

lemma set_trim: "set (trim s) \<subseteq> set s"
proof -
  have "set (trim_start s) \<subseteq> set s"
    by (simp add: trim_start_def strip_ws_suffix set_mono_suffix)
  moreover have "set (trim s) \<subseteq> set (trim_start s)"
    by (simp add: trim_def trim_end_prefix set_mono_prefix)
  ultimately show ?thesis by blast
qed

section \<open>Searching and splitting\<close>

definition strip_prefix :: "string \<Rightarrow> string \<Rightarrow> string option" where
  "strip_prefix p s = (if take (length p) s = p then Some (drop (length p) s) else None)"

fun contains :: "string \<Rightarrow> string \<Rightarrow> bool" where
  "contains p [] \<longleftrightarrow> p = []"
| "contains p (c # s) \<longleftrightarrow> take (length p) (c # s) = p \<or> contains p s"

definition rsplit_once :: "char \<Rightarrow> string \<Rightarrow> (string \<times> string) option" where
  "rsplit_once c s =
     (if c \<in> set s
      then Some (rev (tl (dropWhile (\<lambda>x. x \<noteq> c) (rev s))), rev (takeWhile (\<lambda>x. x \<noteq> c) (rev s)))
      else None)"

definition trim_end_matches :: "char \<Rightarrow> string \<Rightarrow> string" where
  "trim_end_matches c s = rev (dropWhile (\<lambda>x. x = c) (rev s))"

definition ends_with :: "char \<Rightarrow> string \<Rightarrow> bool" where
  "ends_with c s \<longleftrightarrow> s \<noteq> [] \<and> last s = c"

definition replace_char :: "char \<Rightarrow> string \<Rightarrow> string \<Rightarrow> string" where
  "replace_char c r s = concat (map (\<lambda>x. if x = c then r else [x]) s)"

lemma strip_prefix_Some [rust_str]: "strip_prefix p s = Some t \<longleftrightarrow> s = p @ t"
proof
  assume "strip_prefix p s = Some t"
  then show "s = p @ t"
    by (metis append_take_drop_id option.distinct(1) option.inject strip_prefix_def)
qed (simp add: strip_prefix_def)

lemma rsplit_once_Some [rust_str]:
  "rsplit_once c s = Some (a, b) \<Longrightarrow> s = a @ c # b \<and> c \<notin> set b"
proof -
  assume "rsplit_once c s = Some (a, b)"
  then have mem: "c \<in> set s" and a: "a = rev (tl (dropWhile (\<lambda>x. x \<noteq> c) (rev s)))"
    and b: "b = rev (takeWhile (\<lambda>x. x \<noteq> c) (rev s))"
    by (auto simp: rsplit_once_def split: if_splits)
  from mem have ne: "dropWhile (\<lambda>x. x \<noteq> c) (rev s) \<noteq> []" by simp
  then have "hd (dropWhile (\<lambda>x. x \<noteq> c) (rev s)) = c"
    using hd_dropWhile [OF ne] by simp
  with ne have d: "dropWhile (\<lambda>x. x \<noteq> c) (rev s) = c # rev a"
    by (metis a list.collapse rev_rev_ident)
  have "rev s = rev b @ c # rev a"
    using takeWhile_dropWhile_id [of "\<lambda>x. x \<noteq> c" "rev s"] d b by simp
  then have "s = a @ c # b"
    by (metis append.assoc append_Cons append_Nil rev.simps(2) rev_append rev_rev_ident)
  moreover have "c \<notin> set b"
    using b set_takeWhileD by fastforce
  ultimately show ?thesis by blast
qed

lemma rsplit_once_append [rust_str]:
  assumes "c \<notin> set b"
  shows "rsplit_once c (a @ c # b) = Some (a, b)"
proof -
  have "\<forall>x \<in> set (rev b). x \<noteq> c" using assms by auto
  then have "takeWhile (\<lambda>x. x \<noteq> c) (rev b @ c # rev a) = rev b"
    and "dropWhile (\<lambda>x. x \<noteq> c) (rev b @ c # rev a) = c # rev a"
    by (simp_all add: takeWhile_append dropWhile_append)
  then show ?thesis by (simp add: rsplit_once_def)
qed

lemma rsplit_once_None [rust_str]: "rsplit_once c s = None \<longleftrightarrow> c \<notin> set s"
  by (simp add: rsplit_once_def)

lemma contains_append [rust_str, intro]: "contains p (a @ p @ b)"
proof (induction a)
  case Nil
  show ?case
  proof (cases "p @ b")
    case (Cons c r)
    then have "take (length p) (c # r) = p" by (metis append_eq_conv_conj)
    with Cons show ?thesis by simp
  qed simp
qed simp

section \<open>Numbers as text\<close>

definition digit_char :: "nat \<Rightarrow> char" where
  "digit_char d = char_of (48 + d)"

text \<open>\<open>format!("{}", n)\<close> of an unsigned integer.\<close>

fun show_nat :: "nat \<Rightarrow> string" where
  "show_nat n = (if n < 10 then [digit_char n] else show_nat (n div 10) @ [digit_char (n mod 10)])"

declare show_nat.simps [simp del]

definition show_bool :: "bool \<Rightarrow> string" where
  "show_bool b = (if b then ''true'' else ''false'')"

fun read_digits :: "nat \<Rightarrow> string \<Rightarrow> nat option" where
  "read_digits acc [] = Some acc"
| "read_digits acc (c # s) =
     (if is_ascii_digit c then read_digits (10 * acc + (byte c - 48)) s else None)"

text \<open>\<open>str::parse\<close> for an unsigned integer below \<open>bound\<close>: an optional plus sign, then at
  least one digit, no other character, no overflow.\<close>

definition parse_uint :: "nat \<Rightarrow> string \<Rightarrow> nat option" where
  "parse_uint bound s =
     (let d = (case s of c # r \<Rightarrow> if c = CHR ''+'' then r else s | [] \<Rightarrow> s)
      in if d = [] then None
         else case read_digits 0 d of None \<Rightarrow> None | Some n \<Rightarrow> if n < bound then Some n else None)"

definition parse_u16 :: "string \<Rightarrow> u16 option" where
  "parse_u16 s = map_option of_nat (parse_uint (2 ^ 16) s)"

definition parse_u64 :: "string \<Rightarrow> u64 option" where
  "parse_u64 s = map_option of_nat (parse_uint (2 ^ 64) s)"

definition parse_bool :: "string \<Rightarrow> bool option" where
  "parse_bool s = (if s = ''true'' then Some True else if s = ''false'' then Some False else None)"

lemma byte_digit_char: "d < 10 \<Longrightarrow> byte (digit_char d) = 48 + d"
  by (simp add: byte_def digit_char_def)

lemma is_ascii_digit_digit_char: "d < 10 \<Longrightarrow> is_ascii_digit (digit_char d)"
  by (simp add: is_ascii_digit_def byte_digit_char)

lemma show_nat_digits: "c \<in> set (show_nat n) \<Longrightarrow> is_ascii_digit c"
proof (induction n rule: show_nat.induct)
  case (1 n)
  then show ?case
    by (subst (asm) show_nat.simps) (auto simp: is_ascii_digit_digit_char split: if_splits)
qed

lemma show_nat_nonempty: "show_nat n \<noteq> []"
  by (subst show_nat.simps) simp

lemma read_digits_append:
  "read_digits acc (s @ t) = (case read_digits acc s of None \<Rightarrow> None | Some a \<Rightarrow> read_digits a t)"
  by (induction s arbitrary: acc) auto

lemma read_digits_show_nat: "read_digits 0 (show_nat n) = Some n"
proof (induction n rule: show_nat.induct)
  case (1 n)
  show ?case
    using "1.IH"
    by (subst show_nat.simps)
       (auto simp: read_digits_append is_ascii_digit_digit_char byte_digit_char)
qed

lemma parse_show_nat [rust_str]: "n < bound \<Longrightarrow> parse_uint bound (show_nat n) = Some n"
proof -
  assume n: "n < bound"
  obtain c r where cr: "show_nat n = c # r"
    using show_nat_nonempty by (cases "show_nat n") auto
  then have "is_ascii_digit c" using show_nat_digits [of c n] by simp
  then have "c \<noteq> CHR ''+''" by (auto simp: is_ascii_digit_def byte_def)
  with n cr read_digits_show_nat [of n] show ?thesis
    by (simp add: parse_uint_def Let_def)
qed

lemma show_nat_inj: "show_nat m = show_nat n \<Longrightarrow> m = n"
  by (metis option.inject read_digits_show_nat)

text \<open>\<open>str::eq_ignore_ascii_case\<close>.\<close>

definition to_ascii_lower :: "char \<Rightarrow> char" where
  "to_ascii_lower c = (if 65 \<le> byte c \<and> byte c \<le> 90 then char_of (byte c + 32) else c)"

definition eq_ignore_ascii_case :: "string \<Rightarrow> string \<Rightarrow> bool" where
  "eq_ignore_ascii_case a b \<longleftrightarrow> map to_ascii_lower a = map to_ascii_lower b"

end
