(* ===== verification/App_Config.thy ===== *)
theory App_Config
  imports Rust_Std
begin

text \<open>
  The configuration of \<open>src/config/mod.rs\<close>: its structs with their defaults, the overrides from
  the environment, validation, and loading and saving \<open>config.toml\<close>. The process environment, the
  faults of the file system and the TOML codec are the fields of \<open>os\<close>; the files themselves are a
  map from paths to contents that every operation takes and returns.
\<close>

section \<open>Data\<close>

record obs_config =
  oc_host :: string
  oc_port :: u16
  oc_password_key :: "string option"
  oc_auto_detect_process :: bool
  oc_process_name :: string

record server_config =
  sv_port :: u16
  sv_token :: "string option"

record vault_config =
  vc_path :: "string option"

record grafana_config =
  gc_enabled :: bool
  gc_endpoint :: "string option"
  gc_auth_header :: string
  gc_auth_value_key :: "string option"
  gc_push_interval_ms :: u64

record aegis_config =
  ac_enabled :: bool
  ac_base_url :: "string option"
  ac_access_jwt_key :: "string option"

record network_config =
  nc_latency_target :: string

record startup_config =
  su_enable_autostart :: bool
  su_app_name :: string

record tray_config =
  tc_enable :: bool

record theme_config =
  th_font_family :: string
  th_bg :: string
  th_panel :: string
  th_muted :: string
  th_good :: string
  th_warn :: string
  th_bad :: string
  th_line :: string

record config =
  cf_obs :: obs_config
  cf_server :: server_config
  cf_vault :: vault_config
  cf_grafana :: grafana_config
  cf_aegis :: aegis_config
  cf_network :: network_config
  cf_startup :: startup_config
  cf_tray :: tray_config
  cf_theme :: theme_config
  cf_output_names :: "(string \<times> string) list"

definition obs_config_default :: obs_config where
  "obs_config_default = \<lparr>oc_host = ''127.0.0.1'', oc_port = 4455, oc_password_key = None,
     oc_auto_detect_process = True, oc_process_name = ''obs64.exe''\<rparr>"

definition server_config_default :: server_config where
  "server_config_default = \<lparr>sv_port = 7070, sv_token = None\<rparr>"

definition grafana_config_default :: grafana_config where
  "grafana_config_default = \<lparr>gc_enabled = False, gc_endpoint = None, gc_auth_header = ''Authorization'',
     gc_auth_value_key = None, gc_push_interval_ms = 5000\<rparr>"

definition aegis_config_default :: aegis_config where
  "aegis_config_default = \<lparr>ac_enabled = False, ac_base_url = None, ac_access_jwt_key = None\<rparr>"

definition network_config_default :: network_config where
  "network_config_default = \<lparr>nc_latency_target = ''1.1.1.1:443''\<rparr>"

definition startup_config_default :: startup_config where
  "startup_config_default = \<lparr>su_enable_autostart = False, su_app_name = ''Telemy''\<rparr>"

definition tray_config_default :: tray_config where
  "tray_config_default = \<lparr>tc_enable = True\<rparr>"

definition theme_config_default :: theme_config where
  "theme_config_default = \<lparr>th_font_family = ''Arial, sans-serif'', th_bg = ''#0b0e12'',
     th_panel = ''#111723'', th_muted = ''#8da3c1'', th_good = ''#33d17a'', th_warn = ''#f6d32d'',
     th_bad = ''#e01b24'', th_line = ''#1f2a3a''\<rparr>"

definition config_default :: config where
  "config_default = \<lparr>cf_obs = obs_config_default, cf_server = server_config_default,
     cf_vault = \<lparr>vc_path = None\<rparr>, cf_grafana = grafana_config_default,
     cf_aegis = aegis_config_default, cf_network = network_config_default,
     cf_startup = startup_config_default, cf_tray = tray_config_default,
     cf_theme = theme_config_default, cf_output_names = []\<rparr>"

section \<open>The operating system\<close>

type_synonym files = "string \<rightharpoonup> string"

text \<open>\<open>os_write_fault\<close> tells whether writing some data to a path fails: then it gives what the file
  holds afterwards (\<open>None\<close>: there is no file) and the error.\<close>

record os =
  os_var :: "string \<Rightarrow> string option"
  os_unreadable :: "string \<Rightarrow> string option"
  os_create_dir_all :: "string \<Rightarrow> string option"
  os_write_fault :: "string \<Rightarrow> string \<Rightarrow> (string option \<times> string) option"
  os_toml_parse :: "string \<Rightarrow> (config, string) result"
  os_toml_print :: "config \<Rightarrow> (string, string) result"

definition fs_read :: "os \<Rightarrow> files \<Rightarrow> string \<Rightarrow> (string, string) result" where
  "fs_read os fs path =
     (case os_unreadable os path of
        Some e \<Rightarrow> Err e
      | None \<Rightarrow> ok_or (fs path) ''not found'')"

definition fs_write :: "os \<Rightarrow> files \<Rightarrow> string \<Rightarrow> string \<Rightarrow> (unit, string) result \<times> files" where
  "fs_write os fs path data =
     (case os_write_fault os path data of
        Some (left, e) \<Rightarrow> (Err e, fs(path := left))
      | None \<Rightarrow> (Ok (), fs(path := Some data)))"

text \<open>\<open>Path::join\<close> with a relative component and \<open>Path::parent\<close>, for paths separated by slashes.\<close>

definition path_join :: "string \<Rightarrow> string \<Rightarrow> string" where
  "path_join p q = (if p = [] \<or> ends_with CHR ''/'' p then p @ q else p @ CHR ''/'' # q)"

definition path_parent :: "string \<Rightarrow> string option" where
  "path_parent p =
     (if trim_end_matches CHR ''/'' p = [] then None
      else case rsplit_once CHR ''/'' (trim_end_matches CHR ''/'' p) of
             None \<Rightarrow> Some []
           | Some (d, _) \<Rightarrow>
               Some (if trim_end_matches CHR ''/'' d = [] then ''/'' else trim_end_matches CHR ''/'' d))"

text \<open>Creating the parent directory, when there is a non-empty one.\<close>

definition ensure_parent :: "os \<Rightarrow> string \<Rightarrow> (unit, string) result" where
  "ensure_parent os path =
     (case path_parent path of
        None \<Rightarrow> Ok ()
      | Some parent \<Rightarrow>
          if parent = [] then Ok ()
          else (case os_create_dir_all os parent of None \<Rightarrow> Ok () | Some e \<Rightarrow> Err e))"

section \<open>Operations\<close>

definition CONFIG_FILE :: string where
  "CONFIG_FILE = ''config.toml''"

definition ENV_PREFIX :: string where
  "ENV_PREFIX = ''TELEMY_''"

definition telemy_var :: "os \<Rightarrow> string \<Rightarrow> string option" where
  "telemy_var os name = os_var os (ENV_PREFIX @ name)"

definition managed_config_path :: "os \<Rightarrow> string" where
  "managed_config_path os =
     (case telemy_var os ''CONFIG_PATH'' of
        Some path \<Rightarrow> path
      | None \<Rightarrow>
          path_join (path_join (unwrap_or (os_var os ''APPDATA'') ''.'') ''Telemy'') CONFIG_FILE)"

definition active_config_path :: "os \<Rightarrow> files \<Rightarrow> string" where
  "active_config_path os fs = (if fs CONFIG_FILE \<noteq> None then CONFIG_FILE else managed_config_path os)"

text \<open>\<open>if let Ok(val) = env::var(..) { f(val) }\<close>.\<close>

definition with_var :: "os \<Rightarrow> string \<Rightarrow> (string \<Rightarrow> 'c \<Rightarrow> 'c) \<Rightarrow> 'c \<Rightarrow> 'c" where
  "with_var os name f c = (case telemy_var os name of Some val \<Rightarrow> f val c | None \<Rightarrow> c)"

text \<open>\<open>if let Ok(x) = val.parse() { f(x) }\<close>.\<close>

definition if_parsed :: "'a option \<Rightarrow> ('a \<Rightarrow> 'c \<Rightarrow> 'c) \<Rightarrow> 'c \<Rightarrow> 'c" where
  "if_parsed x f c = (case x of Some a \<Rightarrow> f a c | None \<Rightarrow> c)"

definition obs_overrides :: "os \<Rightarrow> obs_config \<Rightarrow> obs_config" where
  "obs_overrides os c =
     (let c = with_var os ''OBS_HOST'' (\<lambda>val. oc_host_update (\<lambda>_. val)) c;
          c = with_var os ''OBS_PORT'' (\<lambda>val. if_parsed (parse_u16 val) (\<lambda>p. oc_port_update (\<lambda>_. p))) c;
          c = with_var os ''OBS_PASSWORD_KEY'' (\<lambda>val. oc_password_key_update (\<lambda>_. Some val)) c
      in with_var os ''OBS_AUTO_DETECT''
           (\<lambda>val. oc_auto_detect_process_update (\<lambda>_. unwrap_or (parse_bool val) True)) c)"

definition server_overrides :: "os \<Rightarrow> server_config \<Rightarrow> server_config" where
  "server_overrides os c =
     (let c = with_var os ''SERVER_PORT'' (\<lambda>val. if_parsed (parse_u16 val) (\<lambda>p. sv_port_update (\<lambda>_. p))) c
      in with_var os ''SERVER_TOKEN'' (\<lambda>val. sv_token_update (\<lambda>_. Some val)) c)"

definition grafana_overrides :: "os \<Rightarrow> grafana_config \<Rightarrow> grafana_config" where
  "grafana_overrides os c =
     (let c = with_var os ''GRAFANA_ENABLED''
                (\<lambda>val. gc_enabled_update (\<lambda>_. unwrap_or (parse_bool val) False)) c;
          c = with_var os ''GRAFANA_ENDPOINT'' (\<lambda>val. gc_endpoint_update (\<lambda>_. Some val)) c;
          c = with_var os ''GRAFANA_AUTH_VALUE_KEY'' (\<lambda>val. gc_auth_value_key_update (\<lambda>_. Some val)) c
      in with_var os ''GRAFANA_PUSH_INTERVAL_MS''
           (\<lambda>val. if_parsed (parse_u64 val) (\<lambda>n. gc_push_interval_ms_update (\<lambda>_. n))) c)"

definition aegis_overrides :: "os \<Rightarrow> aegis_config \<Rightarrow> aegis_config" where
  "aegis_overrides os c =
     (let c = with_var os ''AEGIS_ENABLED''
                (\<lambda>val. ac_enabled_update (\<lambda>_. unwrap_or (parse_bool val) False)) c;
          c = with_var os ''AEGIS_BASE_URL'' (\<lambda>val. ac_base_url_update (\<lambda>_. Some val)) c
      in with_var os ''AEGIS_ACCESS_JWT_KEY'' (\<lambda>val. ac_access_jwt_key_update (\<lambda>_. Some val)) c)"

definition apply_env_overrides :: "os \<Rightarrow> config \<Rightarrow> config" where
  "apply_env_overrides os c =
     c\<lparr>cf_obs := obs_overrides os (cf_obs c),
       cf_server := server_overrides os (cf_server c),
       cf_vault := with_var os ''VAULT_PATH'' (\<lambda>val. vc_path_update (\<lambda>_. Some val)) (cf_vault c),
       cf_grafana := grafana_overrides os (cf_grafana c),
       cf_aegis := aegis_overrides os (cf_aegis c),
       cf_network := with_var os ''LATENCY_TARGET'' (\<lambda>val. nc_latency_target_update (\<lambda>_. val)) (cf_network c),
       cf_startup := with_var os ''AUTOSTART''
         (\<lambda>val. su_enable_autostart_update (\<lambda>_. unwrap_or (parse_bool val) False)) (cf_startup c),
       cf_tray := with_var os ''TRAY_ENABLE''
         (\<lambda>val. tc_enable_update (\<lambda>_. unwrap_or (parse_bool val) True)) (cf_tray c)\<rparr>"

definition validate_grafana :: "grafana_config \<Rightarrow> (unit, string) result" where
  "validate_grafana g =
     (if \<not> gc_enabled g then Ok ()
      else if unwrap_or (gc_endpoint g) [] = [] then
        Err ''grafana.endpoint is required when grafana.enabled = true''
      else if gc_auth_value_key g = None then
        Err ''grafana.auth_value_key is required when grafana.enabled = true''
      else if gc_push_interval_ms g < 500 then Err ''grafana.push_interval_ms must be >= 500''
      else Ok ())"

definition validate_aegis :: "aegis_config \<Rightarrow> (unit, string) result" where
  "validate_aegis a =
     (if \<not> ac_enabled a then Ok ()
      else if trim (unwrap_or (ac_base_url a) []) = [] then
        Err ''aegis.base_url is required when aegis.enabled = true''
      else if trim (unwrap_or (ac_access_jwt_key a) []) = [] then
        Err ''aegis.access_jwt_key is required when aegis.enabled = true''
      else Ok ())"

definition validate :: "config \<Rightarrow> (unit, string) result" where
  "validate c =
     (if oc_port (cf_obs c) = 0 then Err ''obs.port must be non-zero''
      else if sv_port (cf_server c) = 0 then Err ''server.port must be non-zero''
      else and_then (validate_grafana (cf_grafana c)) (\<lambda>_.
           and_then (validate_aegis (cf_aegis c)) (\<lambda>_.
           if trim (nc_latency_target (cf_network c)) = [] then
             Err ''network.latency_target must be set''
           else Ok ())))"

definition load :: "os \<Rightarrow> files \<Rightarrow> (config, string) result" where
  "load os fs =
     (let config = (case fs_read os fs (active_config_path os fs) of
                      Err _ \<Rightarrow> config_default
                    | Ok raw \<Rightarrow> (case os_toml_parse os raw of Err _ \<Rightarrow> config_default | Ok c \<Rightarrow> c));
          config = apply_env_overrides os config
      in and_then (validate config) (\<lambda>_. Ok config))"

definition save :: "os \<Rightarrow> files \<Rightarrow> config \<Rightarrow> (unit, string) result \<times> files" where
  "save os fs c =
     (let path = active_config_path os fs
      in case validate c of Err e \<Rightarrow> (Err e, fs) | Ok _ \<Rightarrow>
         case os_toml_print os c of Err e \<Rightarrow> (Err e, fs) | Ok data \<Rightarrow>
         case ensure_parent os path of Err e \<Rightarrow> (Err e, fs) | Ok _ \<Rightarrow>
         fs_write os fs path data)"

definition write_default :: "os \<Rightarrow> files \<Rightarrow> string \<Rightarrow> (unit, string) result \<times> files" where
  "write_default os fs path =
     (if fs path \<noteq> None then (Err ''config.toml already exists'', fs)
      else case ensure_parent os path of Err e \<Rightarrow> (Err e, fs) | Ok _ \<Rightarrow>
           case os_toml_print os config_default of Err e \<Rightarrow> (Err e, fs) | Ok data \<Rightarrow>
           fs_write os fs path data)"

definition default_path :: "os \<Rightarrow> string" where
  "default_path os = managed_config_path os"

section \<open>Validation\<close>

text \<open>What a configuration has to satisfy, read off the checks.\<close>

definition valid_config :: "config \<Rightarrow> bool" where
  "valid_config c \<longleftrightarrow>
     oc_port (cf_obs c) \<noteq> 0 \<and> sv_port (cf_server c) \<noteq> 0
   \<and> (gc_enabled (cf_grafana c) \<longrightarrow>
        unwrap_or (gc_endpoint (cf_grafana c)) [] \<noteq> [] \<and> gc_auth_value_key (cf_grafana c) \<noteq> None
      \<and> unat (gc_push_interval_ms (cf_grafana c)) \<ge> 500)
   \<and> (ac_enabled (cf_aegis c) \<longrightarrow>
        trim (unwrap_or (ac_base_url (cf_aegis c)) []) \<noteq> []
      \<and> trim (unwrap_or (ac_access_jwt_key (cf_aegis c)) []) \<noteq> [])
   \<and> trim (nc_latency_target (cf_network c)) \<noteq> []"

lemma validate_Ok: "validate c = Ok () \<longleftrightarrow> valid_config c"
  by (auto simp: validate_def validate_grafana_def validate_aegis_def valid_config_def
      word_less_nat_alt not_less)

lemma validate_cases: "validate c = Ok () \<or> (\<exists>e. validate c = Err e)"
  by (cases "validate c") auto

lemma load_Ok: "load os fs = Ok c \<Longrightarrow> valid_config c"
  by (auto simp: load_def and_then_eq_Ok Let_def validate_Ok)

section \<open>Load and save\<close>

definition no_env :: "os \<Rightarrow> bool" where
  "no_env os \<longleftrightarrow> (\<forall>name. telemy_var os name = None)"

lemma with_var_None [simp]: "telemy_var os name = None \<Longrightarrow> with_var os name f c = c"
  by (simp add: with_var_def)

lemma apply_no_env: "no_env os \<Longrightarrow> apply_env_overrides os c = c"
  by (simp add: no_env_def apply_env_overrides_def obs_overrides_def server_overrides_def
      grafana_overrides_def aegis_overrides_def)

lemma save_Ok:
  assumes "save os fs c = (Ok (), fs')"
  obtains data where "valid_config c" "os_toml_print os c = Ok data"
    "fs' = fs(active_config_path os fs := Some data)"
  using assms
  by (auto simp: save_def Let_def fs_write_def validate_Ok [symmetric] split: sum.splits option.splits)

lemma active_path_after_save:
  "active_config_path os (fs(active_config_path os fs := Some data)) = active_config_path os fs"
  by (auto simp: active_config_path_def)

text \<open>Applying the overrides twice is applying them once.\<close>

lemma obs_overrides_idem: "obs_overrides os (obs_overrides os c) = obs_overrides os c"
  by (cases "telemy_var os ''OBS_HOST''"; cases "telemy_var os ''OBS_PORT''";
      cases "telemy_var os ''OBS_PASSWORD_KEY''"; cases "telemy_var os ''OBS_AUTO_DETECT''"; cases c)
     (simp_all add: obs_overrides_def with_var_def if_parsed_def Let_def split: option.split)

lemma server_overrides_idem: "server_overrides os (server_overrides os c) = server_overrides os c"
  by (cases "telemy_var os ''SERVER_PORT''"; cases "telemy_var os ''SERVER_TOKEN''"; cases c)
     (simp_all add: server_overrides_def with_var_def if_parsed_def Let_def split: option.split)

lemma grafana_overrides_idem: "grafana_overrides os (grafana_overrides os c) = grafana_overrides os c"
  by (cases "telemy_var os ''GRAFANA_ENABLED''"; cases "telemy_var os ''GRAFANA_ENDPOINT''";
      cases "telemy_var os ''GRAFANA_AUTH_VALUE_KEY''";
      cases "telemy_var os ''GRAFANA_PUSH_INTERVAL_MS''"; cases c)
     (simp_all add: grafana_overrides_def with_var_def if_parsed_def Let_def split: option.split)

lemma aegis_overrides_idem: "aegis_overrides os (aegis_overrides os c) = aegis_overrides os c"
  by (cases "telemy_var os ''AEGIS_ENABLED''"; cases "telemy_var os ''AEGIS_BASE_URL''";
      cases "telemy_var os ''AEGIS_ACCESS_JWT_KEY''"; cases c)
     (simp_all add: aegis_overrides_def with_var_def Let_def)

lemma with_var_idem:
  "(\<And>v c. f v (f v c) = f v c) \<Longrightarrow> with_var os name f (with_var os name f c) = with_var os name f c"
  by (simp add: with_var_def split: option.split)

lemma apply_env_idem: "apply_env_overrides os (apply_env_overrides os c) = apply_env_overrides os c"
  by (simp add: apply_env_overrides_def obs_overrides_idem server_overrides_idem
      grafana_overrides_idem aegis_overrides_idem with_var_idem)

lemma loaded_overridden: "load os fs = Ok c \<Longrightarrow> apply_env_overrides os c = c"
  by (auto simp: load_def Let_def and_then_eq_Ok apply_env_idem)

lemma overrides_names:
  "apply_env_overrides os (c\<lparr>cf_output_names := names\<rparr>) = (apply_env_overrides os c)\<lparr>cf_output_names := names\<rparr>"
  by (simp add: apply_env_overrides_def)

text \<open>The TOML codec's law, on a file system without faults of reading.\<close>

definition toml_lawful :: "os \<Rightarrow> bool" where
  "toml_lawful os \<longleftrightarrow>
     (\<forall>c data. os_toml_print os c = Ok data \<longrightarrow> os_toml_parse os data = Ok c)
   \<and> (\<forall>path. os_unreadable os path = None)"

lemma load_save:
  assumes "save os fs c = (Ok (), fs')" and "toml_lawful os" and "valid_config (apply_env_overrides os c)"
  shows "load os fs' = Ok (apply_env_overrides os c)"
proof -
  obtain data where "os_toml_print os c = Ok data" and fs': "fs' = fs(active_config_path os fs := Some data)"
    using assms(1) by (rule save_Ok)
  with assms(2,3) active_path_after_save [of os fs data] show ?thesis
    by (simp add: load_def toml_lawful_def fs_read_def Let_def validate_Ok [symmetric])
qed

interpretation config_store: persistent "save os" "load os" "apply_env_overrides os"
  "\<lambda>c. toml_lawful os \<and> valid_config (apply_env_overrides os c)" for os
  by unfold_locales (auto simp: apply_env_idem intro: load_save)

section \<open>Properties\<close>

text \<open>A small environment: the configurations that differ from the default only in the server
  token are printed as the token.\<close>

definition token_config :: "string option \<Rightarrow> config" where
  "token_config t = config_default\<lparr>cf_server := server_config_default\<lparr>sv_token := t\<rparr>\<rparr>"

definition sample_os :: os where
  "sample_os =
     \<lparr>os_var = (\<lambda>name. if name = ''TELEMY_SERVER_TOKEN'' then Some ''secret'' else None),
      os_unreadable = (\<lambda>_. None), os_create_dir_all = (\<lambda>_. None), os_write_fault = (\<lambda>_ _. None),
      os_toml_parse = (\<lambda>raw. Ok (token_config (case raw of [] \<Rightarrow> None | _ # t \<Rightarrow> Some t))),
      os_toml_print = (\<lambda>c. if c = token_config (sv_token (cf_server c))
        then Ok (case sv_token (cf_server c) of None \<Rightarrow> [] | Some t \<Rightarrow> CHR ''t'' # t) else Err ''print'')\<rparr>"

lemma sample_lawful: "toml_lawful sample_os"
  by (auto simp: toml_lawful_def sample_os_def split: if_splits option.splits)

lemma sample_overrides:
  "apply_env_overrides sample_os (token_config t) = token_config (Some ''secret'')"
  by (simp add: apply_env_overrides_def obs_overrides_def server_overrides_def grafana_overrides_def
      aegis_overrides_def with_var_def telemy_var_def ENV_PREFIX_def sample_os_def token_config_def
      config_default_def server_config_default_def)

lemma trim_target: "trim ''1.1.1.1:443'' = ''1.1.1.1:443''"
  by (rule trim_id) (simp_all add: byte_def ws1_def ws2_def ws3_def)

lemma token_config_valid: "valid_config (token_config t)"
  by (simp add: valid_config_def token_config_def config_default_def obs_config_default_def
      server_config_default_def grafana_config_default_def aegis_config_default_def
      network_config_default_def trim_target)

lemma sample_save:
  "save sample_os [CONFIG_FILE \<mapsto> old] (token_config (Some t)) = (Ok (), [CONFIG_FILE \<mapsto> CHR ''t'' # t])"
proof -
  have "validate (token_config (Some t)) = Ok ()"
    using token_config_valid by (simp add: validate_Ok)
  moreover have "os_toml_print sample_os (token_config (Some t)) = Ok (CHR ''t'' # t)"
    by (simp add: sample_os_def token_config_def)
  moreover have "os_create_dir_all sample_os p = None" "os_write_fault sample_os p d = None" for p d
    by (simp_all add: sample_os_def)
  ultimately show ?thesis
    by (simp add: save_def active_config_path_def ensure_parent_def fs_write_def Let_def
        split: option.split)
qed

text \<open>Validation accepts a configuration iff both ports are non-zero, an enabled Grafana export
  has an endpoint, a key and an interval of at least 500 ms, an enabled control plane has a
  non-blank URL and key, and the latency target is not blank.\<close>

theorem validate_accepts:
  "is_ok (validate c) \<longleftrightarrow>
     oc_port (cf_obs c) \<noteq> 0 \<and> sv_port (cf_server c) \<noteq> 0
   \<and> (let g = cf_grafana c in
        \<not> gc_enabled g \<or> (unwrap_or (gc_endpoint g) [] \<noteq> [] \<and> gc_auth_value_key g \<noteq> None
          \<and> 500 \<le> unat (gc_push_interval_ms g)))
   \<and> (let a = cf_aegis c in
        \<not> ac_enabled a \<or> (trim (unwrap_or (ac_base_url a) []) \<noteq> []
          \<and> trim (unwrap_or (ac_access_jwt_key a) []) \<noteq> []))
   \<and> trim (nc_latency_target (cf_network c)) \<noteq> []"
proof -
  have "is_ok (validate c) \<longleftrightarrow> valid_config c"
    using validate_Ok [of c] by (cases "validate c") auto
  then show ?thesis unfolding valid_config_def Let_def by blast
qed

text \<open>Saving never writes an invalid configuration and never touches another file: when it
  succeeds, the configuration is valid and exactly the active configuration file was replaced by
  its TOML text; when validation or printing fails, no file changes.\<close>

theorem save_only_valid:
  "case save os fs c of
     (Ok _, fs') \<Rightarrow> is_ok (validate c) \<and>
       (\<exists>data. os_toml_print os c = Ok data \<and> fs' = fs(active_config_path os fs := Some data))
   | (Err e, fs') \<Rightarrow>
       (is_ok (validate c) \<and> is_ok (os_toml_print os c) \<or> fs' = fs)
       \<and> (\<exists>left. fs' = fs \<or> fs' = fs(active_config_path os fs := left))"
  by (auto simp: save_def Let_def fs_write_def split: sum.split option.split)

text \<open>Saving and loading round trip: a saved configuration is loaded back with the environment
  overrides applied to it, provided the TOML codec gives back what it printed and the overridden
  configuration is valid; saving what was loaded changes nothing any more.\<close>

theorem config_roundtrip:
  assumes "save os fs c = (Ok (), fs1)"
    and "toml_lawful os" and "is_ok (validate (apply_env_overrides os c))"
  shows "load os fs1 = Ok (apply_env_overrides os c)
    \<and> (\<forall>fs2. save os fs1 (apply_env_overrides os c) = (Ok (), fs2) \<longrightarrow> load os fs2 = load os fs1)"
proof -
  have good: "toml_lawful os \<and> valid_config (apply_env_overrides os c)"
    using assms(2,3) validate_Ok by (cases "validate (apply_env_overrides os c)") auto
  then have l: "load os fs1 = Ok (apply_env_overrides os c)"
    using assms(1) by (blast intro: load_save)
  with good show ?thesis
    using config_store.save_load_save [OF assms(1) good l] by simp
qed

theorem config_roundtrip_witness:
  "load sample_os [CONFIG_FILE \<mapsto> ''tx''] = Ok (apply_env_overrides sample_os (token_config (Some ''x'')))"
proof -
  have "is_ok (validate (apply_env_overrides sample_os (token_config (Some ''x''))))"
    using token_config_valid by (simp add: sample_overrides validate_Ok [symmetric])
  then show ?thesis
    using config_roundtrip [OF sample_save sample_lawful] by blast
qed

section \<open>Overrides become permanent\<close>

text \<open>The same machine with every Telemy variable unset but the one that says where the
  configuration file is.\<close>

definition without_overrides :: "os \<Rightarrow> os" where
  "without_overrides os = os\<lparr>os_var := (\<lambda>name.
     if name = ENV_PREFIX @ ''CONFIG_PATH'' \<or> name = ''APPDATA'' then os_var os name else None)\<rparr>"

lemma without_overrides_path: "active_config_path (without_overrides os) fs = active_config_path os fs"
  by (simp add: active_config_path_def managed_config_path_def telemy_var_def without_overrides_def
      ENV_PREFIX_def cong: option.case_cong)

lemma without_overrides_eqs:
  "os_toml_print (without_overrides os) = os_toml_print os"
  "os_unreadable (without_overrides os) = os_unreadable os"
  "ensure_parent (without_overrides os) = ensure_parent os"
  "fs_write (without_overrides os) = fs_write os"
  by (simp_all add: without_overrides_def ensure_parent_def fs_write_def fun_eq_iff split: option.split)

lemma without_overrides_apply: "apply_env_overrides (without_overrides os) c = c"
  by (simp add: apply_env_overrides_def obs_overrides_def server_overrides_def grafana_overrides_def
      aegis_overrides_def with_var_def telemy_var_def without_overrides_def ENV_PREFIX_def)

text \<open>C40. Environment overrides leak into the file: saving a configuration that was loaded while
  \<open>TELEMY_SERVER_TOKEN\<close> was set, as the settings page does after any edit, writes the token to
  \<open>config.toml\<close>, so that it stays in force after the variable is gone.\<close>

theorem env_token_persisted:
  assumes "load os fs = Ok c" and "telemy_var os ''SERVER_TOKEN'' = Some t"
    and "save os fs c = (Ok (), fs')" and "toml_lawful os"
  shows "\<exists>c'. load (without_overrides os) fs' = Ok c' \<and> sv_token (cf_server c') = Some t"
proof -
  have "toml_lawful (without_overrides os)"
    using assms(4) by (simp add: toml_lawful_def without_overrides_def)
  moreover have "save (without_overrides os) fs c = save os fs c"
    unfolding save_def without_overrides_path without_overrides_eqs ..
  moreover have "valid_config c" using assms(1) by (rule load_Ok)
  ultimately have "load (without_overrides os) fs' = Ok c"
    using load_save [of "without_overrides os" fs c fs'] assms(3) by (simp add: without_overrides_apply)
  moreover have "sv_token (cf_server c) = Some t"
    using assms(1,2)
    by (auto simp: load_def and_then_eq_Ok Let_def apply_env_overrides_def server_overrides_def with_var_def)
  ultimately show ?thesis by blast
qed

theorem env_token_persisted_witness:
  "\<exists>c'. load (without_overrides sample_os) [CONFIG_FILE \<mapsto> ''tsecret''] = Ok c'
    \<and> sv_token (cf_server c') = Some ''secret''"
proof (rule env_token_persisted)
  show "load sample_os [CONFIG_FILE \<mapsto> ''tx''] = Ok (token_config (Some ''secret''))"
    using load_save [OF sample_save sample_lawful] token_config_valid by (simp add: sample_overrides)
qed (simp_all add: sample_save sample_lawful, simp add: telemy_var_def sample_os_def ENV_PREFIX_def)

end
