(* ===== verification/Vault.thy ===== *)
theory Vault
  imports App_Config "HOL-Library.List_Lexorder" "HOL-Library.Char_ord"
begin

text \<open>
  The secret store of \<open>src/security/mod.rs\<close>: a JSON file of base64-encoded, protected values. The
  Windows data-protection calls, the base64 engine and \<open>serde_json\<close> are the fields of \<open>vault_lib\<close>; the
  blobs those calls take and give are modelled. Without the Windows calls \<open>protect\<close> is the identity, as on
  other platforms.
\<close>

section \<open>UTF-8\<close>

text \<open>\<open>String::from_utf8\<close> accepts exactly the well-formed UTF-8 byte sequences: no continuation
  byte out of place, no overlong form, no surrogate, nothing above U+10FFFF.\<close>

definition cont :: "char \<Rightarrow> bool" where
  "cont c \<longleftrightarrow> 128 \<le> byte c \<and> byte c < 192"

fun utf8_valid :: "string \<Rightarrow> bool" where
  "utf8_valid [] = True"
| "utf8_valid (a # s) =
     (if byte a < 128 then utf8_valid s
      else if 194 \<le> byte a \<and> byte a < 224 then
        (case s of b # t \<Rightarrow> cont b \<and> utf8_valid t | _ \<Rightarrow> False)
      else if 224 \<le> byte a \<and> byte a < 240 then
        (case s of b # c # t \<Rightarrow> cont b \<and> cont c
             \<and> (byte a = 224 \<longrightarrow> 160 \<le> byte b) \<and> (byte a = 237 \<longrightarrow> byte b < 160) \<and> utf8_valid t
         | _ \<Rightarrow> False)
      else if 240 \<le> byte a \<and> byte a < 245 then
        (case s of b # c # d # t \<Rightarrow> cont b \<and> cont c \<and> cont d
             \<and> (byte a = 240 \<longrightarrow> 144 \<le> byte b) \<and> (byte a = 244 \<longrightarrow> byte b < 144) \<and> utf8_valid t
         | _ \<Rightarrow> False)
      else False)"

definition from_utf8 :: "string \<Rightarrow> (string, string) result" where
  "from_utf8 s = (if utf8_valid s then Ok s else Err ''invalid utf-8 sequence'')"

lemma utf8_valid_ascii: "list_all (\<lambda>c. byte c < 128) s \<Longrightarrow> utf8_valid s"
  by (induction s) simp_all

section \<open>The vault\<close>

text \<open>\<open>CRYPT_INTEGER_BLOB\<close>: a number of bytes and the memory that the pointer leads to.\<close>

record crypt_blob =
  cb_data :: u32
  pb_data :: string

record vault_lib =
  vl_dpapi :: "((crypt_blob \<Rightarrow> (crypt_blob, string) result) \<times> (crypt_blob \<Rightarrow> (crypt_blob, string) result)) option"
  vl_b64_encode :: "string \<Rightarrow> string"
  vl_b64_decode :: "string \<Rightarrow> (string, string) result"
  vl_json_print :: "(string \<times> string) list \<Rightarrow> (string, string) result"
  vl_json_parse :: "string \<Rightarrow> ((string \<times> string) list, string) result"

record vault =
  va_path :: string
  va_entries :: "(string \<times> string) list"

definition in_blob :: "string \<Rightarrow> crypt_blob" where
  "in_blob data = \<lparr>cb_data = of_nat (length data), pb_data = data\<rparr>"

definition from_raw_parts :: "crypt_blob \<Rightarrow> string" where
  "from_raw_parts blob = take (unat (cb_data blob)) (pb_data blob)"

definition protect_windows :: "(crypt_blob \<Rightarrow> (crypt_blob, string) result) \<Rightarrow> string \<Rightarrow> (string, string) result" where
  "protect_windows CryptProtectData data =
     and_then (CryptProtectData (in_blob data)) (\<lambda>out_blob. Ok (from_raw_parts out_blob))"

definition unprotect_windows :: "(crypt_blob \<Rightarrow> (crypt_blob, string) result) \<Rightarrow> string \<Rightarrow> (string, string) result" where
  "unprotect_windows CryptUnprotectData data =
     and_then (CryptUnprotectData (in_blob data)) (\<lambda>out_blob. Ok (from_raw_parts out_blob))"

definition protect :: "vault_lib \<Rightarrow> string \<Rightarrow> (string, string) result" where
  "protect lib data =
     (case vl_dpapi lib of
        None \<Rightarrow> Ok data
      | Some (CryptProtectData, _) \<Rightarrow> protect_windows CryptProtectData data)"

definition unprotect :: "vault_lib \<Rightarrow> string \<Rightarrow> (string, string) result" where
  "unprotect lib data =
     (case vl_dpapi lib of
        None \<Rightarrow> Ok data
      | Some (_, CryptUnprotectData) \<Rightarrow> unprotect_windows CryptUnprotectData data)"

definition default_vault_path :: "os \<Rightarrow> string" where
  "default_vault_path os =
     path_join (path_join (unwrap_or (os_var os ''APPDATA'') ''.'') ''Telemy'') ''vault.json''"

definition vault_new :: "os \<Rightarrow> vault_lib \<Rightarrow> files \<Rightarrow> string option \<Rightarrow> (vault, string) result" where
  "vault_new os lib fs path =
     (let path = (case path of Some p \<Rightarrow> p | None \<Rightarrow> default_vault_path os)
      in and_then (ensure_parent os path) (\<lambda>_.
         if fs path = None then Ok \<lparr>va_path = path, va_entries = []\<rparr>
         else and_then (fs_read os fs path) (\<lambda>raw.
              Ok \<lparr>va_path = path,
                  va_entries = (case vl_json_parse lib raw of Ok es \<Rightarrow> es | Err _ \<Rightarrow> [])\<rparr>)))"

definition persist :: "os \<Rightarrow> vault_lib \<Rightarrow> files \<Rightarrow> vault \<Rightarrow> (unit, string) result \<times> files" where
  "persist os lib fs v =
     (case vl_json_print lib (va_entries v) of
        Err e \<Rightarrow> (Err e, fs)
      | Ok data \<Rightarrow> fs_write os fs (va_path v) data)"

text \<open>The in-memory part of \<open>store\<close>: protect, encode and insert.\<close>

definition vault_insert :: "vault_lib \<Rightarrow> string \<Rightarrow> string \<Rightarrow> vault \<Rightarrow> (vault, string) result" where
  "vault_insert lib key value v =
     and_then (protect lib value) (\<lambda>encrypted.
       Ok (v\<lparr>va_entries := AList.update key (vl_b64_encode lib encrypted) (va_entries v)\<rparr>))"

definition vault_store ::
    "os \<Rightarrow> vault_lib \<Rightarrow> files \<Rightarrow> string \<Rightarrow> string \<Rightarrow> vault
       \<Rightarrow> (unit, string) result \<times> vault \<times> files" where
  "vault_store os lib fs key value v =
     (case vault_insert lib key value v of
        Err e \<Rightarrow> (Err e, v, fs)
      | Ok v \<Rightarrow> (let (res, fs) = persist os lib fs v in (res, v, fs)))"

definition retrieve :: "vault_lib \<Rightarrow> vault \<Rightarrow> string \<Rightarrow> (string, string) result" where
  "retrieve lib v key =
     and_then (ok_or (map_of (va_entries v) key) ''missing vault key'') (\<lambda>encoded.
     and_then (vl_b64_decode lib encoded) (\<lambda>encrypted.
     and_then (unprotect lib encrypted) from_utf8))"

definition list_keys :: "vault \<Rightarrow> string list" where
  "list_keys v = sort (map fst (va_entries v))"

section \<open>A keyed store\<close>

text \<open>What the HTTP server and the application rely on: a stored value is read back under its key,
  and no other key is affected.\<close>

locale keyed_store =
  fixes put :: "'k \<Rightarrow> 'v \<Rightarrow> 's \<Rightarrow> 's"
    and get :: "'s \<Rightarrow> 'k \<Rightarrow> ('v, 'e) result"
    and storable :: "'v \<Rightarrow> bool"
  assumes get_put: "storable v \<Longrightarrow> get (put k v s) k = Ok v"
    and get_put_other: "k' \<noteq> k \<Longrightarrow> get (put k v s) k' = get s k'"
begin

lemma get_put_if:
  "storable v \<Longrightarrow> get (put k v s) k' = (if k' = k then Ok v else get s k')"
  by (simp add: get_put get_put_other)

lemma get_puts:
  "distinct (map fst kvs) \<Longrightarrow> list_all (storable \<circ> snd) kvs \<Longrightarrow> (k, v) \<in> set kvs \<Longrightarrow>
     get (fold (\<lambda>(k, v). put k v) kvs s) k = Ok v"
proof (induction kvs rule: rev_induct)
  case (snoc kv kvs)
  obtain k' v' where kv: "kv = (k', v')" by (cases kv)
  show ?case
  proof (cases "k = k'")
    case True
    have "v = v'"
    proof (rule ccontr)
      assume "v \<noteq> v'"
      then have "(k', v) \<in> set kvs" using snoc.prems(3) kv True by auto
      then have "k' \<in> fst ` set kvs" by force
      then show False using snoc.prems(1) kv by simp
    qed
    then show ?thesis using snoc.prems kv True by (simp add: get_put)
  next
    case False
    then show ?thesis using snoc kv by (simp add: get_put_other)
  qed
qed simp

lemma overwrite:
  "storable v \<Longrightarrow> storable w \<Longrightarrow> get (put k w (put k v s)) k = Ok w"
  by (simp add: get_put)

end

text \<open>The laws of the libraries: base64 decodes what it encoded; protecting may fail, but when it succeeds,
  unprotecting a blob with the bytes of the protected one gives a blob with the bytes that were protected.\<close>

definition crypto_lawful :: "vault_lib \<Rightarrow> bool" where
  "crypto_lawful lib \<longleftrightarrow>
     (\<forall>d. vl_b64_decode lib (vl_b64_encode lib d) = Ok d)
   \<and> (case vl_dpapi lib of None \<Rightarrow> True
      | Some (enc, dec) \<Rightarrow> \<forall>data c c'. enc (in_blob data) = Ok c \<longrightarrow> from_raw_parts c' = from_raw_parts c \<longrightarrow>
          (\<exists>b'. dec c' = Ok b' \<and> from_raw_parts b' = from_raw_parts (in_blob data)))"

definition vault_put :: "vault_lib \<Rightarrow> string \<Rightarrow> string \<Rightarrow> vault \<Rightarrow> vault" where
  "vault_put lib key value v = (case vault_insert lib key value v of Ok v' \<Rightarrow> v' | Err _ \<Rightarrow> v)"

text \<open>What is kept of a value: the length of a blob has 32 bits.\<close>

definition kept :: "vault_lib \<Rightarrow> string \<Rightarrow> string" where
  "kept lib val = (if vl_dpapi lib = None then val else take (length val mod 2 ^ 32) val)"

definition storable :: "vault_lib \<Rightarrow> string \<Rightarrow> bool" where
  "storable lib val \<longleftrightarrow> utf8_valid val \<and> (vl_dpapi lib = None \<or> length val < 2 ^ 32)"

lemma kept_storable: "storable lib val \<Longrightarrow> kept lib val = val"
  by (auto simp: storable_def kept_def)

lemma in_blob_bytes: "from_raw_parts (in_blob data) = take (length data mod 2 ^ 32) data"
  by (simp add: from_raw_parts_def in_blob_def unat_of_nat)

lemma in_blob_from_raw_parts: "from_raw_parts (in_blob (from_raw_parts b)) = from_raw_parts b"
proof -
  have "unat (cb_data b) < 2 ^ 32" using unsigned_less [of "cb_data b"] by simp
  then have "length (from_raw_parts b) < 2 ^ 32" by (simp add: from_raw_parts_def)
  then show ?thesis by (simp add: in_blob_bytes)
qed

lemma protect_lawful:
  assumes "crypto_lawful lib" and "protect lib d = Ok c"
  shows "unprotect lib c = Ok (kept lib d)"
proof (cases "vl_dpapi lib")
  case None
  with assms(2) show ?thesis by (simp add: protect_def unprotect_def kept_def)
next
  case (Some calls)
  obtain enc dec where calls: "calls = (enc, dec)" by (cases calls)
  obtain x where x: "enc (in_blob d) = Ok x" "c = from_raw_parts x"
    using assms(2) Some calls by (auto simp: protect_def protect_windows_def and_then_eq_Ok)
  have "from_raw_parts (in_blob c) = from_raw_parts x"
    by (simp add: x(2) in_blob_from_raw_parts)
  with assms(1) Some calls x(1) obtain b' where
    "dec (in_blob c) = Ok b'" "from_raw_parts b' = from_raw_parts (in_blob d)"
    unfolding crypto_lawful_def by fastforce
  with Some calls show ?thesis
    by (simp add: unprotect_def unprotect_windows_def kept_def in_blob_bytes)
qed

lemma retrieve_put:
  assumes "crypto_lawful lib" and "protect lib val = Ok c"
  shows "retrieve lib (vault_put lib key val v) key = from_utf8 (kept lib val)"
proof -
  have "vl_b64_decode lib (vl_b64_encode lib c) = Ok c"
    using assms(1) by (simp add: crypto_lawful_def)
  with protect_lawful [OF assms] assms(2) show ?thesis
    by (simp add: vault_put_def vault_insert_def retrieve_def map_of_update)
qed

interpretation secrets: keyed_store "vault_put lib" "retrieve lib"
  "\<lambda>val. crypto_lawful lib \<and> storable lib val \<and> is_ok (protect lib val)" for lib
proof
  fix val key v
  assume a: "crypto_lawful lib \<and> storable lib val \<and> is_ok (protect lib val)"
  then obtain c where "protect lib val = Ok c" by (auto simp: is_ok_def split: sum.splits)
  with a show "retrieve lib (vault_put lib key val v) key = Ok val"
    by (simp add: retrieve_put kept_storable) (simp add: storable_def from_utf8_def)
next
  fix k' k :: string and val v
  assume "k' \<noteq> k"
  then show "retrieve lib (vault_put lib k val v) k' = retrieve lib v k'"
    by (auto simp: vault_put_def vault_insert_def retrieve_def map_of_update split: sum.split
        dest: and_then_eq_Ok [THEN iffD1])
qed

section \<open>Properties\<close>

lemma vault_store_Ok:
  assumes "vault_store os lib fs key val v = (Ok (), v', fs')"
  obtains data where "v' = vault_put lib key val v" "vl_json_print lib (va_entries v') = Ok data"
    "fs' = fs(va_path v := Some data)" "va_path v' = va_path v"
  using assms
  by (auto simp: vault_store_def vault_put_def vault_insert_def persist_def fs_write_def Let_def
      and_then_eq_Ok split: sum.splits option.splits)

lemma retrieve_after_store:
  assumes "vault_store os lib fs key val v = (res, v', fs')"
    and "crypto_lawful lib" and "storable lib val" and "is_ok (protect lib val)"
  shows "retrieve lib v' k = (if k = key then Ok val else retrieve lib v k)"
proof -
  obtain c where "protect lib val = Ok c" using assms(4) by (auto simp: is_ok_def split: sum.splits)
  then have "v' = vault_put lib key val v"
    using assms(1) by (auto simp: vault_store_def vault_insert_def vault_put_def split: prod.splits)
  with secrets.get_put_if [of lib val key v k] assms(2-4) show ?thesis by simp
qed

lemma stored_protected:
  "vault_store os lib fs key val v = (Ok (), v', fs') \<Longrightarrow> is_ok (protect lib val)"
  by (auto simp: vault_store_def vault_insert_def and_then_eq_Ok is_ok_def split: sum.splits)

lemma restart_from_store:
  assumes "vault_store os lib fs key val v = (Ok (), v', fs')"
    and "\<forall>es data. vl_json_print lib es = Ok data \<longrightarrow> vl_json_parse lib data = Ok es"
    and "os_unreadable os (va_path v) = None" and "is_ok (ensure_parent os (va_path v))"
  shows "vault_new os lib fs' (Some (va_path v)) = Ok v'"
proof -
  obtain data where "vl_json_print lib (va_entries v') = Ok data" "fs' = fs(va_path v := Some data)"
    "va_path v' = va_path v" using assms(1) by (rule vault_store_Ok)
  moreover have "ensure_parent os (va_path v) = Ok ()"
    using assms(4) by (cases "ensure_parent os (va_path v)") auto
  ultimately show ?thesis
    using assms(2,3) by (cases v') (simp add: vault_new_def fs_read_def Let_def)
qed

text \<open>C13. A secret is read back as it was stored: when the value could be protected, it is what its key
  gives from then on, also if the file could not be written, and every other key gives what it gave; when
  the value could not be protected, the vault and its file stay as they were and the store fails. So every
  store that reports success is one whose value is read back. The value is a text, and on Windows shorter
  than 4 GiB; what the platform protected is taken to be unprotected by it again, and base64 to decode what it
  encoded.\<close>

theorem vault_store_retrieve:
  assumes "vault_store os lib fs key val v = (res, v', fs')"
    and "crypto_lawful lib" and "storable lib val"
  shows "(if is_ok (protect lib val)
       then \<forall>k. retrieve lib v' k = (if k = key then Ok val else retrieve lib v k)
       else v' = v \<and> fs' = fs \<and> \<not> is_ok res)
    \<and> (is_ok res \<longrightarrow> retrieve lib v' key = Ok val)"
proof (cases "is_ok (protect lib val)")
  case True
  then show ?thesis using retrieve_after_store [OF assms True] by simp
next
  case False
  then have "v' = v \<and> fs' = fs \<and> \<not> is_ok res"
    using assms(1) by (cases "protect lib val") (auto simp: vault_store_def vault_insert_def)
  with False show ?thesis by simp
qed

text \<open>A library in which base64 adds a mark and JSON keeps one entry.\<close>

definition sample_vault_lib :: vault_lib where
  "sample_vault_lib =
     \<lparr>vl_dpapi = None, vl_b64_encode = (\<lambda>d. CHR ''='' # d),
      vl_b64_decode = (\<lambda>d. case d of [] \<Rightarrow> Err ''bad'' | _ # t \<Rightarrow> Ok t),
      vl_json_print = (\<lambda>es. case es of
          [(k, v)] \<Rightarrow> if CHR ''='' \<in> set k then Err ''print'' else Ok (k @ CHR ''='' # v)
        | _ \<Rightarrow> Err ''print''),
      vl_json_parse = (\<lambda>raw. Ok [(takeWhile (\<lambda>c. c \<noteq> CHR ''='') raw,
                                  tl (dropWhile (\<lambda>c. c \<noteq> CHR ''='') raw))])\<rparr>"

lemma sample_vault_lawful: "crypto_lawful sample_vault_lib"
  by (simp add: crypto_lawful_def sample_vault_lib_def)

text \<open>Windows calls that satisfy the laws: protecting adds a byte in front, and fails when the
  length would no longer fit.\<close>

definition header_protect :: "crypt_blob \<Rightarrow> (crypt_blob, string) result" where
  "header_protect b =
     (if Suc (length (from_raw_parts b)) < 2 ^ 32
      then Ok (in_blob (CHR 0x01 # from_raw_parts b)) else Err ''too long'')"

definition header_unprotect :: "crypt_blob \<Rightarrow> (crypt_blob, string) result" where
  "header_unprotect b = (case from_raw_parts b of [] \<Rightarrow> Err ''empty'' | _ # data \<Rightarrow> Ok (in_blob data))"

abbreviation windows_vault_lib :: vault_lib where
  "windows_vault_lib \<equiv> sample_vault_lib\<lparr>vl_dpapi := Some (header_protect, header_unprotect)\<rparr>"

lemma windows_vault_lawful: "crypto_lawful windows_vault_lib"
proof -
  have "\<exists>b'. header_unprotect c' = Ok b' \<and> from_raw_parts b' = from_raw_parts (in_blob data)"
    if "header_protect (in_blob data) = Ok c" "from_raw_parts c' = from_raw_parts c" for data c c'
  proof -
    have "from_raw_parts c = CHR 0x01 # from_raw_parts (in_blob data)"
      using that(1) in_blob_bytes [of "CHR 0x01 # from_raw_parts (in_blob data)"]
      by (auto simp: header_protect_def split: if_splits)
    with that(2) show ?thesis by (simp add: header_unprotect_def in_blob_from_raw_parts)
  qed
  moreover have "\<forall>d. vl_b64_decode windows_vault_lib (vl_b64_encode windows_vault_lib d) = Ok d"
    by (simp add: sample_vault_lib_def)
  ultimately show ?thesis by (auto simp: crypto_lawful_def)
qed

theorem vault_store_retrieve_witness:
  "\<exists>res v' fs'. vault_store sample_os windows_vault_lib Map.empty ''k'' ''pw'' \<lparr>va_path = ''v'', va_entries = []\<rparr>
      = (res, v', fs') \<and> retrieve windows_vault_lib v' ''k'' = Ok ''pw''"
proof -
  obtain res v' fs' where s: "vault_store sample_os windows_vault_lib Map.empty ''k'' ''pw''
      \<lparr>va_path = ''v'', va_entries = []\<rparr> = (res, v', fs')" by (metis prod_cases3)
  have "storable windows_vault_lib ''pw''" by (simp add: storable_def byte_def)
  moreover have "is_ok (protect windows_vault_lib ''pw'')"
    using in_blob_bytes [of "''pw''"] by (simp add: protect_def protect_windows_def header_protect_def)
  ultimately show ?thesis
    using vault_store_retrieve [OF s windows_vault_lawful] s by auto
qed

text \<open>Secrets survive a restart: opening the vault again from the file that a successful store
  left behind gives a vault with the same entries, so that every secret reads back the same.\<close>

theorem vault_survives_restart:
  assumes "vault_store os lib fs key val v = (Ok (), v', fs')"
    and "\<forall>es data. vl_json_print lib es = Ok data \<longrightarrow> vl_json_parse lib data = Ok es"
    and "os_unreadable os (va_path v) = None" and "is_ok (ensure_parent os (va_path v))"
  shows "vault_new os lib fs' (Some (va_path v)) = Ok v'"
  using assms by (rule restart_from_store)

lemma sample_json:
  assumes "vl_json_print sample_vault_lib es = Ok data"
  shows "vl_json_parse sample_vault_lib data = Ok es"
proof -
  obtain k v where "es = [(k, v)]" "CHR ''='' \<notin> set k" "data = k @ CHR ''='' # v"
    using assms by (auto simp: sample_vault_lib_def split: list.splits if_splits prod.splits)
  moreover have "c \<notin> set u \<Longrightarrow> takeWhile (\<lambda>x. x \<noteq> c) (u @ c # w) = u
      \<and> dropWhile (\<lambda>x. x \<noteq> c) (u @ c # w) = c # w" for c :: char and u w
    by (induction u) auto
  ultimately show ?thesis by (simp add: sample_vault_lib_def)
qed

lemma sample_parent: "ensure_parent sample_os p = Ok ()" "os_unreadable sample_os p = None"
  by (simp_all add: ensure_parent_def sample_os_def split: option.split)

theorem vault_survives_restart_witness:
  "vault_new sample_os sample_vault_lib [''v'' \<mapsto> ''k==pw''] (Some ''v'')
     = Ok \<lparr>va_path = ''v'', va_entries = [(''k'', ''=pw'')]\<rparr>"
proof -
  have "vault_store sample_os sample_vault_lib Map.empty ''k'' ''pw'' \<lparr>va_path = ''v'', va_entries = []\<rparr>
      = (Ok (), \<lparr>va_path = ''v'', va_entries = [(''k'', ''=pw'')]\<rparr>, [''v'' \<mapsto> ''k==pw''])"
    by (simp add: vault_store_def vault_insert_def protect_def persist_def fs_write_def
        sample_vault_lib_def sample_os_def)
  from vault_survives_restart [OF this] sample_json show ?thesis
    by (simp add: sample_parent)
qed

lemma update_distinct: "distinct (map fst m) \<Longrightarrow> distinct (map fst (AList.update k x m))"
  by (rule distinct_update)

text \<open>The key listing of a vault is sorted, has no repetition, and after a successful store
  contains exactly the old keys and the new one.\<close>

theorem list_keys_after_store:
  assumes "vault_store os lib fs key val v = (Ok (), v', fs')"
    and "distinct (map fst (va_entries v))"
  shows "sorted (list_keys v') \<and> distinct (list_keys v') \<and> set (list_keys v') = insert key (set (list_keys v))"
proof -
  obtain x where "va_entries v' = AList.update key x (va_entries v)"
    using assms(1)
    by (auto simp: vault_store_def vault_insert_def and_then_eq_Ok split: sum.splits prod.splits)
  with assms(2) update_distinct [OF assms(2), of key x] show ?thesis
    by (auto simp: list_keys_def dom_update)
qed


theorem list_keys_after_store_witness:
  "set (list_keys \<lparr>va_path = ''v'', va_entries = [(''k'', ''=pw'')]\<rparr>) = {''k''}"
proof -
  have "vault_store sample_os sample_vault_lib Map.empty ''k'' ''pw'' \<lparr>va_path = ''v'', va_entries = []\<rparr>
      = (Ok (), \<lparr>va_path = ''v'', va_entries = [(''k'', ''=pw'')]\<rparr>, [''v'' \<mapsto> ''k==pw''])"
    by (simp add: vault_store_def vault_insert_def protect_def persist_def fs_write_def
        sample_vault_lib_def sample_os_def)
  from list_keys_after_store [OF this] show ?thesis
    by (simp add: list_keys_def)
qed

end
