(* ===== verification/Float32.thy ===== *)
theory Float32
  imports Complex_Main Telemy_Prelude "HOL-Library.Log_Nat"
begin

text \<open>
  IEEE-754 binary32 values and the operations of \<open>f32\<close> the program uses, computed on exact
  rationals: every arithmetic operation is the exact result rounded once to the nearest
  representable value, ties to even, with overflow to an infinity. The two zeros are one
  value: no operation of the program tells them apart (every division is guarded by a
  strict comparison with zero). The same type serves for \<open>f64\<close> values, on which the program
  does no arithmetic of its own: it stores them and widens \<open>f32\<close> values, which is exact.
\<close>

datatype f32 = NaN | Inf (negative: bool) | Fin (rat_of: rat)

type_synonym f64 = f32

section \<open>Rounding\<close>

definition ilog2 :: "rat \<Rightarrow> int" where
  "ilog2 x = (case quotient_of x of (n, d) \<Rightarrow>
     let k = bitlen n - bitlen d in if power_int 2 k \<le> x then k else k - 1)"

definition round_half_even :: "rat \<Rightarrow> int" where
  "round_half_even x =
     (let f = \<lfloor>x\<rfloor>; r = x - of_int f
      in if r < 1 / 2 then f else if 1 / 2 < r then f + 1 else if even f then f else f + 1)"

definition rnd32 :: "rat \<Rightarrow> f32" where
  "rnd32 x =
     (if x = 0 then Fin 0
      else let u = power_int 2 (max (ilog2 \<bar>x\<bar>) (-126) - 23);
               y = of_int (round_half_even (x / u)) * u
           in if \<bar>y\<bar> < 2 ^ 128 then Fin y else Inf (x < 0))"

section \<open>Operations\<close>

fun fneg :: "f32 \<Rightarrow> f32" where
  "fneg NaN = NaN"
| "fneg (Inf s) = Inf (\<not> s)"
| "fneg (Fin x) = Fin (- x)"

fun fadd :: "f32 \<Rightarrow> f32 \<Rightarrow> f32" where
  "fadd (Fin x) (Fin y) = rnd32 (x + y)"
| "fadd (Inf s) (Fin y) = Inf s"
| "fadd (Fin x) (Inf t) = Inf t"
| "fadd (Inf s) (Inf t) = (if s = t then Inf s else NaN)"
| "fadd _ _ = NaN"

definition fsub :: "f32 \<Rightarrow> f32 \<Rightarrow> f32" where
  "fsub x y = fadd x (fneg y)"

fun fmul :: "f32 \<Rightarrow> f32 \<Rightarrow> f32" where
  "fmul (Fin x) (Fin y) = rnd32 (x * y)"
| "fmul (Inf s) (Fin y) = (if y = 0 then NaN else Inf (s \<noteq> (y < 0)))"
| "fmul (Fin x) (Inf t) = (if x = 0 then NaN else Inf ((x < 0) \<noteq> t))"
| "fmul (Inf s) (Inf t) = Inf (s \<noteq> t)"
| "fmul _ _ = NaN"

fun fdiv :: "f32 \<Rightarrow> f32 \<Rightarrow> f32" where
  "fdiv (Fin x) (Fin y) =
     (if y = 0 then (if x = 0 then NaN else Inf (x < 0)) else rnd32 (x / y))"
| "fdiv (Inf s) (Fin y) = Inf (s \<noteq> (y < 0))"
| "fdiv (Fin x) (Inf t) = Fin 0"
| "fdiv _ _ = NaN"

fun flt :: "f32 \<Rightarrow> f32 \<Rightarrow> bool" where
  "flt (Fin x) (Fin y) = (x < y)"
| "flt (Inf s) (Fin y) = s"
| "flt (Fin x) (Inf t) = (\<not> t)"
| "flt (Inf s) (Inf t) = (s \<and> \<not> t)"
| "flt _ _ = False"

fun feq :: "f32 \<Rightarrow> f32 \<Rightarrow> bool" where
  "feq NaN y = False"
| "feq x NaN = False"
| "feq x y = (x = y)"

text \<open>\<open>f32::max\<close> ignores a NaN; \<open>f32::clamp\<close> returns it; \<open>f32::round\<close> rounds halves away
  from zero; \<open>as u32\<close> truncates and saturates, a NaN becomes 0.\<close>

definition fmax :: "f32 \<Rightarrow> f32 \<Rightarrow> f32" where
  "fmax x y = (if x = NaN then y else if y = NaN then x else if flt x y then y else x)"

definition fclamp :: "f32 \<Rightarrow> f32 \<Rightarrow> f32 \<Rightarrow> f32" where
  "fclamp lo hi x = (if flt x lo then lo else if flt hi x then hi else x)"

fun fround :: "f32 \<Rightarrow> f32" where
  "fround (Fin x) = Fin (of_int (if 0 \<le> x then \<lfloor>x + 1 / 2\<rfloor> else \<lceil>x - 1 / 2\<rceil>))"
| "fround x = x"

fun as_u32 :: "f32 \<Rightarrow> u32" where
  "as_u32 NaN = 0"
| "as_u32 (Inf s) = (if s then 0 else - 1)"
| "as_u32 (Fin x) = (if x < 0 then 0 else if 2 ^ 32 - 1 \<le> x then - 1 else of_int \<lfloor>x\<rfloor>)"

definition f32_of_nat :: "nat \<Rightarrow> f32" where
  "f32_of_nat n = rnd32 (of_nat n)"

section \<open>Facts\<close>

definition nonneg :: "f32 \<Rightarrow> bool" where
  "nonneg x = (case x of NaN \<Rightarrow> False | Inf s \<Rightarrow> \<not> s | Fin r \<Rightarrow> 0 \<le> r)"

lemma nonneg_simps [simp]:
  "nonneg (Fin x) = (0 \<le> x)" "nonneg (Inf s) = (\<not> s)" "nonneg NaN = False"
  by (simp_all add: nonneg_def)

lemma round_half_even_nonneg: "0 \<le> x \<Longrightarrow> 0 \<le> round_half_even x"
  by (auto simp: round_half_even_def Let_def)

lemma nonneg_rnd32: "0 \<le> x \<Longrightarrow> nonneg (rnd32 x)"
  by (auto simp: rnd32_def Let_def round_half_even_nonneg)

lemma rnd32_zero [simp]: "rnd32 0 = Fin 0"
  by (simp add: rnd32_def)

lemma rnd32_not_NaN: "rnd32 x \<noteq> NaN"
  by (auto simp: rnd32_def Let_def)

lemma nonneg_fadd: "nonneg x \<Longrightarrow> nonneg y \<Longrightarrow> nonneg (fadd x y)"
  by (cases "(x, y)" rule: fadd.cases) (auto simp: nonneg_rnd32)

lemma nonneg_fdiv: "nonneg x \<Longrightarrow> flt (Fin 0) (Fin y) \<Longrightarrow> nonneg (fdiv x (Fin y))"
  by (cases x) (auto simp: nonneg_rnd32)

lemma fclamp_bounds:
  assumes "x \<noteq> NaN" and "lo \<le> hi"
  shows "\<exists>r. fclamp (Fin lo) (Fin hi) x = Fin r \<and> lo \<le> r \<and> r \<le> hi"
  using assms by (cases x) (auto simp: fclamp_def)

lemma fclamp_NaN [simp]: "fclamp (Fin lo) (Fin hi) NaN = NaN"
  by (simp add: fclamp_def)

lemma as_u32_Fin:
  assumes "0 \<le> x" and "x < 2 ^ 32 - 1"
  shows "unat (as_u32 (Fin x)) = nat \<lfloor>x\<rfloor>"
proof -
  have "\<lfloor>x\<rfloor> < 2 ^ 32"
    using assms(2) by (simp add: floor_less_iff)
  moreover have "0 \<le> \<lfloor>x\<rfloor>" using assms(1) by simp
  ultimately have "unat (of_int \<lfloor>x\<rfloor> :: u32) = nat \<lfloor>x\<rfloor>"
    by (simp add: unat_eq_nat_uint uint_word_of_int_eq take_bit_int_eq_self)
  with assms show ?thesis by simp
qed

end
