(* ===== verification/Telemetry_Model.thy ===== *)
theory Telemetry_Model
  imports Float32
begin

text \<open>
  The telemetry frame of \<open>src/model/mod.rs\<close>: one record per struct, with the source's field
  names behind a short prefix. A frame is what the metrics hub publishes on the watch channel
  and what the IPC session, the web socket and the exporter read.
\<close>

record obs_frame =
  of_connected :: bool
  of_streaming :: bool
  of_recording :: bool
  of_studio_mode :: bool
  of_total_dropped_frames :: u64
  of_total_frames :: u64
  of_render_missed_frames :: u32
  of_render_total_frames :: u32
  of_output_skipped_frames :: u32
  of_output_total_frames :: u32
  of_active_fps :: f32
  of_available_disk_space_mb :: f64

record system_frame =
  sf_cpu_percent :: f32
  sf_mem_percent :: f32
  sf_gpu_percent :: "f32 option"
  sf_gpu_temp_c :: "f32 option"

record network_frame =
  nf_upload_mbps :: f32
  nf_download_mbps :: f32
  nf_latency_ms :: f32

record stream_output =
  so_name :: string
  so_bitrate_kbps :: u32
  so_drop_pct :: f32
  so_fps :: f32
  so_encoding_lag_ms :: f32

record telemetry_frame =
  tf_timestamp_unix :: u64
  tf_health :: f32
  tf_obs :: obs_frame
  tf_system :: system_frame
  tf_streams :: "stream_output list"
  tf_network :: network_frame

text \<open>The derived \<open>Default\<close> values.\<close>

definition obs_frame_default :: obs_frame where
  "obs_frame_default =
     \<lparr>of_connected = False, of_streaming = False, of_recording = False, of_studio_mode = False,
      of_total_dropped_frames = 0, of_total_frames = 0, of_render_missed_frames = 0,
      of_render_total_frames = 0, of_output_skipped_frames = 0, of_output_total_frames = 0,
      of_active_fps = Fin 0, of_available_disk_space_mb = Fin 0\<rparr>"

definition telemetry_frame_default :: telemetry_frame where
  "telemetry_frame_default =
     \<lparr>tf_timestamp_unix = 0, tf_health = Fin 0, tf_obs = obs_frame_default,
      tf_system = \<lparr>sf_cpu_percent = Fin 0, sf_mem_percent = Fin 0,
                   sf_gpu_percent = None, sf_gpu_temp_c = None\<rparr>,
      tf_streams = [],
      tf_network = \<lparr>nf_upload_mbps = Fin 0, nf_download_mbps = Fin 0, nf_latency_ms = Fin 0\<rparr>\<rparr>"

end
