(* ===== verification/Rust_Net.thy ===== *)
theory Rust_Net
  imports Rust_Std
begin

text \<open>
  \<open>IpAddr::from_str\<close> of Rust's standard library, which the control-plane client uses to
  recognise an address with a CIDR suffix. A reader takes the input and returns the rest, or
  \<open>None\<close> and consumes nothing.
\<close>

definition to_digit :: "nat \<Rightarrow> char \<Rightarrow> nat option" where
  "to_digit radix c =
     (let b = byte c;
          d = (if 48 \<le> b \<and> b \<le> 57 then Some (b - 48)
               else if 97 \<le> b \<and> b \<le> 122 then Some (b - 87)
               else if 65 \<le> b \<and> b \<le> 90 then Some (b - 55) else None)
      in case d of None \<Rightarrow> None | Some k \<Rightarrow> if k < radix then Some k else None)"

text \<open>The digit loop: value so far, digits so far. Overflow and too many digits fail.\<close>

fun read_number_loop ::
    "nat \<Rightarrow> nat \<Rightarrow> nat \<Rightarrow> nat \<Rightarrow> nat \<Rightarrow> string \<Rightarrow> (nat \<times> nat \<times> string) option" where
  "read_number_loop radix bound maxd r n [] = Some (r, n, [])"
| "read_number_loop radix bound maxd r n (c # s) =
     (case to_digit radix c of
        None \<Rightarrow> Some (r, n, c # s)
      | Some d \<Rightarrow>
          if r * radix + d \<ge> bound then None
          else if Suc n > maxd then None
          else read_number_loop radix bound maxd (r * radix + d) (Suc n) s)"

definition read_number :: "nat \<Rightarrow> nat \<Rightarrow> nat \<Rightarrow> bool \<Rightarrow> string \<Rightarrow> (nat \<times> string) option" where
  "read_number radix bound maxd allow_zero_prefix s =
     (case read_number_loop radix bound maxd 0 0 s of
        None \<Rightarrow> None
      | Some (r, n, rest) \<Rightarrow>
          if n = 0 then None
          else if \<not> allow_zero_prefix \<and> take 1 s = ''0'' \<and> 1 < n then None
          else Some (r, rest))"

definition read_given_char :: "char \<Rightarrow> string \<Rightarrow> string option" where
  "read_given_char c s = (case s of [] \<Rightarrow> None | x # r \<Rightarrow> if x = c then Some r else None)"

definition read_separator ::
    "char \<Rightarrow> nat \<Rightarrow> (string \<Rightarrow> ('a \<times> string) option) \<Rightarrow> string \<Rightarrow> ('a \<times> string) option" where
  "read_separator sep i inner s =
     (if 0 < i then (case read_given_char sep s of None \<Rightarrow> None | Some r \<Rightarrow> inner r) else inner s)"

fun read_octets :: "nat \<Rightarrow> nat \<Rightarrow> string \<Rightarrow> (nat list \<times> string) option" where
  "read_octets 0 i s = Some ([], s)"
| "read_octets (Suc n) i s =
     (case read_separator (CHR ''.'') i (read_number 10 256 3 False) s of
        None \<Rightarrow> None
      | Some (o1, r) \<Rightarrow>
          (case read_octets n (Suc i) r of None \<Rightarrow> None | Some (os, r') \<Rightarrow> Some (o1 # os, r')))"

definition read_ipv4_addr :: "string \<Rightarrow> (nat list \<times> string) option" where
  "read_ipv4_addr s = read_octets 4 0 s"

text \<open>Groups of an IPv6 address: how many were read (of at most \<open>i + n\<close>), whether the last
  two were an embedded IPv4 address, the rest. \<open>n\<close> counts the slots left.\<close>

fun read_groups :: "nat \<Rightarrow> nat \<Rightarrow> string \<Rightarrow> nat \<times> bool \<times> string" where
  "read_groups 0 i s = (i, False, s)"
| "read_groups (Suc n) i s =
     (case (if 0 < n then read_separator (CHR '':'') i read_ipv4_addr s else None) of
        Some (v4, r) \<Rightarrow> (i + 2, True, r)
      | None \<Rightarrow>
          (case read_separator (CHR '':'') i (read_number 16 65536 4 True) s of
             None \<Rightarrow> (i, False, s)
           | Some (g, r) \<Rightarrow> read_groups n (Suc i) r))"

definition read_ipv6_addr :: "string \<Rightarrow> string option" where
  "read_ipv6_addr s =
     (case read_groups 8 0 s of (head_size, head_ipv4, r) \<Rightarrow>
        if head_size = 8 then Some r
        else if head_ipv4 then None
        else case read_given_char (CHR '':'') r of None \<Rightarrow> None | Some r1 \<Rightarrow>
               (case read_given_char (CHR '':'') r1 of None \<Rightarrow> None | Some r2 \<Rightarrow>
                  (case read_groups (8 - (head_size + 1)) 0 r2 of (_, _, r3) \<Rightarrow> Some r3)))"

definition is_ip_addr :: "string \<Rightarrow> bool" where
  "is_ip_addr s \<longleftrightarrow>
     (case read_ipv4_addr s of
        Some (_, r) \<Rightarrow> r = []
      | None \<Rightarrow> (case read_ipv6_addr s of Some r \<Rightarrow> r = [] | None \<Rightarrow> False))"

section \<open>What an address is made of\<close>

definition ip_char :: "char \<Rightarrow> bool" where
  "ip_char c \<longleftrightarrow> c = CHR ''.'' \<or> c = CHR '':'' \<or> to_digit 16 c \<noteq> None"

text \<open>\<open>consumes s r\<close>: what was read from \<open>s\<close> to leave \<open>r\<close> are address characters.\<close>

definition consumes :: "string \<Rightarrow> string \<Rightarrow> bool" where
  "consumes s r \<longleftrightarrow> (\<exists>p. s = p @ r \<and> (\<forall>c \<in> set p. ip_char c))"

lemma consumes_refl [simp, intro]: "consumes s s"
  by (auto simp: consumes_def)

lemma consumes_trans [trans]: "consumes s r \<Longrightarrow> consumes r t \<Longrightarrow> consumes s t"
  by (force simp: consumes_def)

lemma consumes_Cons: "ip_char c \<Longrightarrow> consumes s r \<Longrightarrow> consumes (c # s) r"
  by (force simp: consumes_def)

lemma to_digit_ip_char: "to_digit radix c = Some d \<Longrightarrow> radix \<le> 16 \<Longrightarrow> ip_char c"
  by (auto simp: ip_char_def to_digit_def Let_def split: if_splits)

lemma read_number_loop_consumes:
  "radix \<le> 16 \<Longrightarrow> read_number_loop radix bound maxd r n s = Some (r', n', rest) \<Longrightarrow> consumes s rest"
  by (induction radix bound maxd r n s rule: read_number_loop.induct)
     (auto split: option.splits if_splits intro: consumes_Cons to_digit_ip_char)

lemma read_number_consumes:
  "read_number radix bound maxd z s = Some (v, rest) \<Longrightarrow> radix \<le> 16 \<Longrightarrow> consumes s rest"
  by (auto simp: read_number_def split: option.splits if_splits
      intro: read_number_loop_consumes)

lemma read_given_char_consumes:
  "read_given_char c s = Some r \<Longrightarrow> ip_char c \<Longrightarrow> consumes s r"
  by (auto simp: read_given_char_def split: list.splits if_splits intro: consumes_Cons)

lemma read_separator_consumes:
  assumes "read_separator sep i inner s = Some (v, r)" and "ip_char sep"
    and "\<And>s v r. inner s = Some (v, r) \<Longrightarrow> consumes s r"
  shows "consumes s r"
  using assms
  by (auto simp: read_separator_def split: if_splits option.splits
      intro: consumes_trans read_given_char_consumes)

lemma ip_char_seps [simp]: "ip_char CHR ''.''" "ip_char CHR '':''"
  by (simp_all add: ip_char_def)

lemma read_octets_consumes: "read_octets n i s = Some (os, r) \<Longrightarrow> consumes s r"
proof (induction n i s arbitrary: os r rule: read_octets.induct)
  case (2 n i s)
  from "2.prems" obtain v t os' where
    v: "read_separator CHR ''.'' i (read_number 10 256 3 False) s = Some (v, t)" and
    t: "read_octets n (Suc i) t = Some (os', r)"
    by (auto split: option.splits)
  from v have "consumes s t"
    by (rule read_separator_consumes) (auto dest: read_number_consumes)
  also have "consumes t r"
    using "2.IH" v t by auto
  finally show ?case .
qed simp

lemma read_ipv4_consumes: "read_ipv4_addr s = Some (os, r) \<Longrightarrow> consumes s r"
  by (simp add: read_ipv4_addr_def read_octets_consumes)

lemma read_groups_consumes: "read_groups n i s = (k, b, r) \<Longrightarrow> consumes s r"
proof (induction n i s arbitrary: k b r rule: read_groups.induct)
  case (2 n i s)
  show ?case
  proof (cases "if 0 < n then read_separator CHR '':'' i read_ipv4_addr s else None")
    case (Some p)
    then obtain v4 t where "read_separator CHR '':'' i read_ipv4_addr s = Some (v4, t)"
      and "p = (v4, t)"
      by (cases p) (auto split: if_splits)
    then show ?thesis
      using "2.prems" Some by (auto intro: read_separator_consumes read_ipv4_consumes)
  next
    case None
    show ?thesis
    proof (cases "read_separator CHR '':'' i (read_number 16 65536 4 True) s")
      case None': None
      with None "2.prems" show ?thesis by simp
    next
      case (Some p)
      obtain g t where p: "p = (g, t)" by (cases p)
      have "consumes s t"
        by (rule read_separator_consumes [OF Some [unfolded p]])
           (auto dest: read_number_consumes)
      moreover have "consumes t r"
        using "2.IH" [OF None Some [unfolded p] refl] None Some p "2.prems" by simp
      ultimately show ?thesis by (rule consumes_trans)
    qed
  qed
qed simp

lemma read_ipv6_consumes: "read_ipv6_addr s = Some r \<Longrightarrow> consumes s r"
  by (auto simp: read_ipv6_addr_def split: prod.splits if_splits option.splits
      dest!: read_groups_consumes read_given_char_consumes
      intro: consumes_trans)

lemma is_ip_addr_chars: "is_ip_addr s \<Longrightarrow> c \<in> set s \<Longrightarrow> ip_char c"
  by (auto simp: is_ip_addr_def consumes_def split: option.splits prod.splits
      dest!: read_ipv4_consumes read_ipv6_consumes)

lemma ip_char_byte: "ip_char c \<Longrightarrow> 46 \<le> byte c \<and> byte c \<le> 122 \<and> byte c \<noteq> 47"
  by (auto simp: ip_char_def to_digit_def byte_def Let_def split: if_splits)

lemma visible_not_ws:
  "33 \<le> a \<Longrightarrow> a \<le> 126 \<Longrightarrow> \<not> ws1 a" "a \<le> 126 \<Longrightarrow> \<not> ws2 a b" "a \<le> 126 \<Longrightarrow> \<not> ws3 a b c"
  by (auto simp: ws1_def ws2_def ws3_def)

lemma trim_visible:
  assumes "list_all (\<lambda>c. 33 \<le> byte c \<and> byte c \<le> 126) s"
  shows "trim s = s"
proof (rule trim_id)
  show "ws_len s = 0"
    using assms by (cases s rule: ws_len.cases) (auto simp: visible_not_ws)
  have "list_all (\<lambda>c. 33 \<le> byte c \<and> byte c \<le> 126) (rev s)" using assms by simp
  then show "ws_len_rev (rev s) = 0"
    by (cases "rev s" rule: ws_len_rev.cases) (auto simp: visible_not_ws)
qed

lemma is_ip_addr_trim: "is_ip_addr s \<Longrightarrow> trim s = s"
  by (rule trim_visible) (force simp: list_all_iff dest: is_ip_addr_chars ip_char_byte)

lemma is_ip_addr_no_slash: "is_ip_addr s \<Longrightarrow> CHR ''/'' \<notin> set s"
  by (auto dest!: is_ip_addr_chars ip_char_byte simp: byte_def)

end
