(* ===== verification/Aegis_Client.thy ===== *)
theory Aegis_Client
  imports Rust_Net
begin

text \<open>
  The control-plane client of \<open>src/aegis/mod.rs\<close>: the relay session data, the client and its
  builder, the requests it builds, the responses it accepts and the normalisation of relay
  addresses. \<open>reqwest\<close>, \<open>url\<close> and \<open>serde_json\<close> are third-party code: their operations
  are the fields of \<open>http_lib\<close>, an argument of every definition that calls them.
\<close>

section \<open>Data\<close>

record relay_endpoint =
  re_instance_id :: "string option"
  re_public_ip :: "string option"
  re_srt_port :: "u16 option"
  re_ws_url :: "string option"

record relay_credentials =
  rc_pair_token :: "string option"
  rc_relay_ws_token :: "string option"

record relay_timers =
  rt_grace_window_seconds :: "u64 option"
  rt_grace_remaining_seconds :: "u64 option"
  rt_max_session_seconds :: "u64 option"
  rt_max_session_remaining_seconds :: "u64 option"

record relay_usage =
  ru_started_at :: "string option"
  ru_ended_at :: "string option"
  ru_duration_seconds :: "u64 option"

record relay_session =
  rs_session_id :: string
  rs_status :: string
  rs_user_id :: "string option"
  rs_region :: "string option"
  rs_relay :: "relay_endpoint option"
  rs_credentials :: "relay_credentials option"
  rs_timers :: "relay_timers option"
  rs_usage :: "relay_usage option"

record relay_session_envelope =
  rse_session :: relay_session

record relay_start_client_context =
  cc_obs_connected :: "bool option"
  cc_mode :: "string option"
  cc_requested_by :: "string option"

record relay_start_request =
  sq_region_preference :: "string option"
  sq_client_context :: "relay_start_client_context option"

record relay_stop_request =
  tq_session_id :: string
  tq_reason :: string

record relay_stop_response =
  tr_session_id :: string
  tr_status :: string
  tr_stopped_at :: "string option"

definition relay_session_default :: relay_session where
  "relay_session_default =
     \<lparr>rs_session_id = [], rs_status = [], rs_user_id = None, rs_region = None, rs_relay = None,
      rs_credentials = None, rs_timers = None, rs_usage = None\<rparr>"

text \<open>A third-party error is carried as the text its \<open>Display\<close> prints. Status codes are \<open>u16\<close>.\<close>

datatype control_plane_error =
    Config_Error string
  | Url_Error string
  | Http_Error string
  | Json_Error string
  | Invalid_Header_Value string
  | Api_Error u16 string

fun show_control_plane_error :: "control_plane_error \<Rightarrow> string" where
  "show_control_plane_error (Config_Error msg) = ''config error: '' @ msg"
| "show_control_plane_error (Url_Error err) = ''url error: '' @ err"
| "show_control_plane_error (Http_Error err) = ''http error: '' @ err"
| "show_control_plane_error (Json_Error err) = ''json error: '' @ err"
| "show_control_plane_error (Invalid_Header_Value err) = ''invalid header value: '' @ err"
| "show_control_plane_error (Api_Error status body) =
     ''api error '' @ show_nat (unat status) @ '': '' @ body"

datatype http_method = GET | POST

text \<open>A request: method, URL, headers in insertion order, body.\<close>

record 'u http_request =
  rq_method :: http_method
  rq_url :: 'u
  rq_headers :: "(string \<times> string) list"
  rq_body :: "string option"

text \<open>Third-party operations. \<open>lib_execute\<close> is the network: a transport error, or a status
  and the result of reading the body as text.\<close>

record 'u http_lib =
  lib_url_parse :: "string \<Rightarrow> ('u, string) result"
  lib_url_path :: "'u \<Rightarrow> string"
  lib_url_set_path :: "string \<Rightarrow> 'u \<Rightarrow> 'u"
  lib_url_join :: "'u \<Rightarrow> string \<Rightarrow> ('u, string) result"
  lib_client_build :: "duration \<Rightarrow> (unit, string) result"
  lib_header_value :: "string \<Rightarrow> (string, string) result"
  lib_request_build :: "'u http_request \<Rightarrow> ('u http_request, string) result"
  lib_execute :: "'u http_request \<Rightarrow> (u16 \<times> (string, string) result, string) result"
  lib_json_start :: "relay_start_request \<Rightarrow> (string, string) result"
  lib_json_stop :: "relay_stop_request \<Rightarrow> (string, string) result"
  lib_parse_envelope :: "string \<Rightarrow> (relay_session_envelope, string) result"
  lib_parse_stop :: "string \<Rightarrow> (relay_stop_response, string) result"

record 'u control_plane_client =
  cl_timeout :: duration
  cl_base_url :: 'u
  cl_access_jwt :: string
  cl_client_version :: string
  cl_client_platform :: string

record control_plane_client_builder =
  cb_base_url :: string
  cb_access_jwt :: string
  cb_client_version :: string
  cb_client_platform :: string
  cb_timeout :: duration

section \<open>Building a client\<close>

definition DEFAULT_TIMEOUT_SECS :: nat where
  "DEFAULT_TIMEOUT_SECS = 15"

definition DEFAULT_CLIENT_PLATFORM :: string where
  "DEFAULT_CLIENT_PLATFORM = ''windows''"

definition DEFAULT_CLIENT_VERSION :: string where
  "DEFAULT_CLIENT_VERSION = ''0.0.3''"

definition builder_new :: "string \<Rightarrow> string \<Rightarrow> control_plane_client_builder" where
  "builder_new base_url access_jwt =
     \<lparr>cb_base_url = base_url, cb_access_jwt = access_jwt,
      cb_client_version = DEFAULT_CLIENT_VERSION, cb_client_platform = DEFAULT_CLIENT_PLATFORM,
      cb_timeout = from_secs DEFAULT_TIMEOUT_SECS\<rparr>"

definition builder_client_version ::
    "string \<Rightarrow> control_plane_client_builder \<Rightarrow> control_plane_client_builder" where
  "builder_client_version client_version b = b\<lparr>cb_client_version := client_version\<rparr>"

definition builder_client_platform ::
    "string \<Rightarrow> control_plane_client_builder \<Rightarrow> control_plane_client_builder" where
  "builder_client_platform client_platform b = b\<lparr>cb_client_platform := client_platform\<rparr>"

definition builder_timeout ::
    "duration \<Rightarrow> control_plane_client_builder \<Rightarrow> control_plane_client_builder" where
  "builder_timeout timeout b = b\<lparr>cb_timeout := timeout\<rparr>"

definition from_parts ::
    "'u http_lib \<Rightarrow> string \<Rightarrow> string \<Rightarrow> string \<Rightarrow> string \<Rightarrow> duration
     \<Rightarrow> ('u control_plane_client, control_plane_error) result" where
  "from_parts L base_url access_jwt client_version client_platform timeout =
     (if trim access_jwt = [] then
        Err (Config_Error ''control-plane access JWT must not be empty'')
      else if trim client_version = [] then
        Err (Config_Error ''client version header value must not be empty'')
      else if trim client_platform = [] then
        Err (Config_Error ''client platform header value must not be empty'')
      else
        and_then (map_err Url_Error (lib_url_parse L (trim base_url))) (\<lambda>parsed0.
        let parsed =
              (if \<not> ends_with (CHR ''/'') (lib_url_path L parsed0)
               then lib_url_set_path L
                      (trim_end_matches (CHR ''/'') (lib_url_path L parsed0) @ ''/'') parsed0
               else parsed0)
        in and_then (map_err Http_Error (lib_client_build L timeout)) (\<lambda>_.
           Ok \<lparr>cl_timeout = timeout, cl_base_url = parsed, cl_access_jwt = access_jwt,
               cl_client_version = client_version, cl_client_platform = client_platform\<rparr>)))"

definition builder_build ::
    "'u http_lib \<Rightarrow> control_plane_client_builder
     \<Rightarrow> ('u control_plane_client, control_plane_error) result" where
  "builder_build L b =
     from_parts L (cb_base_url b) (cb_access_jwt b) (cb_client_version b)
       (cb_client_platform b) (cb_timeout b)"

definition client_new ::
    "'u http_lib \<Rightarrow> string \<Rightarrow> string \<Rightarrow> ('u control_plane_client, control_plane_error) result" where
  "client_new L base_url access_jwt = builder_build L (builder_new base_url access_jwt)"

section \<open>Building requests\<close>

text \<open>\<open>HeaderMap::insert\<close> keeps one value per (lower-case) name.\<close>

definition common_headers ::
    "'u http_lib \<Rightarrow> 'u control_plane_client
     \<Rightarrow> ((string \<times> string) list, control_plane_error) result" where
  "common_headers L c =
     and_then (map_err Invalid_Header_Value (lib_header_value L (''Bearer '' @ cl_access_jwt c)))
       (\<lambda>auth.
     and_then (map_err Invalid_Header_Value (lib_header_value L (trim (cl_client_version c))))
       (\<lambda>version.
     and_then (map_err Invalid_Header_Value (lib_header_value L (trim (cl_client_platform c))))
       (\<lambda>platform.
     Ok [(''authorization'', auth), (''x-aegis-client-version'', version),
         (''x-aegis-client-platform'', platform)])))"

definition build_request_builder ::
    "'u http_lib \<Rightarrow> 'u control_plane_client \<Rightarrow> http_method \<Rightarrow> string
     \<Rightarrow> ('u http_request, control_plane_error) result" where
  "build_request_builder L c m path =
     and_then (map_err Url_Error (lib_url_join L (cl_base_url c) (''api/v1/'' @ path))) (\<lambda>url.
     and_then (common_headers L c) (\<lambda>headers.
     Ok \<lparr>rq_method = m, rq_url = url, rq_headers = headers, rq_body = None\<rparr>))"

definition build_request ::
    "'u http_lib \<Rightarrow> 'u control_plane_client \<Rightarrow> http_method \<Rightarrow> string
     \<Rightarrow> ('u http_request, control_plane_error) result" where
  "build_request L c m path =
     and_then (build_request_builder L c m path) (\<lambda>b.
     map_err Http_Error (lib_request_build L b))"

definition build_relay_active_request ::
    "'u http_lib \<Rightarrow> 'u control_plane_client \<Rightarrow> ('u http_request, control_plane_error) result" where
  "build_relay_active_request L c = build_request L c GET ''relay/active''"

definition build_relay_start_request ::
    "'u http_lib \<Rightarrow> 'u control_plane_client \<Rightarrow> string \<Rightarrow> relay_start_request
     \<Rightarrow> ('u http_request, control_plane_error) result" where
  "build_relay_start_request L c idempotency_key request =
     (if trim idempotency_key = [] then
        Err (Config_Error ''Idempotency-Key must not be empty for relay/start'')
      else
        and_then (map_err Json_Error (lib_json_start L request)) (\<lambda>body.
        and_then (build_request_builder L c POST ''relay/start'') (\<lambda>b.
        map_err Http_Error (lib_request_build L
          (b\<lparr>rq_headers := rq_headers b @ [(''idempotency-key'', trim idempotency_key),
                                           (''content-type'', ''application/json'')],
             rq_body := Some body\<rparr>)))))"

definition build_relay_stop_request ::
    "'u http_lib \<Rightarrow> 'u control_plane_client \<Rightarrow> relay_stop_request
     \<Rightarrow> ('u http_request, control_plane_error) result" where
  "build_relay_stop_request L c request =
     and_then (map_err Json_Error (lib_json_stop L request)) (\<lambda>body.
     and_then (build_request_builder L c POST ''relay/stop'') (\<lambda>b.
     map_err Http_Error (lib_request_build L
       (b\<lparr>rq_headers := rq_headers b @ [(''content-type'', ''application/json'')],
          rq_body := Some body\<rparr>))))"

section \<open>Normalising and parsing responses\<close>

definition normalize_ip_string :: "string \<Rightarrow> string" where
  "normalize_ip_string raw =
     (let trimmed = trim raw in
      case rsplit_once (CHR ''/'') trimmed of
        Some (candidate_ip, digits) \<Rightarrow>
          if digits \<noteq> [] \<and> list_all is_ascii_digit digits \<and> is_ip_addr candidate_ip
          then candidate_ip else trimmed
      | None \<Rightarrow> trimmed)"

definition endpoint_normalize :: "relay_endpoint \<Rightarrow> relay_endpoint" where
  "endpoint_normalize e = e\<lparr>re_public_ip := map_option normalize_ip_string (re_public_ip e)\<rparr>"

definition session_normalize :: "relay_session \<Rightarrow> relay_session" where
  "session_normalize s = s\<lparr>rs_relay := map_option endpoint_normalize (rs_relay s)\<rparr>"

definition is_success :: "u16 \<Rightarrow> bool" where
  "is_success status \<longleftrightarrow> 200 \<le> status \<and> status < 300"

definition parse_relay_active_response ::
    "'u http_lib \<Rightarrow> u16 \<Rightarrow> string \<Rightarrow> (relay_session option, control_plane_error) result" where
  "parse_relay_active_response L status body =
     (if status = 204 then Ok None
      else if \<not> is_success status then Err (Api_Error status body)
      else and_then (map_err Json_Error (lib_parse_envelope L body)) (\<lambda>envelope.
           Ok (Some (session_normalize (rse_session envelope)))))"

definition parse_relay_start_response ::
    "'u http_lib \<Rightarrow> u16 \<Rightarrow> string \<Rightarrow> (relay_session, control_plane_error) result" where
  "parse_relay_start_response L status body =
     (if \<not> (status = 200 \<or> status = 201) then Err (Api_Error status body)
      else and_then (map_err Json_Error (lib_parse_envelope L body)) (\<lambda>envelope.
           Ok (session_normalize (rse_session envelope))))"

definition parse_relay_stop_response ::
    "'u http_lib \<Rightarrow> u16 \<Rightarrow> string \<Rightarrow> (relay_stop_response, control_plane_error) result" where
  "parse_relay_stop_response L status body =
     (if \<not> is_success status then Err (Api_Error status body)
      else map_err Json_Error (lib_parse_stop L body))"

section \<open>Calls\<close>

text \<open>Sending a request: the transport, the status, the body, then the response parser.\<close>

definition send ::
    "'u http_lib \<Rightarrow> 'u http_request \<Rightarrow> (u16 \<Rightarrow> string \<Rightarrow> ('a, control_plane_error) result)
     \<Rightarrow> ('a, control_plane_error) result" where
  "send L req parse =
     and_then (map_err Http_Error (lib_execute L req)) (\<lambda>(status, text).
     and_then (map_err Http_Error text) (\<lambda>body. parse status body))"

definition relay_active ::
    "'u http_lib \<Rightarrow> 'u control_plane_client \<Rightarrow> (relay_session option, control_plane_error) result" where
  "relay_active L c =
     and_then (build_request L c GET ''relay/active'') (\<lambda>req.
     send L req (parse_relay_active_response L))"

definition relay_start ::
    "'u http_lib \<Rightarrow> 'u control_plane_client \<Rightarrow> string \<Rightarrow> relay_start_request
     \<Rightarrow> (relay_session, control_plane_error) result" where
  "relay_start L c idempotency_key request =
     and_then (build_relay_start_request L c idempotency_key request) (\<lambda>req.
     send L req (parse_relay_start_response L))"

definition relay_stop ::
    "'u http_lib \<Rightarrow> 'u control_plane_client \<Rightarrow> relay_stop_request
     \<Rightarrow> (relay_stop_response, control_plane_error) result" where
  "relay_stop L c request =
     and_then (build_relay_stop_request L c request) (\<lambda>req.
     send L req (parse_relay_stop_response L))"

section \<open>Normalisation\<close>

lemma normalize_ip_cases:
  obtains (stripped) digits where
    "trim raw = normalize_ip_string raw @ CHR ''/'' # digits" "digits \<noteq> []"
    "list_all is_ascii_digit digits" "is_ip_addr (normalize_ip_string raw)"
  | (kept) "normalize_ip_string raw = trim raw"
proof (cases "rsplit_once (CHR ''/'') (trim raw)")
  case (Some p)
  then obtain a b where p: "rsplit_once (CHR ''/'') (trim raw) = Some (a, b)"
    by (cases p) auto
  then have t: "trim raw = a @ CHR ''/'' # b"
    using rsplit_once_Some by blast
  show thesis
  proof (cases "b \<noteq> [] \<and> list_all is_ascii_digit b \<and> is_ip_addr a")
    case True
    with p have "normalize_ip_string raw = a"
      by (simp add: normalize_ip_string_def)
    with True t stripped show thesis by metis
  next
    case False
    with p have "normalize_ip_string raw = trim raw"
      by (auto simp: normalize_ip_string_def)
    then show thesis by (rule kept)
  qed
next
  case None
  then have "normalize_ip_string raw = trim raw"
    by (simp add: normalize_ip_string_def)
  then show thesis by (rule kept)
qed

lemma normalize_ip_addr: "is_ip_addr a \<Longrightarrow> normalize_ip_string a = a"
  by (simp add: normalize_ip_string_def is_ip_addr_trim rsplit_once_def is_ip_addr_no_slash)

lemma normalize_ip_trim: "normalize_ip_string (trim raw) = normalize_ip_string raw"
  by (simp add: normalize_ip_string_def)

lemma normalize_ip_idem: "normalize_ip_string (normalize_ip_string raw) = normalize_ip_string raw"
  by (rule normalize_ip_cases [of raw]) (simp_all add: normalize_ip_addr normalize_ip_trim)

lemma endpoint_normalize_idem [simp]: "endpoint_normalize (endpoint_normalize e) = endpoint_normalize e"
  by (cases "re_public_ip e") (simp_all add: endpoint_normalize_def normalize_ip_idem)

lemma session_normalize_idem [simp]: "session_normalize (session_normalize s) = session_normalize s"
  by (cases "rs_relay s") (simp_all add: session_normalize_def)

lemmas ip_eval =
  is_ip_addr_def read_ipv4_addr_def read_ipv6_addr_def read_separator_def read_given_char_def
  read_number_def to_digit_def byte_def Let_def eval_nat_numeral

text \<open>An address followed by a slash and digits (a CIDR suffix), with white space around it,
  normalises to the address alone; normalising again changes nothing.\<close>

theorem normalize_ip_strips_cidr:
  assumes "is_ip_addr a" and "digits \<noteq> []" and "list_all is_ascii_digit digits"
    and "trim raw = a @ CHR ''/'' # digits"
  shows "normalize_ip_string raw = a \<and> normalize_ip_string (normalize_ip_string raw) = a"
proof -
  have "CHR ''/'' \<notin> set digits"
    using assms(3) by (auto simp: list_all_iff is_ascii_digit_def byte_def)
  then have "rsplit_once (CHR ''/'') (trim raw) = Some (a, digits)"
    using rsplit_once_append by (simp add: assms(4))
  with assms have "normalize_ip_string raw = a"
    by (simp add: normalize_ip_string_def)
  then show ?thesis using normalize_ip_idem by metis
qed

theorem normalize_ip_strips_cidr_witness:
  "normalize_ip_string ''203.0.113.10/32'' = ''203.0.113.10''"
proof -
  have ip: "is_ip_addr ''203.0.113.10''" by (simp add: ip_eval)
  have dg: "list_all is_ascii_digit ''32''" by (simp add: is_ascii_digit_def byte_def)
  have tr: "trim ''203.0.113.10/32'' = ''203.0.113.10'' @ CHR ''/'' # ''32''"
    by (simp add: trim_visible byte_def)
  show ?thesis
    using normalize_ip_strips_cidr [OF ip _ dg tr] by simp
qed

section \<open>Requests and responses\<close>

text \<open>An instance of the third-party operations: URLs are their text, every header value is
  accepted, the server answers 201 with a body that decodes to a fixed session.\<close>

definition sample_session :: relay_session where
  "sample_session = relay_session_default
     \<lparr>rs_session_id := ''ses_1'', rs_status := ''active'',
      rs_relay := Some \<lparr>re_instance_id = None, re_public_ip = Some ''203.0.113.10/32'',
                        re_srt_port = Some 9000, re_ws_url = None\<rparr>\<rparr>"

definition sample_lib :: "string http_lib" where
  "sample_lib =
     \<lparr>lib_url_parse = Ok, lib_url_path = (\<lambda>u. u), lib_url_set_path = (\<lambda>p u. p),
      lib_url_join = (\<lambda>u p. Ok (u @ p)), lib_client_build = (\<lambda>_. Ok ()),
      lib_header_value = Ok, lib_request_build = Ok,
      lib_execute = (\<lambda>_. Ok (201, Ok ''{}'')),
      lib_json_start = (\<lambda>_. Ok ''{}''), lib_json_stop = (\<lambda>_. Ok ''{}''),
      lib_parse_envelope = (\<lambda>_. Ok \<lparr>rse_session = sample_session\<rparr>),
      lib_parse_stop = (\<lambda>_. Ok \<lparr>tr_session_id = ''ses_1'', tr_status = ''stopped'',
                              tr_stopped_at = None\<rparr>)\<rparr>"

definition sample_client :: "string control_plane_client" where
  "sample_client =
     \<lparr>cl_timeout = from_secs 15, cl_base_url = ''https://api.example.test/'',
      cl_access_jwt = ''jwt-123'', cl_client_version = ''0.0.3'', cl_client_platform = ''windows''\<rparr>"

lemma ends_with_snoc [simp]: "ends_with c (s @ [c])"
  by (simp add: ends_with_def)

lemma from_parts_base:
  assumes "from_parts L base_url jwt version platform timeout = Ok c"
  shows "(\<exists>p u. cl_base_url c = lib_url_set_path L (p @ ''/'') u)
    \<or> ends_with (CHR ''/'') (lib_url_path L (cl_base_url c))"
  using assms
  by (auto simp: from_parts_def and_then_eq_Ok Let_def split: if_splits) metis+

text \<open>A client that could be built has a non-blank access token, non-blank client version
  and platform headers, the default timeout of 15 seconds, and a base URL whose path ends in a
  slash (so that relative API paths are appended to it), provided that setting a path that ends
  in a slash gives a URL whose path does.\<close>

theorem client_new_ok:
  assumes "client_new L base_url access_jwt = Ok c"
    and "\<And>p u. ends_with (CHR ''/'') p \<Longrightarrow> ends_with (CHR ''/'') (lib_url_path L (lib_url_set_path L p u))"
  shows "trim (cl_access_jwt c) \<noteq> [] \<and> cl_access_jwt c = access_jwt
    \<and> trim (cl_client_version c) \<noteq> [] \<and> trim (cl_client_platform c) \<noteq> []
    \<and> cl_timeout c = 15 * 10 ^ 9 \<and> ends_with (CHR ''/'') (lib_url_path L (cl_base_url c))"
proof -
  have parts: "from_parts L base_url access_jwt DEFAULT_CLIENT_VERSION DEFAULT_CLIENT_PLATFORM
      (from_secs DEFAULT_TIMEOUT_SECS) = Ok c"
    using assms(1) by (simp add: client_new_def builder_build_def builder_new_def)
  have "ends_with (CHR ''/'') (lib_url_path L (cl_base_url c))"
    using from_parts_base [OF parts] assms(2) ends_with_snoc by metis
  with parts show ?thesis
    by (auto simp: from_parts_def and_then_eq_Ok Let_def from_secs_def DEFAULT_TIMEOUT_SECS_def
        split: if_splits)
qed

theorem client_new_ok_witness:
  "\<exists>c. client_new sample_lib ''https://api.example.test'' ''jwt-123'' = Ok c
     \<and> ends_with (CHR ''/'') (lib_url_path sample_lib (cl_base_url c))"
proof -
  have t: "trim ''jwt-123'' = ''jwt-123''" "trim ''0.0.3'' = ''0.0.3''"
    "trim ''windows'' = ''windows''"
    by (simp_all add: trim_visible byte_def)
  obtain c where c: "client_new sample_lib ''https://api.example.test'' ''jwt-123'' = Ok c"
    by (simp add: client_new_def builder_build_def builder_new_def from_parts_def sample_lib_def
        DEFAULT_CLIENT_VERSION_def DEFAULT_CLIENT_PLATFORM_def t Let_def)
  have law: "\<And>p u. ends_with (CHR ''/'') p
      \<Longrightarrow> ends_with (CHR ''/'') (lib_url_path sample_lib (lib_url_set_path sample_lib p u))"
    by (simp add: sample_lib_def)
  show ?thesis using client_new_ok [OF c law] c by blast
qed

text \<open>A start request that could be built is a POST with the bearer token, the trimmed client
  version and platform, the trimmed and non-empty idempotency key and the JSON body, provided
  that the header constructor and the request builder return what they were given.\<close>

theorem relay_start_request_headers:
  assumes "build_relay_start_request L c key request = Ok req"
    and "\<And>h v. lib_header_value L h = Ok v \<Longrightarrow> v = h"
    and "\<And>b r. lib_request_build L b = Ok r \<Longrightarrow> r = b"
  shows "rq_method req = POST
    \<and> map_of (rq_headers req) ''authorization'' = Some (''Bearer '' @ cl_access_jwt c)
    \<and> map_of (rq_headers req) ''x-aegis-client-version'' = Some (trim (cl_client_version c))
    \<and> map_of (rq_headers req) ''x-aegis-client-platform'' = Some (trim (cl_client_platform c))
    \<and> map_of (rq_headers req) ''idempotency-key'' = Some (trim key) \<and> trim key \<noteq> []
    \<and> map_of (rq_headers req) ''content-type'' = Some ''application/json''
    \<and> (\<exists>body. lib_json_start L request = Ok body \<and> rq_body req = Some body)"
proof -
  from assms(1) obtain body b where key: "trim key \<noteq> []" and body: "lib_json_start L request = Ok body"
    and b: "build_request_builder L c POST ''relay/start'' = Ok b"
    and req: "lib_request_build L
       (b\<lparr>rq_headers := rq_headers b @ [(''idempotency-key'', trim key), (''content-type'', ''application/json'')],
         rq_body := Some body\<rparr>) = Ok req"
    by (auto simp: build_relay_start_request_def and_then_eq_Ok split: if_splits)
  from b have "rq_method b = POST \<and> rq_headers b =
      [(''authorization'', ''Bearer '' @ cl_access_jwt c),
       (''x-aegis-client-version'', trim (cl_client_version c)),
       (''x-aegis-client-platform'', trim (cl_client_platform c))]"
    by (auto simp: build_request_builder_def common_headers_def and_then_eq_Ok dest!: assms(2))
  with assms(3) [OF req] key body show ?thesis by simp
qed

theorem relay_start_request_headers_witness:
  "\<exists>req. build_relay_start_request sample_lib sample_client ''idem-123''
           \<lparr>sq_region_preference = Some ''auto'', sq_client_context = None\<rparr> = Ok req
     \<and> map_of (rq_headers req) ''idempotency-key'' = Some ''idem-123''"
proof -
  have t: "trim ''idem-123'' = ''idem-123''" by (simp add: trim_visible byte_def)
  obtain req where req: "build_relay_start_request sample_lib sample_client ''idem-123''
           \<lparr>sq_region_preference = Some ''auto'', sq_client_context = None\<rparr> = Ok req"
    by (simp add: build_relay_start_request_def build_request_builder_def common_headers_def
        sample_lib_def t)
  have h: "\<And>h v. lib_header_value sample_lib h = Ok v \<Longrightarrow> v = h"
    and b: "\<And>b r. lib_request_build sample_lib b = Ok r \<Longrightarrow> r = b"
    by (simp_all add: sample_lib_def)
  show ?thesis using relay_start_request_headers [OF req h b] req t by simp
qed

lemma send_Ok:
  "send L req parse = Ok a \<longleftrightarrow>
     (\<exists>status body. lib_execute L req = Ok (status, Ok body) \<and> parse status body = Ok a)"
  by (auto simp: send_def and_then_eq_Ok)

text \<open>A session lookup returns exactly in these cases: the server answered 204 and there is no
  session, or it answered another 2xx with a decodable envelope and the result is its session
  with the relay address normalised. Every other answer is an error.\<close>

theorem relay_active_ok:
  "relay_active L c = Ok r \<longleftrightarrow>
     (\<exists>req status body. build_request L c GET ''relay/active'' = Ok req
        \<and> lib_execute L req = Ok (status, Ok body)
        \<and> (if status = 204 then r = None
           else is_success status \<and> (\<exists>env. lib_parse_envelope L body = Ok env
                  \<and> r = Some (session_normalize (rse_session env)))))"
  by (force simp: relay_active_def and_then_eq_Ok send_Ok parse_relay_active_response_def
      split: if_splits)

text \<open>A relay start returns a session exactly when the idempotency key is not blank, the
  request was built and sent, and the server answered 200 or 201 with a decodable envelope;
  with a blank key the result is a configuration error and no request is ever sent.\<close>

lemma relay_start_ok:
  "(relay_start L c key request = Ok s \<longleftrightarrow>
     trim key \<noteq> [] \<and>
     (\<exists>req status body env. build_relay_start_request L c key request = Ok req
        \<and> lib_execute L req = Ok (status, Ok body) \<and> (status = 200 \<or> status = 201)
        \<and> lib_parse_envelope L body = Ok env \<and> s = session_normalize (rse_session env)))
   \<and> (trim key = [] \<longrightarrow> relay_start L c key request
        = Err (Config_Error ''Idempotency-Key must not be empty for relay/start''))"
proof -
  have blank: "trim key = [] \<Longrightarrow> build_relay_start_request L c key request
        = Err (Config_Error ''Idempotency-Key must not be empty for relay/start'')"
    by (simp add: build_relay_start_request_def)
  then show ?thesis
    by (cases "trim key = []")
       (force simp: relay_start_def and_then_eq_Ok send_Ok parse_relay_start_response_def
        split: if_splits)+
qed

end
