(* ===== verification/Ipc_Types.thy ===== *)
theory Ipc_Types
  imports Telemetry_Model Aegis_Client
begin

text \<open>
  The data of \<open>src/ipc/mod.rs\<close>: protocol constants, message payloads, envelopes, the debug
  status shared with the HTTP server, the protocol-error tracker, the session overrides and the
  status snapshot built from a telemetry frame, a relay session and the overrides.
\<close>

section \<open>Constants\<close>

definition IPC_PROTOCOL_VERSION :: u8 where
  "IPC_PROTOCOL_VERSION = 1"

definition MAX_FRAME_SIZE :: nat where
  "MAX_FRAME_SIZE = 64 * 1024"

definition READ_POLL_TIMEOUT :: duration where
  "READ_POLL_TIMEOUT = from_millis 250"

definition STATUS_PUSH_INTERVAL :: duration where
  "STATUS_PUSH_INTERVAL = from_millis 1000"

definition HEARTBEAT_TIMEOUT :: duration where
  "HEARTBEAT_TIMEOUT = from_millis 3500"

definition PROTOCOL_ERROR_WINDOW :: duration where
  "PROTOCOL_ERROR_WINDOW = from_secs 10"

definition PROTOCOL_ERROR_RESET_THRESHOLD :: nat where
  "PROTOCOL_ERROR_RESET_THRESHOLD = 5"

section \<open>Debug status\<close>

record ipc_switch_request_debug =
  qd_request_id :: string
  qd_scene_name :: string
  qd_reason :: string
  qd_deadline_ms :: u64
  qd_ts_unix_ms :: u64

record ipc_switch_result_debug =
  rd_request_id :: string
  rd_status :: string
  rd_error :: "string option"
  rd_ts_unix_ms :: u64

record ipc_debug_status =
  ds_session_connected :: bool
  ds_pending_switch_count :: u32
  ds_last_switch_request :: "ipc_switch_request_debug option"
  ds_last_switch_result :: "ipc_switch_result_debug option"
  ds_last_notice :: "string option"
  ds_updated_ts_unix_ms :: "u64 option"

definition new_debug_status :: ipc_debug_status where
  "new_debug_status =
     \<lparr>ds_session_connected = False, ds_pending_switch_count = 0, ds_last_switch_request = None,
      ds_last_switch_result = None, ds_last_notice = None, ds_updated_ts_unix_ms = None\<rparr>"

section \<open>Messages\<close>

datatype priority = Critical | High | Normal | Low

text \<open>The lanes of the protocol, from \<open>Low\<close> up to \<open>Critical\<close>.\<close>

primrec lane :: "priority \<Rightarrow> nat" where
  "lane Low = 0"
| "lane Normal = 1"
| "lane High = 2"
| "lane Critical = 3"

lemma lane_inj: "lane p = lane q \<longleftrightarrow> p = q"
  by (cases p; cases q) simp_all

instantiation priority :: linorder
begin

definition less_eq_priority :: "priority \<Rightarrow> priority \<Rightarrow> bool" where
  "less_eq_priority p q \<longleftrightarrow> lane p \<le> lane q"

definition less_priority :: "priority \<Rightarrow> priority \<Rightarrow> bool" where
  "less_priority p q \<longleftrightarrow> lane p < lane q"

instance
  by standard (auto simp: less_eq_priority_def less_priority_def lane_inj)

end

lemma priority_le_simps [simp]:
  "Normal \<le> Critical" "Normal \<le> High" "\<not> Normal \<le> Low"
  by (simp_all add: less_eq_priority_def)

record 'p envelope =
  ev_v :: u8
  ev_id :: string
  ev_ts_unix_ms :: u64
  ev_type :: string
  ev_priority :: priority
  ev_payload :: 'p

record hello_payload =
  hp_plugin_version :: string
  hp_protocol_version :: u8
  hp_obs_pid :: u32
  hp_capabilities :: "string list"

record ping_payload =
  pp_nonce :: string

record hello_ack_payload =
  ha_core_version :: string
  ha_protocol_version :: u8
  ha_capabilities :: "string list"

record pong_payload =
  po_nonce :: string

record scene_switch_result_payload =
  sr_request_id :: string
  sr_ok :: bool
  sr_error :: "string option"

record obs_shutdown_notice_payload =
  sn_reason :: string

record switch_scene_payload =
  sp_request_id :: string
  sp_scene_name :: string
  sp_reason :: string
  sp_deadline_ms :: u64

record set_mode_request_payload =
  mp_mode :: string

record set_setting_request_payload =
  tp_key :: string
  tp_value :: bool

datatype snapshot_mode = Studio | Irl

datatype snapshot_health = Good | Health_Degraded | Offline

datatype relay_status = Inactive | Provisioning | Active | Grace

datatype state_mode_v1 = Mode_Studio | Irl_Connecting | Irl_Active | Irl_Grace | Degraded | Fatal

record relay_snapshot =
  rl_status :: relay_status
  rl_region :: "string option"
  rl_grace_remaining_seconds :: u64

record status_snapshot_settings =
  st_auto_scene_switch :: "bool option"
  st_low_quality_fallback :: "bool option"
  st_manual_override :: "bool option"
  st_chat_bot :: "bool option"
  st_alerts :: "bool option"

record status_snapshot =
  ss_mode :: snapshot_mode
  ss_state_mode :: state_mode_v1
  ss_health :: snapshot_health
  ss_bitrate_kbps :: u32
  ss_rtt_ms :: u32
  ss_override_enabled :: bool
  ss_relay :: relay_snapshot
  ss_settings :: "status_snapshot_settings option"

datatype user_notice_level = Info | Warn | Error

record user_notice_payload =
  un_level :: user_notice_level
  un_message :: string

datatype protocol_error_code =
  FrameTooLarge | DecodeFailed | UnknownType | Timeout | InvalidPayload

record protocol_error_payload =
  pe_code :: protocol_error_code
  pe_message :: string
  pe_related_message_id :: "string option"

text \<open>The payloads the core sends: the instances of the envelope's type parameter.\<close>

datatype event_payload =
    Hello_Ack hello_ack_payload
  | Pong pong_payload
  | Status_Snapshot status_snapshot
  | Switch_Scene switch_scene_payload
  | User_Notice user_notice_payload
  | Protocol_Error protocol_error_payload

datatype core_ipc_command = SwitchScene (cmd_scene_name: string) (cmd_reason: string) (cmd_deadline_ms: u64)

record pending_switch_scene =
  ps_scene_name :: string
  ps_deadline_at :: instant

section \<open>Protocol-error tracker\<close>

text \<open>\<open>recent\<close> holds the instants of the errors in the window, oldest first. Recording appends
  the new instant, drops the expired ones from the front and compares the length with the
  threshold.\<close>

type_synonym protocol_error_tracker = "instant list"

definition tracker_new :: protocol_error_tracker where
  "tracker_new = []"

definition record_and_should_reset ::
    "instant \<Rightarrow> protocol_error_tracker \<Rightarrow> bool \<times> protocol_error_tracker" where
  "record_and_should_reset now recent =
     (let recent' = dropWhile (\<lambda>front. duration_since now front > PROTOCOL_ERROR_WINDOW) (recent @ [now])
      in (length recent' > PROTOCOL_ERROR_RESET_THRESHOLD, recent'))"

section \<open>Session overrides\<close>

record session_overrides =
  ov_mode :: "snapshot_mode option"
  ov_auto_scene_switch :: "bool option"
  ov_low_quality_fallback :: "bool option"
  ov_manual_override :: "bool option"
  ov_chat_bot :: "bool option"
  ov_alerts :: "bool option"

definition overrides_default :: session_overrides where
  "overrides_default =
     \<lparr>ov_mode = None, ov_auto_scene_switch = None, ov_low_quality_fallback = None,
      ov_manual_override = None, ov_chat_bot = None, ov_alerts = None\<rparr>"

definition set_mode_if_changed ::
    "snapshot_mode \<Rightarrow> session_overrides \<Rightarrow> bool \<times> session_overrides" where
  "set_mode_if_changed mode ov =
     (if ov_mode ov = Some mode then (False, ov) else (True, ov\<lparr>ov_mode := Some mode\<rparr>))"

definition apply_setting_if_changed ::
    "string \<Rightarrow> bool \<Rightarrow> session_overrides \<Rightarrow> (bool, unit) result \<times> session_overrides" where
  "apply_setting_if_changed key value ov =
     (if key = ''auto_scene_switch'' then
        (if ov_auto_scene_switch ov = Some value then (Ok False, ov)
         else (Ok True, ov\<lparr>ov_auto_scene_switch := Some value\<rparr>))
      else if key = ''low_quality_fallback'' then
        (if ov_low_quality_fallback ov = Some value then (Ok False, ov)
         else (Ok True, ov\<lparr>ov_low_quality_fallback := Some value\<rparr>))
      else if key = ''manual_override'' then
        (if ov_manual_override ov = Some value then (Ok False, ov)
         else (Ok True, ov\<lparr>ov_manual_override := Some value\<rparr>))
      else if key = ''chat_bot'' then
        (if ov_chat_bot ov = Some value then (Ok False, ov)
         else (Ok True, ov\<lparr>ov_chat_bot := Some value\<rparr>))
      else if key = ''alerts'' then
        (if ov_alerts ov = Some value then (Ok False, ov)
         else (Ok True, ov\<lparr>ov_alerts := Some value\<rparr>))
      else (Err (), ov))"

definition has_any_settings :: "session_overrides \<Rightarrow> bool" where
  "has_any_settings ov \<longleftrightarrow>
     ov_auto_scene_switch ov \<noteq> None \<or> ov_low_quality_fallback ov \<noteq> None
   \<or> ov_manual_override ov \<noteq> None \<or> ov_chat_bot ov \<noteq> None \<or> ov_alerts ov \<noteq> None"

section \<open>Status snapshot\<close>

definition derive_state_mode ::
    "telemetry_frame \<Rightarrow> relay_session option \<Rightarrow> state_mode_v1" where
  "derive_state_mode frame relay_session =
     (if \<not> of_connected (tf_obs frame) then Degraded
      else case map_option rs_status relay_session of
             None \<Rightarrow> Mode_Studio
           | Some st \<Rightarrow>
               if st = ''provisioning'' then Irl_Connecting
               else if st = ''active'' then Irl_Active
               else if st = ''grace'' then Irl_Grace
               else Mode_Studio)"

definition relay_snapshot_of :: "relay_session option \<Rightarrow> relay_snapshot" where
  "relay_snapshot_of relay_session =
     (case relay_session of
        Some session \<Rightarrow>
          \<lparr>rl_status =
             (if rs_status session = ''provisioning'' then Provisioning
              else if rs_status session = ''active'' then Active
              else if rs_status session = ''grace'' then Grace
              else Inactive),
           rl_region = rs_region session,
           rl_grace_remaining_seconds =
             unwrap_or (Option.bind (rs_timers session) rt_grace_remaining_seconds) 0\<rparr>
      | None \<Rightarrow> \<lparr>rl_status = Inactive, rl_region = None, rl_grace_remaining_seconds = 0\<rparr>)"

definition build_status_snapshot_with_overrides ::
    "telemetry_frame \<Rightarrow> relay_session option \<Rightarrow> session_overrides \<Rightarrow> status_snapshot" where
  "build_status_snapshot_with_overrides frame relay_session ov =
     (let state_mode = derive_state_mode frame relay_session;
          mode0 = (case state_mode of
                     Irl_Connecting \<Rightarrow> Irl | Irl_Active \<Rightarrow> Irl | Irl_Grace \<Rightarrow> Irl | _ \<Rightarrow> Studio);
          mode = unwrap_or (ov_mode ov) mode0;
          health = (if \<not> of_connected (tf_obs frame) then Offline
                    else if flt (tf_health frame) (Fin (1 / 2)) then Health_Degraded else Good)
      in \<lparr>ss_mode = mode,
          ss_state_mode = state_mode,
          ss_health = health,
          ss_bitrate_kbps = foldl saturating_add 0 (map so_bitrate_kbps (tf_streams frame)),
          ss_rtt_ms = as_u32 (fround (fmax (nf_latency_ms (tf_network frame)) (Fin 0))),
          ss_override_enabled = unwrap_or (ov_manual_override ov) False,
          ss_relay = relay_snapshot_of relay_session,
          ss_settings =
            (if has_any_settings ov
             then Some \<lparr>st_auto_scene_switch = ov_auto_scene_switch ov,
                        st_low_quality_fallback = ov_low_quality_fallback ov,
                        st_manual_override = ov_manual_override ov,
                        st_chat_bot = ov_chat_bot ov,
                        st_alerts = ov_alerts ov\<rparr>
             else None)\<rparr>)"

definition build_status_snapshot ::
    "telemetry_frame \<Rightarrow> relay_session option \<Rightarrow> status_snapshot" where
  "build_status_snapshot frame relay_session =
     build_status_snapshot_with_overrides frame relay_session overrides_default"

section \<open>The tracker is a sliding window\<close>

lemma dropWhile_sorted_filter:
  assumes "sorted ts" and "\<And>a b. a \<le> b \<Longrightarrow> P b \<Longrightarrow> P a"
  shows "dropWhile P ts = filter (\<lambda>t. \<not> P t) ts"
  using assms(1)
proof (induction ts)
  case (Cons t ts)
  show ?case
  proof (cases "P t")
    case False
    then have "\<forall>u \<in> set ts. \<not> P u" using Cons.prems assms(2) by auto
    with False show ?thesis by simp
  qed (use Cons in simp)
qed simp

lemma record_sorted:
  assumes "sorted (recent @ [now])"
  shows "snd (record_and_should_reset now recent)
    = filter (\<lambda>t. duration_since now t \<le> PROTOCOL_ERROR_WINDOW) (recent @ [now])"
proof -
  let ?P = "\<lambda>t. duration_since now t > PROTOCOL_ERROR_WINDOW"
  have "dropWhile ?P (recent @ [now]) = filter (\<lambda>t. \<not> ?P t) (recent @ [now])"
    using assms by (rule dropWhile_sorted_filter) (auto simp: duration_since_gt)
  then show ?thesis by (simp add: record_and_should_reset_def Let_def not_less)
qed

lemma record_fst:
  "fst (record_and_should_reset now recent)
     \<longleftrightarrow> length (snd (record_and_should_reset now recent)) > PROTOCOL_ERROR_RESET_THRESHOLD"
  by (simp add: record_and_should_reset_def Let_def)

definition track_all :: "instant list \<Rightarrow> protocol_error_tracker" where
  "track_all ts = fold (\<lambda>t r. snd (record_and_should_reset t r)) ts tracker_new"

lemma track_all_snoc: "track_all (ts @ [t]) = snd (record_and_should_reset t (track_all ts))"
  by (simp add: track_all_def)

lemma track_all_window:
  "sorted ts \<Longrightarrow> ts \<noteq> [] \<Longrightarrow>
     track_all ts = filter (\<lambda>t. duration_since (last ts) t \<le> PROTOCOL_ERROR_WINDOW) ts"
proof (induction ts rule: rev_induct)
  case (snoc now ts)
  have srt: "sorted ts" and le: "\<forall>t \<in> set ts. t \<le> now"
    using snoc.prems(1) by (auto simp: sorted_append)
  have sub: "track_all ts = filter (\<lambda>t. t \<in> set (track_all ts)) ts
      \<and> (\<forall>t \<in> set ts. duration_since now t \<le> PROTOCOL_ERROR_WINDOW \<longrightarrow> t \<in> set (track_all ts))"
  proof (cases "ts = []")
    case False
    have "last ts \<le> now" using le False by simp
    then have "\<And>t. duration_since (last ts) t \<le> duration_since now t"
      by (rule duration_since_mono)
    then show ?thesis
      using snoc.IH [OF srt False] by (fastforce intro: filter_cong elim: order_trans)
  qed (simp add: track_all_def tracker_new_def)
  let ?w = "\<lambda>t. duration_since now t \<le> PROTOCOL_ERROR_WINDOW"
  have "sorted (track_all ts @ [now])"
  proof -
    obtain Q where "track_all ts = filter Q ts" using sub by blast
    with srt le show ?thesis by (auto simp: sorted_append sorted_wrt_filter)
  qed
  then have "track_all (ts @ [now]) = filter ?w (track_all ts @ [now])"
    by (simp add: track_all_snoc record_sorted)
  also have "\<dots> = filter ?w (ts @ [now])"
    using sub by (metis (mono_tags, lifting) filter_append filter_cong filter_filter)
  finally show ?case by simp
qed simp

text \<open>C15. The protocol-error tracker, which only ever looks at the front of its queue, counts
  exactly the errors of the last ten seconds: after errors at the instants \<open>ts\<close> and a new one
  at \<open>now\<close>, it asks for a reset iff more than five of all of them lie within ten seconds of
  \<open>now\<close>.\<close>

theorem tracker_counts_window:
  assumes "sorted (ts @ [now])"
  shows "fst (record_and_should_reset now (track_all ts)) \<longleftrightarrow>
    length (filter (\<lambda>t. now - t \<le> 10 * 10 ^ 9) (ts @ [now])) > 5"
proof -
  have eq: "\<And>t. duration_since now t \<le> PROTOCOL_ERROR_WINDOW \<longleftrightarrow> now - t \<le> 10 * 10 ^ 9"
    by (auto simp: duration_since_def PROTOCOL_ERROR_WINDOW_def from_secs_def)
  have "track_all (ts @ [now])
      = filter (\<lambda>t. duration_since now t \<le> PROTOCOL_ERROR_WINDOW) (ts @ [now])"
    using track_all_window [OF assms] by simp
  then show ?thesis
    by (simp add: record_fst track_all_snoc PROTOCOL_ERROR_RESET_THRESHOLD_def eq)
qed

theorem tracker_counts_window_witness:
  "fst (record_and_should_reset 5 (track_all [0, 1, 2, 3, 4]))
   \<and> \<not> fst (record_and_should_reset (11 * 10 ^ 9) (track_all [0, 1, 2, 3, 4]))"
  using tracker_counts_window [of "[0, 1, 2, 3, 4]" 5]
    tracker_counts_window [of "[0, 1, 2, 3, 4]" "11 * 10 ^ 9"]
  by simp

section \<open>Override slots\<close>

text \<open>An override is a slot of the session state: it can be read and set, and setting it to
  the value it has changes nothing. The contract gives what "set if changed" means to a client:
  it reports a change iff the value differed, and a repeated request is a no-op.\<close>

locale setting_slot =
  fixes get :: "'s \<Rightarrow> 'v option"
    and set :: "'v \<Rightarrow> 's \<Rightarrow> 's"
    and set_if_changed :: "'v \<Rightarrow> 's \<Rightarrow> bool \<times> 's"
  assumes get_set: "get (set v s) = Some v"
    and set_if_changed: "set_if_changed v s = (if get s = Some v then (False, s) else (True, set v s))"
begin

lemma get_after: "get (snd (set_if_changed v s)) = Some v"
  by (simp add: set_if_changed get_set)

lemma changed_iff: "fst (set_if_changed v s) \<longleftrightarrow> get s \<noteq> Some v"
  by (simp add: set_if_changed)

lemma repeat_noop: "set_if_changed v (snd (set_if_changed v s)) = (False, snd (set_if_changed v s))"
  using get_after by (simp add: set_if_changed)

end

text \<open>The setting behind a request key, as the match of \<open>apply_setting_if_changed\<close> selects it.\<close>

definition setting_get :: "string \<Rightarrow> session_overrides \<Rightarrow> bool option" where
  "setting_get key ov =
     (if key = ''auto_scene_switch'' then ov_auto_scene_switch ov
      else if key = ''low_quality_fallback'' then ov_low_quality_fallback ov
      else if key = ''manual_override'' then ov_manual_override ov
      else if key = ''chat_bot'' then ov_chat_bot ov
      else if key = ''alerts'' then ov_alerts ov else None)"

definition setting_keys :: "string list" where
  "setting_keys = [''auto_scene_switch'', ''low_quality_fallback'', ''manual_override'',
                   ''chat_bot'', ''alerts'']"

interpretation mode_slot: setting_slot ov_mode "\<lambda>m. ov_mode_update (\<lambda>_. Some m)" set_mode_if_changed
  by unfold_locales (simp_all add: set_mode_if_changed_def)

interpretation auto_slot: setting_slot ov_auto_scene_switch
  "\<lambda>v. ov_auto_scene_switch_update (\<lambda>_. Some v)"
  "\<lambda>v ov. map_prod projr id (apply_setting_if_changed ''auto_scene_switch'' v ov)"
  by unfold_locales (simp_all add: apply_setting_if_changed_def)

interpretation low_quality_slot: setting_slot ov_low_quality_fallback
  "\<lambda>v. ov_low_quality_fallback_update (\<lambda>_. Some v)"
  "\<lambda>v ov. map_prod projr id (apply_setting_if_changed ''low_quality_fallback'' v ov)"
  by unfold_locales (simp_all add: apply_setting_if_changed_def)

interpretation manual_slot: setting_slot ov_manual_override
  "\<lambda>v. ov_manual_override_update (\<lambda>_. Some v)"
  "\<lambda>v ov. map_prod projr id (apply_setting_if_changed ''manual_override'' v ov)"
  by unfold_locales (simp_all add: apply_setting_if_changed_def)

interpretation chat_slot: setting_slot ov_chat_bot
  "\<lambda>v. ov_chat_bot_update (\<lambda>_. Some v)"
  "\<lambda>v ov. map_prod projr id (apply_setting_if_changed ''chat_bot'' v ov)"
  by unfold_locales (simp_all add: apply_setting_if_changed_def)

interpretation alerts_slot: setting_slot ov_alerts
  "\<lambda>v. ov_alerts_update (\<lambda>_. Some v)"
  "\<lambda>v ov. map_prod projr id (apply_setting_if_changed ''alerts'' v ov)"
  by unfold_locales (simp_all add: apply_setting_if_changed_def)

lemma apply_setting_Err: "fst (apply_setting_if_changed key v ov) = Err () \<longleftrightarrow> key \<notin> set setting_keys"
  by (auto simp: apply_setting_if_changed_def setting_keys_def)

lemma setting_get_update:
  "setting_get k (ov\<lparr>ov_auto_scene_switch := Some v\<rparr>)
     = (if k = ''auto_scene_switch'' then Some v else setting_get k ov)"
  "setting_get k (ov\<lparr>ov_low_quality_fallback := Some v\<rparr>)
     = (if k = ''low_quality_fallback'' then Some v else setting_get k ov)"
  "setting_get k (ov\<lparr>ov_manual_override := Some v\<rparr>)
     = (if k = ''manual_override'' then Some v else setting_get k ov)"
  "setting_get k (ov\<lparr>ov_chat_bot := Some v\<rparr>)
     = (if k = ''chat_bot'' then Some v else setting_get k ov)"
  "setting_get k (ov\<lparr>ov_alerts := Some v\<rparr>)
     = (if k = ''alerts'' then Some v else setting_get k ov)"
  by (simp_all add: setting_get_def)

lemma setting_get_key:
  "setting_get ''auto_scene_switch'' ov = ov_auto_scene_switch ov"
  "setting_get ''low_quality_fallback'' ov = ov_low_quality_fallback ov"
  "setting_get ''manual_override'' ov = ov_manual_override ov"
  "setting_get ''chat_bot'' ov = ov_chat_bot ov"
  "setting_get ''alerts'' ov = ov_alerts ov"
  by (simp_all add: setting_get_def)

lemma setting_keys_cases:
  "key \<in> set setting_keys \<Longrightarrow>
     key = ''auto_scene_switch'' \<or> key = ''low_quality_fallback'' \<or> key = ''manual_override''
   \<or> key = ''chat_bot'' \<or> key = ''alerts''"
  by (simp only: setting_keys_def list.set insert_iff empty_iff simp_thms)

lemma setting_get_apply:
  assumes "key \<in> set setting_keys"
  shows "setting_get k (snd (apply_setting_if_changed key v ov))
    = (if k = key then Some v else setting_get k ov)"
  using setting_keys_cases [OF assms]
  by (elim disjE)
     (simp_all add: apply_setting_if_changed_def setting_get_update setting_get_key)

text \<open>A setting request for a known key stores the value under that key and under no other,
  leaves the mode override alone, reports a change iff the stored value differed, and is a no-op
  when repeated; for an unknown key it is an error and changes nothing.\<close>

theorem apply_setting_spec:
  "(if key \<in> set setting_keys
    then (\<exists>ov'. apply_setting_if_changed key v ov = (Ok (setting_get key ov \<noteq> Some v), ov')
       \<and> (\<forall>k. setting_get k ov' = (if k = key then Some v else setting_get k ov))
       \<and> ov_mode ov' = ov_mode ov
       \<and> apply_setting_if_changed key v ov' = (Ok False, ov'))
    else apply_setting_if_changed key v ov = (Err (), ov))"
proof (cases "key \<in> set setting_keys")
  case True
  from setting_keys_cases [OF this]
  have "fst (apply_setting_if_changed key v ov) = Ok (setting_get key ov \<noteq> Some v)
      \<and> ov_mode (snd (apply_setting_if_changed key v ov)) = ov_mode ov
      \<and> apply_setting_if_changed key v (snd (apply_setting_if_changed key v ov))
          = (Ok False, snd (apply_setting_if_changed key v ov))"
    by (elim disjE) (simp_all add: apply_setting_if_changed_def setting_get_key)
  moreover have "setting_get k (snd (apply_setting_if_changed key v ov))
      = (if k = key then Some v else setting_get k ov)" for k
    using \<open>key \<in> set setting_keys\<close> by (rule setting_get_apply)
  ultimately show ?thesis
    using True by (simp only: if_True, intro exI [of _ "snd (apply_setting_if_changed key v ov)"])
                  (simp add: prod_eq_iff)
next
  case False
  then show ?thesis
    by (simp add: apply_setting_if_changed_def setting_keys_def)
qed

section \<open>Snapshot\<close>

lemma unat_foldl_saturating_add:
  fixes xs :: "'a::len word list"
  shows "unat (foldl saturating_add a xs) = min (2 ^ LENGTH('a) - 1) (unat a + sum_list (map unat xs))"
proof (induction xs arbitrary: a)
  case Nil
  have "unat a \<le> 2 ^ LENGTH('a) - 1"
    using unsigned_less [of a] by (metis Suc_pred' less_Suc_eq_le zero_less_numeral zero_less_power)
  then show ?case by simp
next
  case (Cons x xs)
  obtain m where "(2::nat) ^ LENGTH('a) = Suc m"
    by (metis Suc_pred' zero_less_numeral zero_less_power)
  then show ?case
    by (simp add: Cons.IH unat_saturating_add min_def)
qed

text \<open>The bit rate of a snapshot is the sum of the bit rates of all outputs, capped at the
  largest 32-bit value: it never wraps around.\<close>

theorem snapshot_bitrate:
  "unat (ss_bitrate_kbps (build_status_snapshot_with_overrides frame relay ov))
     = min (2 ^ 32 - 1) (\<Sum>o' \<leftarrow> tf_streams frame. unat (so_bitrate_kbps o'))"
  by (simp add: build_status_snapshot_with_overrides_def Let_def unat_foldl_saturating_add
      comp_def)

text \<open>The mode of a snapshot is the override when one is set; otherwise it is IRL iff OBS is
  connected and the relay session is provisioning, active or in grace. The state mode is
  DEGRADED iff OBS is disconnected, and then the health is offline; FATAL is never reported.\<close>

theorem snapshot_mode_follows_relay:
  "let snap = build_status_snapshot_with_overrides frame relay ov in
     ss_mode snap = (case ov_mode ov of Some m \<Rightarrow> m | None \<Rightarrow>
       if of_connected (tf_obs frame) \<and> (\<exists>s. relay = Some s
          \<and> rs_status s \<in> {''provisioning'', ''active'', ''grace''}) then Irl else Studio)
     \<and> (ss_state_mode snap = Degraded \<longleftrightarrow> \<not> of_connected (tf_obs frame))
     \<and> (ss_health snap = Offline \<longleftrightarrow> \<not> of_connected (tf_obs frame))
     \<and> ss_state_mode snap \<noteq> Fatal"
proof -
  have "derive_state_mode frame relay \<in> {Irl_Connecting, Irl_Active, Irl_Grace} \<longleftrightarrow>
      of_connected (tf_obs frame) \<and> (\<exists>s. relay = Some s
        \<and> rs_status s \<in> {''provisioning'', ''active'', ''grace''})"
    and "derive_state_mode frame relay = Degraded \<longleftrightarrow> \<not> of_connected (tf_obs frame)"
    and "derive_state_mode frame relay \<noteq> Fatal"
    by (auto simp: derive_state_mode_def split: option.splits)
  then show ?thesis
    by (cases "derive_state_mode frame relay"; cases "ov_mode ov")
       (simp_all add: build_status_snapshot_with_overrides_def Let_def)
qed

lemma floor_half: "\<lfloor>1 / 2 :: rat\<rfloor> = 0"
  by (rule floor_unique) simp_all

lemma unat_as_u32_of_int: "0 \<le> n \<Longrightarrow> unat (as_u32 (Fin (of_int n))) = min (2 ^ 32 - 1) (nat n)"
proof (cases "n < 2 ^ 32 - 1")
  case True
  then have "(of_int n :: rat) < of_int (2 ^ 32 - 1)"
    by (simp only: of_int_less_iff)
  then have "(of_int n :: rat) < 2 ^ 32 - 1" by simp
  moreover assume "0 \<le> n"
  ultimately show ?thesis
    using True as_u32_Fin [of "of_int n"] by simp
next
  case False
  then have "\<not> (of_int n :: rat) < of_int (2 ^ 32 - 1)"
    by (simp only: of_int_less_iff not_False_eq_True)
  then have "\<not> (of_int n :: rat) < 2 ^ 32 - 1" by simp
  moreover assume "0 \<le> n"
  ultimately show ?thesis using False by (simp add: unsigned_minus_1_eq_mask mask_eq_exp_minus_1)
qed

text \<open>The round-trip time of a snapshot is the latency rounded to the nearest millisecond
  (halves up), at least 0 and at most the largest 32-bit value; a NaN becomes 0.\<close>

theorem snapshot_rtt:
  "unat (ss_rtt_ms (build_status_snapshot_with_overrides frame relay ov)) =
     (case nf_latency_ms (tf_network frame) of
        NaN \<Rightarrow> 0
      | Inf s \<Rightarrow> if s then 0 else 2 ^ 32 - 1
      | Fin x \<Rightarrow> min (2 ^ 32 - 1) (nat \<lfloor>x + 1 / 2\<rfloor>))"
proof (cases "nf_latency_ms (tf_network frame)")
  case (Fin x)
  show ?thesis
  proof (cases "x < 0")
    case True
    then have "nat \<lfloor>x + 1 / 2\<rfloor> = 0" by (simp add: floor_le_iff)
    with Fin True show ?thesis
      by (simp add: build_status_snapshot_with_overrides_def Let_def fmax_def floor_half)
  next
    case False
    then have "0 \<le> \<lfloor>x + 1 / 2\<rfloor>" by simp
    with Fin False show ?thesis
      by (simp add: build_status_snapshot_with_overrides_def Let_def fmax_def
          unat_as_u32_of_int del: as_u32.simps)
  qed
qed (simp_all add: build_status_snapshot_with_overrides_def Let_def fmax_def floor_half
    unsigned_minus_1_eq_mask mask_eq_exp_minus_1)

end
