(* ===== verification/Settings_Page.thy ===== *)
theory Settings_Page
  imports Rust_Std
begin

text \<open>
  The text of the settings page of \<open>src/server/mod.rs\<close> (\<open>settings_page\<close>): the format string, cut into
  literals and the places where a value is put in, and its rendering. Literals are taken over as they
  are, with the doubled braces of the format string made single.
\<close>

datatype piece =
    Lit string
  | Css
  | Token
  | Obs_Host
  | Obs_Port
  | Grafana_Status
  | Grafana_Endpoint
  | Grafana_Interval

text \<open>The values, already escaped where the handler escapes them.\<close>

record settings_view =
  vw_css :: string
  vw_token :: string
  vw_obs_host :: string
  vw_obs_port :: u16
  vw_grafana_configured :: bool
  vw_grafana_endpoint :: string
  vw_grafana_interval :: u64

definition page_head :: "piece list" where
  "page_head =
     [Lit ''<!doctype html>
<html>
<head>
  <meta charset=\"utf-8\" />
  <title>Telemy - Settings</title>
  <style>
    :root { '',
      Css,
      Lit '' }
    body { margin:0; font-family:var(--font); background:var(--bg); color:#e6f0ff; }
    .wrap { max-width:480px; margin:40px auto; padding:0 16px; }
    h1 { font-size:20px; margin-bottom:20px; }
    h2 { font-size:16px; margin-top:28px; margin-bottom:8px; border-top:1px solid var(--line); padding-top:18px; }
    label { display:block; font-size:13px; color:var(--muted); margin-bottom:4px; margin-top:14px; }
    input { width:100%; box-sizing:border-box; padding:8px 10px; background:var(--panel);
             border:1px solid var(--line); border-radius:4px; color:#e6f0ff; font-size:14px;
             font-family:var(--font); }
    input:focus { outline:none; border-color:var(--good); }
    button { margin-top:20px; padding:10px 20px; background:var(--good); color:#0b0e12;
              border:none; border-radius:4px; font-size:14px; font-weight:bold; cursor:pointer; }
    button:hover { opacity:0.9; }
    .msg { margin-top:14px; padding:8px 12px; border-radius:6px; font-size:13px; display:none; }
    .msg-ok { background:#1a2e1a; border:1px solid var(--good); color:var(--good); display:block; }
    .msg-err { background:#2e1a1a; border:1px solid var(--bad); color:var(--bad); display:block; }
    .back { font-size:12px; color:var(--muted); text-decoration:none; margin-bottom:20px; display:inline-block; }
    .back:hover { color:#e6f0ff; }
    .help { color:var(--muted); font-size:11px; margin-top:2px; }
    .status { padding:8px 12px; border-radius:6px; margin-bottom:12px; font-size:13px; }
    .status-ok { background:#1a2e1a; border:1px solid var(--good); color:var(--good); }
    .status-off { background:#2e1a1a; border:1px solid var(--bad); color:var(--bad); }
    .note { color:var(--muted); font-size:12px; margin-top:8px; }
  </style>
</head>
<body>
  <div class=\"wrap\">
    <a href=\"/obs?token='',
      Token,
      Lit ''\" class=\"back\">&larr; Back to Dashboard</a>
    <h1>Settings</h1>
    <div id=\"msg\" class=\"msg\"></div>
    <form id=\"settingsForm\">

'']"

definition obs_section :: "piece list" where
  "obs_section =
     [Lit ''      <h2>OBS Connection</h2>
      <label for=\"obs_host\">OBS Host</label>
      <input id=\"obs_host\" name=\"obs_host\" type=\"text\" value=\"'',
      Obs_Host,
      Lit ''\" required />

      <label for=\"obs_port\">OBS WebSocket Port</label>
      <input id=\"obs_port\" name=\"obs_port\" type=\"number\" value=\"'',
      Obs_Port,
      Lit ''\" required />

      <label for=\"obs_password\">OBS WebSocket Password</label>
      <input id=\"obs_password\" name=\"obs_password\" type=\"password\" placeholder=\"Leave blank to keep current\" />
      <div class=\"help\">Only fill in to change the stored password</div>

'']"

definition grafana_section :: "piece list" where
  "grafana_section =
     [Lit ''      <h2>Grafana Cloud</h2>
      '',
      Grafana_Status,
      Lit ''

      <label for=\"grafana_endpoint\">OTLP Endpoint</label>
      <input id=\"grafana_endpoint\" name=\"grafana_endpoint\" type=\"url\" value=\"'',
      Grafana_Endpoint,
      Lit ''\"
             placeholder=\"https://otlp-gateway-prod-us-east-0.grafana.net/otlp\" />
      <div class=\"help\">Found in Grafana Cloud &rarr; OpenTelemetry &rarr; Configure</div>

      <label for=\"grafana_instance_id\">Instance ID</label>
      <input id=\"grafana_instance_id\" name=\"grafana_instance_id\" type=\"text\"
             placeholder=\"123456\" />
      <div class=\"help\">Your Grafana Cloud stack instance number</div>

      <label for=\"grafana_api_token\">API Token</label>
      <input id=\"grafana_api_token\" name=\"grafana_api_token\" type=\"password\"
             placeholder=\"glc_eyJ...\" />
      <div class=\"help\">Generate under Security &rarr; API Keys with MetricsPublisher role</div>

      <label for=\"grafana_interval\">Push Interval (ms)</label>
      <input id=\"grafana_interval\" name=\"grafana_interval\" type=\"number\" value=\"'',
      Grafana_Interval,
      Lit ''\" required />

      <div class=\"note\">Restart Telemy after saving for connection changes to take effect.</div>

      <button type=\"submit\">Save Changes</button>
    </form>

'']"

definition import_section :: "piece list" where
  "import_section =
     [Lit ''    <h2>Grafana Dashboard</h2>
    <div class=\"note\" style=\"margin-bottom:12px;\">Import a pre-built Telemy dashboard into Grafana to visualize your metrics.</div>
    <a href=\"/grafana-dashboard?token='',
      Token,
      Lit ''\" download=\"telemy-dashboard.json\"
       style=\"display:inline-block; padding:8px 16px; background:var(--panel); border:1px solid var(--line);
              border-radius:4px; color:#e6f0ff; text-decoration:none; font-size:13px; cursor:pointer;\">
      Download Dashboard JSON
    </a>
    <div class=\"help\" style=\"margin-top:6px;\">Import this file in Grafana &rarr; Dashboards &rarr; Import</div>

    <details style=\"margin-top:16px;\">
      <summary style=\"cursor:pointer; color:var(--muted); font-size:13px;\">Auto-import via Grafana API (optional)</summary>
      <div style=\"margin-top:10px;\">
        <label for=\"grafana_url\">Grafana URL</label>
        <input id=\"grafana_url\" type=\"url\" placeholder=\"https://yourstack.grafana.net\" />
        <div class=\"help\">Your Grafana instance URL (not the OTLP endpoint)</div>

        <label for=\"grafana_org_key\">Service Account Token</label>
        <input id=\"grafana_org_key\" type=\"password\" placeholder=\"glsa_...\" />
        <div class=\"help\">Needs Dashboard Editor permissions. Create under Administration &rarr; Service Accounts.</div>

        <button type=\"button\" id=\"importBtn\"
                style=\"margin-top:12px; padding:8px 16px; background:var(--panel); border:1px solid var(--good);
                       color:var(--good); border-radius:4px; font-size:13px; cursor:pointer;\">
          Import Dashboard
        </button>
        <div id=\"importMsg\" class=\"msg\" style=\"margin-top:8px;\"></div>
      </div>
    </details>
  </div>
'']"

definition page_script :: "piece list" where
  "page_script =
     [Lit ''  <script>
    const params = new URLSearchParams(window.location.search);
    const token = params.get(\"token\");

    document.getElementById(\"settingsForm\").addEventListener(\"submit\", async (e) => {
      e.preventDefault();
      const msg = document.getElementById(\"msg\");
      const data = new URLSearchParams(new FormData(e.target));
      try {
        const res = await fetch(\"/settings\", {
          method: \"POST\",
          headers: {
            \"Content-Type\": \"application/x-www-form-urlencoded\",
            \"Authorization\": \"Bearer \" + token
          },
          body: data,
        });
        const text = await res.text();
        msg.textContent = text;
        msg.className = res.ok ? \"msg msg-ok\" : \"msg msg-err\";
      } catch (err) {
        msg.textContent = \"Request failed: \" + err.message;
        msg.className = \"msg msg-err\";
      }
    });

    document.getElementById(\"importBtn\").addEventListener(\"click\", async () => {
      const importMsg = document.getElementById(\"importMsg\");
      const grafanaUrl = document.getElementById(\"grafana_url\").value.trim();
      const grafanaKey = document.getElementById(\"grafana_org_key\").value.trim();
      if (!grafanaUrl || !grafanaKey) {
        importMsg.textContent = \"Both Grafana URL and API key are required.\";
        importMsg.className = \"msg msg-err\";
        return;
      }
      const data = new URLSearchParams({ grafana_url: grafanaUrl, grafana_api_key: grafanaKey });
      try {
        const res = await fetch(\"/grafana-dashboard/import?token=\" + token, {
          method: \"POST\",
          headers: {
            \"Content-Type\": \"application/x-www-form-urlencoded\",
            \"Authorization\": \"Bearer \" + token
          },
          body: data,
        });
        const text = await res.text();
        importMsg.textContent = text;
        importMsg.className = res.ok ? \"msg msg-ok\" : \"msg msg-err\";
      } catch (err) {
        importMsg.textContent = \"Request failed: \" + err.message;
        importMsg.className = \"msg msg-err\";
      }
    });
  </script>
</body>
</html>'']"

definition grafana_status :: "bool \<Rightarrow> string" where
  "grafana_status grafana_configured =
     (if grafana_configured
      then ''<div class=\"status status-ok\">Grafana Cloud: Connected</div>''
      else ''<div class=\"status status-off\">Grafana Cloud: Not Configured</div>'')"

primrec fill :: "settings_view \<Rightarrow> piece \<Rightarrow> string" where
  "fill v (Lit s) = s"
| "fill v Css = vw_css v"
| "fill v Token = vw_token v"
| "fill v Obs_Host = vw_obs_host v"
| "fill v Obs_Port = show_nat (unat (vw_obs_port v))"
| "fill v Grafana_Status = grafana_status (vw_grafana_configured v)"
| "fill v Grafana_Endpoint = vw_grafana_endpoint v"
| "fill v Grafana_Interval = show_nat (unat (vw_grafana_interval v))"

definition settings_html :: "settings_view \<Rightarrow> string" where
  "settings_html v =
     concat (map (fill v) (page_head @ obs_section @ grafana_section @ import_section @ page_script))"

section \<open>Markup\<close>

text \<open>The characters that open and close tags and attribute values.\<close>

definition is_markup :: "char \<Rightarrow> bool" where
  "is_markup c \<longleftrightarrow> c \<in> {CHR ''<'', CHR ''>'', CHR 0x22, CHR 0x27}"

lemma no_markup_show_nat [simp]: "filter is_markup (show_nat n) = []"
proof -
  have "is_ascii_digit c \<Longrightarrow> \<not> is_markup c" for c
    by (auto simp: is_markup_def is_ascii_digit_def byte_def)
  then show ?thesis using show_nat_digits [of _ n] by (auto simp: filter_empty_conv)
qed

text \<open>The skeleton of a page depends on the theme and the Grafana flag only, when the other texts put
  into it are free of markup.\<close>

lemma settings_skeleton:
  assumes "filter is_markup (vw_css v) = filter is_markup (vw_css w)"
    and "vw_grafana_configured v = vw_grafana_configured w"
    and "\<And>u. u \<in> {v, w} \<Longrightarrow>
      filter is_markup (vw_token u) = [] \<and> filter is_markup (vw_obs_host u) = []
    \<and> filter is_markup (vw_grafana_endpoint u) = []"
  shows "filter is_markup (settings_html v) = filter is_markup (settings_html w)"
proof -
  have "filter is_markup (fill v p) = filter is_markup (fill w p)" for p
    using assms by (cases p) simp_all
  then have "filter is_markup (concat (map (fill v) ps)) = filter is_markup (concat (map (fill w) ps))" for ps
    by (induction ps) simp_all
  then show ?thesis by (simp only: settings_html_def)
qed

end
