(* ===== verification/Http_Server.thy ===== *)
theory Http_Server
  imports Vault Ipc_Types Dashboard_Page
begin

text \<open>
  The local HTTP server of \<open>src/server/mod.rs\<close>: the token check, the escaping of the pages, and one
  definition per route, from a request and the server's state to a response and the state after
  it. The state holds what the handlers share: the token, the theme, the vault, the flag that
  Grafana is configured, the last known relay session, the commands queued for the IPC session, the
  IPC debug status and the files of the machine. The rest of the world (operating system,
  libraries, network, clock, random numbers, an included file) is the environment record.
\<close>

section \<open>State, environment, requests and responses\<close>

record server_state =
  hs_token :: string
  hs_theme :: theme_config
  hs_vault :: vault
  hs_grafana_configured :: bool
  hs_aegis_session :: "relay_session option"
  hs_ipc_queue :: "core_ipc_command list"
  hs_ipc_debug :: ipc_debug_status
  hs_files :: files

text \<open>\<open>he_header_to_str\<close> is \<open>HeaderValue::to_str\<close>; \<open>he_send_error\<close> is the error of the broadcast
  channel when it has no receiver; \<open>he_dashboard_json\<close> is the included file of the Grafana dashboard.\<close>

record 'u http_env =
  he_os :: os
  he_vault_lib :: vault_lib
  he_http_lib :: "'u http_lib"
  he_header_to_str :: "string \<Rightarrow> string option"
  he_show_status :: "u16 \<Rightarrow> string"
  he_unix_secs :: nat
  he_unix_millis :: nat
  he_random_suffix :: string
  he_send_error :: "string option"
  he_dashboard_json :: string

text \<open>The parts of a request that the guards read: \<open>HeaderMap::get\<close> and the query parameters.\<close>

record http_get =
  hr_header :: "string \<Rightarrow> string option"
  hr_query :: "string \<rightharpoonup> string"

record settings_form =
  fm_obs_host :: string
  fm_obs_port :: u16
  fm_obs_password :: "string option"
  fm_grafana_interval :: u64
  fm_grafana_endpoint :: "string option"
  fm_grafana_instance_id :: "string option"
  fm_grafana_api_token :: "string option"

record grafana_import_form =
  gi_grafana_url :: string
  gi_grafana_api_key :: string

record ipc_switch_scene_request =
  wr_scene_name :: string
  wr_reason :: "string option"
  wr_deadline_ms :: "u64 option"
  wr_allow_empty :: "bool option"

record aegis_status_response =
  sa_enabled :: bool
  sa_session :: "relay_session option"
  sa_refreshed :: bool
  sa_error :: "string option"

record aegis_action_response =
  aa_ok :: bool
  aa_message :: string
  aa_session :: "relay_session option"
  aa_error :: "string option"

record ipc_switch_scene_response =
  wo_ok :: bool
  wo_message :: string

datatype body =
    No_Body
  | Text string
  | Html string
  | Redirect string
  | Upgrade
  | Health nat
  | Names "(string \<times> string) list"
  | Attachment string
  | Aegis_Status aegis_status_response
  | Aegis_Action aegis_action_response
  | Ipc_Status ipc_debug_status
  | Switch_Scene_Reply ipc_switch_scene_response

type_synonym response = "nat \<times> body"

section \<open>Token check\<close>

datatype query_token_policy = Allow | Deny

definition is_token_valid ::
    "(string \<Rightarrow> string option) \<Rightarrow> http_get \<Rightarrow> string \<Rightarrow> query_token_policy \<Rightarrow> bool" where
  "is_token_valid to_str req token policy =
     (case Option.bind (Option.bind (hr_header req ''authorization'') to_str) (strip_prefix ''Bearer '') of
        Some provided_token \<Rightarrow> provided_token = token
      | None \<Rightarrow>
          if policy = Allow then unwrap_or (map_option (\<lambda>t. t = token) (hr_query req ''token'')) False
          else False)"

definition authorized :: "'u http_env \<Rightarrow> http_get \<Rightarrow> server_state \<Rightarrow> query_token_policy \<Rightarrow> bool" where
  "authorized env req st policy = is_token_valid (he_header_to_str env) req (hs_token st) policy"

section \<open>Pages\<close>

definition html_escape :: "string \<Rightarrow> string" where
  "html_escape s =
     replace_char (CHR 0x27) ''&#x27;''
    (replace_char (CHR 0x22) ''&quot;''
    (replace_char (CHR ''>'') ''&gt;''
    (replace_char (CHR ''<'') ''&lt;''
    (replace_char (CHR ''&'') ''&amp;'' s))))"

definition theme_css :: "theme_config \<Rightarrow> string" where
  "theme_css theme =
     ''--font: '' @ th_font_family theme @ ''; --bg: '' @ th_bg theme @ ''; --panel: '' @ th_panel theme
     @ ''; --muted: '' @ th_muted theme @ ''; --good: '' @ th_good theme @ ''; --warn: '' @ th_warn theme
     @ ''; --bad: '' @ th_bad theme @ ''; --line: '' @ th_line theme @ '';''"

definition unauthorized :: response where
  "unauthorized = (401, No_Body)"

definition unauthorized_text :: response where
  "unauthorized_text = (401, Text ''Unauthorized'')"

definition health_check :: "'u http_env \<Rightarrow> response" where
  "health_check env = (200, Health (he_unix_secs env))"

definition obs_page :: "'u http_env \<Rightarrow> http_get \<Rightarrow> server_state \<Rightarrow> response" where
  "obs_page env req st =
     (if \<not> authorized env req st Allow then unauthorized
      else (200, Html (dashboard_html (theme_css (hs_theme st)) (html_escape (hs_token st)))))"

text \<open>\<open>Config::load\<close> with the error response of every handler that starts with it.\<close>

definition load_config :: "'u http_env \<Rightarrow> server_state \<Rightarrow> (config, string) result" where
  "load_config env st = load (he_os env) (hs_files st)"

definition load_failed :: "string \<Rightarrow> response" where
  "load_failed e = (500, Text (''Failed to load config: '' @ e))"

definition settings_page :: "'u http_env \<Rightarrow> http_get \<Rightarrow> server_state \<Rightarrow> response" where
  "settings_page env req st =
     (if \<not> authorized env req st Allow then unauthorized
      else case load_config env st of
             Err e \<Rightarrow> load_failed e
           | Ok config \<Rightarrow>
               (200, Html (settings_html
                  \<lparr>vw_css = theme_css (hs_theme st), vw_token = html_escape (hs_token st),
                   vw_obs_host = html_escape (oc_host (cf_obs config)),
                   vw_obs_port = oc_port (cf_obs config),
                   vw_grafana_configured = hs_grafana_configured st,
                   vw_grafana_endpoint = html_escape (unwrap_or (gc_endpoint (cf_grafana config)) []),
                   vw_grafana_interval = gc_push_interval_ms (cf_grafana config)\<rparr>)))"

definition setup_page :: "http_get \<Rightarrow> response" where
  "setup_page req =
     (307, Redirect (''/settings?token='' @ html_escape (unwrap_or (hr_query req ''token'') [])))"

definition ws_handler :: "'u http_env \<Rightarrow> http_get \<Rightarrow> server_state \<Rightarrow> response" where
  "ws_handler env req st =
     (if \<not> authorized env req st Allow then unauthorized else (101, Upgrade))"

section \<open>Settings\<close>

definition store_secret ::
    "'u http_env \<Rightarrow> string \<Rightarrow> string \<Rightarrow> server_state \<Rightarrow> (unit, string) result \<times> server_state" where
  "store_secret env key secret st =
     (let (res, v, fs) =
        vault_store (he_os env) (he_vault_lib env) (hs_files st) key secret (hs_vault st)
      in (res, st\<lparr>hs_vault := v, hs_files := fs\<rparr>))"

definition save_config ::
    "'u http_env \<Rightarrow> config \<Rightarrow> string \<Rightarrow> server_state \<Rightarrow> response \<times> server_state" where
  "save_config env config message st =
     (case save (he_os env) (hs_files st) config of
        (Ok _, fs) \<Rightarrow> ((200, Text message), st\<lparr>hs_files := fs\<rparr>)
      | (Err e, fs) \<Rightarrow> ((500, Text (''Failed to save config: '' @ e)), st\<lparr>hs_files := fs\<rparr>))"

definition submit_password ::
    "'u http_env \<Rightarrow> settings_form \<Rightarrow> config \<Rightarrow> server_state
       \<Rightarrow> (config, response) result \<times> server_state" where
  "submit_password env form config st =
     (case fm_obs_password form of
        None \<Rightarrow> (Ok config, st)
      | Some pw \<Rightarrow>
          if pw = [] then (Ok config, st)
          else (case store_secret env ''obs_password'' pw st of
                  (Err e, st) \<Rightarrow> (Err (500, Text (''Failed to store OBS password: '' @ e)), st)
                | (Ok _, st) \<Rightarrow>
                    (Ok (config\<lparr>cf_obs := (cf_obs config)\<lparr>oc_password_key := Some ''obs_password''\<rparr>\<rparr>), st)))"

definition submit_grafana ::
    "'u http_env \<Rightarrow> settings_form \<Rightarrow> config \<Rightarrow> server_state
       \<Rightarrow> (config, response) result \<times> server_state" where
  "submit_grafana env form config st =
     (let config = config\<lparr>cf_grafana :=
            (cf_grafana config)\<lparr>gc_push_interval_ms := fm_grafana_interval form\<rparr>\<rparr>;
          endpoint = trim (unwrap_or (fm_grafana_endpoint form) []);
          instance_id = trim (unwrap_or (fm_grafana_instance_id form) []);
          api_token = trim (unwrap_or (fm_grafana_api_token form) [])
      in if endpoint \<noteq> [] \<and> instance_id \<noteq> [] \<and> api_token \<noteq> [] then
           (let credentials = instance_id @ '':'' @ api_token;
                auth_value = ''Basic '' @ vl_b64_encode (he_vault_lib env) credentials
            in case store_secret env ''grafana_auth'' auth_value st of
                 (Err e, st) \<Rightarrow> (Err (500, Text (''Failed to store Grafana credentials: '' @ e)), st)
               | (Ok _, st) \<Rightarrow>
                   (Ok (config\<lparr>cf_grafana := (cf_grafana config)\<lparr>gc_enabled := True,
                          gc_endpoint := Some endpoint, gc_auth_value_key := Some ''grafana_auth''\<rparr>\<rparr>),
                    st\<lparr>hs_grafana_configured := True\<rparr>))
         else if endpoint \<noteq> [] then
           (Ok (config\<lparr>cf_grafana := (cf_grafana config)\<lparr>gc_endpoint := Some endpoint\<rparr>\<rparr>), st)
         else (Ok config, st))"

definition settings_submit ::
    "'u http_env \<Rightarrow> http_get \<Rightarrow> settings_form \<Rightarrow> server_state \<Rightarrow> response \<times> server_state" where
  "settings_submit env req form st =
     (if \<not> authorized env req st Deny then (unauthorized_text, st)
      else case load_config env st of
             Err e \<Rightarrow> (load_failed e, st)
           | Ok config \<Rightarrow>
               (let config = config\<lparr>cf_obs := (cf_obs config)\<lparr>oc_host := fm_obs_host form,
                      oc_port := fm_obs_port form\<rparr>\<rparr>
                in case submit_password env form config st of
                     (Err response, st) \<Rightarrow> (response, st)
                   | (Ok config, st) \<Rightarrow>
                       (case submit_grafana env form config st of
                          (Err response, st) \<Rightarrow> (response, st)
                        | (Ok config, st) \<Rightarrow>
                            save_config env config
                              ''Settings saved. Restart required for connection changes to take effect.'' st)))"

section \<open>Output names\<close>

definition get_output_names :: "'u http_env \<Rightarrow> http_get \<Rightarrow> server_state \<Rightarrow> response" where
  "get_output_names env req st =
     (if \<not> authorized env req st Deny then unauthorized_text
      else case load_config env st of
             Ok config \<Rightarrow> (200, Names (cf_output_names config))
           | Err e \<Rightarrow> load_failed e)"

text \<open>The merge loop; the payload is the list of a hash map's entries, in some order.\<close>

definition merge_names ::
    "(string \<times> string) list \<Rightarrow> (string \<times> string) list \<Rightarrow> (string \<times> string) list" where
  "merge_names payload names =
     fold (\<lambda>(id, name) names.
       if trim name = [] then AList.delete id names else AList.update id name names) payload names"

definition save_output_names ::
    "'u http_env \<Rightarrow> http_get \<Rightarrow> (string \<times> string) list \<Rightarrow> server_state \<Rightarrow> response \<times> server_state" where
  "save_output_names env req payload st =
     (if \<not> authorized env req st Deny then (unauthorized_text, st)
      else case load_config env st of
             Err e \<Rightarrow> (load_failed e, st)
           | Ok config \<Rightarrow>
               save_config env
                 (config\<lparr>cf_output_names := merge_names payload (cf_output_names config)\<rparr>)
                 ''Output names saved'' st)"

section \<open>Grafana dashboard\<close>

definition grafana_dashboard_download :: "'u http_env \<Rightarrow> http_get \<Rightarrow> server_state \<Rightarrow> response" where
  "grafana_dashboard_download env req st =
     (if \<not> authorized env req st Allow then unauthorized
      else (200, Attachment (he_dashboard_json env)))"

definition grafana_dashboard_import ::
    "'u http_env \<Rightarrow> http_get \<Rightarrow> grafana_import_form \<Rightarrow> server_state \<Rightarrow> response" where
  "grafana_dashboard_import env req form st =
     (if \<not> authorized env req st Deny then unauthorized_text
      else
        (let L = he_http_lib env;
             url = trim_end_matches (CHR ''/'') (trim (gi_grafana_url form));
             api_key = trim (gi_grafana_api_key form)
         in if url = [] \<or> api_key = [] then (400, Text ''Grafana URL and API key are required'')
            else case lib_client_build L (from_secs 10) of
                   Err e \<Rightarrow> (500, Text (''HTTP client error: '' @ e))
                 | Ok _ \<Rightarrow>
                     (case and_then (lib_url_parse L (url @ ''/api/dashboards/db'')) (\<lambda>u.
                           and_then (lib_header_value L (''Bearer '' @ api_key)) (\<lambda>auth.
                           and_then (lib_request_build L
                             \<lparr>rq_method = POST, rq_url = u,
                              rq_headers = [(''authorization'', auth), (''content-type'', ''application/json'')],
                              rq_body = Some (he_dashboard_json env)\<rparr>) (lib_execute L))) of
                        Err e \<Rightarrow> (502, Text (''Failed to reach Grafana: '' @ e))
                      | Ok (status, text) \<Rightarrow>
                          (let body = (case text of Ok b \<Rightarrow> b | Err _ \<Rightarrow> [])
                           in if is_success status then
                                (200, Text ''Dashboard imported successfully into Grafana.'')
                              else (502, Text (''Grafana returned '' @ he_show_status env status @ '': '' @ body))))))"

section \<open>IPC\<close>

definition get_ipc_status :: "'u http_env \<Rightarrow> http_get \<Rightarrow> server_state \<Rightarrow> response" where
  "get_ipc_status env req st =
     (if \<not> authorized env req st Deny then unauthorized_text
      else (200, Ipc_Status (hs_ipc_debug st)))"

definition post_ipc_switch_scene ::
    "'u http_env \<Rightarrow> http_get \<Rightarrow> ipc_switch_scene_request \<Rightarrow> server_state \<Rightarrow> response \<times> server_state" where
  "post_ipc_switch_scene env req body st =
     (if \<not> authorized env req st Deny then (unauthorized_text, st)
      else
        (let scene_name = trim (wr_scene_name body);
             allow_empty = unwrap_or (wr_allow_empty body) False
         in if scene_name = [] \<and> \<not> allow_empty then
              ((400, Switch_Scene_Reply \<lparr>wo_ok = False, wo_message =
                  ''scene_name is required (set allow_empty=true for debug negative-path validation)''\<rparr>), st)
            else
              (let reason = trim (unwrap_or (wr_reason body) ''manual_debug'');
                   deadline_ms = clamp 50 5000 (unwrap_or (wr_deadline_ms body) 550);
                   cmd = SwitchScene scene_name (if reason = [] then ''manual_debug'' else reason) deadline_ms
               in case he_send_error env of
                    None \<Rightarrow>
                      ((200, Switch_Scene_Reply \<lparr>wo_ok = True, wo_message =
                          ''queued ipc switch_scene '' @ [CHR 0x27] @ scene_name @ [CHR 0x27]
                          @ '' (deadline='' @ show_nat (unat deadline_ms) @ ''ms''
                          @ (if scene_name = [] then '', empty scene debug case'' else []) @ '')''\<rparr>),
                       st\<lparr>hs_ipc_queue := hs_ipc_queue st @ [cmd]\<rparr>)
                  | Some err \<Rightarrow>
                      ((503, Switch_Scene_Reply \<lparr>wo_ok = False, wo_message =
                          ''ipc switch_scene unavailable: '' @ err\<rparr>), st))))"

section \<open>Relay control\<close>

definition build_aegis_client_from_config ::
    "'u http_env \<Rightarrow> config \<Rightarrow> vault \<Rightarrow> ('u control_plane_client, string) result" where
  "build_aegis_client_from_config env config v =
     and_then (ok_or (ac_base_url (cf_aegis config)) ''missing aegis.base_url in config'') (\<lambda>base_url.
     and_then (ok_or (ac_access_jwt_key (cf_aegis config)) ''missing aegis.access_jwt_key in config'') (\<lambda>jwt_key.
     if trim base_url = [] then Err ''missing aegis.base_url in config''
     else if trim jwt_key = [] then Err ''missing aegis.access_jwt_key in config''
     else and_then (retrieve (he_vault_lib env) v (trim jwt_key)) (\<lambda>access_jwt.
          map_err show_control_plane_error
            (client_new (he_http_lib env) (trim base_url) (trim access_jwt)))))"

definition generate_idempotency_key :: "'u http_env \<Rightarrow> string" where
  "generate_idempotency_key env =
     ''dash-'' @ show_nat (he_unix_millis env) @ ''-'' @ he_random_suffix env"

definition get_aegis_status :: "'u http_env \<Rightarrow> http_get \<Rightarrow> server_state \<Rightarrow> response \<times> server_state" where
  "get_aegis_status env req st =
     (if \<not> authorized env req st Allow then (unauthorized, st)
      else
        (let refresh_requested =
               unwrap_or (map_option (\<lambda>v. v = ''1'' \<or> eq_ignore_ascii_case v ''true'') (hr_query req ''refresh'')) False
         in case load_config env st of
              Err err \<Rightarrow>
                ((500, Aegis_Status \<lparr>sa_enabled = False, sa_session = hs_aegis_session st,
                    sa_refreshed = False, sa_error = Some (''config load failed: '' @ err)\<rparr>), st)
            | Ok config \<Rightarrow>
                if \<not> ac_enabled (cf_aegis config) then
                  ((200, Aegis_Status \<lparr>sa_enabled = False, sa_session = None, sa_refreshed = False,
                      sa_error = None\<rparr>), st)
                else if refresh_requested then
                  (case and_then (build_aegis_client_from_config env config (hs_vault st)) (\<lambda>client.
                          map_err show_control_plane_error (relay_active (he_http_lib env) client)) of
                     Ok session \<Rightarrow>
                       ((200, Aegis_Status \<lparr>sa_enabled = True, sa_session = session, sa_refreshed = True,
                           sa_error = None\<rparr>), st\<lparr>hs_aegis_session := session\<rparr>)
                   | Err err \<Rightarrow>
                       ((502, Aegis_Status \<lparr>sa_enabled = True, sa_session = hs_aegis_session st,
                           sa_refreshed = False, sa_error = Some err\<rparr>), st))
                else
                  ((200, Aegis_Status \<lparr>sa_enabled = True, sa_session = hs_aegis_session st,
                      sa_refreshed = False, sa_error = None\<rparr>), st)))"

definition action_failed :: "nat \<Rightarrow> string \<Rightarrow> string \<Rightarrow> server_state \<Rightarrow> response \<times> server_state" where
  "action_failed code message err st =
     ((code, Aegis_Action \<lparr>aa_ok = False, aa_message = message, aa_session = hs_aegis_session st,
        aa_error = Some err\<rparr>), st)"

definition action_ok :: "string \<Rightarrow> relay_session option \<Rightarrow> server_state \<Rightarrow> response \<times> server_state" where
  "action_ok message session st =
     ((200, Aegis_Action \<lparr>aa_ok = True, aa_message = message, aa_session = session, aa_error = None\<rparr>),
      st\<lparr>hs_aegis_session := session\<rparr>)"

text \<open>The common head of the two relay actions: token, configuration, client.\<close>

definition with_aegis_client ::
    "'u http_env \<Rightarrow> http_get \<Rightarrow> server_state
       \<Rightarrow> ('u control_plane_client \<Rightarrow> response \<times> server_state) \<Rightarrow> response \<times> server_state" where
  "with_aegis_client env req st k =
     (if \<not> authorized env req st Deny then (unauthorized_text, st)
      else case load_config env st of
             Err err \<Rightarrow> action_failed 500 ''config load failed'' err st
           | Ok config \<Rightarrow>
               (case build_aegis_client_from_config env config (hs_vault st) of
                  Err err \<Rightarrow> action_failed 400 ''aegis client config invalid'' err st
                | Ok client \<Rightarrow> k client))"

definition post_aegis_start :: "'u http_env \<Rightarrow> http_get \<Rightarrow> server_state \<Rightarrow> response \<times> server_state" where
  "post_aegis_start env req st =
     with_aegis_client env req st (\<lambda>client.
       let request = \<lparr>sq_region_preference = Some ''auto'',
             sq_client_context = Some \<lparr>cc_obs_connected = None, cc_mode = Some ''studio'',
               cc_requested_by = Some ''dashboard''\<rparr>\<rparr>
       in case relay_start (he_http_lib env) client (generate_idempotency_key env) request of
            Ok session \<Rightarrow>
              action_ok (''relay start ok ('' @ rs_status session @ '')'') (Some session) st
          | Err err \<Rightarrow> action_failed 502 ''relay start failed'' (show_control_plane_error err) st)"

definition post_aegis_stop :: "'u http_env \<Rightarrow> http_get \<Rightarrow> server_state \<Rightarrow> response \<times> server_state" where
  "post_aegis_stop env req st =
     with_aegis_client env req st (\<lambda>client.
       case relay_active (he_http_lib env) client of
         Err err \<Rightarrow> action_failed 502 ''relay active lookup failed'' (show_control_plane_error err) st
       | Ok None \<Rightarrow> action_ok ''no active relay session'' None st
       | Ok (Some session) \<Rightarrow>
           (let stop_req = \<lparr>tq_session_id = rs_session_id session, tq_reason = ''user_requested''\<rparr>
            in case relay_stop (he_http_lib env) client stop_req of
                 Ok _ \<Rightarrow> action_ok (''relay stop ok ('' @ tq_session_id stop_req @ '')'') None st
               | Err err \<Rightarrow> action_failed 502 ''relay stop failed'' (show_control_plane_error err) st))"

section \<open>Routes\<close>

datatype route =
    Get_Health
  | Get_Obs
  | Get_Ws
  | Get_Setup
  | Get_Settings
  | Post_Settings settings_form
  | Get_Output_Names
  | Post_Output_Names "(string \<times> string) list"
  | Get_Grafana_Dashboard
  | Post_Grafana_Import grafana_import_form
  | Get_Aegis_Status
  | Post_Aegis_Start
  | Post_Aegis_Stop
  | Get_Ipc_Status
  | Post_Ipc_Switch_Scene ipc_switch_scene_request

text \<open>The router built by \<open>start\<close>, after extraction of the form or JSON body.\<close>

fun serve :: "'u http_env \<Rightarrow> http_get \<Rightarrow> route \<Rightarrow> server_state \<Rightarrow> response \<times> server_state" where
  "serve env req Get_Health st = (health_check env, st)"
| "serve env req Get_Obs st = (obs_page env req st, st)"
| "serve env req Get_Ws st = (ws_handler env req st, st)"
| "serve env req Get_Setup st = (setup_page req, st)"
| "serve env req Get_Settings st = (settings_page env req st, st)"
| "serve env req (Post_Settings form) st = settings_submit env req form st"
| "serve env req Get_Output_Names st = (get_output_names env req st, st)"
| "serve env req (Post_Output_Names payload) st = save_output_names env req payload st"
| "serve env req Get_Grafana_Dashboard st = (grafana_dashboard_download env req st, st)"
| "serve env req (Post_Grafana_Import form) st = (grafana_dashboard_import env req form st, st)"
| "serve env req Get_Aegis_Status st = get_aegis_status env req st"
| "serve env req Post_Aegis_Start st = post_aegis_start env req st"
| "serve env req Post_Aegis_Stop st = post_aegis_stop env req st"
| "serve env req Get_Ipc_Status st = (get_ipc_status env req st, st)"
| "serve env req (Post_Ipc_Switch_Scene body) st = post_ipc_switch_scene env req body st"

section \<open>The web socket\<close>

text \<open>The events of a connected socket: a tick, with the current frame and whether sending it
  succeeds; a close message or the end of the stream; any other message.\<close>

datatype socket_event = Tick telemetry_frame bool | Closing | Other_Message

record ws_payload =
  wp_ts :: u64
  wp_health :: f32
  wp_obs :: obs_frame
  wp_system :: system_frame
  wp_network :: network_frame
  wp_outputs :: "stream_output list"

definition ws_payload_of :: "telemetry_frame \<Rightarrow> ws_payload" where
  "ws_payload_of frame =
     \<lparr>wp_ts = tf_timestamp_unix frame, wp_health = tf_health frame, wp_obs = tf_obs frame,
      wp_system = tf_system frame, wp_network = tf_network frame, wp_outputs = tf_streams frame\<rparr>"

text \<open>The payloads sent to the socket while it consumes its events.\<close>

fun handle_socket :: "socket_event list \<Rightarrow> ws_payload list" where
  "handle_socket [] = []"
| "handle_socket (Tick frame ok # events) =
     (if ok then ws_payload_of frame # handle_socket events else [])"
| "handle_socket (Closing # events) = []"
| "handle_socket (Other_Message # events) = handle_socket events"

end
