(* ===== verification/Http_Correctness.thy ===== *)
theory Http_Correctness
  imports Http_Server "HOL-Library.Multiset"
begin

text \<open>
  The properties of the HTTP server: who may do what, what each handler may change, the
  commands it queues for the IPC session, and the escaping of the pages.
\<close>

section \<open>Access control\<close>

text \<open>The token policy of each route, as its handler passes it to \<open>is_token_valid\<close>; two routes
  are open.\<close>

fun route_policy :: "route \<Rightarrow> query_token_policy option" where
  "route_policy Get_Health = None"
| "route_policy Get_Setup = None"
| "route_policy Get_Obs = Some Allow"
| "route_policy Get_Ws = Some Allow"
| "route_policy Get_Settings = Some Allow"
| "route_policy Get_Grafana_Dashboard = Some Allow"
| "route_policy Get_Aegis_Status = Some Allow"
| "route_policy _ = Some Deny"

definition bearer :: "'u http_env \<Rightarrow> http_get \<Rightarrow> string option" where
  "bearer env req = Option.bind (Option.bind (hr_header req ''authorization'') (he_header_to_str env))
     (strip_prefix ''Bearer '')"

lemma authorized_bearer [auth_simps]:
  "authorized env req st policy =
     (case bearer env req of
        Some t \<Rightarrow> t = hs_token st
      | None \<Rightarrow> policy = Allow \<and> hr_query req ''token'' = Some (hs_token st))"
  by (cases "hr_query req ''token''")
     (auto simp: authorized_def is_token_valid_def bearer_def split: option.split)

text \<open>The abstract specification of the token check: a request passes iff it has an \<open>Authorization\<close>
  header with a readable \<open>Bearer\<close> value and that value is the token, or it has none and, on a route that
  allows it, its query carries the token. A wrong bearer value is never rescued by a right query
  token.\<close>

definition token_presented ::
    "(string \<Rightarrow> string option) \<Rightarrow> http_get \<Rightarrow> string \<Rightarrow> query_token_policy \<Rightarrow> bool" where
  "token_presented to_str req token policy \<longleftrightarrow>
     (\<exists>h v. hr_header req ''authorization'' = Some h \<and> to_str h = Some v \<and> v = ''Bearer '' @ token)
   \<or> ((\<nexists>h v. hr_header req ''authorization'' = Some h \<and> to_str h = Some v \<and> prefix ''Bearer '' v)
      \<and> policy = Allow \<and> hr_query req ''token'' = Some token)"

lemma token_check_spec: "is_token_valid to_str req token policy \<longleftrightarrow> token_presented to_str req token policy"
proof -
  have b: "Option.bind (Option.bind (hr_header req ''authorization'') to_str) (strip_prefix ''Bearer '') = Some t
      \<longleftrightarrow> (\<exists>h v. hr_header req ''authorization'' = Some h \<and> to_str h = Some v \<and> v = ''Bearer '' @ t)" for t
    by (auto simp: bind_eq_Some_conv strip_prefix_Some)
  show ?thesis
  proof (cases "Option.bind (Option.bind (hr_header req ''authorization'') to_str) (strip_prefix ''Bearer '')")
    case None
    then have "\<nexists>h v. hr_header req ''authorization'' = Some h \<and> to_str h = Some v \<and> prefix ''Bearer '' v"
      using b by (auto simp: prefix_def)
    with None b [of token] show ?thesis
      by (cases "hr_query req ''token''") (auto simp: is_token_valid_def token_presented_def)
  next
    case (Some t)
    then obtain h v where "hr_header req ''authorization'' = Some h" "to_str h = Some v" "v = ''Bearer '' @ t"
      using b by blast
    with Some b show ?thesis by (auto simp: is_token_valid_def token_presented_def)
  qed
qed

lemmas status_defs =
  unauthorized_def unauthorized_text_def load_failed_def action_failed_def action_ok_def

lemma save_config_status [simp]: "fst (fst (save_config env c m st)) \<noteq> 401"
  by (simp add: save_config_def split: sum.split prod.split)

lemma submit_password_status: "submit_password env form c st = (Err r, st') \<Longrightarrow> fst r = 500"
  by (auto simp: submit_password_def split: option.splits if_splits sum.splits prod.splits)

lemma submit_grafana_status: "submit_grafana env form c st = (Err r, st') \<Longrightarrow> fst r = 500"
  by (auto simp: submit_grafana_def Let_def split: option.splits if_splits sum.splits prod.splits)

lemma settings_submit_status:
  "authorized env req st Deny \<Longrightarrow> fst (fst (settings_submit env req form st)) \<noteq> 401"
  by (simp add: settings_submit_def load_failed_def Let_def split: sum.split prod.split)
     (auto dest: submit_password_status submit_grafana_status)

lemma save_output_names_status:
  "authorized env req st Deny \<Longrightarrow> fst (fst (save_output_names env req payload st)) \<noteq> 401"
  by (simp add: save_output_names_def status_defs split: sum.split)

lemma with_aegis_client_status:
  "authorized env req st Deny \<Longrightarrow> (\<And>c. fst (fst (k c)) \<noteq> 401) \<Longrightarrow>
     fst (fst (with_aegis_client env req st k)) \<noteq> 401"
  by (simp add: with_aegis_client_def status_defs split: sum.split)

lemma aegis_action_status:
  assumes "authorized env req st Deny"
  shows "fst (fst (post_aegis_start env req st)) \<noteq> 401" "fst (fst (post_aegis_stop env req st)) \<noteq> 401"
  unfolding post_aegis_start_def post_aegis_stop_def Let_def
  by (rule with_aegis_client_status [OF assms], simp add: status_defs split: sum.split option.split)+

lemma serve_401:
  "fst (fst (serve env req r st)) = 401 \<longleftrightarrow>
     (\<exists>policy. route_policy r = Some policy \<and> \<not> authorized env req st policy)"
proof (cases r)
  case (Post_Settings form)
  then show ?thesis
    using settings_submit_status [of env req st form]
    by (cases "authorized env req st Deny") (auto simp: settings_submit_def status_defs)
next
  case (Post_Output_Names payload)
  then show ?thesis
    using save_output_names_status [of env req st payload]
    by (cases "authorized env req st Deny") (auto simp: save_output_names_def status_defs)
next
  case Post_Aegis_Start
  then show ?thesis
    using aegis_action_status [of env req st]
    by (cases "authorized env req st Deny") (auto simp: post_aegis_start_def with_aegis_client_def status_defs)
next
  case Post_Aegis_Stop
  then show ?thesis
    using aegis_action_status [of env req st]
    by (cases "authorized env req st Deny") (auto simp: post_aegis_stop_def with_aegis_client_def status_defs)
qed (auto simp: health_check_def obs_page_def ws_handler_def setup_page_def settings_page_def
    get_output_names_def grafana_dashboard_download_def grafana_dashboard_import_def
    get_aegis_status_def get_ipc_status_def post_ipc_switch_scene_def status_defs Let_def
    split: sum.split option.split if_splits)

definition rejected :: "'u http_env \<Rightarrow> http_get \<Rightarrow> route \<Rightarrow> server_state \<Rightarrow> bool" where
  "rejected env req r st \<longleftrightarrow>
     (case route_policy r of None \<Rightarrow> False | Some policy \<Rightarrow> \<not> authorized env req st policy)"

lemma rejected_unchanged: "rejected env req r st \<Longrightarrow> snd (serve env req r st) = st"
  by (cases r)
     (auto simp: rejected_def settings_submit_def save_output_names_def get_aegis_status_def
       post_aegis_start_def post_aegis_stop_def with_aegis_client_def post_ipc_switch_scene_def)

text \<open>C7. A request is answered by 401 exactly when its route needs the token and the request does not
  present it the way the route allows: as its bearer value or, without a bearer value and on a route
  that permits it, in its query. Then nothing at all changes: not the vault, the files, the relay
  snapshot or the commands queued for the plugin.\<close>

theorem rejected_iff_401:
  "if (case route_policy r of None \<Rightarrow> False
         | Some policy \<Rightarrow> \<not> token_presented (he_header_to_str env) req (hs_token st) policy)
   then fst (fst (serve env req r st)) = 401 \<and> snd (serve env req r st) = st
   else fst (fst (serve env req r st)) \<noteq> 401"
  using serve_401 [of env req r st] rejected_unchanged [of env req r st]
  by (auto simp: rejected_def authorized_def token_check_spec split: option.splits)

section \<open>What a query token can do\<close>

text \<open>C29. A caller that can only present the token in the query, as a browser page or an image
  link can, cannot change the configuration, the vault, the files or the command queue: without a
  bearer header the only thing a request can change is the cached relay session, by refreshing
  it.\<close>

theorem query_token_is_read_only:
  assumes "bearer env req = None"
  shows "\<exists>session. snd (serve env req r st) = st\<lparr>hs_aegis_session := session\<rparr>"
proof -
  have "\<not> authorized env req st Deny" using assms by (simp add: auth_simps)
  moreover have "st = st\<lparr>hs_aegis_session := hs_aegis_session st\<rparr>" by simp
  ultimately show ?thesis
    by (cases r)
       (auto simp: settings_submit_def save_output_names_def get_aegis_status_def Let_def
         post_aegis_start_def post_aegis_stop_def with_aegis_client_def post_ipc_switch_scene_def
         intro: exI [of _ "hs_aegis_session st"] split: sum.split)
qed

text \<open>An environment for the instances: every header is readable, the configuration is that of
  \<open>sample_os\<close>, the relay answers as \<open>sample_lib\<close> does.\<close>

definition sample_http_env :: "string http_env" where
  "sample_http_env =
     \<lparr>he_os = sample_os, he_vault_lib = sample_vault_lib, he_http_lib = sample_lib,
      he_header_to_str = Some, he_show_status = (\<lambda>c. show_nat (unat c)), he_unix_secs = 0,
      he_unix_millis = 5, he_random_suffix = ''abcdefghij'', he_send_error = None,
      he_dashboard_json = ''{}''\<rparr>"

definition sample_server :: server_state where
  "sample_server =
     \<lparr>hs_token = ''tok'', hs_theme = theme_config_default,
      hs_vault = \<lparr>va_path = ''v'', va_entries = []\<rparr>, hs_grafana_configured = False,
      hs_aegis_session = None, hs_ipc_queue = [], hs_ipc_debug = new_debug_status,
      hs_files = [CONFIG_FILE \<mapsto> ''tx'']\<rparr>"

definition query_get :: http_get where
  "query_get = \<lparr>hr_header = (\<lambda>_. None), hr_query = [''token'' \<mapsto> ''tok'']\<rparr>"

definition bearer_get :: http_get where
  "bearer_get = \<lparr>hr_header = [''authorization'' \<mapsto> ''Bearer tok''], hr_query = Map.empty\<rparr>"

theorem query_token_is_read_only_witness:
  "\<exists>session. snd (serve sample_http_env query_get Get_Settings sample_server)
     = sample_server\<lparr>hs_aegis_session := session\<rparr>"
  by (rule query_token_is_read_only) (simp add: bearer_def query_get_def)

lemma sample_load: "load sample_os [CONFIG_FILE \<mapsto> ''tx''] = Ok (token_config (Some ''secret''))"
  using load_save [OF sample_save sample_lawful] token_config_valid by (simp add: sample_overrides)

section \<open>Switch commands\<close>

lemma bearer_sample: "bearer sample_http_env bearer_get = Some ''tok''"
  by (simp add: bearer_def bearer_get_def sample_http_env_def strip_prefix_Some)

text \<open>Every command that the HTTP server queues for the plugin is well-formed: the deadline lies
  between 50 and 5000 milliseconds whatever was asked for, the reason is not empty, the scene is
  trimmed and only empty when that was explicitly allowed; and the reply says OK exactly when a
  command was queued.\<close>

theorem queued_switch_is_sane:
  "case post_ipc_switch_scene env req body st of
     ((code, reply), st') \<Rightarrow>
       if code = 200 then
         (\<exists>cmd. st' = st\<lparr>hs_ipc_queue := hs_ipc_queue st @ [cmd]\<rparr>
            \<and> 50 \<le> unat (cmd_deadline_ms cmd) \<and> unat (cmd_deadline_ms cmd) \<le> 5000
            \<and> cmd_reason cmd \<noteq> []
            \<and> cmd_scene_name cmd = trim (wr_scene_name body)
            \<and> (0 < length (cmd_scene_name cmd) \<or> wr_allow_empty body = Some True))
       else st' = st"
proof -
  have "50 \<le> unat (clamp (50::u64) 5000 x) \<and> unat (clamp (50::u64) 5000 x) \<le> 5000" for x
    using clamp_bounds [of "50::u64" 5000 x] by (simp add: word_le_nat_alt)
  then show ?thesis
    by (cases "wr_allow_empty body")
       (auto simp: post_ipc_switch_scene_def Let_def unauthorized_text_def split: option.split)
qed

section \<open>Escaping\<close>

definition escape_char :: "char \<Rightarrow> string" where
  "escape_char c =
     (if c = CHR ''&'' then ''&amp;'' else if c = CHR ''<'' then ''&lt;''
      else if c = CHR ''>'' then ''&gt;'' else if c = CHR 0x22 then ''&quot;''
      else if c = CHR 0x27 then ''&#x27;'' else [c])"

lemma html_escape_single_pass: "html_escape s = concat (map escape_char s)"
  by (induction s) (simp_all add: html_escape_def replace_char_def escape_char_def)

lemma escape_char_prefix_free:
  "escape_char c @ u = escape_char d @ v \<Longrightarrow> c = d \<and> u = v"
  by (auto simp: escape_char_def split: if_splits)

lemma escape_char_nonempty: "escape_char c \<noteq> []"
  by (simp add: escape_char_def)

lemma html_escape_inj: "html_escape s = html_escape t \<Longrightarrow> s = t"
  unfolding html_escape_single_pass
proof (induction s arbitrary: t)
  case Nil
  then show ?case by (cases t) (simp_all add: escape_char_nonempty)
next
  case (Cons c s)
  show ?case
  proof (cases t)
    case Nil
    then show ?thesis using Cons.prems by (simp add: escape_char_nonempty)
  next
    case (Cons d t')
    then show ?thesis
      using Cons.prems escape_char_prefix_free [of c "concat (map escape_char s)" d "concat (map escape_char t')"]
        Cons.IH [of t'] by simp
  qed
qed

text \<open>Escaping for HTML is safe and loses nothing: the five sequential replacements amount to one
  pass that replaces each special character by its entity, the result contains no angle bracket and
  no quote, and different texts stay different.\<close>

theorem html_escape_safe:
  "html_escape s = concat (map escape_char s)
   \<and> set (html_escape s) \<inter> {CHR ''<'', CHR ''>'', CHR 0x22, CHR 0x27} = {}
   \<and> inj html_escape"
proof (intro conjI injI)
  show "set (html_escape s) \<inter> {CHR ''<'', CHR ''>'', CHR 0x22, CHR 0x27} = {}"
  proof -
    have "set (escape_char c) \<inter> {CHR ''<'', CHR ''>'', CHR 0x22, CHR 0x27} = {}" for c
      by (simp add: escape_char_def)
    then show ?thesis by (auto simp: html_escape_single_pass)
  qed
qed (rule html_escape_single_pass, rule html_escape_inj)

lemma no_markup_escaped [simp]: "filter is_markup (html_escape s) = []"
proof -
  have "filter is_markup (escape_char c) = []" for c
    by (simp add: escape_char_def is_markup_def)
  then show ?thesis unfolding html_escape_single_pass by (induction s) simp_all
qed

text \<open>The dashboard that an authorised request gets is its template line by line, except for the line of
  the theme and the link with the token.\<close>

lemma dashboard_served:
  assumes "authorized env req st Allow" and "\<not> has_braces (theme_css (hs_theme st))"
  shows "serve env req Get_Obs st = ((200, Html (join_lines
    (map (dashboard_line (theme_css (hs_theme st)) (html_escape (hs_token st))) dashboard_lines))), st)"
  using assms by (simp add: obs_page_def dashboard_rendered)





section \<open>Output names\<close>

lemma merge_names_map:
  "distinct (map fst payload) \<Longrightarrow>
   map_of (merge_names payload names) oid =
     (case map_of payload oid of
        None \<Rightarrow> map_of names oid
      | Some name \<Rightarrow> if trim name = [] then None else Some name)"
proof (induction payload arbitrary: names)
  case (Cons p payload)
  obtain k n where p: "p = (k, n)" by (cases p)
  have "map_of payload k = None" using Cons.prems p by (simp add: map_of_eq_None_iff)
  with Cons p show ?case
    by (auto simp: merge_names_def map_of_update map_of_delete_eq split: option.split)
qed (simp add: merge_names_def)

lemma merge_names_distinct: "distinct (map fst names) \<Longrightarrow> distinct (map fst (merge_names payload names))"
  by (induction payload arbitrary: names)
     (auto simp: merge_names_def distinct_update distinct_keys_delete)

text \<open>Submitting output names merges them into the configuration: a name in the payload replaces
  or adds the entry of its output, a blank one removes it, every other entry stays; the order in
  which the payload's hash map is walked does not matter, and output ids stay distinct.\<close>

theorem output_names_merge:
  assumes "distinct (map fst payload)" and "mset payload' = mset payload"
  shows "map_of (merge_names payload' names) oid =
     (case map_of payload oid of
        None \<Rightarrow> map_of names oid
      | Some name \<Rightarrow> if trim name = [] then None else Some name)"
proof -
  have "mset (map fst payload') = mset (map fst payload)" using assms(2) by simp
  then have d: "distinct (map fst payload')"
    using assms(1) mset_eq_imp_distinct_iff by blast
  have "set payload' = set payload" using assms(2) by (rule mset_eq_setD)
  then have eq: "map_of payload' = map_of payload"
    using map_of_inject_set [OF d assms(1)] by blast
  show ?thesis unfolding merge_names_map [OF d] eq ..
qed

theorem output_names_merge_witness:
  "map_of (merge_names [(''b'', ''''), (''a'', ''Main'')] [(''b'', ''Old'')]) ''b'' = None"
  using output_names_merge [of "[(''a'', ''Main''), (''b'', '''')]" "[(''b'', ''''), (''a'', ''Main'')]"
      "[(''b'', ''Old'')]" "''b''"]
  by simp

section \<open>Settings\<close>

lemma submit_password_frame:
  "submit_password env form c st = (r, st') \<Longrightarrow>
     \<exists>v fs. st' = st\<lparr>hs_vault := v, hs_files := fs\<rparr>"
  by (cases st)
     (auto simp: submit_password_def store_secret_def split: option.splits if_splits sum.splits prod.splits)

text \<open>C31. A settings submission that cannot be saved is not rolled back: with complete Grafana
  credentials and a push interval below the minimum, the submission is answered by an error and the
  configuration file keeps its content, but the new credentials are already in the vault and the
  server reports Grafana as configured.\<close>

theorem failed_settings_leave_credentials:
  assumes "authorized env req st Deny"
    and "load (he_os env) (hs_files st) = Ok config"
    and "fm_obs_password form = None"
    and "unat (fm_grafana_interval form) < 500"
    and "fm_grafana_endpoint form = Some e" "trim e \<noteq> []"
    and "fm_grafana_instance_id form = Some i" "trim i \<noteq> []"
    and "fm_grafana_api_token form = Some t" "trim t \<noteq> []"
    and "vault_store (he_os env) (he_vault_lib env) (hs_files st) ''grafana_auth''
           (''Basic '' @ vl_b64_encode (he_vault_lib env) (trim i @ '':'' @ trim t)) (hs_vault st) = (Ok (), v, fs)"
  shows "\<exists>msg. settings_submit env req form st =
    ((500, Text msg), st\<lparr>hs_vault := v, hs_files := fs, hs_grafana_configured := True\<rparr>)"
proof -
  define c1 where "c1 = config\<lparr>cf_obs := (cf_obs config)\<lparr>oc_host := fm_obs_host form, oc_port := fm_obs_port form\<rparr>\<rparr>"
  define st2 where "st2 = st\<lparr>hs_vault := v, hs_files := fs, hs_grafana_configured := True\<rparr>"
  have pw: "submit_password env form c st = (Ok c, st)" for c
    using assms(3) by (simp add: submit_password_def)
  obtain c2 where c2: "submit_grafana env form c1 st = (Ok c2, st2)"
    and g: "gc_enabled (cf_grafana c2)" "gc_push_interval_ms (cf_grafana c2) = fm_grafana_interval form"
    using assms(5-11) by (simp add: submit_grafana_def store_secret_def Let_def st2_def)
  have "\<not> valid_config c2" using g assms(4) by (simp add: valid_config_def)
  then obtain e where "validate c2 = Err e"
    using validate_cases [of c2] by (auto simp: validate_Ok)
  then have "save_config env c2 m st2 = ((500, Text (''Failed to save config: '' @ e)), st2)" for m
    by (simp add: save_config_def save_def Let_def)
  then show ?thesis
    using assms(1,2) pw c2 by (simp add: settings_submit_def load_config_def Let_def c1_def st2_def)
qed

definition sample_form :: settings_form where
  "sample_form = \<lparr>fm_obs_host = ''h'', fm_obs_port = 4455, fm_obs_password = None,
     fm_grafana_interval = 100, fm_grafana_endpoint = Some ''e'', fm_grafana_instance_id = Some ''i'',
     fm_grafana_api_token = Some ''t''\<rparr>"

theorem failed_settings_leave_credentials_witness:
  "\<exists>msg st'. settings_submit sample_http_env bearer_get sample_form sample_server = ((500, Text msg), st')
    \<and> hs_grafana_configured st'"
proof -
  have one: "trim [c] = [c]" if "c \<in> {CHR ''e'', CHR ''i'', CHR ''t''}" for c
    using that by (auto intro!: trim_id simp: byte_def ws1_def ws2_def ws3_def)
  have "authorized sample_http_env bearer_get sample_server Deny"
    by (simp add: auth_simps bearer_sample sample_server_def)
  moreover have "load (he_os sample_http_env) (hs_files sample_server) = Ok (token_config (Some ''secret''))"
    by (simp add: sample_http_env_def sample_server_def sample_load)
  moreover have "\<exists>v fs. vault_store (he_os sample_http_env) (he_vault_lib sample_http_env)
      (hs_files sample_server) ''grafana_auth'' (''Basic '' @ vl_b64_encode (he_vault_lib sample_http_env)
        (trim ''i'' @ '':'' @ trim ''t'')) (hs_vault sample_server) = (Ok (), v, fs)"
    by (simp add: sample_http_env_def sample_server_def vault_store_def vault_insert_def protect_def
        persist_def fs_write_def sample_vault_lib_def sample_os_def)
  then obtain v fs where "vault_store (he_os sample_http_env) (he_vault_lib sample_http_env)
      (hs_files sample_server) ''grafana_auth'' (''Basic '' @ vl_b64_encode (he_vault_lib sample_http_env)
        (trim ''i'' @ '':'' @ trim ''t'')) (hs_vault sample_server) = (Ok (), v, fs)" by blast
  ultimately show ?thesis
    using failed_settings_leave_credentials [of sample_http_env bearer_get sample_server
        "token_config (Some ''secret'')" sample_form "''e''" "''i''" "''t''" v fs] one
    by (auto simp: sample_form_def)
qed

lemma submit_password_config:
  "submit_password env form c st = (Ok c', st') \<Longrightarrow>
     oc_host (cf_obs c') = oc_host (cf_obs c) \<and> oc_port (cf_obs c') = oc_port (cf_obs c)
   \<and> cf_grafana c' = cf_grafana c \<and> cf_output_names c' = cf_output_names c
   \<and> cf_server c' = cf_server c"
  by (auto simp: submit_password_def split: option.splits if_splits sum.splits prod.splits)

lemma submit_grafana_config:
  "submit_grafana env form c st = (Ok c', st') \<Longrightarrow>
     cf_obs c' = cf_obs c \<and> gc_push_interval_ms (cf_grafana c') = fm_grafana_interval form
   \<and> (gc_enabled (cf_grafana c) \<longrightarrow> gc_enabled (cf_grafana c')) \<and> cf_output_names c' = cf_output_names c
   \<and> cf_server c' = cf_server c"
  by (auto simp: submit_grafana_def Let_def split: option.splits if_splits sum.splits prod.splits)

text \<open>C32. A settings submission that is answered by OK has taken effect: the active configuration file
  now holds a valid configuration with the submitted OBS host, port and push interval, and with the
  output names and the server settings of the configuration that was loaded.\<close>

theorem settings_saved:
  assumes "settings_submit env req form st = ((200, reply), st')"
  shows "\<exists>old new data. load (he_os env) (hs_files st) = Ok old
    \<and> os_toml_print (he_os env) new = Ok data
    \<and> hs_files st' (active_config_path (he_os env) (hs_files st')) = Some data
    \<and> is_ok (validate new)
    \<and> oc_host (cf_obs new) = fm_obs_host form \<and> oc_port (cf_obs new) = fm_obs_port form
    \<and> gc_push_interval_ms (cf_grafana new) = fm_grafana_interval form
    \<and> cf_output_names new = cf_output_names old \<and> cf_server new = cf_server old"
proof -
  have auth: "authorized env req st Deny"
    using assms by (auto simp: settings_submit_def unauthorized_text_def split: if_splits)
  obtain old where old: "load (he_os env) (hs_files st) = Ok old"
    using assms auth
    by (auto simp: settings_submit_def load_config_def load_failed_def split: sum.splits)
  define c1 where "c1 = old\<lparr>cf_obs := (cf_obs old)\<lparr>oc_host := fm_obs_host form, oc_port := fm_obs_port form\<rparr>\<rparr>"
  obtain c2 st2 where c2: "submit_password env form c1 st = (Ok c2, st2)"
    using assms auth old submit_password_status
    by (fastforce simp: settings_submit_def load_config_def Let_def c1_def split: sum.splits prod.splits)
  obtain c3 st3 where c3: "submit_grafana env form c2 st2 = (Ok c3, st3)"
    using assms auth old c2 submit_grafana_status
    by (fastforce simp: settings_submit_def load_config_def Let_def c1_def split: sum.splits prod.splits)
  obtain m where "save_config env c3 m st3 = ((200, reply), st')"
    using assms auth old c2 c3 by (simp add: settings_submit_def load_config_def Let_def c1_def)
  then obtain fs where fs: "save (he_os env) (hs_files st3) c3 = (Ok (), fs)" "hs_files st' = fs"
    by (auto simp: save_config_def split: sum.splits prod.splits)
  from fs(1) obtain data where "valid_config c3" "os_toml_print (he_os env) c3 = Ok data"
    "fs = (hs_files st3)(active_config_path (he_os env) (hs_files st3) := Some data)" by (rule save_Ok)
  moreover have "cf_output_names c1 = cf_output_names old" "cf_server c1 = cf_server old"
    "oc_host (cf_obs c1) = fm_obs_host form" "oc_port (cf_obs c1) = fm_obs_port form"
    by (simp_all add: c1_def)
  ultimately show ?thesis
    using old fs(2) submit_password_config [OF c2] submit_grafana_config [OF c3]
    by (intro exI [of _ old] exI [of _ c3] exI [of _ data])
       (simp add: validate_Ok [symmetric] active_path_after_save)
qed

definition same_form :: settings_form where
  "same_form = \<lparr>fm_obs_host = ''127.0.0.1'', fm_obs_port = 4455, fm_obs_password = None,
     fm_grafana_interval = 5000, fm_grafana_endpoint = None, fm_grafana_instance_id = None,
     fm_grafana_api_token = None\<rparr>"

theorem settings_saved_witness:
  "\<exists>reply st' data. settings_submit sample_http_env bearer_get same_form sample_server = ((200, reply), st')
    \<and> hs_files st' (active_config_path sample_os (hs_files st')) = Some data"
proof -
  have auth: "authorized sample_http_env bearer_get sample_server Deny"
    by (simp add: auth_simps bearer_sample sample_server_def)
  have l: "load_config sample_http_env sample_server = Ok (token_config (Some ''secret''))"
    by (simp add: load_config_def sample_http_env_def sample_server_def sample_load)
  define c where "c = token_config (Some ''secret'')"
  have c: "c\<lparr>cf_obs := (cf_obs c)\<lparr>oc_host := ''127.0.0.1'', oc_port := 4455\<rparr>\<rparr> = c"
    "c\<lparr>cf_grafana := (cf_grafana c)\<lparr>gc_push_interval_ms := 5000\<rparr>\<rparr> = c"
    by (simp_all add: c_def token_config_def config_default_def obs_config_default_def grafana_config_default_def)
  have "\<exists>st'. save_config sample_http_env c m sample_server = ((200, Text m), st')" for m
    by (simp add: save_config_def sample_http_env_def sample_server_def c_def sample_save)
  then obtain st' where "settings_submit sample_http_env bearer_get same_form sample_server
      = ((200, Text ''Settings saved. Restart required for connection changes to take effect.''), st')"
    using auth l c by (auto simp: settings_submit_def submit_password_def submit_grafana_def same_form_def
        Let_def simp flip: c_def)
  with settings_saved [OF this] show ?thesis
    by (auto simp: sample_http_env_def)
qed

section \<open>The relay snapshot\<close>

text \<open>The cached relay session follows the relay actions: a start answered by OK leaves the
  session that the control plane returned in the cache, a stop answered by OK leaves it empty, and
  any other answer leaves the whole server state as it was.\<close>

theorem relay_actions_update_snapshot:
  "(case post_aegis_start env req st of ((code, reply), st') \<Rightarrow>
      if code = 200 then
        (\<exists>session client. relay_start (he_http_lib env) client (generate_idempotency_key env)
             \<lparr>sq_region_preference = Some ''auto'', sq_client_context =
               Some \<lparr>cc_obs_connected = None, cc_mode = Some ''studio'', cc_requested_by = Some ''dashboard''\<rparr>\<rparr>
           = Ok session \<and> st' = st\<lparr>hs_aegis_session := Some session\<rparr>)
      else st' = st)
   \<and> (case post_aegis_stop env req st of ((code, reply), st') \<Rightarrow>
      if code = 200 then st' = st\<lparr>hs_aegis_session := None\<rparr> else st' = st)"
  by (auto simp: post_aegis_start_def post_aegis_stop_def with_aegis_client_def action_ok_def
      action_failed_def unauthorized_text_def Let_def split: sum.splits option.splits)

end
