(* ===== verification/Autostart.thy ===== *)
theory Autostart
  imports Vault
begin

text \<open>
  The autostart entry of \<open>src/startup/mod.rs\<close>: the executable's path, as a zero-terminated UTF-16
  string, is stored under the application's name in the \<open>Run\<close> key of the registry, or removed from
  it. The registry key is a map from value names to data, and its faults are the fields of
  \<open>registry_os\<close>. The path is what Windows gives, a list of 16-bit units that need not be well-formed; the
  conversions between it, Rust's strings and UTF-16 are the standard library's. The theory shows that
  what is stored can be read back.
\<close>

section \<open>Code points\<close>

definition from_byte :: "nat \<Rightarrow> char" where
  "from_byte n = char_of n"

lemma from_byte_byte [simp]: "from_byte (byte c) = c"
  by (simp add: from_byte_def byte_def)

lemma byte_less: "byte c < 256"
  by (simp add: byte_def)

text \<open>The scalar values of a UTF-8 string.\<close>

fun code_points :: "string \<Rightarrow> nat list" where
  "code_points [] = []"
| "code_points (a # s) =
     (if byte a < 128 then byte a # code_points s
      else if byte a < 224 then
        (case s of b # t \<Rightarrow> ((byte a - 192) * 64 + (byte b - 128)) # code_points t | _ \<Rightarrow> [])
      else if byte a < 240 then
        (case s of b # c # t \<Rightarrow>
             ((byte a - 224) * 4096 + (byte b - 128) * 64 + (byte c - 128)) # code_points t
         | _ \<Rightarrow> [])
      else
        (case s of b # c # d # t \<Rightarrow>
             ((byte a - 240) * 262144 + (byte b - 128) * 4096 + (byte c - 128) * 64 + (byte d - 128))
               # code_points t
         | _ \<Rightarrow> []))"

definition utf8_encode :: "nat \<Rightarrow> string" where
  "utf8_encode x =
     map from_byte
       (if x < 128 then [x]
        else if x < 2048 then [192 + x div 64, 128 + x mod 64]
        else if x < 65536 then [224 + x div 4096, 128 + x div 64 mod 64, 128 + x mod 64]
        else [240 + x div 262144, 128 + x div 4096 mod 64, 128 + x div 64 mod 64, 128 + x mod 64])"

definition scalar_value :: "nat \<Rightarrow> bool" where
  "scalar_value x \<longleftrightarrow> x < 0xD800 \<or> (0xE000 \<le> x \<and> x < 0x110000)"

text \<open>The bytes of a scalar value, recovered digit by digit in base 64.\<close>

lemma base64_digits:
  fixes A B C D :: nat
  assumes "B < 64" "C < 64" "D < 64"
  shows "(A * 64 + B) div 64 = A" "(A * 64 + B) mod 64 = B"
    "(A * 4096 + B * 64 + C) div 4096 = A" "(A * 4096 + B * 64 + C) div 64 mod 64 = B"
    "(A * 4096 + B * 64 + C) mod 64 = C"
    "(A * 262144 + B * 4096 + C * 64 + D) div 262144 = A"
    "(A * 262144 + B * 4096 + C * 64 + D) div 4096 mod 64 = B"
    "(A * 262144 + B * 4096 + C * 64 + D) div 64 mod 64 = C"
    "(A * 262144 + B * 4096 + C * 64 + D) mod 64 = D"
proof -
  have last: "(N * 64 + X) div 64 = N" "(N * 64 + X) mod 64 = X" if "X < 64" for N X :: nat
    using that by simp_all
  have s3: "A * 4096 + B * 64 + C = (A * 64 + B) * 64 + C"
    and s4: "A * 262144 + B * 4096 + C * 64 + D = ((A * 64 + B) * 64 + C) * 64 + D" by simp_all
  have d2: "x div 4096 = x div 64 div 64" and d3: "x div 262144 = x div 64 div 64 div 64" for x :: nat
    by (simp_all add: div_mult2_eq [symmetric])
  show "(A * 64 + B) div 64 = A" "(A * 64 + B) mod 64 = B" using assms by (simp_all only: last)
  show "(A * 4096 + B * 64 + C) div 4096 = A" "(A * 4096 + B * 64 + C) div 64 mod 64 = B"
    "(A * 4096 + B * 64 + C) mod 64 = C"
    unfolding s3 d2 using assms by (simp_all only: last)
  show "(A * 262144 + B * 4096 + C * 64 + D) div 262144 = A"
    "(A * 262144 + B * 4096 + C * 64 + D) div 4096 mod 64 = B"
    "(A * 262144 + B * 4096 + C * 64 + D) div 64 mod 64 = C"
    "(A * 262144 + B * 4096 + C * 64 + D) mod 64 = D"
    unfolding s4 d2 d3 using assms by (simp_all only: last)
qed

lemma encode_two:
  assumes "194 \<le> byte a" "byte a < 224" "cont b"
  shows "scalar_value ((byte a - 192) * 64 + (byte b - 128))"
    and "utf8_encode ((byte a - 192) * 64 + (byte b - 128)) = [a, b]"
proof -
  define A B where "A = byte a - 192" and "B = byte b - 128"
  have r: "2 \<le> A" "A < 32" "B < 64" using assms by (auto simp: A_def B_def cont_def)
  then have x: "128 \<le> A * 64 + B" "A * 64 + B < 2048" by linarith+
  then show "scalar_value ((byte a - 192) * 64 + (byte b - 128))"
    by (simp add: scalar_value_def A_def B_def)
  have "utf8_encode (A * 64 + B) = map from_byte [192 + A, 128 + B]"
    unfolding utf8_encode_def using x r by simp
  then show "utf8_encode ((byte a - 192) * 64 + (byte b - 128)) = [a, b]"
    using assms by (simp add: A_def B_def cont_def)
qed

lemma encode_three:
  assumes "224 \<le> byte a" "byte a < 240" "cont b" "cont c"
    and "byte a = 224 \<longrightarrow> 160 \<le> byte b" and "byte a = 237 \<longrightarrow> byte b < 160"
  shows "scalar_value ((byte a - 224) * 4096 + (byte b - 128) * 64 + (byte c - 128))"
    and "utf8_encode ((byte a - 224) * 4096 + (byte b - 128) * 64 + (byte c - 128)) = [a, b, c]"
proof -
  define A B C where "A = byte a - 224" and "B = byte b - 128" and "C = byte c - 128"
  let ?x = "A * 4096 + B * 64 + C"
  have r: "A < 16" "B < 64" "C < 64" "A = 0 \<longrightarrow> 32 \<le> B" "A = 13 \<longrightarrow> B < 32"
    using assms by (auto simp: A_def B_def C_def cont_def)
  have x: "2048 \<le> ?x" "?x < 65536" using r by (cases "A = 0"; linarith)+
  have "?x < 0xD800 \<or> 0xE000 \<le> ?x"
  proof (cases "A \<le> 12")
    case False
    then show ?thesis using r by (cases "A = 13") linarith+
  qed (use r in linarith)
  with x show "scalar_value ((byte a - 224) * 4096 + (byte b - 128) * 64 + (byte c - 128))"
    by (simp add: scalar_value_def A_def B_def C_def)
  have "utf8_encode ?x = map from_byte [224 + A, 128 + B, 128 + C]"
    unfolding utf8_encode_def using x base64_digits(3-5) [OF r(2,3) r(3), of A] by simp
  then show "utf8_encode ((byte a - 224) * 4096 + (byte b - 128) * 64 + (byte c - 128)) = [a, b, c]"
    using assms by (simp add: A_def B_def C_def cont_def)
qed

lemma encode_four:
  assumes "240 \<le> byte a" "byte a < 245" "cont b" "cont c" "cont d"
    and "byte a = 240 \<longrightarrow> 144 \<le> byte b" and "byte a = 244 \<longrightarrow> byte b < 144"
  shows "scalar_value ((byte a - 240) * 262144 + (byte b - 128) * 4096 + (byte c - 128) * 64 + (byte d - 128))"
    and "utf8_encode ((byte a - 240) * 262144 + (byte b - 128) * 4096 + (byte c - 128) * 64 + (byte d - 128))
      = [a, b, c, d]"
proof -
  define A B C D where "A = byte a - 240" and "B = byte b - 128" and "C = byte c - 128" and "D = byte d - 128"
  let ?x = "A * 262144 + B * 4096 + C * 64 + D"
  have r: "A < 5" "B < 64" "C < 64" "D < 64" "A = 0 \<longrightarrow> 16 \<le> B" "A = 4 \<longrightarrow> B < 16"
    using assms by (auto simp: A_def B_def C_def D_def cont_def)
  have x: "65536 \<le> ?x" using r by (cases "A = 0"; linarith)
  have y: "?x < 0x110000" using r by (cases "A = 4"; linarith)
  from x y show "scalar_value ((byte a - 240) * 262144 + (byte b - 128) * 4096 + (byte c - 128) * 64 + (byte d - 128))"
    by (simp add: scalar_value_def A_def B_def C_def D_def)
  have "utf8_encode ?x = map from_byte [240 + A, 128 + B, 128 + C, 128 + D]"
    unfolding utf8_encode_def using x base64_digits(6-9) [OF r(2-4), of A] by simp
  then show "utf8_encode ((byte a - 240) * 262144 + (byte b - 128) * 4096 + (byte c - 128) * 64 + (byte d - 128))
      = [a, b, c, d]"
    using assms by (simp add: A_def B_def C_def D_def cont_def)
qed

lemma code_points_roundtrip:
  "utf8_valid s \<Longrightarrow> list_all scalar_value (code_points s) \<and> concat (map utf8_encode (code_points s)) = s"
proof (induction s rule: code_points.induct)
  case (2 a s)
  consider "byte a < 128" | "194 \<le> byte a" "byte a < 224" | "224 \<le> byte a" "byte a < 240"
    | "240 \<le> byte a" "byte a < 245"
    using "2.prems" by (auto split: if_splits)
  then show ?case
  proof cases
    case 1
    with "2.prems" "2.IH"(1) show ?thesis by (simp add: scalar_value_def utf8_encode_def)
  next
    case 2
    with "2.prems" obtain b t where "s = b # t" "cont b" "utf8_valid t" by (auto split: list.splits)
    with 2 "2.IH"(2) show ?thesis by (simp add: encode_two)
  next
    case 3
    with "2.prems" obtain b c t where "s = b # c # t" "cont b" "cont c" "utf8_valid t"
      "byte a = 224 \<longrightarrow> 160 \<le> byte b" "byte a = 237 \<longrightarrow> byte b < 160" by (auto split: list.splits)
    with 3 "2.IH"(3) show ?thesis by (simp add: encode_three)
  next
    case 4
    with "2.prems" obtain b c d t where "s = b # c # d # t" "cont b" "cont c" "cont d" "utf8_valid t"
      "byte a = 240 \<longrightarrow> 144 \<le> byte b" "byte a = 244 \<longrightarrow> byte b < 144" by (auto split: list.splits)
    with 4 "2.IH"(4) show ?thesis by (simp add: encode_four)
  qed
qed simp

section \<open>UTF-16\<close>

definition utf16_units :: "nat \<Rightarrow> u16 list" where
  "utf16_units x =
     (if x < 0x10000 then [of_nat x]
      else [of_nat (0xD800 + (x - 0x10000) div 0x400), of_nat (0xDC00 + (x - 0x10000) mod 0x400)])"

definition encode_wide :: "string \<Rightarrow> u16 list" where
  "encode_wide s = concat (map utf16_units (code_points s))"

definition to_wide :: "string \<Rightarrow> u16 list" where
  "to_wide s = encode_wide s @ [0]"

text \<open>Reading UTF-16 back: the scalar values of a list of units, and the string they spell.\<close>

fun wide_points :: "u16 list \<Rightarrow> nat list" where
  "wide_points [] = []"
| "wide_points (w # ws) =
     (if 0xD800 \<le> unat w \<and> unat w < 0xDC00 then
        (case ws of
           [] \<Rightarrow> []
         | v # vs \<Rightarrow> (0x10000 + (unat w - 0xD800) * 0x400 + (unat v - 0xDC00)) # wide_points vs)
      else unat w # wide_points ws)"

definition wide_string :: "u16 list \<Rightarrow> string" where
  "wide_string ws = concat (map utf8_encode (wide_points ws))"

lemma unat_of_nat_u16: "n < 0x10000 \<Longrightarrow> unat (of_nat n :: u16) = n"
  by (simp add: unat_of_nat)

lemma wide_points_units:
  assumes "scalar_value x"
  shows "wide_points (utf16_units x @ ws) = x # wide_points ws"
proof (cases "x < 0x10000")
  case True
  with assms show ?thesis by (auto simp: utf16_units_def unat_of_nat_u16 scalar_value_def)
next
  case False
  define hi lo where "hi = (x - 0x10000) div 0x400" and "lo = (x - 0x10000) mod 0x400"
  have "x < 0x110000" using assms False by (simp add: scalar_value_def)
  then have h: "hi < 0x400" "lo < 0x400" "x = 0x10000 + hi * 0x400 + lo"
    using False by (auto simp: hi_def lo_def)
  have u: "utf16_units x = [of_nat (0xD800 + hi), of_nat (0xDC00 + lo)]"
    using False by (simp add: utf16_units_def hi_def lo_def)
  have "unat (of_nat (0xD800 + hi) :: u16) = 0xD800 + hi" "unat (of_nat (0xDC00 + lo) :: u16) = 0xDC00 + lo"
    using h by (intro unat_of_nat_u16; simp)+
  with h u show ?thesis by (simp del: of_nat_add)
qed

lemma wide_roundtrip:
  assumes "utf8_valid s"
  shows "wide_string (encode_wide s) = s"
proof -
  have "list_all scalar_value xs \<Longrightarrow> wide_points (concat (map utf16_units xs)) = xs" for xs
    by (induction xs) (simp_all add: wide_points_units)
  then show ?thesis
    using code_points_roundtrip [OF assms] by (simp add: wide_string_def encode_wide_def)
qed

lemma units_scalar:
  assumes "list_all scalar_value (code_points s)"
  shows "set (encode_wide s) \<subseteq> {w. w \<noteq> 0} \<or> 0 \<in> set (code_points s)"
proof -
  have "0 \<notin> set (utf16_units x)" if "scalar_value x" "x \<noteq> 0" for x
  proof
    assume "0 \<in> set (utf16_units x)"
    moreover have "(of_nat n :: u16) \<noteq> 0" if "0 < n" "n < 0x10000" for n
      using that unat_of_nat_u16 [of n] by (metis less_numeral_extra(3) unat_0)
    ultimately show False
      using that by (auto simp: utf16_units_def scalar_value_def split: if_splits simp del: of_nat_add)
  qed
  with assms show ?thesis by (fastforce simp: encode_wide_def list_all_iff)
qed

text \<open>A name without a NUL character is stored as it is.\<close>

lemma name_units:
  assumes "utf8_valid s" and "CHR 0x00 \<notin> set s"
  shows "0 \<notin> set (encode_wide s)"
proof
  assume "0 \<in> set (encode_wide s)"
  with units_scalar code_points_roundtrip [OF assms(1)] have "0 \<in> set (code_points s)" by fastforce
  then have "set (utf8_encode 0) \<subseteq> set (concat (map utf8_encode (code_points s)))" by fastforce
  moreover have "utf8_encode 0 = [CHR 0x00]"
    using from_byte_byte [of "CHR 0x00"] by (simp add: utf8_encode_def byte_def)
  ultimately show False using code_points_roundtrip [OF assms(1)] assms(2) by simp
qed

section \<open>Paths that are not well-formed\<close>

definition high_surrogate :: "u16 \<Rightarrow> bool" where
  "high_surrogate w \<longleftrightarrow> 0xD800 \<le> unat w \<and> unat w < 0xDC00"

definition low_surrogate :: "u16 \<Rightarrow> bool" where
  "low_surrogate w \<longleftrightarrow> 0xDC00 \<le> unat w \<and> unat w < 0xE000"

text \<open>\<open>OsStr::to_string_lossy\<close>: the scalar values of a list of units, with U+FFFD for every surrogate
  that is not part of a pair, as a Rust string.\<close>

fun lossy_points :: "u16 list \<Rightarrow> nat list" where
  "lossy_points [] = []"
| "lossy_points (w # ws) =
     (if high_surrogate w then
        (case ws of
           v # vs \<Rightarrow>
             if low_surrogate v
             then (0x10000 + (unat w - 0xD800) * 0x400 + (unat v - 0xDC00)) # lossy_points vs
             else 0xFFFD # lossy_points ws
         | [] \<Rightarrow> [0xFFFD])
      else if low_surrogate w then 0xFFFD # lossy_points ws
      else unat w # lossy_points ws)"

definition to_string_lossy :: "u16 list \<Rightarrow> string" where
  "to_string_lossy ws = concat (map utf8_encode (lossy_points ws))"

text \<open>What that is in units: every single surrogate is replaced.\<close>

fun replace_unpaired :: "u16 list \<Rightarrow> u16 list" where
  "replace_unpaired [] = []"
| "replace_unpaired (w # ws) =
     (if high_surrogate w then
        (case ws of
           v # vs \<Rightarrow> if low_surrogate v then w # v # replace_unpaired vs else 0xFFFD # replace_unpaired ws
         | [] \<Rightarrow> [0xFFFD])
      else if low_surrogate w then 0xFFFD # replace_unpaired ws
      else w # replace_unpaired ws)"

lemma byte_from_byte: "n < 256 \<Longrightarrow> byte (from_byte n) = n"
  by (simp add: from_byte_def byte_def)

lemma digits64:
  fixes x :: nat
  shows "x = x div 4096 * 4096 + x div 64 mod 64 * 64 + x mod 64"
    and "x = x div 262144 * 262144 + x div 4096 mod 64 * 4096 + x div 64 mod 64 * 64 + x mod 64"
proof -
  have d: "x div 4096 = x div 64 div 64" "x div 262144 = x div 64 div 64 div 64"
    by (simp_all add: div_mult2_eq [symmetric])
  have "x = x div 64 * 64 + x mod 64" "x div 64 = x div 64 div 64 * 64 + x div 64 mod 64"
    "x div 64 div 64 = x div 64 div 64 div 64 * 64 + x div 64 div 64 mod 64" by simp_all
  then show "x = x div 4096 * 4096 + x div 64 mod 64 * 64 + x mod 64"
    and "x = x div 262144 * 262144 + x div 4096 mod 64 * 4096 + x div 64 mod 64 * 64 + x mod 64"
    unfolding d by linarith+
qed

lemma code_points_encode:
  assumes "scalar_value x"
  shows "code_points (utf8_encode x @ s) = x # code_points s"
proof -
  have x: "x < 0x110000" using assms by (auto simp: scalar_value_def)
  define A B C where "A = x div 4096 mod 64" and "B = x div 64 mod 64" and "C = x mod 64"
  have m: "A < 64" "B < 64" "C < 64" by (simp_all add: A_def B_def C_def)
  consider "x < 128" | "128 \<le> x" "x < 2048" | "2048 \<le> x" "x < 65536" | "65536 \<le> x" by linarith
  then show ?thesis
  proof cases
    case 1
    then show ?thesis by (simp add: utf8_encode_def byte_from_byte)
  next
    case 2
    then have "x div 64 < 32" "x = x div 64 * 64 + C" by (auto simp: C_def)
    with 2 m show ?thesis
      by (simp add: utf8_encode_def byte_from_byte flip: C_def)
  next
    case 3
    then have "x div 4096 < 16" "x = x div 4096 * 4096 + B * 64 + C"
      using digits64(1) [of x] by (auto simp: B_def C_def)
    with 3 m show ?thesis
      by (simp add: utf8_encode_def byte_from_byte flip: B_def C_def)
  next
    case 4
    then have "x div 262144 < 5" "x = x div 262144 * 262144 + A * 4096 + B * 64 + C"
      using x digits64(2) [of x] by (auto simp: A_def B_def C_def)
    with 4 m show ?thesis
      by (simp add: utf8_encode_def byte_from_byte flip: A_def B_def C_def)
  qed
qed

lemma code_points_string: "list_all scalar_value xs \<Longrightarrow> code_points (concat (map utf8_encode xs)) = xs"
  by (induction xs) (simp_all add: code_points_encode)

lemma surrogate_pair:
  assumes "high_surrogate w" and "low_surrogate v"
  shows "scalar_value (0x10000 + (unat w - 0xD800) * 0x400 + (unat v - 0xDC00))"
    and "utf16_units (0x10000 + (unat w - 0xD800) * 0x400 + (unat v - 0xDC00)) = [w, v]"
proof -
  define hi lo where "hi = unat w - 0xD800" and "lo = unat v - 0xDC00"
  have h: "hi < 0x400" "lo < 0x400" "unat w = 0xD800 + hi" "unat v = 0xDC00 + lo"
    using assms by (auto simp: high_surrogate_def low_surrogate_def hi_def lo_def)
  have "(of_nat (unat w) :: u16) = w" "(of_nat (unat v) :: u16) = v" by simp_all
  then have wv: "of_nat (0xD800 + hi) = w" "of_nat (0xDC00 + lo) = v"
    unfolding h(3,4) by blast+
  have "0x10000 + hi * 0x400 + lo < 0x110000" using h by linarith
  then show "scalar_value (0x10000 + (unat w - 0xD800) * 0x400 + (unat v - 0xDC00))"
    unfolding hi_def [symmetric] lo_def [symmetric] by (simp add: scalar_value_def)
  have "(0x10000 + hi * 0x400 + lo - 0x10000) div 0x400 = hi" "(0x10000 + hi * 0x400 + lo - 0x10000) mod 0x400 = lo"
    using h(1,2) by simp_all
  then show "utf16_units (0x10000 + (unat w - 0xD800) * 0x400 + (unat v - 0xDC00)) = [w, v]"
    unfolding hi_def [symmetric] lo_def [symmetric] using wv by (simp add: utf16_units_def)
qed

lemma plain_unit:
  assumes "\<not> high_surrogate w" and "\<not> low_surrogate w"
  shows "scalar_value (unat w)" and "utf16_units (unat w) = [w]"
proof -
  have "unat w < 0x10000" using unsigned_less [of w] by simp
  with assms show "scalar_value (unat w)" and "utf16_units (unat w) = [w]"
    by (auto simp: scalar_value_def high_surrogate_def low_surrogate_def utf16_units_def)
qed

lemma lossy_points_units:
  "list_all scalar_value (lossy_points ws) \<and> concat (map utf16_units (lossy_points ws)) = replace_unpaired ws"
proof (induction ws rule: lossy_points.induct)
  case (2 w ws)
  have r: "scalar_value 0xFFFD" "utf16_units 0xFFFD = [0xFFFD]" by (simp_all add: scalar_value_def utf16_units_def)
  show ?case
  proof (cases ws)
    case Nil
    then show ?thesis using 2 r plain_unit [of w] by simp
  next
    case (Cons v vs)
    then show ?thesis using 2 r plain_unit [of w] surrogate_pair [of w v] by simp
  qed
qed simp

lemma encode_lossy: "encode_wide (to_string_lossy ws) = replace_unpaired ws"
  using lossy_points_units [of ws] by (simp add: encode_wide_def to_string_lossy_def code_points_string)

text \<open>A well-formed list of units is left alone.\<close>

lemma replace_well_formed:
  "list_all scalar_value xs \<Longrightarrow> replace_unpaired (concat (map utf16_units xs)) = concat (map utf16_units xs)"
proof (induction xs)
  case (Cons x xs)
  show ?case
  proof (cases "x < 0x10000")
    case True
    then have "\<not> high_surrogate (of_nat x)" "\<not> low_surrogate (of_nat x)"
      using Cons.prems by (auto simp: high_surrogate_def low_surrogate_def unat_of_nat_u16 scalar_value_def)
    with True Cons show ?thesis by (simp add: utf16_units_def)
  next
    case False
    define hi lo where "hi = (x - 0x10000) div 0x400" and "lo = (x - 0x10000) mod 0x400"
    have "x < 0x110000" using Cons.prems False by (simp add: scalar_value_def)
    then have h: "hi < 0x400" "lo < 0x400" using False by (auto simp: hi_def lo_def)
    have "unat (of_nat (0xD800 + hi) :: u16) = 0xD800 + hi" "unat (of_nat (0xDC00 + lo) :: u16) = 0xDC00 + lo"
      using h by (intro unat_of_nat_u16; simp)+
    then have "high_surrogate (of_nat (0xD800 + hi))" "low_surrogate (of_nat (0xDC00 + lo))"
      using h by (simp_all add: high_surrogate_def low_surrogate_def del: of_nat_add)
    moreover have "utf16_units x = [of_nat (0xD800 + hi), of_nat (0xDC00 + lo)]"
      using False by (simp add: utf16_units_def hi_def lo_def)
    ultimately show ?thesis using Cons by (simp del: of_nat_add)
  qed
qed simp

section \<open>The registry\<close>

definition le_bytes :: "u16 \<Rightarrow> u8 list" where
  "le_bytes w = [ucast w, ucast (drop_bit 8 w)]"

text \<open>\<open>slice::from_raw_parts(value.as_ptr() as *const u8, value.len() * 2)\<close> on a little-endian
  machine.\<close>

definition raw_bytes :: "u16 list \<Rightarrow> u8 list" where
  "raw_bytes ws = concat (map le_bytes ws)"

fun units_of_bytes :: "u8 list \<Rightarrow> u16 list" where
  "units_of_bytes (a # b # bs) = (ucast a + 256 * ucast b) # units_of_bytes bs"
| "units_of_bytes _ = []"

lemma le_bytes_unit: "(ucast (ucast w :: u8) + 256 * ucast (ucast (drop_bit 8 w) :: u8) :: u16) = w"
proof (rule word_unat_eq_iff [THEN iffD2])
  have "unat w < 65536" using unsigned_less [of w] by simp
  then have "unat w div 256 < 256" by simp
  then show "unat (ucast (ucast w :: u8) + 256 * ucast (ucast (drop_bit 8 w) :: u8) :: u16) = unat w"
    by (simp add: unat_word_ariths unsigned_ucast_eq unsigned_drop_bit_eq drop_bit_eq_div take_bit_eq_mod)
qed

lemma units_of_raw_bytes: "units_of_bytes (raw_bytes ws) = ws"
  by (induction ws) (simp_all add: raw_bytes_def le_bytes_def le_bytes_unit)

text \<open>The calls: the executable's path as Windows has it, the error of opening the key and of writing to it, and
  whether a deletion succeeds.\<close>

record registry_os =
  ro_exe :: "(u16 list, string) result"
  ro_open_error :: "string option"
  ro_set_error :: "string option"
  ro_delete_ok :: bool

type_synonym registry = "u16 list \<rightharpoonup> u8 list"

text \<open>A zero-terminated string as the callee reads it.\<close>

definition pcwstr :: "u16 list \<Rightarrow> u16 list" where
  "pcwstr = takeWhile (\<lambda>w. w \<noteq> 0)"

definition set_autostart_windows ::
    "registry_os \<Rightarrow> string \<Rightarrow> bool \<Rightarrow> registry \<Rightarrow> (unit, string) result \<times> registry" where
  "set_autostart_windows ro app_name enable reg =
     (case ro_exe ro of
        Err e \<Rightarrow> (Err e, reg)
      | Ok exe \<Rightarrow>
          (case ro_open_error ro of
             Some e \<Rightarrow> (Err e, reg)
           | None \<Rightarrow>
               if enable then
                 (case ro_set_error ro of
                    Some e \<Rightarrow> (Err e, reg)
                  | None \<Rightarrow> (Ok (), reg(pcwstr (to_wide app_name) \<mapsto> raw_bytes (to_wide (to_string_lossy exe)))))
               else
                 (Ok (), if ro_delete_ok ro then reg(pcwstr (to_wide app_name) := None) else reg)))"

text \<open>C19. The autostart entry round trips: after it has been enabled, the value whose name is the
  application's name in UTF-16, from which that name is read back, holds the path of the executable as
  a zero-terminated UTF-16 string; the path is there unit for unit if it is well-formed, whatever characters
  it has, and else with U+FFFD for every surrogate that is not part of a pair. No other value changes, and
  disabling removes exactly this one, or nothing if the deletion fails. The name is a text without a NUL.\<close>

theorem autostart_roundtrip:
  assumes "set_autostart_windows ro app True reg = (Ok (), reg')"
    and "ro_exe ro = Ok exe" and "utf8_valid app" and "CHR 0x00 \<notin> set app"
  shows "\<exists>data. reg' = reg(encode_wide app \<mapsto> data) \<and> wide_string (encode_wide app) = app
    \<and> units_of_bytes data = replace_unpaired exe @ [0]
    \<and> (\<forall>xs. list_all scalar_value xs \<and> exe = concat (map utf16_units xs) \<longrightarrow> units_of_bytes data = exe @ [0])
    \<and> set_autostart_windows ro app False reg'
        = (Ok (), if ro_delete_ok ro then reg(encode_wide app := None) else reg')"
proof -
  have name: "pcwstr (to_wide app) = encode_wide app"
    using name_units [OF assms(3,4)] unfolding pcwstr_def to_wide_def by (subst takeWhile_append2) auto
  have "reg' = reg(encode_wide app \<mapsto> raw_bytes (to_wide (to_string_lossy exe)))" and "ro_open_error ro = None"
    using assms(1,2) by (auto simp: set_autostart_windows_def name split: option.splits)
  moreover have "units_of_bytes (raw_bytes (to_wide (to_string_lossy exe))) = replace_unpaired exe @ [0]"
    by (simp add: units_of_raw_bytes to_wide_def encode_lossy)
  ultimately show ?thesis
    using wide_roundtrip [OF assms(3)] assms(2) replace_well_formed
    by (intro exI [of _ "raw_bytes (to_wide (to_string_lossy exe))"])
       (auto simp: set_autostart_windows_def name)
qed

text \<open>A path that ends in half a surrogate pair.\<close>

definition sample_registry_os :: registry_os where
  "sample_registry_os = \<lparr>ro_exe = Ok [0x43, 0xE9, 0xD83D], ro_open_error = None,
     ro_set_error = None, ro_delete_ok = True\<rparr>"

theorem autostart_roundtrip_witness:
  "\<exists>reg' data. set_autostart_windows sample_registry_os ''Telemy'' True Map.empty = (Ok (), reg')
    \<and> reg' (encode_wide ''Telemy'') = Some data \<and> units_of_bytes data = [0x43, 0xE9, 0xFFFD, 0]"
proof -
  obtain reg' where r: "set_autostart_windows sample_registry_os ''Telemy'' True Map.empty = (Ok (), reg')"
    by (simp add: set_autostart_windows_def sample_registry_os_def)
  have e: "ro_exe sample_registry_os = Ok [0x43, 0xE9, 0xD83D]" by (simp add: sample_registry_os_def)
  have "utf8_valid ''Telemy''" "CHR 0x00 \<notin> set ''Telemy''" by (simp_all add: byte_def)
  then obtain data where "reg' = Map.empty(encode_wide ''Telemy'' \<mapsto> data)"
    "units_of_bytes data = replace_unpaired [0x43, 0xE9, 0xD83D] @ [0]"
    using autostart_roundtrip [OF r e] by blast
  moreover have "replace_unpaired [0x43, 0xE9, 0xD83D] = [0x43, 0xE9, 0xFFFD]"
    by (simp add: high_surrogate_def low_surrogate_def)
  ultimately show ?thesis using r by simp
qed

end
