(* ===== verification/Metrics.thy ===== *)
theory Metrics
  imports Telemetry_Model Rust_Std
begin

text \<open>
  The metrics hub of \<open>src/metrics/mod.rs\<close>, which turns what OBS, the operating system, the GPU
  driver and the network report into a telemetry frame. The OBS web-socket client (\<open>obws\<close>), \<open>sysinfo\<close>
  and \<open>nvml_wrapper\<close> are read through the record \<open>machine\<close>: one value of it is what they answer
  during one call of \<open>collect\<close>.
\<close>

section \<open>What the outside reports\<close>

record output_status =
  os_total_frames :: u32
  os_skipped_frames :: u32
  os_duration_ms :: int
  os_bytes :: u64

record stream_status =
  st_active :: bool
  st_total_frames :: u32
  st_skipped_frames :: u32

record obs_stats =
  bs_average_frame_render_time :: f64
  bs_render_skipped_frames :: u32
  bs_render_total_frames :: u32
  bs_output_skipped_frames :: u32
  bs_output_total_frames :: u32
  bs_active_fps :: f64
  bs_available_disk_space :: f64

text \<open>\<open>sysinfo::NetworkData\<close> of an interface after a refresh: the bytes since the refresh before, and the
  bytes in total.\<close>

record network_data =
  nd_received :: u64
  nd_transmitted :: u64
  nd_total_received :: u64
  nd_total_transmitted :: u64

text \<open>Fields of type \<open>option\<close> stand for results: \<open>None\<close> is an error. \<open>mc_instant\<close> gives the
  successive readings of the monotonic clock. \<open>mc_obs_connect host port password\<close>: whether a
  connection to OBS with these arguments succeeds.\<close>

record machine =
  mc_unix_secs :: "u64 option"
  mc_instant :: "nat \<Rightarrow> instant"
  mc_lowercase :: "string \<Rightarrow> string"
  mc_process_names :: "string list"
  mc_obs_connect :: "string \<Rightarrow> u16 \<Rightarrow> string option \<Rightarrow> bool"
  mc_outputs :: "(string \<times> output_status option) list option"
  mc_stream_status :: "stream_status option"
  mc_stats :: "obs_stats option"
  mc_recording :: "bool option"
  mc_studio_mode :: "bool option"
  mc_cpu_usage :: f32
  mc_total_memory :: u64
  mc_used_memory :: u64
  mc_gpu_device :: bool
  mc_gpu_utilization :: "u32 option"
  mc_gpu_temperature :: "u32 option"
  mc_interfaces :: "network_data list"
  mc_socket_addr_ok :: "string \<Rightarrow> bool"
  mc_connect_millis :: "nat option"

section \<open>The hub\<close>

record metrics_hub =
  mh_obs_host :: string
  mh_obs_port :: u16
  mh_obs_password :: "string option"
  mh_obs_client :: bool
  mh_last_net_at :: "instant option"
  mh_last_rx_bytes :: u64
  mh_last_tx_bytes :: u64
  mh_nvml :: bool
  mh_latency_target :: string
  mh_obs_auto_detect :: bool
  mh_obs_process_name :: string
  mh_last_process_check :: instant
  mh_obs_process_running :: bool

definition hub_new ::
    "instant \<Rightarrow> bool \<Rightarrow> string \<Rightarrow> u16 \<Rightarrow> string option \<Rightarrow> string \<Rightarrow> bool \<Rightarrow> string \<Rightarrow> metrics_hub" where
  "hub_new now nvml obs_host obs_port obs_password latency_target obs_auto_detect obs_process_name =
     \<lparr>mh_obs_host = obs_host, mh_obs_port = obs_port, mh_obs_password = obs_password,
      mh_obs_client = False, mh_last_net_at = None, mh_last_rx_bytes = 0, mh_last_tx_bytes = 0,
      mh_nvml = nvml, mh_latency_target = latency_target, mh_obs_auto_detect = obs_auto_detect,
      mh_obs_process_name = obs_process_name,
      mh_last_process_check = now - int (from_secs 5), mh_obs_process_running = True\<rparr>"

text \<open>\<open>u64 as f32\<close>, \<open>f64 as f32\<close> and \<open>Duration::as_secs_f32\<close>.\<close>

definition f32_of_word :: "'a::len word \<Rightarrow> f32" where
  "f32_of_word w = f32_of_nat (unat w)"

fun f32_of_f64 :: "f64 \<Rightarrow> f32" where
  "f32_of_f64 (Fin x) = rnd32 x"
| "f32_of_f64 x = x"

definition f32_of_int :: "int \<Rightarrow> f32" where
  "f32_of_int i = rnd32 (of_int i)"

definition as_secs_f32 :: "duration \<Rightarrow> f32" where
  "as_secs_f32 d = fadd (f32_of_nat (d div 10 ^ 9)) (fdiv (f32_of_nat (d mod 10 ^ 9)) (Fin (10 ^ 9)))"

section \<open>Collecting\<close>

definition refresh_obs_process :: "machine \<Rightarrow> metrics_hub \<Rightarrow> metrics_hub" where
  "refresh_obs_process m hub =
     (if duration_since (mc_instant m 0) (mh_last_process_check hub) < from_secs 2 then hub
      else hub\<lparr>mh_last_process_check := mc_instant m 1,
               mh_obs_process_running :=
                 list_ex (\<lambda>name. mc_lowercase m name = mc_lowercase m (mh_obs_process_name hub))
                   (mc_process_names m)\<rparr>)"

definition try_connect_obs :: "machine \<Rightarrow> metrics_hub \<Rightarrow> metrics_hub" where
  "try_connect_obs m hub =
     (if mc_obs_connect m (mh_obs_host hub) (mh_obs_port hub) (mh_obs_password hub)
      then hub\<lparr>mh_obs_client := True\<rparr> else hub)"

text \<open>One output of the list that OBS returned, with its status if that could be read.\<close>

definition collect_output :: "string \<times> output_status option \<Rightarrow> stream_output" where
  "collect_output out =
     (let stream = \<lparr>so_name = fst out, so_bitrate_kbps = 0, so_drop_pct = Fin 0, so_fps = Fin 0,
                    so_encoding_lag_ms = Fin 0\<rparr>
      in case snd out of
           None \<Rightarrow> stream
         | Some status \<Rightarrow>
             (let total_frames = f32_of_word (os_total_frames status);
                  skipped_frames = f32_of_word (os_skipped_frames status);
                  duration_secs = fdiv (f32_of_int (os_duration_ms status)) (Fin 1000);
                  bytes = f32_of_word (os_bytes status);
                  stream = (if flt (Fin 0) total_frames
                            then stream\<lparr>so_drop_pct := fdiv skipped_frames total_frames,
                                   so_fps := (if flt (Fin 0) duration_secs
                                              then fdiv total_frames duration_secs else Fin 0)\<rparr>
                            else stream)
              in if flt (Fin 0) duration_secs
                 then stream\<lparr>so_bitrate_kbps :=
                        as_u32 (fround (fdiv (fdiv (fmul bytes (Fin 8)) duration_secs) (Fin 1000)))\<rparr>
                 else stream))"

text \<open>The OBS part of \<open>collect\<close>: each step runs only while the client is still there, and a
  failing output list or stream status drops it.\<close>

definition obs_stream_status ::
    "machine \<Rightarrow> bool \<times> stream_output list \<times> obs_frame \<Rightarrow> bool \<times> stream_output list \<times> obs_frame" where
  "obs_stream_status m = (\<lambda>(client, outputs, obs).
     if \<not> client then (client, outputs, obs)
     else case mc_stream_status m of
            None \<Rightarrow> (False, outputs, obs)
          | Some status \<Rightarrow>
              (let drop_pct = (if st_total_frames status > 0
                     then fdiv (f32_of_word (st_skipped_frames status)) (f32_of_word (st_total_frames status))
                     else Fin 0)
               in (True,
                   map (\<lambda>o'. if feq (so_drop_pct o') (Fin 0) then o'\<lparr>so_drop_pct := drop_pct\<rparr> else o') outputs,
                   obs\<lparr>of_connected := True, of_streaming := st_active status,
                       of_total_frames := ucast (st_total_frames status),
                       of_total_dropped_frames := ucast (st_skipped_frames status)\<rparr>)))"

definition obs_general_stats ::
    "machine \<Rightarrow> bool \<times> stream_output list \<times> obs_frame \<Rightarrow> bool \<times> stream_output list \<times> obs_frame" where
  "obs_general_stats m = (\<lambda>(client, outputs, obs).
     case (if client then mc_stats m else None) of
       None \<Rightarrow> (client, outputs, obs)
     | Some stats \<Rightarrow>
         (client,
          map (so_encoding_lag_ms_update (\<lambda>_. f32_of_f64 (bs_average_frame_render_time stats))) outputs,
          obs\<lparr>of_render_missed_frames := bs_render_skipped_frames stats,
              of_render_total_frames := bs_render_total_frames stats,
              of_output_skipped_frames := bs_output_skipped_frames stats,
              of_output_total_frames := bs_output_total_frames stats,
              of_active_fps := f32_of_f64 (bs_active_fps stats),
              of_available_disk_space_mb := bs_available_disk_space stats\<rparr>))"

definition obs_recording_studio ::
    "machine \<Rightarrow> bool \<times> stream_output list \<times> obs_frame \<Rightarrow> bool \<times> stream_output list \<times> obs_frame" where
  "obs_recording_studio m = (\<lambda>(client, outputs, obs).
     if \<not> client then (client, outputs, obs)
     else (client, outputs,
           (case mc_recording m of Some active \<Rightarrow> obs\<lparr>of_recording := active\<rparr> | None \<Rightarrow> obs)
             \<lparr>of_studio_mode := unwrap_or (mc_studio_mode m) False\<rparr>))"

definition collect_obs :: "machine \<Rightarrow> bool \<Rightarrow> bool \<times> stream_output list \<times> obs_frame" where
  "collect_obs m client =
     (if \<not> client then (False, [], obs_frame_default)
      else
        (let r = (case mc_outputs m of
                    None \<Rightarrow> (False, [], obs_frame_default)
                  | Some outs \<Rightarrow> (True, map collect_output outs, obs_frame_default))
         in obs_recording_studio m (obs_general_stats m (obs_stream_status m r))))"

definition compute_health :: "stream_output list \<Rightarrow> f32" where
  "compute_health outputs =
     (if outputs = [] then Fin 0
      else
        (let avg_drop = fdiv (foldl fadd (Fin 0) (map so_drop_pct outputs)) (f32_of_nat (length outputs));
             health = fsub (Fin 1) avg_drop
         in fclamp (Fin 0) (Fin 1) health))"

definition collect_system :: "machine \<Rightarrow> f32 \<times> f32" where
  "collect_system m =
     (let mem_total = f32_of_word (mc_total_memory m);
          mem_used = f32_of_word (mc_used_memory m);
          mem_percent = (if flt (Fin 0) mem_total then fmul (fdiv mem_used mem_total) (Fin 100) else Fin 0)
      in (mc_cpu_usage m, mem_percent))"

definition collect_gpu :: "machine \<Rightarrow> metrics_hub \<Rightarrow> f32 option \<times> f32 option" where
  "collect_gpu m hub =
     (if \<not> mh_nvml hub \<or> \<not> mc_gpu_device m then (None, None)
      else (map_option f32_of_word (mc_gpu_utilization m), map_option f32_of_word (mc_gpu_temperature m)))"

text \<open>\<open>(upload, download)\<close> and the hub after it.\<close>

definition collect_network :: "machine \<Rightarrow> metrics_hub \<Rightarrow> (f32 \<times> f32) \<times> metrics_hub" where
  "collect_network m hub =
     (let rx_bytes = foldl saturating_add 0 (map nd_received (mc_interfaces m));
          tx_bytes = foldl saturating_add 0 (map nd_transmitted (mc_interfaces m));
          now = mc_instant m 2;
          rates =
            (case mh_last_net_at hub of
               None \<Rightarrow> (Fin 0, Fin 0)
             | Some prev \<Rightarrow>
                 (let dt = as_secs_f32 (duration_since now prev)
                  in if flt (Fin 0) dt then
                       (let delta_tx = saturating_sub tx_bytes (mh_last_tx_bytes hub);
                            delta_rx = saturating_sub rx_bytes (mh_last_rx_bytes hub)
                        in (fdiv (fdiv (fmul (f32_of_word delta_tx) (Fin 8)) dt) (Fin 1000000),
                            fdiv (fdiv (fmul (f32_of_word delta_rx) (Fin 8)) dt) (Fin 1000000)))
                     else (Fin 0, Fin 0)))
      in (rates, hub\<lparr>mh_last_net_at := Some now, mh_last_rx_bytes := rx_bytes, mh_last_tx_bytes := tx_bytes\<rparr>))"

text \<open>\<open>mc_connect_millis\<close>: the connection succeeded within 250 ms, after so many milliseconds.\<close>

definition collect_latency :: "machine \<Rightarrow> metrics_hub \<Rightarrow> f32" where
  "collect_latency m hub =
     (if \<not> mc_socket_addr_ok m (mh_latency_target hub) then Fin 0
      else case mc_connect_millis m of Some ms \<Rightarrow> f32_of_nat ms | None \<Rightarrow> Fin 0)"

definition collect :: "machine \<Rightarrow> metrics_hub \<Rightarrow> (telemetry_frame, string) result \<times> metrics_hub" where
  "collect m hub =
     (case mc_unix_secs m of
        None \<Rightarrow> (Err ''second time provided was later than self'', hub)
      | Some ts \<Rightarrow>
          (let hub = (if mh_obs_auto_detect hub then refresh_obs_process m hub else hub);
               hub = (if \<not> mh_obs_client hub \<and> mh_obs_process_running hub then try_connect_obs m hub else hub);
               (client, outputs, obs) = collect_obs m (mh_obs_client hub);
               hub = hub\<lparr>mh_obs_client := client\<rparr>;
               health = compute_health outputs;
               (cpu_percent, mem_percent) = collect_system m;
               (gpu_percent, gpu_temp_c) = collect_gpu m hub;
               ((upload_mbps, download_mbps), hub) = collect_network m hub;
               latency_ms = collect_latency m hub
           in (Ok \<lparr>tf_timestamp_unix = ts, tf_health = health, tf_obs = obs,
                   tf_system = \<lparr>sf_cpu_percent = cpu_percent, sf_mem_percent = mem_percent,
                                sf_gpu_percent = gpu_percent, sf_gpu_temp_c = gpu_temp_c\<rparr>,
                   tf_streams = outputs,
                   tf_network = \<lparr>nf_upload_mbps = upload_mbps, nf_download_mbps = download_mbps,
                                 nf_latency_ms = latency_ms\<rparr>\<rparr>, hub)))"

section \<open>Rounding of counts\<close>

lemma round_half_even_bounds: "\<lfloor>x\<rfloor> \<le> round_half_even x \<and> round_half_even x \<le> \<lfloor>x\<rfloor> + 1"
  by (simp add: round_half_even_def Let_def)

lemma ilog2_nat:
  assumes "0 < n"
  shows "ilog2 (of_nat n) = bitlen (int n) - 1" and "power_int 2 (bitlen (int n) - 1) \<le> (of_nat n :: rat)"
proof -
  have "(2::int) ^ nat (bitlen (int n) - 1) \<le> int n"
    using bitlen_bounds [of "int n"] assms by simp
  then have "(of_int (2 ^ nat (bitlen (int n) - 1)) :: rat) \<le> of_int (int n)"
    by (simp only: of_int_le_iff)
  moreover have "0 < bitlen (int n)"
    using assms bitlen_eq_zero_iff [of "int n"] bitlen_nonneg [of "int n"] by linarith
  ultimately show le: "power_int 2 (bitlen (int n) - 1) \<le> (of_nat n :: rat)"
    by (simp add: power_int_def)
  have "quotient_of (of_nat n :: rat) = (int n, 1)"
    using quotient_of_int [of "int n"] by (simp add: of_int_def)
  moreover have "bitlen 1 = 1" by (simp add: bitlen_def floorlog_def)
  ultimately show "ilog2 (of_nat n) = bitlen (int n) - 1" using le by (simp add: ilog2_def)
qed

text \<open>A positive count below \<open>2 ^ 64\<close> converts to a finite positive value.\<close>

lemma f32_of_nat_pos:
  assumes "0 < n" and "n < 2 ^ 64"
  shows "\<exists>y. f32_of_nat n = Fin y \<and> 0 < y"
proof -
  define b where "b = bitlen (int n)"
  define u :: rat where "u = power_int 2 (max (b - 1) (-126) - 23)"
  define y where "y = of_int (round_half_even (of_nat n / u)) * u"
  have b: "0 < b" "b \<le> 64"
  proof -
    show "0 < b"
      using assms(1) bitlen_eq_zero_iff [of "int n"] bitlen_nonneg [of "int n"] unfolding b_def by linarith
    have "(2::int) ^ nat (b - 1) \<le> int n" using bitlen_bounds [of "int n"] assms(1) by (simp add: b_def)
    also have "\<dots> < 2 ^ 64" using assms(2) by simp
    finally have "nat (b - 1) < 64" by (rule power_less_imp_less_exp [of "2::int", rotated]) simp
    then show "b \<le> 64" by simp
  qed
  have u: "0 < u" by (simp add: u_def)
  have lo: "1 \<le> of_nat n / u"
  proof -
    have "u \<le> power_int 2 (b - 1)" unfolding u_def using b by (intro power_int_increasing) auto
    also have "\<dots> \<le> of_nat n"
      using ilog2_nat(2) [OF assms(1)] by (simp add: b_def)
    finally show ?thesis using u by simp
  qed
  have "1 \<le> round_half_even (of_nat n / u)"
  proof -
    have "1 \<le> \<lfloor>of_nat n / u\<rfloor>" using lo by (simp add: le_floor_iff)
    then show ?thesis using round_half_even_bounds [of "of_nat n / u"] by linarith
  qed
  then have y0: "0 < y" using u by (simp add: y_def)
  have "y \<le> (of_int \<lfloor>of_nat n / u\<rfloor> + 1) * u"
    using round_half_even_bounds [of "of_nat n / u"] u
    by (simp add: y_def)
  also have "\<dots> \<le> (of_nat n / u + 1) * u" using u by simp
  also have "\<dots> \<le> 2 * of_nat n" using lo u by (simp add: field_simps)
  also have "\<dots> < 2 ^ 128"
  proof -
    have "(of_nat n :: rat) < of_nat (2 ^ 64)" using assms(2) by (simp only: of_nat_less_iff)
    then show ?thesis by simp
  qed
  finally have "\<bar>y\<bar> < 2 ^ 128" using y0 by simp
  then have "f32_of_nat n = Fin y"
    using assms(1) ilog2_nat(1) [OF assms(1)]
    by (simp add: f32_of_nat_def rnd32_def Let_def y_def u_def b_def)
  with y0 show ?thesis by blast
qed

section \<open>Health lies between 0 and 1\<close>

lemma f32_of_nat_nonneg [simp]: "nonneg (f32_of_nat n)"
  by (simp add: f32_of_nat_def nonneg_rnd32)

lemma nonneg_sum: "nonneg a \<Longrightarrow> list_all nonneg xs \<Longrightarrow> nonneg (foldl fadd a xs)"
  by (induction xs arbitrary: a) (simp_all add: nonneg_fadd)

lemma nonneg_fdiv_pos:
  assumes "nonneg x" and "flt (Fin 0) (Fin y)"
  shows "nonneg (fdiv x (Fin y))"
  using assms by (rule nonneg_fdiv)

lemma fsub_one_not_NaN: "nonneg x \<Longrightarrow> fsub (Fin 1) x \<noteq> NaN"
  by (cases x) (simp_all add: fsub_def rnd32_not_NaN)

lemma compute_health_bounds:
  assumes "list_all (\<lambda>o'. nonneg (so_drop_pct o')) outputs" and "length outputs < 2 ^ 64"
  shows "\<exists>h. compute_health outputs = Fin h \<and> 0 \<le> h \<and> h \<le> 1"
proof (cases "outputs = []")
  case False
  then obtain y where y: "f32_of_nat (length outputs) = Fin y" "0 < y"
    using f32_of_nat_pos [of "length outputs"] assms(2) by auto
  have "nonneg (foldl fadd (Fin 0) (map so_drop_pct outputs))"
    using assms(1) by (intro nonneg_sum) (simp_all add: list_all_length)
  then have "nonneg (fdiv (foldl fadd (Fin 0) (map so_drop_pct outputs)) (Fin y))"
    using y by (intro nonneg_fdiv_pos) simp_all
  then show ?thesis
    using fclamp_bounds [OF fsub_one_not_NaN, of _ 0 1] False y by (simp add: compute_health_def Let_def)
qed (simp add: compute_health_def)

lemma fdiv_word_nonneg: "flt (Fin 0) (f32_of_word w) \<Longrightarrow> nonneg x \<Longrightarrow> x \<noteq> Inf False \<Longrightarrow> nonneg (fdiv x (f32_of_word w))"
  by (cases "f32_of_word w"; cases x) (auto simp: nonneg_rnd32)

lemma f32_of_word_finite:
  fixes w :: "'a::len word"
  assumes "LENGTH('a) \<le> 64"
  shows "\<exists>y. f32_of_word w = Fin y \<and> 0 \<le> y \<and> (0 < y \<longleftrightarrow> w \<noteq> 0)"
proof (cases "w = 0")
  case True
  then show ?thesis by (simp add: f32_of_word_def f32_of_nat_def)
next
  case False
  have "unat w < 2 ^ LENGTH('a)" by (rule unsigned_less)
  also have "\<dots> \<le> 2 ^ 64" using assms by (intro power_increasing) simp_all
  finally obtain y where "f32_of_nat (unat w) = Fin y" "0 < y"
    using f32_of_nat_pos [of "unat w"] False by (auto simp: unat_gt_0)
  with False show ?thesis by (auto simp: f32_of_word_def)
qed

lemma ratio_nonneg:
  fixes a b :: u32
  assumes "flt (Fin 0) (f32_of_word b)"
  shows "nonneg (fdiv (f32_of_word a) (f32_of_word b))"
proof -
  obtain x where "f32_of_word a = Fin x" "0 \<le> x" using f32_of_word_finite [of a] by auto
  with assms show ?thesis by (intro fdiv_word_nonneg) simp_all
qed

lemma collect_output_nonneg: "nonneg (so_drop_pct (collect_output out))"
  by (cases "snd out") (simp_all add: collect_output_def Let_def ratio_nonneg)

definition drops_ok :: "bool \<times> stream_output list \<times> obs_frame \<Rightarrow> nat \<Rightarrow> bool" where
  "drops_ok r n \<longleftrightarrow> list_all (\<lambda>o'. nonneg (so_drop_pct o')) (fst (snd r)) \<and> length (fst (snd r)) \<le> n"

lemma obs_steps_drops:
  "drops_ok r n \<Longrightarrow> drops_ok (obs_stream_status m r) n"
  "drops_ok r n \<Longrightarrow> drops_ok (obs_general_stats m r) n"
  "drops_ok r n \<Longrightarrow> drops_ok (obs_recording_studio m r) n"
proof -
  have pos: "flt (Fin 0) (f32_of_word w)" if "0 < w" for w :: u32
    using f32_of_word_finite [of w] that by auto
  show "drops_ok r n \<Longrightarrow> drops_ok (obs_stream_status m r) n"
    by (auto simp: drops_ok_def obs_stream_status_def Let_def list_all_iff ratio_nonneg pos
        split: prod.splits option.splits)
  show "drops_ok r n \<Longrightarrow> drops_ok (obs_general_stats m r) n"
    by (auto simp: drops_ok_def obs_general_stats_def list_all_iff split: prod.splits option.splits)
  show "drops_ok r n \<Longrightarrow> drops_ok (obs_recording_studio m r) n"
    by (auto simp: drops_ok_def obs_recording_studio_def split: prod.splits)
qed

lemma collect_obs_drops:
  assumes "case mc_outputs m of None \<Rightarrow> True | Some outs \<Rightarrow> length outs \<le> n"
  shows "drops_ok (collect_obs m client) n"
proof -
  have "drops_ok (False, [], obs_frame_default) n" by (simp add: drops_ok_def)
  moreover have "drops_ok (True, map collect_output outs, obs_frame_default) n" if "length outs \<le> n" for outs
    using that by (simp add: drops_ok_def list_all_iff collect_output_nonneg)
  ultimately show ?thesis
    using assms by (auto simp: collect_obs_def Let_def split: option.splits intro!: obs_steps_drops)
qed

lemma collected_health:
  assumes "collect m hub = (Ok frame, hub')"
    and "case mc_outputs m of None \<Rightarrow> True | Some outs \<Rightarrow> length outs < 2 ^ 64"
  shows "\<exists>h. tf_health frame = Fin h \<and> 0 \<le> h \<and> h \<le> 1"
proof -
  obtain cl client outputs obs where c: "collect_obs m cl = (client, outputs, obs)"
    and f: "tf_health frame = compute_health outputs"
    using assms(1) by (auto simp: collect_def Let_def split: option.splits prod.splits)
  have "drops_ok (client, outputs, obs) (2 ^ 64 - 1)"
    using collect_obs_drops [where m = m and n = "2 ^ 64 - 1" and client = cl] assms(2) c
    by (auto split: option.splits)
  then show ?thesis
    using compute_health_bounds [of outputs] f by (simp add: drops_ok_def)
qed

definition sample_machine :: machine where
  "sample_machine =
     \<lparr>mc_unix_secs = Some 1700000000, mc_instant = (\<lambda>k. int k * 10 ^ 9), mc_lowercase = (\<lambda>s. s),
      mc_process_names = [], mc_obs_connect = (\<lambda>_ _ _. True),
      mc_outputs = Some [(''stream'', Some \<lparr>os_total_frames = 100, os_skipped_frames = 200,
        os_duration_ms = 2000, os_bytes = 1000000\<rparr>)],
      mc_stream_status = None, mc_stats = None, mc_recording = None, mc_studio_mode = None,
      mc_cpu_usage = Fin 10, mc_total_memory = 16, mc_used_memory = 8, mc_gpu_device = False,
      mc_gpu_utilization = None, mc_gpu_temperature = None, mc_interfaces = [\<lparr>nd_received = 1000, nd_transmitted = 500,
        nd_total_received = 1000, nd_total_transmitted = 500\<rparr>],
      mc_socket_addr_ok = (\<lambda>_. False), mc_connect_millis = None\<rparr>"

definition sample_hub :: metrics_hub where
  "sample_hub = hub_new 0 False ''127.0.0.1'' 4455 None ''x'' False ''obs64.exe''"

section \<open>Network rates\<close>

lemma network_state:
  "snd (collect_network m hub) = hub\<lparr>mh_last_net_at := Some (mc_instant m 2),
     mh_last_rx_bytes := foldl saturating_add 0 (map nd_received (mc_interfaces m)),
     mh_last_tx_bytes := foldl saturating_add 0 (map nd_transmitted (mc_interfaces m))\<rparr>"
  by (simp add: collect_network_def Let_def)

lemma fdiv_zero: "flt (Fin 0) x \<Longrightarrow> fdiv (Fin 0) x = Fin 0"
  by (cases x) (auto simp: rnd32_def)

lemma rates_zero:
  assumes "mh_last_rx_bytes hub = foldl saturating_add 0 (map nd_received (mc_interfaces m))"
    and "mh_last_tx_bytes hub = foldl saturating_add 0 (map nd_transmitted (mc_interfaces m))"
  shows "fst (collect_network m hub) = (Fin 0, Fin 0)"
  using assms
  by (auto simp: collect_network_def Let_def saturating_sub_def f32_of_word_def f32_of_nat_def fdiv_zero
      split: option.split)

text \<open>The documented meaning of the readings, for an interface list before and after a refresh: the totals
  grow, and the other two are by how much.\<close>

definition refreshed :: "network_data list \<Rightarrow> network_data list \<Rightarrow> bool" where
  "refreshed = list_all2 (\<lambda>a b.
     nd_total_received a \<le> nd_total_received b \<and> nd_total_transmitted a \<le> nd_total_transmitted b
   \<and> nd_received b = nd_total_received b - nd_total_received a
   \<and> nd_transmitted b = nd_total_transmitted b - nd_total_transmitted a)"

definition grows_by :: "network_data list \<Rightarrow> network_data list \<Rightarrow> (u64 \<times> u64) list \<Rightarrow> bool" where
  "grows_by before after amounts \<longleftrightarrow>
     map nd_total_received after = map2 (+) (map nd_total_received before) (map fst amounts)
   \<and> map nd_total_transmitted after = map2 (+) (map nd_total_transmitted before) (map snd amounts)
   \<and> length amounts = length before"

lemma refreshed_amounts:
  assumes "refreshed xs ys" and "grows_by xs ys amounts"
  shows "map nd_received ys = map fst amounts" and "map nd_transmitted ys = map snd amounts"
proof -
  have l: "length ys = length xs" "length amounts = length xs"
    using assms by (simp_all add: refreshed_def grows_by_def list_all2_lengthD)
  have "nd_received (ys ! i) = fst (amounts ! i) \<and> nd_transmitted (ys ! i) = snd (amounts ! i)"
    if "i < length xs" for i
  proof -
    have "map nd_total_received ys ! i = map2 (+) (map nd_total_received xs) (map fst amounts) ! i"
      "map nd_total_transmitted ys ! i = map2 (+) (map nd_total_transmitted xs) (map snd amounts) ! i"
      using assms(2) by (simp_all add: grows_by_def)
    then show ?thesis
      using that l assms(1) by (simp add: refreshed_def list_all2_conv_all_nth)
  qed
  with l show "map nd_received ys = map fst amounts" and "map nd_transmitted ys = map snd amounts"
    by (auto intro!: nth_equalityI)
qed

text \<open>C36. Steady traffic is shown as none: when the total counters of every interface grow by the same amounts
  from each refresh to the next, however large these are, the upload and the download rate of a collection
  that follows another are zero, whatever time lies between. For what the interfaces report as received and
  transmitted is, as \<open>sysinfo\<close> documents it, counted since the refresh before, and the rates are
  computed from the difference of two such reports.\<close>

theorem steady_traffic_shows_zero:
  assumes "refreshed (mc_interfaces m0) (mc_interfaces m1)" and "refreshed (mc_interfaces m1) (mc_interfaces m2)"
    and "grows_by (mc_interfaces m0) (mc_interfaces m1) amounts"
    and "grows_by (mc_interfaces m1) (mc_interfaces m2) amounts"
  shows "fst (collect_network m2 (snd (collect_network m1 hub))) = (Fin 0, Fin 0)"
  using refreshed_amounts [OF assms(1,3)] refreshed_amounts [OF assms(2,4)]
  by (intro rates_zero) (simp_all add: network_state)

definition counters :: "u64 \<Rightarrow> u64 \<Rightarrow> machine" where
  "counters r t = sample_machine\<lparr>mc_interfaces := [\<lparr>nd_received = r, nd_transmitted = r,
     nd_total_received = t, nd_total_transmitted = t\<rparr>]\<rparr>"

theorem steady_traffic_shows_zero_witness:
  "fst (collect_network (counters 1000000000 3000000000)
     (snd (collect_network (counters 1000000000 2000000000) sample_hub))) = (Fin 0, Fin 0)"
  by (rule steady_traffic_shows_zero
      [where ?m0.0 = "counters 1000000000 1000000000" and amounts = "[(1000000000, 1000000000)]"])
     (simp_all add: counters_def refreshed_def grows_by_def)

section \<open>OBS connection\<close>

text \<open>A frame says that OBS is connected exactly when OBS answered the status request of its
  stream during that collection, and the hub keeps its client for the next collection exactly then;
  a lost client leaves no OBS counters behind in the frame.\<close>

theorem connected_iff_status:
  "case collect_obs m client of
     (client', outputs, obs) \<Rightarrow>
       (of_connected obs \<longleftrightarrow> client \<and> mc_outputs m \<noteq> None \<and> mc_stream_status m \<noteq> None)
     \<and> (client' \<longleftrightarrow> of_connected obs)
     \<and> (if client' then outputs \<noteq> [] \<or> mc_outputs m = Some [] else obs = obs_frame_default)"
  by (auto simp: collect_obs_def obs_stream_status_def obs_general_stats_def obs_recording_studio_def
      Let_def obs_frame_default_def split: option.split)

end
