(* ===== verification/Exporter.thy ===== *)
theory Exporter
  imports Telemetry_Model Rust_Std
begin

text \<open>
  The Grafana exporter of \<open>src/exporters/mod.rs\<close> and the task of \<open>src/app/mod.rs\<close> that keeps trying to
  set it up. A histogram of \<open>opentelemetry\<close> is its name; recording a value is a measurement: name, label
  of the output if there is one, value. Building the OTLP exporter is a parameter.
\<close>

section \<open>Setting the exporter up\<close>

text \<open>\<open>ol_build endpoint headers\<close> is \<open>build_metrics_exporter\<close> with that endpoint and those headers.\<close>

record otlp_lib =
  ol_build :: "string \<Rightarrow> (string \<times> string) list \<Rightarrow> (unit, string) result"

record grafana_exporter =
  ge_health :: string
  ge_cpu :: string
  ge_mem :: string
  ge_gpu :: string
  ge_gpu_temp :: string
  ge_upload :: string
  ge_download :: string
  ge_latency :: string
  ge_out_bitrate :: string
  ge_out_drop :: string
  ge_out_fps :: string
  ge_out_lag :: string
  ge_render_missed :: string
  ge_render_total :: string
  ge_output_skipped :: string
  ge_output_total :: string
  ge_active_fps :: string
  ge_disk_space :: string

definition exporter_headers :: "string \<Rightarrow> string option \<Rightarrow> (string \<times> string) list" where
  "exporter_headers auth_header auth_value =
     (case auth_value of Some v \<Rightarrow> [(auth_header, v)] | None \<Rightarrow> [])"

text \<open>The global meter provider that \<open>new\<close> installs: where and how often its reader pushes.\<close>

record meter_provider =
  pv_endpoint :: string
  pv_headers :: "(string \<times> string) list"
  pv_interval_ms :: u64

definition exporter_new ::
    "otlp_lib \<Rightarrow> string \<Rightarrow> string \<Rightarrow> string option \<Rightarrow> u64
       \<Rightarrow> (grafana_exporter \<times> meter_provider, string) result" where
  "exporter_new lib endpoint auth_header auth_value interval_ms =
     and_then (ol_build lib endpoint (exporter_headers auth_header auth_value)) (\<lambda>_.
       Ok (\<lparr>ge_health = ''telemy.health'',
           ge_cpu = ''telemy.system.cpu_percent'',
           ge_mem = ''telemy.system.mem_percent'',
           ge_gpu = ''telemy.system.gpu_percent'',
           ge_gpu_temp = ''telemy.system.gpu_temp_c'',
           ge_upload = ''telemy.network.upload_mbps'',
           ge_download = ''telemy.network.download_mbps'',
           ge_latency = ''telemy.network.latency_ms'',
           ge_out_bitrate = ''telemy.output.bitrate_kbps'',
           ge_out_drop = ''telemy.output.drop_pct'',
           ge_out_fps = ''telemy.output.fps'',
           ge_out_lag = ''telemy.output.encoding_lag_ms'',
           ge_render_missed = ''telemy.obs.render_missed_frames'',
           ge_render_total = ''telemy.obs.render_total_frames'',
           ge_output_skipped = ''telemy.obs.output_skipped_frames'',
           ge_output_total = ''telemy.obs.output_total_frames'',
           ge_active_fps = ''telemy.obs.active_fps'',
           ge_disk_space = ''telemy.obs.disk_space_mb''\<rparr>,
           \<lparr>pv_endpoint = endpoint, pv_headers = exporter_headers auth_header auth_value,
            pv_interval_ms = interval_ms\<rparr>))"

section \<open>Recording a frame\<close>

type_synonym measurement = "string \<times> string option \<times> f64"

definition f64_of_u32 :: "u32 \<Rightarrow> f64" where
  "f64_of_u32 w = Fin (of_nat (unat w))"

definition record_output :: "grafana_exporter \<Rightarrow> stream_output \<Rightarrow> measurement list" where
  "record_output ge out =
     (let labels = Some (so_name out) in
      [(ge_out_bitrate ge, labels, f64_of_u32 (so_bitrate_kbps out)),
       (ge_out_drop ge, labels, so_drop_pct out),
       (ge_out_fps ge, labels, so_fps out),
       (ge_out_lag ge, labels, so_encoding_lag_ms out)])"

definition record_frame :: "grafana_exporter \<Rightarrow> telemetry_frame \<Rightarrow> measurement list" where
  "record_frame ge frame =
     (let s = tf_system frame; n = tf_network frame; ob = tf_obs frame in
      [(ge_health ge, None, tf_health frame),
       (ge_cpu ge, None, sf_cpu_percent s),
       (ge_mem ge, None, sf_mem_percent s),
       (ge_gpu ge, None, unwrap_or (sf_gpu_percent s) (Fin 0)),
       (ge_gpu_temp ge, None, unwrap_or (sf_gpu_temp_c s) (Fin 0)),
       (ge_upload ge, None, nf_upload_mbps n),
       (ge_download ge, None, nf_download_mbps n),
       (ge_latency ge, None, nf_latency_ms n),
       (ge_render_missed ge, None, f64_of_u32 (of_render_missed_frames ob)),
       (ge_render_total ge, None, f64_of_u32 (of_render_total_frames ob)),
       (ge_output_skipped ge, None, f64_of_u32 (of_output_skipped_frames ob)),
       (ge_output_total ge, None, f64_of_u32 (of_output_total_frames ob)),
       (ge_active_fps ge, None, of_active_fps ob),
       (ge_disk_space ge, None, of_available_disk_space_mb ob)]
      @ concat (map (record_output ge) (tf_streams frame)))"

section \<open>The exporter task\<close>

definition next_backoff :: "u64 \<Rightarrow> u64" where
  "next_backoff backoff_ms = min (backoff_ms * 2) 30000"

text \<open>\<open>libs k\<close> is the library at the \<open>k\<close>-th attempt to set the exporter up. The loop gives the delays
  it slept, in milliseconds, and the exporter it goes on with; \<open>None\<close> while it is still trying after the
  number of attempts in the first argument.\<close>

fun exporter_task ::
    "nat \<Rightarrow> (nat \<Rightarrow> otlp_lib) \<Rightarrow> string \<Rightarrow> string \<Rightarrow> string option \<Rightarrow> u64 \<Rightarrow> nat \<Rightarrow> u64
       \<Rightarrow> u64 list \<times> (grafana_exporter \<times> meter_provider) option" where
  "exporter_task 0 libs endpoint auth_header auth_value interval_ms k backoff_ms = ([], None)"
| "exporter_task (Suc n) libs endpoint auth_header auth_value interval_ms k backoff_ms =
     (case exporter_new (libs k) endpoint auth_header auth_value interval_ms of
        Ok exporter \<Rightarrow> ([], Some exporter)
      | Err _ \<Rightarrow>
          apfst (Cons backoff_ms)
            (exporter_task n libs endpoint auth_header auth_value interval_ms (Suc k) (next_backoff backoff_ms)))"

text \<open>What the task records once it has an exporter, from the frames on the watch channel at its ticks.\<close>

definition exporter_ticks :: "grafana_exporter \<Rightarrow> telemetry_frame list \<Rightarrow> measurement list" where
  "exporter_ticks exporter frames = concat (map (record_frame exporter) frames)"

section \<open>Properties\<close>

text \<open>What each name stands for: the quantities of the machine and of OBS, and those of an output. A GPU
  reading that is missing counts as zero.\<close>

definition machine_quantities :: "telemetry_frame \<Rightarrow> (string \<times> f64) list" where
  "machine_quantities frame =
     [(''telemy.health'', tf_health frame),
      (''telemy.system.cpu_percent'', sf_cpu_percent (tf_system frame)),
      (''telemy.system.mem_percent'', sf_mem_percent (tf_system frame)),
      (''telemy.system.gpu_percent'', case sf_gpu_percent (tf_system frame) of None \<Rightarrow> Fin 0 | Some x \<Rightarrow> x),
      (''telemy.system.gpu_temp_c'', case sf_gpu_temp_c (tf_system frame) of None \<Rightarrow> Fin 0 | Some x \<Rightarrow> x),
      (''telemy.network.upload_mbps'', nf_upload_mbps (tf_network frame)),
      (''telemy.network.download_mbps'', nf_download_mbps (tf_network frame)),
      (''telemy.network.latency_ms'', nf_latency_ms (tf_network frame)),
      (''telemy.obs.render_missed_frames'', f64_of_u32 (of_render_missed_frames (tf_obs frame))),
      (''telemy.obs.render_total_frames'', f64_of_u32 (of_render_total_frames (tf_obs frame))),
      (''telemy.obs.output_skipped_frames'', f64_of_u32 (of_output_skipped_frames (tf_obs frame))),
      (''telemy.obs.output_total_frames'', f64_of_u32 (of_output_total_frames (tf_obs frame))),
      (''telemy.obs.active_fps'', of_active_fps (tf_obs frame)),
      (''telemy.obs.disk_space_mb'', of_available_disk_space_mb (tf_obs frame))]"

definition output_quantities :: "(string \<times> (stream_output \<Rightarrow> f64)) list" where
  "output_quantities =
     [(''telemy.output.bitrate_kbps'', \<lambda>out. f64_of_u32 (so_bitrate_kbps out)),
      (''telemy.output.drop_pct'', so_drop_pct),
      (''telemy.output.fps'', so_fps),
      (''telemy.output.encoding_lag_ms'', so_encoding_lag_ms)]"

text \<open>The names are not shared.\<close>

lemma quantity_names: "distinct (map fst (machine_quantities frame) @ map fst output_quantities)"
proof -
  have "distinct [''telemy.health'', ''telemy.system.cpu_percent'', ''telemy.system.mem_percent'',
     ''telemy.system.gpu_percent'', ''telemy.system.gpu_temp_c'', ''telemy.network.upload_mbps'',
     ''telemy.network.download_mbps'', ''telemy.network.latency_ms'',
     ''telemy.obs.render_missed_frames'', ''telemy.obs.render_total_frames'',
     ''telemy.obs.output_skipped_frames'', ''telemy.obs.output_total_frames'',
     ''telemy.obs.active_fps'', ''telemy.obs.disk_space_mb'',
     ''telemy.output.bitrate_kbps'', ''telemy.output.drop_pct'', ''telemy.output.fps'',
     ''telemy.output.encoding_lag_ms'']"
    by code_simp
  then show ?thesis
    by (simp only: machine_quantities_def output_quantities_def list.map fst_conv append.simps)
qed

text \<open>A frame is recorded quantity by quantity.\<close>

lemma recorded:
  assumes "exporter_new lib endpoint h v i = Ok (ge, provider)"
  shows "record_frame ge frame = map (\<lambda>(n, x). (n, None, x)) (machine_quantities frame)
    @ concat (map (\<lambda>out. map (\<lambda>(n, q). (n, Some (so_name out), q out)) output_quantities) (tf_streams frame))"
proof -
  obtain u where u: "ol_build lib endpoint (exporter_headers h v) = Ok u"
    using assms by (cases "ol_build lib endpoint (exporter_headers h v)") (simp_all add: exporter_new_def)
  note ge = assms [unfolded exporter_new_def u and_then_simps sum.inject prod.inject, THEN conjunct1, symmetric]
  have "record_output ge = (\<lambda>out. map (\<lambda>(n, q). (n, Some (so_name out), q out)) output_quantities)"
    by (rule ext) (simp add: record_output_def output_quantities_def ge Let_def)
  then show ?thesis
    by (simp add: record_frame_def machine_quantities_def unwrap_or_def ge Let_def)
qed

lemma named_one: "distinct (map fst xs) \<Longrightarrow> (n, x) \<in> set xs \<Longrightarrow> filter (\<lambda>p. fst p = n) xs = [(n, x)]"
proof (induction xs)
  case (Cons p xs)
  then show ?case by (cases p) (auto simp: filter_empty_conv rev_image_eqI)
qed simp

lemma named_map: "filter (\<lambda>m. fst m = n) (map (\<lambda>(k, x). (k, f x)) xs) = map (\<lambda>(k, x). (k, f x)) (filter (\<lambda>p. fst p = n) xs)"
  by (induction xs) auto

lemma named_none: "n \<notin> set (map fst xs) \<Longrightarrow> filter (\<lambda>p. fst p = n) xs = []"
  by (auto simp: filter_empty_conv)

lemma backoff_double: "unat b \<le> 30000 \<Longrightarrow> unat (next_backoff b) = min 30000 (2 * unat b)"
proof -
  assume "unat b \<le> 30000"
  then have "unat (b * 2) = unat b * 2" by (simp add: unat_word_ariths)
  then show ?thesis by (simp add: next_backoff_def min_def word_le_nat_alt)
qed

text \<open>C20. The exporter task keeps trying and slows down: when the attempts fail until attempt \<open>k\<close>
  succeeds, the task ends up with the exporter of that attempt, and the delays it slept before are one
  second, doubled each time, never more than thirty seconds and never wrapped around.\<close>

theorem exporter_task_retries:
  assumes "exporter_new (libs k) endpoint h v interval = Ok (ge, provider)"
    and "\<forall>i < k. \<not> is_ok (exporter_new (libs i) endpoint h v interval)"
  shows "\<exists>delays. exporter_task (Suc k) libs endpoint h v interval 0 1000 = (delays, Some (ge, provider))
    \<and> map unat delays = map (\<lambda>i. min 30000 (1000 * 2 ^ i)) [0..<k]
    \<and> pv_endpoint provider = endpoint \<and> pv_interval_ms provider = interval
    \<and> pv_headers provider = (case v of None \<Rightarrow> [] | Some secret \<Rightarrow> [(h, secret)])"
proof -
  let ?task = "\<lambda>n. exporter_task n libs endpoint h v interval"
  have "snd (?task (Suc (k - i)) i b) = Some (ge, provider)
      \<and> map unat (fst (?task (Suc (k - i)) i b)) = map (\<lambda>i. min 30000 (1000 * 2 ^ i)) [i..<k]"
    if "i \<le> k" "unat b = min 30000 (1000 * 2 ^ i)" for i b
    using that
  proof (induction "k - i" arbitrary: i b)
    case 0
    then show ?case using assms(1) by simp
  next
    case (Suc m)
    then have "i < k" and m: "k - i = Suc (k - Suc i)" by linarith+
    then obtain e where e: "exporter_new (libs i) endpoint h v interval = Err e"
      using assms(2) by (cases "exporter_new (libs i) endpoint h v interval") auto
    have "unat (next_backoff b) = min 30000 (1000 * 2 ^ Suc i)"
      using backoff_double [of b] Suc.prems(2) by (simp add: min_def)
    with Suc.hyps(1) [of "Suc i" "next_backoff b"] Suc.hyps(2) \<open>i < k\<close>
    show ?case using e Suc.prems(2)
      by (subst (1 2) m) (simp add: upt_conv_Cons)
  qed
  from this [of 0 1000]
  have "?task (Suc k) 0 1000 = (fst (?task (Suc k) 0 1000), Some (ge, provider))"
    and "map unat (fst (?task (Suc k) 0 1000)) = map (\<lambda>i. min 30000 (1000 * 2 ^ i)) [0..<k]"
    by (simp_all add: prod_eq_iff)
  moreover have "pv_endpoint provider = endpoint \<and> pv_interval_ms provider = interval
      \<and> pv_headers provider = (case v of None \<Rightarrow> [] | Some secret \<Rightarrow> [(h, secret)])"
    using assms(1)
    by (cases "ol_build (libs k) endpoint (exporter_headers h v)")
       (auto simp: exporter_new_def exporter_headers_def split: option.split)
  ultimately show ?thesis by blast
qed

definition flaky_lib :: "nat \<Rightarrow> otlp_lib" where
  "flaky_lib k = \<lparr>ol_build = \<lambda>_ _. if k < 6 then Err ''down'' else Ok ()\<rparr>"

theorem exporter_task_retries_witness:
  "\<exists>delays ge provider. exporter_task 7 flaky_lib ''http://g'' ''Authorization'' (Some ''s'') 5000 0 1000
      = (delays, Some (ge, provider))
    \<and> map unat delays = [1000, 2000, 4000, 8000, 16000, 30000] \<and> pv_headers provider = [(''Authorization'', ''s'')]"
proof -
  obtain ge provider where ok: "exporter_new (flaky_lib 6) ''http://g'' ''Authorization'' (Some ''s'') 5000 = Ok (ge, provider)"
    by (simp add: exporter_new_def flaky_lib_def)
  have fails: "\<forall>i < 6. \<not> is_ok (exporter_new (flaky_lib i) ''http://g'' ''Authorization'' (Some ''s'') 5000)"
    by (simp add: exporter_new_def flaky_lib_def)
  have delays: "map (\<lambda>i. min 30000 (1000 * 2 ^ i)) [0..<6] = [1000, 2000, 4000, 8000, 16000, 30000 :: nat]"
    by (simp add: upt_conv_Cons)
  have "Suc 6 = 7" by simp
  with exporter_task_retries [where libs = flaky_lib and k = 6, OF ok fails] delays show ?thesis
    by (simp only: option.case) (elim exE conjE, intro exI conjI)
qed

text \<open>C22. An exported frame says what it measures: the exporter that was set up records, under the name of
  each quantity of the machine and of OBS, the value that the frame has for that quantity, once and without
  a label, and under the name of each quantity of an output, the value of every output in turn, labelled with
  that output's name; and it records nothing else.\<close>

theorem exported_measurements:
  assumes "exporter_new lib endpoint h v i = Ok (ge, provider)"
  shows "(\<forall>(name, x) \<in> set (machine_quantities frame).
      filter (\<lambda>m. fst m = name) (record_frame ge frame) = [(name, None, x)])
    \<and> (\<forall>(name, q) \<in> set output_quantities.
      filter (\<lambda>m. fst m = name) (record_frame ge frame)
        = map (\<lambda>out. (name, Some (so_name out), q out)) (tf_streams frame))
    \<and> length (record_frame ge frame) = length (machine_quantities frame)
        + length (tf_streams frame) * length output_quantities"
proof -
  let ?r = "record_frame ge frame"
  have d: "distinct (map fst (machine_quantities frame))" "distinct (map fst output_quantities)"
    "set (map fst (machine_quantities frame)) \<inter> set (map fst output_quantities) = {}"
    using quantity_names [of frame] unfolding distinct_append by blast+
  have outs: "filter (\<lambda>m. fst m = n) (concat (map (\<lambda>out. map (\<lambda>(k, q). (k, Some (so_name out), q out)) output_quantities) os))
      = concat (map (\<lambda>out. map (\<lambda>(k, q). (k, Some (so_name out), q out)) (filter (\<lambda>p. fst p = n) output_quantities)) os)"
    for n os by (induction os) (simp_all add: named_map)
  have "filter (\<lambda>m. fst m = name) ?r = [(name, None, x)]"
    if "(name, x) \<in> set (machine_quantities frame)" for name x
  proof -
    have "name \<notin> set (map fst output_quantities)" using that d(3) by force
    then show ?thesis
      using named_one [OF d(1) that] by (simp add: recorded [OF assms] named_map outs named_none)
  qed
  moreover have "filter (\<lambda>m. fst m = name) ?r = map (\<lambda>out. (name, Some (so_name out), q out)) (tf_streams frame)"
    if "(name, q) \<in> set output_quantities" for name q
  proof -
    have "name \<notin> set (map fst (machine_quantities frame))" using that d(3) by force
    then show ?thesis
      using named_one [OF d(2) that] by (simp add: recorded [OF assms] named_map outs named_none)
  qed
  moreover have "length ?r = length (machine_quantities frame) + length (tf_streams frame) * length output_quantities"
    by (simp add: recorded [OF assms] length_concat comp_def sum_list_triv)
  ultimately show ?thesis by blast
qed

theorem exported_measurements_witness:
  "\<exists>ge provider. exporter_new \<lparr>ol_build = \<lambda>_ _. Ok ()\<rparr> ''e'' ''Authorization'' None 500 = Ok (ge, provider)
    \<and> filter (\<lambda>m. fst m = ''telemy.health'') (record_frame ge telemetry_frame_default)
      = [(''telemy.health'', None, Fin 0)]"
proof -
  obtain ge provider where ge: "exporter_new \<lparr>ol_build = \<lambda>_ _. Ok ()\<rparr> ''e'' ''Authorization'' None 500 = Ok (ge, provider)"
    by (simp add: exporter_new_def)
  have "(''telemy.health'', Fin 0) \<in> set (machine_quantities telemetry_frame_default)"
    by (simp add: machine_quantities_def telemetry_frame_default_def)
  with exported_measurements [OF ge, of telemetry_frame_default] ge show ?thesis by blast
qed

end
