(* ===== verification/App.thy ===== *)
theory App
  imports Http_Correctness Autostart Metrics Exporter
begin

text \<open>
  The application of \<open>src/app/mod.rs\<close>: the command line, the server token, everything that is set up
  before the event loop (HTTP server, metrics hub, exporter, tray, autostart entry), the metrics task
  and the end of the program. The HTTP environment of \<open>Http_Server\<close> provides the libraries; what
  else the application reads is \<open>app_env\<close>.
\<close>

section \<open>Environment\<close>

text \<open>\<open>ae_random n\<close> are \<open>n\<close> random alphanumeric characters; \<open>ae_registry\<close> answers the registry calls
  (\<open>None\<close> off Windows); \<open>ae_instant\<close> and \<open>ae_nvml\<close> are the clock and the outcome of \<open>Nvml::init\<close> when
  the metrics hub is created; \<open>ae_print_*\<close> are \<open>serde_json\<close>'s printers.\<close>

record 'u app_env =
  ae_http :: "'u http_env"
  ae_args :: "string list"
  ae_random :: "nat \<Rightarrow> string"
  ae_registry :: "registry_os option"
  ae_instant :: instant
  ae_nvml :: bool
  ae_print_active :: "relay_session option \<Rightarrow> (string, string) result"
  ae_print_session :: "relay_session \<Rightarrow> (string, string) result"
  ae_print_stop :: "relay_stop_response \<Rightarrow> (string, string) result"

definition ae_os :: "'u app_env \<Rightarrow> os" where
  "ae_os env = he_os (ae_http env)"

definition ae_vault_lib :: "'u app_env \<Rightarrow> vault_lib" where
  "ae_vault_lib env = he_vault_lib (ae_http env)"

definition nth_arg :: "'u app_env \<Rightarrow> nat \<Rightarrow> string option" where
  "nth_arg env n = (if n < length (ae_args env) then Some (ae_args env ! n) else None)"

text \<open>What a command prints, or its error, and the files after it.\<close>

type_synonym cli_outcome = "(string list, string) result \<times> files"

definition open_vault :: "'u app_env \<Rightarrow> files \<Rightarrow> config \<Rightarrow> (vault, string) result" where
  "open_vault env fs config = vault_new (ae_os env) (ae_vault_lib env) fs (vc_path (cf_vault config))"

definition generate_token :: "'u app_env \<Rightarrow> nat \<Rightarrow> string" where
  "generate_token env len = ae_random env len"

definition app_idempotency_key :: "'u app_env \<Rightarrow> string" where
  "app_idempotency_key env =
     ''telemy-'' @ show_nat (he_unix_millis (ae_http env)) @ ''-'' @ generate_token env 12"

definition build_aegis_client ::
    "'u app_env \<Rightarrow> config \<Rightarrow> vault \<Rightarrow> ('u control_plane_client, string) result" where
  "build_aegis_client env config v =
     and_then (ok_or (ac_base_url (cf_aegis config)) ''missing aegis.base_url in config'') (\<lambda>base_url.
     and_then (ok_or (ac_access_jwt_key (cf_aegis config)) ''missing aegis.access_jwt_key in config'') (\<lambda>jwt_key.
     if trim base_url = [] then Err ''missing aegis.base_url in config''
     else if trim jwt_key = [] then Err ''missing aegis.access_jwt_key in config''
     else and_then (retrieve (ae_vault_lib env) v (trim jwt_key)) (\<lambda>access_jwt.
          map_err show_control_plane_error
            (client_new (he_http_lib (ae_http env)) (trim base_url) (trim access_jwt)))))"

section \<open>Commands\<close>

definition handle_vault_set :: "'u app_env \<Rightarrow> files \<Rightarrow> config \<Rightarrow> cli_outcome" where
  "handle_vault_set env fs config =
     (case and_then (ok_or (nth_arg env 2) ''missing key'') (\<lambda>key.
           and_then (ok_or (nth_arg env 3) ''missing value'') (\<lambda>val.
           and_then (open_vault env fs config) (\<lambda>v. Ok (key, val, v)))) of
        Err e \<Rightarrow> (Err e, fs)
      | Ok (key, val, v) \<Rightarrow>
          (case vault_store (ae_os env) (ae_vault_lib env) fs key val v of
             (Err e, v, fs) \<Rightarrow> (Err e, fs)
           | (Ok _, v, fs) \<Rightarrow> (Ok [''Stored vault key: '' @ key], fs)))"

definition handle_vault_get :: "'u app_env \<Rightarrow> files \<Rightarrow> config \<Rightarrow> cli_outcome" where
  "handle_vault_get env fs config =
     (and_then (ok_or (nth_arg env 2) ''missing key'') (\<lambda>key.
      and_then (open_vault env fs config) (\<lambda>v.
      and_then (retrieve (ae_vault_lib env) v key) (\<lambda>val. Ok [val]))), fs)"

definition handle_vault_list :: "'u app_env \<Rightarrow> files \<Rightarrow> config \<Rightarrow> cli_outcome" where
  "handle_vault_list env fs config =
     (and_then (open_vault env fs config) (\<lambda>v. Ok (list_keys v)), fs)"

definition handle_config_init :: "'u app_env \<Rightarrow> files \<Rightarrow> cli_outcome" where
  "handle_config_init env fs =
     (case write_default (ae_os env) fs (default_path (ae_os env)) of
        (Err e, fs) \<Rightarrow> (Err e, fs)
      | (Ok _, fs) \<Rightarrow> (Ok [''Wrote default config to '' @ default_path (ae_os env)], fs))"

definition set_autostart ::
    "'u app_env \<Rightarrow> string \<Rightarrow> bool \<Rightarrow> registry \<Rightarrow> (unit, string) result \<times> registry" where
  "set_autostart env app_name enable reg =
     (case ae_registry env of
        None \<Rightarrow> (Err ''autostart is only supported on Windows'', reg)
      | Some ro \<Rightarrow> set_autostart_windows ro app_name enable reg)"

definition handle_autostart ::
    "'u app_env \<Rightarrow> registry \<Rightarrow> bool \<Rightarrow> config \<Rightarrow> (string list, string) result \<times> registry" where
  "handle_autostart env reg enable config =
     (case set_autostart env (su_app_name (cf_startup config)) enable reg of
        (Err e, reg) \<Rightarrow> (Err e, reg)
      | (Ok _, reg) \<Rightarrow>
          (Ok [''autostart '' @ (if enable then ''enabled'' else ''disabled'') @ '' for ''
             @ su_app_name (cf_startup config)], reg))"

definition handle_aegis_relay_active :: "'u app_env \<Rightarrow> files \<Rightarrow> config \<Rightarrow> cli_outcome" where
  "handle_aegis_relay_active env fs config =
     (and_then (open_vault env fs config) (\<lambda>v.
      and_then (build_aegis_client env config v) (\<lambda>client.
      and_then (map_err show_control_plane_error (relay_active (he_http_lib (ae_http env)) client)) (\<lambda>session.
      and_then (ae_print_active env session) (\<lambda>text. Ok [text])))), fs)"

definition handle_aegis_relay_start :: "'u app_env \<Rightarrow> files \<Rightarrow> config \<Rightarrow> cli_outcome" where
  "handle_aegis_relay_start env fs config =
     (and_then (open_vault env fs config) (\<lambda>v.
      and_then (build_aegis_client env config v) (\<lambda>client.
      let request = \<lparr>sq_region_preference = nth_arg env 2,
            sq_client_context = Some \<lparr>cc_obs_connected = None, cc_mode = Some ''studio'',
              cc_requested_by = Some ''cli''\<rparr>\<rparr>
      in and_then (map_err show_control_plane_error
           (relay_start (he_http_lib (ae_http env)) client (app_idempotency_key env) request)) (\<lambda>session.
         and_then (ae_print_session env session) (\<lambda>text. Ok [text])))), fs)"

definition handle_aegis_relay_stop :: "'u app_env \<Rightarrow> files \<Rightarrow> config \<Rightarrow> cli_outcome" where
  "handle_aegis_relay_stop env fs config =
     (and_then (ok_or (nth_arg env 2)
        ''missing session_id (usage: aegis-relay-stop <session_id> [reason])'') (\<lambda>session_id.
      let reason = unwrap_or (nth_arg env 3) ''user_requested''
      in and_then (open_vault env fs config) (\<lambda>v.
         and_then (build_aegis_client env config v) (\<lambda>client.
         and_then (map_err show_control_plane_error (relay_stop (he_http_lib (ae_http env)) client
           \<lparr>tq_session_id = session_id, tq_reason = reason\<rparr>)) (\<lambda>response.
         and_then (ae_print_stop env response) (\<lambda>text. Ok [text]))))), fs)"

text \<open>The commands of \<open>run\<close>; \<open>None\<close> when the argument is no command and the server is started. A
  command changes the files or the registry.\<close>

type_synonym command_end = "(string list, string) result \<times> files \<times> registry"

definition on_files :: "registry \<Rightarrow> cli_outcome \<Rightarrow> command_end" where
  "on_files reg r = (fst r, snd r, reg)"

definition on_registry :: "files \<Rightarrow> (string list, string) result \<times> registry \<Rightarrow> command_end" where
  "on_registry fs r = (fst r, fs, snd r)"

definition run_command :: "'u app_env \<Rightarrow> files \<Rightarrow> registry \<Rightarrow> config \<Rightarrow> command_end option" where
  "run_command env fs reg config =
     (case nth_arg env 1 of
        None \<Rightarrow> None
      | Some command \<Rightarrow>
          if command = ''vault-set'' then Some (on_files reg (handle_vault_set env fs config))
          else if command = ''vault-get'' then Some (on_files reg (handle_vault_get env fs config))
          else if command = ''vault-list'' then Some (on_files reg (handle_vault_list env fs config))
          else if command = ''config-init'' then Some (on_files reg (handle_config_init env fs))
          else if command = ''autostart-enable'' then Some (on_registry fs (handle_autostart env reg True config))
          else if command = ''autostart-disable'' then Some (on_registry fs (handle_autostart env reg False config))
          else if command = ''aegis-relay-active'' then Some (on_files reg (handle_aegis_relay_active env fs config))
          else if command = ''aegis-relay-start'' then Some (on_files reg (handle_aegis_relay_start env fs config))
          else if command = ''aegis-relay-stop'' then Some (on_files reg (handle_aegis_relay_stop env fs config))
          else None)"

section \<open>Starting the server\<close>

definition obs_password_of :: "'u app_env \<Rightarrow> config \<Rightarrow> vault \<Rightarrow> string option" where
  "obs_password_of env config v =
     (case oc_password_key (cf_obs config) of
        None \<Rightarrow> None
      | Some key \<Rightarrow> (case retrieve (ae_vault_lib env) v key of Ok p \<Rightarrow> Some (trim p) | Err _ \<Rightarrow> None))"

definition grafana_auth_value_of :: "'u app_env \<Rightarrow> config \<Rightarrow> vault \<Rightarrow> string option" where
  "grafana_auth_value_of env config v =
     (case gc_auth_value_key (cf_grafana config) of
        None \<Rightarrow> None
      | Some key \<Rightarrow> (case retrieve (ae_vault_lib env) v key of Ok x \<Rightarrow> Some x | Err _ \<Rightarrow> None))"

definition grafana_configured :: "'u app_env \<Rightarrow> config \<Rightarrow> vault \<Rightarrow> bool" where
  "grafana_configured env config v \<longleftrightarrow>
     gc_enabled (cf_grafana config) \<and> gc_endpoint (cf_grafana config) \<noteq> None
     \<and> grafana_auth_value_of env config v \<noteq> None"

definition run_aegis_startup_probe ::
    "'u app_env \<Rightarrow> config \<Rightarrow> vault \<Rightarrow> relay_session option \<Rightarrow> relay_session option" where
  "run_aegis_startup_probe env config v snapshot =
     (if \<not> ac_enabled (cf_aegis config) then snapshot
      else case build_aegis_client env config v of
             Err _ \<Rightarrow> snapshot
           | Ok client \<Rightarrow>
               (case relay_active (he_http_lib (ae_http env)) client of
                  Ok (Some session) \<Rightarrow> Some session
                | Ok None \<Rightarrow> snapshot
                | Err _ \<Rightarrow> snapshot))"

text \<open>The token: from the configuration, else from the vault, else a new one that is stored there;
  an error of storing it is only logged.\<close>

definition server_token ::
    "'u app_env \<Rightarrow> config \<Rightarrow> vault \<Rightarrow> files \<Rightarrow> string \<times> vault \<times> files" where
  "server_token env config v fs =
     (case sv_token (cf_server config) of
        Some token \<Rightarrow> (token, v, fs)
      | None \<Rightarrow>
          (case retrieve (ae_vault_lib env) v ''server_token'' of
             Ok existing_token \<Rightarrow> (existing_token, v, fs)
           | Err _ \<Rightarrow>
               (let new_token = generate_token env 32;
                    (_, v, fs) = vault_store (ae_os env) (ae_vault_lib env) fs ''server_token'' new_token v
                in (new_token, v, fs))))"

text \<open>The state the HTTP server starts with. The queue belongs to the broadcast channel that
  \<open>spawn_server\<close> returned, the debug status is the fresh one.\<close>

definition server_of :: "'u app_env \<Rightarrow> files \<Rightarrow> config \<Rightarrow> vault \<Rightarrow> server_state" where
  "server_of env fs config v =
     (let (token, v', fs) = server_token env config v fs
      in \<lparr>hs_token = token, hs_theme = cf_theme config, hs_vault = v',
          hs_grafana_configured = grafana_configured env config v,
          hs_aegis_session = run_aegis_startup_probe env config v None,
          hs_ipc_queue = [], hs_ipc_debug = new_debug_status, hs_files = fs\<rparr>)"

text \<open>What the exporter task is given.\<close>

record exporter_settings =
  es_endpoint :: string
  es_auth_header :: string
  es_auth_value :: "string option"
  es_interval_ms :: u64

definition exporter_settings_of :: "'u app_env \<Rightarrow> config \<Rightarrow> vault \<Rightarrow> exporter_settings option" where
  "exporter_settings_of env config v =
     (let g = cf_grafana config in
      if gc_enabled g then
        map_option (\<lambda>endpoint. \<lparr>es_endpoint = endpoint, es_auth_header = gc_auth_header g,
            es_auth_value = grafana_auth_value_of env config v,
            es_interval_ms = gc_push_interval_ms g\<rparr>) (gc_endpoint g)
      else None)"

text \<open>The hub of the metrics task.\<close>

definition metrics_hub_of :: "'u app_env \<Rightarrow> config \<Rightarrow> vault \<Rightarrow> metrics_hub" where
  "metrics_hub_of env config v =
     (let obs = cf_obs config in
      hub_new (ae_instant env) (ae_nvml env) (oc_host obs) (oc_port obs) (obs_password_of env config v)
        (nc_latency_target (cf_network config)) (oc_auto_detect_process obs) (oc_process_name obs))"

definition dashboard_url :: "u16 \<Rightarrow> string \<Rightarrow> string" where
  "dashboard_url port token = ''http://127.0.0.1:'' @ show_nat (unat port) @ ''/obs?token='' @ token"

definition settings_url :: "u16 \<Rightarrow> string \<Rightarrow> string" where
  "settings_url port token = ''http://127.0.0.1:'' @ show_nat (unat port) @ ''/settings?token='' @ token"

text \<open>Everything that is running when the event loop is entered: the server's state and port, the hub,
  the exporter task and the tray thread if they were started, and the registry.\<close>

record launched =
  la_server :: server_state
  la_port :: u16
  la_hub :: metrics_hub
  la_exporter :: "exporter_settings option"
  la_tray :: "(string \<times> string) option"
  la_registry :: registry

definition launch :: "'u app_env \<Rightarrow> files \<Rightarrow> registry \<Rightarrow> config \<Rightarrow> (launched, string) result" where
  "launch env fs reg config =
     and_then (open_vault env fs config) (\<lambda>v.
     let server = server_of env fs config v;
         port = sv_port (cf_server config);
         reg = (if su_enable_autostart (cf_startup config)
                then snd (set_autostart env (su_app_name (cf_startup config)) True reg) else reg)
     in Ok \<lparr>la_server = server, la_port = port, la_hub = metrics_hub_of env config v,
            la_exporter = exporter_settings_of env config v,
            la_tray = (if tc_enable (cf_tray config)
                       then Some (dashboard_url port (hs_token server), settings_url port (hs_token server))
                       else None),
            la_registry = reg\<rparr>)"

text \<open>\<open>run\<close> up to the event loop: the outcome of a command, or what was launched.\<close>

definition run :: "'u app_env \<Rightarrow> files \<Rightarrow> registry \<Rightarrow> (command_end + launched, string) result" where
  "run env fs reg =
     and_then (load (ae_os env) fs) (\<lambda>config.
     case run_command env fs reg config of
       Some outcome \<Rightarrow> Ok (Inl outcome)
     | None \<Rightarrow> and_then (launch env fs reg config) (\<lambda>la. Ok (Inr la)))"

section \<open>The tasks\<close>

text \<open>One tick of the metrics task: a frame that could be collected replaces the one in the watch
  channel, from which the dashboard, the IPC session and the exporter read.\<close>

definition metrics_tick :: "machine \<Rightarrow> metrics_hub \<times> telemetry_frame \<Rightarrow> metrics_hub \<times> telemetry_frame" where
  "metrics_tick m = (\<lambda>(hub, current).
     case collect m hub of
       (Ok frame, hub) \<Rightarrow> (hub, frame)
     | (Err _, hub) \<Rightarrow> (hub, current))"

definition metrics_task :: "machine list \<Rightarrow> metrics_hub \<Rightarrow> metrics_hub \<times> telemetry_frame" where
  "metrics_task ms hub = fold metrics_tick ms (hub, telemetry_frame_default)"

text \<open>The end of the program: what the event loop waits for, and for each its result, whether the
  metrics task is aborted, and whether the server is told to shut down by \<open>run\<close>.\<close>

datatype ending = Server_Ended "(unit, string) result" | Ctrl_C | Shutdown_Requested

definition run_end :: "ending \<Rightarrow> (unit, string) result \<times> bool \<times> bool" where
  "run_end e =
     (case e of
        Server_Ended res \<Rightarrow> (res, False, False)
      | Ctrl_C \<Rightarrow> (Ok (), True, True)
      | Shutdown_Requested \<Rightarrow> (Ok (), True, False))"

section \<open>Properties\<close>

lemma vault_new_path:
  assumes "vault_new os lib fs path = Ok v"
  shows "vault_new os lib fs' (Some (va_path v)) = vault_new os lib fs' path"
    and "is_ok (ensure_parent os (va_path v))"
proof -
  obtain p where p: "p = (case path of Some p \<Rightarrow> p | None \<Rightarrow> default_vault_path os)" by simp
  with assms have "va_path v = p" "ensure_parent os p = Ok ()"
    by (auto simp: vault_new_def Let_def and_then_eq_Ok split: if_splits)
  with p show "vault_new os lib fs' (Some (va_path v)) = vault_new os lib fs' path"
    and "is_ok (ensure_parent os (va_path v))"
    by (simp_all add: vault_new_def)
qed

text \<open>The storage of a machine on which the libraries keep their laws and files can be read; protecting a
  secret and writing a file may fail.\<close>

definition sound_storage :: "'u app_env \<Rightarrow> bool" where
  "sound_storage env \<longleftrightarrow>
     crypto_lawful (ae_vault_lib env)
   \<and> (\<forall>es data. vl_json_print (ae_vault_lib env) es = Ok data \<longrightarrow> vl_json_parse (ae_vault_lib env) data = Ok es)
   \<and> (\<forall>p. os_unreadable (ae_os env) p = None)"

text \<open>The characters that need no encoding in a URL; those of a generated token are among them.\<close>

definition unreserved :: "char \<Rightarrow> bool" where
  "unreserved c \<longleftrightarrow> 48 \<le> byte c \<and> byte c \<le> 57 \<or> 65 \<le> byte c \<and> byte c \<le> 90
     \<or> 97 \<le> byte c \<and> byte c \<le> 122 \<or> c \<in> set ''-._~''"

lemma unreserved_ascii: "list_all unreserved s \<Longrightarrow> utf8_valid s"
  by (rule utf8_valid_ascii, erule list.pred_mono_strong) (auto simp: unreserved_def byte_def)

text \<open>C34. The server token is stable: if none is configured, a token generated at the first start is
  written to the vault, and if that succeeded, or the vault had one already, every later start on the files
  left behind uses the same token, whatever its random generator would give. The generator is taken to
  give letters and digits, the JSON library and base64 to read back what they wrote, the platform to unprotect
  what it protected, and the files to be readable.\<close>

theorem server_token_stable:
  assumes "open_vault env fs config = Ok v"
    and "sv_token (cf_server config) = None"
    and "server_token env config v fs = (token, v1, fs1)"
    and "sound_storage env" and "length (ae_random env 32) = 32" and "list_all unreserved (ae_random env 32)"
    and "is_ok (retrieve (ae_vault_lib env) v ''server_token'')
       \<or> is_ok (fst (vault_store (ae_os env) (ae_vault_lib env) fs ''server_token'' (ae_random env 32) v))"
  shows "\<exists>v2. open_vault (env\<lparr>ae_random := random'\<rparr>) fs1 config = Ok v2
    \<and> server_token (env\<lparr>ae_random := random'\<rparr>) config v2 fs1 = (token, v2, fs1)"
proof -
  let ?lib = "ae_vault_lib env" and ?os = "ae_os env"
  have same: "open_vault (env\<lparr>ae_random := random'\<rparr>) fs1 config = open_vault env fs1 config"
    "ae_vault_lib (env\<lparr>ae_random := random'\<rparr>) = ?lib"
    by (simp_all add: open_vault_def ae_os_def ae_vault_lib_def)
  show ?thesis
  proof (cases "retrieve ?lib v ''server_token''")
    case (Inr t)
    with assms(1-3) show ?thesis by (auto simp: server_token_def same)
  next
    case (Inl e)
    obtain res where st: "vault_store ?os ?lib fs ''server_token'' (ae_random env 32) v = (res, v1, fs1)"
      and tok: "token = ae_random env 32"
      using assms(2,3) Inl by (auto simp: server_token_def generate_token_def Let_def split: prod.splits)
    have "res = Ok ()" using assms(7) Inl st by (cases res) auto
    with st have stored: "vault_store ?os ?lib fs ''server_token'' (ae_random env 32) v = (Ok (), v1, fs1)"
      by simp
    have "vault_new ?os ?lib fs1 (Some (va_path v)) = Ok v1"
      using stored assms(1,4) vault_new_path(2) unfolding open_vault_def sound_storage_def
      by (intro restart_from_store [OF stored]) auto
    then have "open_vault env fs1 config = Ok v1"
      using vault_new_path(1) assms(1) by (simp add: open_vault_def)
    moreover have "retrieve ?lib v1 ''server_token'' = Ok token"
      using retrieve_after_store [OF stored _ _ stored_protected [OF stored]] assms(4-6) tok
      by (simp add: sound_storage_def storable_def unreserved_ascii)
    ultimately show ?thesis using assms(2) by (auto simp: same server_token_def)
  qed
qed

definition sample_app_env :: "string app_env" where
  "sample_app_env =
     \<lparr>ae_http = sample_http_env, ae_args = [''telemy''], ae_random = (\<lambda>n. replicate n CHR ''x''),
      ae_registry = None, ae_instant = 0, ae_nvml = False, ae_print_active = (\<lambda>_. Ok []), ae_print_session = (\<lambda>_. Ok []),
      ae_print_stop = (\<lambda>_. Ok [])\<rparr>"

lemma sample_storage: "sound_storage sample_app_env"
  using sample_vault_lawful sample_json
  by (simp add: sound_storage_def ae_vault_lib_def ae_os_def sample_app_env_def sample_http_env_def
      sample_os_def)

theorem server_token_stable_witness:
  "\<exists>v2 fs1. open_vault (sample_app_env\<lparr>ae_random := (\<lambda>_. ''other'')\<rparr>) fs1 (token_config None) = Ok v2
    \<and> server_token (sample_app_env\<lparr>ae_random := (\<lambda>_. ''other'')\<rparr>) (token_config None) v2 fs1
      = (replicate 32 CHR ''x'', v2, fs1)"
proof -
  let ?p = "default_vault_path sample_os"
  have v: "open_vault sample_app_env Map.empty (token_config None) = Ok \<lparr>va_path = ?p, va_entries = []\<rparr>"
    by (simp add: open_vault_def ae_os_def sample_app_env_def sample_http_env_def vault_new_def
        sample_parent token_config_def config_default_def Let_def)
  let ?r = "vault_store sample_os sample_vault_lib Map.empty ''server_token'' (replicate 32 CHR ''x'')
    \<lparr>va_path = ?p, va_entries = []\<rparr>"
  have ok: "fst ?r = Ok ()"
    by (simp add: vault_store_def vault_insert_def protect_def persist_def fs_write_def
        sample_vault_lib_def sample_os_def)
  obtain v1 fs1 where r: "?r = (Ok (), v1, fs1)" using ok by (cases ?r) auto
  have "retrieve sample_vault_lib \<lparr>va_path = ?p, va_entries = []\<rparr> ''server_token'' = Err ''missing vault key''"
    by (simp add: retrieve_def)
  then have "server_token sample_app_env (token_config None) \<lparr>va_path = ?p, va_entries = []\<rparr> Map.empty
      = (replicate 32 CHR ''x'', v1, fs1)"
    using r by (simp add: server_token_def ae_os_def ae_vault_lib_def sample_app_env_def sample_http_env_def
        generate_token_def token_config_def)
  moreover have "list_all unreserved (ae_random sample_app_env 32)" "length (ae_random sample_app_env 32) = 32"
    by (simp_all add: sample_app_env_def byte_def list_all_iff unreserved_def)
  ultimately show ?thesis
    using server_token_stable [OF v, of "replicate 32 CHR ''x''" v1 fs1 "\<lambda>_. ''other''"] ok sample_storage
    by (auto simp: token_config_def ae_os_def ae_vault_lib_def sample_app_env_def sample_http_env_def)
qed

lemma run_server:
  assumes "run env fs reg = Ok (Inr la)"
  obtains config v where "load (ae_os env) fs = Ok config" "open_vault env fs config = Ok v"
    "launch env fs reg config = Ok la" "la_server la = server_of env fs config v"
  using assms by (auto simp: run_def launch_def and_then_eq_Ok Let_def split: option.splits)

lemma server_of_fresh [simp]:
  "hs_ipc_queue (server_of env fs config v) = []"
  "hs_ipc_debug (server_of env fs config v) = new_debug_status"
  "hs_token (server_of env fs config v) = fst (server_token env config v fs)"
  "hs_grafana_configured (server_of env fs config v) = grafana_configured env config v"
  by (simp_all add: server_of_def split: prod.split)

text \<open>C35. An empty token opens the pages to everyone and locks the rest. Validation does not look at the
  token, so a configuration whose token is the empty string is as good as with any other; the server is
  started with it. Then every route that takes a query token lets in a request with an empty \<open>token\<close> in its
  query and no authorization header, and every route that wants the bearer token answers 401 to everyone,
  since no header value ends in a space once the HTTP library has stripped it of the blanks around it.\<close>

theorem empty_token_opens_pages:
  assumes "load (ae_os env) fs = Ok config" and "sv_token (cf_server config) = Some ''''"
    and "run env fs reg = Ok (Inr la)"
  shows "(\<forall>c t. validate (c\<lparr>cf_server := (cf_server c)\<lparr>sv_token := t\<rparr>\<rparr>) = validate c)
    \<and> (\<forall>req r. route_policy r = Some Allow \<and> hr_header req ''authorization'' = None
          \<and> hr_query req ''token'' = Some '''' \<longrightarrow>
        fst (fst (serve (ae_http env) req r (la_server la))) \<noteq> 401)
    \<and> (\<forall>req r. route_policy r = Some Deny
          \<and> (\<forall>h v. hr_header req ''authorization'' = Some h \<and> he_header_to_str (ae_http env) h = Some v \<longrightarrow>
               v = [] \<or> last v \<noteq> CHR '' '') \<longrightarrow>
        fst (fst (serve (ae_http env) req r (la_server la))) = 401)"
proof -
  have t: "hs_token (la_server la) = ''''"
    using assms(1,2) by - (rule run_server [OF assms(3)], simp add: server_token_def)
  have "bearer (ae_http env) req \<noteq> Some ''''"
    if "\<forall>h v. hr_header req ''authorization'' = Some h \<and> he_header_to_str (ae_http env) h = Some v \<longrightarrow>
      v = [] \<or> last v \<noteq> CHR '' ''" for req
    using that by (auto simp: bearer_def bind_eq_Some_conv strip_prefix_Some)
  then have "\<not> authorized (ae_http env) req (la_server la) Deny"
    if "\<forall>h v. hr_header req ''authorization'' = Some h \<and> he_header_to_str (ae_http env) h = Some v \<longrightarrow>
      v = [] \<or> last v \<noteq> CHR '' ''" for req
    using that by (auto simp: auth_simps t split: option.splits)
  moreover have "authorized (ae_http env) req (la_server la) Allow"
    if "hr_header req ''authorization'' = None" "hr_query req ''token'' = Some ''''" for req
    using that by (simp add: auth_simps bearer_def t)
  moreover have "validate (c\<lparr>cf_server := (cf_server c)\<lparr>sv_token := t\<rparr>\<rparr>) = validate c" for c t
    by (simp add: validate_def)
  ultimately show ?thesis unfolding serve_401 by auto
qed

definition open_app_env :: "string app_env" where
  "open_app_env = sample_app_env\<lparr>ae_http := sample_http_env\<lparr>he_os := without_overrides sample_os\<rparr>\<rparr>"

text \<open>A start with a configured token on a machine without overrides.\<close>

lemma sample_launch:
  obtains la where "load (ae_os open_app_env) [CONFIG_FILE \<mapsto> CHR ''t'' # t] = Ok (token_config (Some t))"
    "run open_app_env [CONFIG_FILE \<mapsto> CHR ''t'' # t] Map.empty = Ok (Inr la)" "hs_token (la_server la) = t"
proof -
  have os: "ae_os open_app_env = without_overrides sample_os"
    by (simp add: open_app_env_def ae_os_def)
  have l: "load (ae_os open_app_env) [CONFIG_FILE \<mapsto> CHR ''t'' # t] = Ok (token_config (Some t))"
    using token_config_valid [of "Some t"]
    by (simp add: os load_def without_overrides_apply validate_Ok [symmetric] active_config_path_def
        fs_read_def Let_def) (simp add: without_overrides_def sample_os_def)
  have "\<exists>v. vault_new (without_overrides sample_os) lib fs path = Ok v" for lib fs path
    by (cases "fs (case path of None \<Rightarrow> default_vault_path (without_overrides sample_os) | Some p \<Rightarrow> p)")
       (simp_all add: vault_new_def without_overrides_eqs sample_parent fs_read_def Let_def)
  then have "\<exists>v. open_vault open_app_env [CONFIG_FILE \<mapsto> CHR ''t'' # t] (token_config (Some t)) = Ok v"
    by (simp add: open_vault_def os)
  then obtain v where "open_vault open_app_env [CONFIG_FILE \<mapsto> CHR ''t'' # t] (token_config (Some t)) = Ok v"
    by blast
  with l have "\<exists>la. run open_app_env [CONFIG_FILE \<mapsto> CHR ''t'' # t] Map.empty = Ok (Inr la)
      \<and> hs_token (la_server la) = t"
    by (simp add: run_def run_command_def nth_arg_def launch_def open_app_env_def sample_app_env_def
        server_of_def server_token_def token_config_def Let_def)
  with l that show thesis by blast
qed

theorem empty_token_opens_pages_witness:
  "\<exists>la. run open_app_env [CONFIG_FILE \<mapsto> ''t''] Map.empty = Ok (Inr la)
    \<and> fst (fst (serve (ae_http open_app_env) \<lparr>hr_header = Map.empty, hr_query = [''token'' \<mapsto> '''']\<rparr>
        Get_Settings (la_server la))) \<noteq> 401
    \<and> fst (fst (serve (ae_http open_app_env)
        \<lparr>hr_header = [''authorization'' \<mapsto> ''Bearer''], hr_query = [''token'' \<mapsto> '''']\<rparr>
        Get_Ipc_Status (la_server la))) = 401"
proof -
  obtain la where l: "load (ae_os open_app_env) [CONFIG_FILE \<mapsto> ''t''] = Ok (token_config (Some ''''))"
    and la: "run open_app_env [CONFIG_FILE \<mapsto> ''t''] Map.empty = Ok (Inr la)"
    by (rule sample_launch [of "''''"])
  have "he_header_to_str (ae_http open_app_env) h = Some v \<longrightarrow> v = h" for h v
    by (simp add: open_app_env_def sample_http_env_def)
  moreover have "sv_token (cf_server (token_config (Some ''''))) = Some ''''"
    by (simp add: token_config_def)
  note e = empty_token_opens_pages [OF l this la]
  have "fst (fst (serve (ae_http open_app_env) \<lparr>hr_header = Map.empty, hr_query = [''token'' \<mapsto> '''']\<rparr>
      Get_Settings (la_server la))) \<noteq> 401"
    by (rule e [THEN conjunct2, THEN conjunct1, rule_format]) simp
  moreover have "fst (fst (serve (ae_http open_app_env)
      \<lparr>hr_header = [''authorization'' \<mapsto> ''Bearer''], hr_query = [''token'' \<mapsto> '''']\<rparr>
      Get_Ipc_Status (la_server la))) = 401"
    by (rule e [THEN conjunct2, THEN conjunct2, rule_format])
       (auto simp: open_app_env_def sample_http_env_def)
  ultimately show ?thesis using la by blast
qed

text \<open>C37. A secret set on the command line is printed by the command line: if \<open>vault-set key value\<close>
  succeeds, a following \<open>vault-get key\<close> with the same configuration, in another process that knows nothing but
  the file, prints exactly the value and changes no file. The JSON library and base64 are taken to read back what they
  wrote, the platform to unprotect what it protected, files to be readable, and the value to be a text,
  on Windows one shorter than 4 GiB.\<close>

theorem cli_vault_roundtrip:
  assumes "handle_vault_set (env\<lparr>ae_args := [prog, cmd, key, val]\<rparr>) fs config = (Ok out, fs1)"
    and "sound_storage env" and "storable (ae_vault_lib env) val"
  shows "handle_vault_get (env\<lparr>ae_args := [prog, cmd', key]\<rparr>) fs1 config = (Ok [val], fs1)"
proof -
  let ?lib = "ae_vault_lib env" and ?os = "ae_os env"
  have same: "open_vault (env\<lparr>ae_args := a\<rparr>) fs config = open_vault env fs config"
    "ae_vault_lib (env\<lparr>ae_args := a\<rparr>) = ?lib" "ae_os (env\<lparr>ae_args := a\<rparr>) = ?os" for a fs
    by (simp_all add: open_vault_def ae_os_def ae_vault_lib_def)
  obtain v v1 where v: "open_vault env fs config = Ok v"
    and stored: "vault_store ?os ?lib fs key val v = (Ok (), v1, fs1)"
    using assms(1)
    by (auto simp: handle_vault_set_def nth_arg_def same and_then_def ok_or_def
        split: sum.splits prod.splits)
  have "vault_new ?os ?lib fs1 (Some (va_path v)) = Ok v1"
    using stored v assms(2) vault_new_path(2) unfolding open_vault_def sound_storage_def
    by (intro restart_from_store [OF stored]) auto
  then have "open_vault env fs1 config = Ok v1"
    using vault_new_path(1) v by (simp add: open_vault_def)
  moreover have "retrieve ?lib v1 key = Ok val"
    using retrieve_after_store [OF stored _ _ stored_protected [OF stored]] assms(2,3)
    by (simp add: sound_storage_def)
  ultimately show ?thesis by (simp add: handle_vault_get_def nth_arg_def same)
qed

theorem cli_vault_roundtrip_witness:
  "\<exists>out fs1. handle_vault_set (sample_app_env\<lparr>ae_args := [''telemy'', ''vault-set'', ''k'', ''pw'']\<rparr>)
       Map.empty (token_config None) = (Ok out, fs1)
    \<and> handle_vault_get (sample_app_env\<lparr>ae_args := [''telemy'', ''vault-get'', ''k'']\<rparr>) fs1 (token_config None)
      = (Ok [''pw''], fs1)"
proof -
  have "\<exists>out fs1. handle_vault_set (sample_app_env\<lparr>ae_args := [''telemy'', ''vault-set'', ''k'', ''pw'']\<rparr>)
       Map.empty (token_config None) = (Ok out, fs1)"
    by (simp add: handle_vault_set_def nth_arg_def open_vault_def ae_os_def ae_vault_lib_def
        sample_app_env_def sample_http_env_def vault_new_def sample_parent token_config_def
        config_default_def Let_def vault_store_def vault_insert_def protect_def persist_def fs_write_def
        sample_vault_lib_def)
       (simp add: sample_os_def)
  moreover have "storable (ae_vault_lib sample_app_env) ''pw''"
    by (simp add: storable_def ae_vault_lib_def sample_app_env_def sample_http_env_def sample_vault_lib_def byte_def)
  ultimately show ?thesis
    using cli_vault_roundtrip [where env = sample_app_env and cmd' = "''vault-get''"] sample_storage by blast
qed

section \<open>What is running\<close>

definition health_ok :: "telemetry_frame \<Rightarrow> bool" where
  "health_ok frame \<longleftrightarrow> (\<exists>h. tf_health frame = Fin h \<and> 0 \<le> h \<and> h \<le> 1)"

text \<open>C21. The health on the watch channel is always a number between 0 and 1: after any number of ticks of
  the metrics task, whatever OBS reported in them, the frame that the dashboard, the plugin and the
  exporter read has such a health; more skipped than total frames, zero durations, failing requests or a
  failing collection never put a NaN or a value out of range there.\<close>

theorem broadcast_health_in_range:
  assumes "\<forall>m \<in> set ms. case mc_outputs m of None \<Rightarrow> True | Some outs \<Rightarrow> length outs < 2 ^ 64"
  shows "\<exists>h. tf_health (snd (metrics_task ms hub)) = Fin h \<and> 0 \<le> h \<and> h \<le> 1"
proof -
  have tick: "health_ok (snd (metrics_tick m p))"
    if "health_ok (snd p)" "case mc_outputs m of None \<Rightarrow> True | Some outs \<Rightarrow> length outs < 2 ^ 64" for m p
    using that collected_health
    by (fastforce simp: metrics_tick_def health_ok_def split: prod.split sum.split)
  have "health_ok (snd (fold metrics_tick ms p))" if "health_ok (snd p)" for p
    using assms that by (induction ms arbitrary: p) (simp_all add: tick)
  moreover have "health_ok (snd (hub, telemetry_frame_default))"
    by (simp add: health_ok_def telemetry_frame_default_def)
  ultimately show ?thesis unfolding metrics_task_def health_ok_def by blast
qed

theorem broadcast_health_in_range_witness:
  "\<exists>h. tf_health (snd (metrics_task [sample_machine, sample_machine] sample_hub)) = Fin h \<and> 0 \<le> h \<and> h \<le> 1"
  by (rule broadcast_health_in_range) (simp add: sample_machine_def)






text \<open>C27. The exporter and the metrics hub get no other secret than theirs. Of two starts with the same
  configuration, on whatever files, with vaults that give the same for the two keys that the configuration
  names for the Grafana header and the OBS password, both start the same exporter task, or none, and the same
  hub, and the settings page of both says the same about Grafana, whatever else the vaults hold. That page
  tells the truth: its flag is set exactly when there is an exporter with a value for the authorization
  header; that value, and the OBS password up to the blanks around it, are what the vault has under those keys.\<close>

theorem launched_secrets:
  assumes "load (ae_os env) fs = Ok config" and "open_vault env fs config = Ok v"
    and "run env fs reg = Ok (Inr la)"
    and "load (ae_os env) fs' = Ok config" and "open_vault env fs' config = Ok v'"
    and "run env fs' reg' = Ok (Inr la')"
    and "\<forall>key. gc_auth_value_key (cf_grafana config) = Some key \<or> oc_password_key (cf_obs config) = Some key \<longrightarrow>
      retrieve (ae_vault_lib env) v' key = retrieve (ae_vault_lib env) v key"
  shows "la_exporter la' = la_exporter la \<and> la_hub la' = la_hub la
   \<and> hs_grafana_configured (la_server la') = hs_grafana_configured (la_server la)
   \<and> (hs_grafana_configured (la_server la)
      \<longleftrightarrow> (\<exists>e a. la_exporter la = Some e \<and> es_auth_value e = Some a))
   \<and> (\<forall>e a. la_exporter la = Some e \<and> es_auth_value e = Some a \<longrightarrow>
        (\<exists>key. gc_auth_value_key (cf_grafana config) = Some key \<and> retrieve (ae_vault_lib env) v key = Ok a))
   \<and> (\<forall>p. mh_obs_password (la_hub la) = Some p \<longrightarrow>
        (\<exists>key raw. oc_password_key (cf_obs config) = Some key
          \<and> retrieve (ae_vault_lib env) v key = Ok raw \<and> p = trim raw))"
proof -
  have parts: "la_exporter x = exporter_settings_of env config w \<and> la_hub x = metrics_hub_of env config w
      \<and> hs_grafana_configured (la_server x) = grafana_configured env config w"
    if "load (ae_os env) fl = Ok config" "open_vault env fl config = Ok w" "run env fl r = Ok (Inr x)" for fl w r x
  proof -
    have "launch env fl r config = Ok x"
      using that(1,3) by (auto simp: run_def and_then_eq_Ok split: option.splits)
    then show ?thesis using that(2) by (auto simp: launch_def server_of_def Let_def split: prod.splits)
  qed
  have "grafana_auth_value_of env config v' = grafana_auth_value_of env config v"
    "obs_password_of env config v' = obs_password_of env config v"
    using assms(7) by (simp_all add: grafana_auth_value_of_def obs_password_of_def split: option.split)
  then have "exporter_settings_of env config v' = exporter_settings_of env config v"
    "metrics_hub_of env config v' = metrics_hub_of env config v"
    "grafana_configured env config v' = grafana_configured env config v"
    by (simp_all add: exporter_settings_of_def metrics_hub_of_def grafana_configured_def Let_def)
  then show ?thesis
    using parts [OF assms(1-3)] parts [OF assms(4-6)]
    by (auto simp: exporter_settings_of_def metrics_hub_of_def hub_new_def grafana_configured_def
        grafana_auth_value_of_def obs_password_of_def Let_def
        split: option.splits sum.splits if_splits)
qed

text \<open>A configuration with an exporter whose secret is stored, and an OBS password that is not.\<close>

definition grafana_sample :: config where
  "grafana_sample = (token_config (Some ''s''))\<lparr>
     cf_grafana := grafana_config_default\<lparr>gc_enabled := True, gc_endpoint := Some ''http://g'',
       gc_auth_value_key := Some ''g''\<rparr>,
     cf_obs := obs_config_default\<lparr>oc_password_key := Some ''p''\<rparr>,
     cf_vault := \<lparr>vc_path = Some ''v''\<rparr>\<rparr>"

definition grafana_app_env :: "string app_env" where
  "grafana_app_env = sample_app_env\<lparr>ae_http := sample_http_env\<lparr>he_os :=
     (without_overrides sample_os)\<lparr>os_toml_parse := (\<lambda>_. Ok grafana_sample)\<rparr>\<rparr>\<rparr>"

theorem launched_secrets_witness:
  "\<exists>fs v la. open_vault grafana_app_env fs grafana_sample = Ok v \<and> run grafana_app_env fs Map.empty = Ok (Inr la)
    \<and> hs_grafana_configured (la_server la) \<and> mh_obs_password (la_hub la) = None
    \<and> (\<exists>a. Option.bind (la_exporter la) es_auth_value = Some a
         \<and> retrieve (ae_vault_lib grafana_app_env) v ''g'' = Ok a)"
proof -
  let ?os = "(without_overrides sample_os)\<lparr>os_toml_parse := (\<lambda>_. Ok grafana_sample)\<rparr>"
  let ?fs = "[CONFIG_FILE \<mapsto> ''t'', ''v'' \<mapsto> ''g==tk'']"
  let ?v = "\<lparr>va_path = ''v'', va_entries = [(''g'', ''=tk'')]\<rparr>"
  have os: "ae_os grafana_app_env = ?os" and lib: "ae_vault_lib grafana_app_env = sample_vault_lib"
    by (simp_all add: grafana_app_env_def ae_os_def ae_vault_lib_def sample_http_env_def)
  have "apply_env_overrides ?os c = apply_env_overrides (without_overrides sample_os) c" for c
    by (simp add: apply_env_overrides_def obs_overrides_def server_overrides_def grafana_overrides_def
        aegis_overrides_def with_var_def telemy_var_def)
  then have over: "apply_env_overrides ?os c = c" for c by (simp add: without_overrides_apply)
  have valid: "validate grafana_sample = Ok ()"
    by (simp add: validate_Ok valid_config_def grafana_sample_def token_config_def config_default_def
        obs_config_default_def server_config_default_def grafana_config_default_def
        aegis_config_default_def network_config_default_def trim_target)
  have load: "load (ae_os grafana_app_env) ?fs = Ok grafana_sample"
    by (simp add: os load_def over valid active_config_path_def CONFIG_FILE_def fs_read_def Let_def)
       (simp add: without_overrides_def sample_os_def valid)
  have parent: "ensure_parent ?os p = ensure_parent sample_os p" for p
    by (simp add: ensure_parent_def without_overrides_def split: option.split)
  have cfg: "vc_path (cf_vault grafana_sample) = Some ''v''"
    "oc_password_key (cf_obs grafana_sample) = Some ''p''"
    "gc_enabled (cf_grafana grafana_sample)" "gc_endpoint (cf_grafana grafana_sample) = Some ''http://g''"
    "gc_auth_value_key (cf_grafana grafana_sample) = Some ''g''"
    by (simp_all add: grafana_sample_def)
  have fault: "os_unreadable (without_overrides sample_os) p = None" for p
    by (simp add: without_overrides_def sample_os_def)
  have vault: "open_vault grafana_app_env ?fs grafana_sample = Ok ?v"
    by (simp add: open_vault_def os lib vault_new_def cfg parent sample_parent fs_read_def fault Let_def)
       (simp add: sample_vault_lib_def CONFIG_FILE_def)
  have g: "retrieve sample_vault_lib ?v ''g'' = Ok ''tk''"
    by (simp add: retrieve_def sample_vault_lib_def unprotect_def from_utf8_def byte_def)
  have p: "retrieve sample_vault_lib ?v ''p'' = Err ''missing vault key''"
    by (simp add: retrieve_def)
  obtain la where la: "run grafana_app_env ?fs Map.empty = Ok (Inr la)"
    using load vault by (simp add: run_def run_command_def nth_arg_def launch_def Let_def
        grafana_app_env_def sample_app_env_def)
  then have "la_exporter la = exporter_settings_of grafana_app_env grafana_sample ?v"
    "la_hub la = metrics_hub_of grafana_app_env grafana_sample ?v"
    using load vault by (auto simp: run_def launch_def and_then_eq_Ok Let_def split: option.splits)
  then have e: "Option.bind (la_exporter la) es_auth_value = Some ''tk''" and h: "mh_obs_password (la_hub la) = None"
    using g p by (simp_all add: exporter_settings_of_def metrics_hub_of_def hub_new_def cfg lib
        grafana_auth_value_of_def obs_password_of_def Let_def)
  have "hs_grafana_configured (la_server la)"
    using launched_secrets [OF load vault la load vault la] e by (auto simp: Option.bind_eq_Some_conv)
  with vault la e h g lib show ?thesis by auto
qed

end
