(* ===== verification/Ipc_Framing.thy ===== *)
theory Ipc_Framing
  imports Ipc_Types
begin

text \<open>
  The wire format of the pipes (\<open>read_frame\<close>, \<open>write_frame\<close> and \<open>decode_payload\<close> of
  \<open>src/ipc/mod.rs\<close>): a frame is a little-endian 32-bit length followed by that many bytes of
  MessagePack. MessagePack (\<open>rmp_serde\<close>) and \<open>serde_json\<close> are parameters; the framing itself, its
  size limits, its errors and the loss of a partly read frame when the poll times out are
  modelled on bytes.
\<close>

section \<open>I/O errors\<close>

datatype io_error_kind = InvalidData | UnexpectedEof | BrokenPipe | OtherKind

record io_error =
  io_kind :: io_error_kind
  io_message :: string

definition io_err :: "io_error_kind \<Rightarrow> string \<Rightarrow> io_error" where
  "io_err k m = \<lparr>io_kind = k, io_message = m\<rparr>"

lemma io_err_sel [simp]: "io_kind (io_err k m) = k" "io_message (io_err k m) = m"
  by (simp_all add: io_err_def)

section \<open>Length prefix\<close>

definition write_u32_le :: "u32 \<Rightarrow> u8 list" where
  "write_u32_le w = [ucast w, ucast (drop_bit 8 w), ucast (drop_bit 16 w), ucast (drop_bit 24 w)]"

fun read_u32_le :: "u8 list \<Rightarrow> (nat \<times> u8 list) option" where
  "read_u32_le (a # b # c # d # rest) =
     Some (unat a + 2 ^ 8 * unat b + 2 ^ 16 * unat c + 2 ^ 24 * unat d, rest)"
| "read_u32_le _ = None"

lemma length_write_u32_le [simp]: "length (write_u32_le w) = 4"
  by (simp add: write_u32_le_def)

lemma read_u32_le_None: "read_u32_le bs = None \<longleftrightarrow> length bs < 4"
  by (cases bs rule: read_u32_le.cases) auto

lemma unat_byte_of: "unat (ucast (drop_bit k (w :: u32)) :: u8) = unat w div 2 ^ k mod 2 ^ 8"
proof -
  have "unat w < 2 ^ 32" using unsigned_less [of w] by simp
  then show ?thesis
    by (simp add: unsigned_ucast_eq unsigned_drop_bit_eq take_bit_eq_mod flip: drop_bit_eq_div)
qed

lemma base256:
  assumes "n < 2 ^ 32"
  shows "n mod 2 ^ 8 + 2 ^ 8 * (n div 2 ^ 8 mod 2 ^ 8) + 2 ^ 16 * (n div 2 ^ 16 mod 2 ^ 8)
    + 2 ^ 24 * (n div 2 ^ 24 mod 2 ^ 8) = (n::nat)"
proof -
  define q1 q2 q3 where "q1 = n div 256" and "q2 = q1 div 256" and "q3 = q2 div 256"
  have q: "n div 2 ^ 8 = q1" "n div 2 ^ 16 = q2" "n div 2 ^ 24 = q3"
    by (simp_all add: q1_def q2_def q3_def flip: div_mult2_eq)
  have "n = 256 * q1 + n mod 256" "q1 = 256 * q2 + q1 mod 256" "q2 = 256 * q3 + q2 mod 256"
    by (simp_all add: q1_def q2_def q3_def)
  moreover have "q3 < 256"
    using assms by (simp add: q1_def q2_def q3_def less_mult_imp_div_less flip: div_mult2_eq)
  ultimately show ?thesis unfolding q by simp
qed

lemma read_write_u32_le [simp]: "read_u32_le (write_u32_le w @ rest) = Some (unat w, rest)"
proof -
  have "unat w < 2 ^ 32" using unsigned_less [of w] by simp
  then show ?thesis
    using base256 [of "unat w"] unat_byte_of [of 0 w]
    by (simp add: write_u32_le_def unat_byte_of)
qed

section \<open>Frames on bytes\<close>

text \<open>What the reader makes of the bytes available to it: not enough of them, a length over the
  limit (only the prefix is consumed), or a payload.\<close>

datatype raw_read = Short | Too_Large nat "u8 list" | Frame "u8 list" "u8 list"

definition read_raw :: "u8 list \<Rightarrow> raw_read" where
  "read_raw bs =
     (case read_u32_le bs of
        None \<Rightarrow> Short
      | Some (len, rest) \<Rightarrow>
          if len > MAX_FRAME_SIZE then Too_Large len rest
          else if length rest < len then Short
          else Frame (take len rest) (drop len rest))"

definition frame_bytes :: "u8 list \<Rightarrow> u8 list" where
  "frame_bytes payload = write_u32_le (of_nat (length payload)) @ payload"

definition get_raw :: "u8 list \<Rightarrow> (u8 list \<times> u8 list) option" where
  "get_raw bs = (case read_raw bs of Frame p rest \<Rightarrow> Some (p, rest) | _ \<Rightarrow> None)"

lemma unat_len [simp]:
  "length payload \<le> MAX_FRAME_SIZE \<Longrightarrow> unat (of_nat (length payload) :: u32) = length payload"
  by (simp add: unat_of_nat MAX_FRAME_SIZE_def)

lemma read_raw_frame [simp]:
  "length payload \<le> MAX_FRAME_SIZE \<Longrightarrow> read_raw (frame_bytes payload @ rest) = Frame payload rest"
  by (simp add: read_raw_def frame_bytes_def)

lemma read_raw_Frame_length:
  "read_raw bs = Frame p rest \<Longrightarrow>
     length bs = 4 + length p + length rest \<and> length p \<le> MAX_FRAME_SIZE"
  by (cases bs rule: read_u32_le.cases)
     (auto simp: read_raw_def split: if_splits)

lemma read_raw_prefix:
  assumes "length payload \<le> MAX_FRAME_SIZE" and "n < length (frame_bytes payload)"
  shows "read_raw (take n (frame_bytes payload)) = Short"
proof (cases "n < 4")
  case True
  then have "read_u32_le (take n (frame_bytes payload)) = None"
    by (simp add: read_u32_le_None)
  then show ?thesis by (simp add: read_raw_def)
next
  case False
  then have "take n (frame_bytes payload)
      = write_u32_le (of_nat (length payload)) @ take (n - 4) payload"
    by (simp add: frame_bytes_def)
  with assms False show ?thesis
    by (simp add: read_raw_def frame_bytes_def)
qed

section \<open>The framing contract\<close>

text \<open>Any pair of a writer and a reader in which the reader gets back what was written and leaves
  the rest of the stream untouched recovers every sequence of messages from the concatenation of
  their frames.\<close>

primrec get_all :: "('b list \<Rightarrow> ('m \<times> 'b list) option) \<Rightarrow> nat \<Rightarrow> 'b list \<Rightarrow> 'm list \<times> 'b list" where
  "get_all get 0 bs = ([], bs)"
| "get_all get (Suc n) bs =
     (case get bs of
        None \<Rightarrow> ([], bs)
      | Some (m, rest) \<Rightarrow> apfst (\<lambda>ms. m # ms) (get_all get n rest))"

locale framing =
  fixes put :: "'m \<Rightarrow> 'b list"
    and get :: "'b list \<Rightarrow> ('m \<times> 'b list) option"
    and fits :: "'m \<Rightarrow> bool"
  assumes get_put: "fits m \<Longrightarrow> get (put m @ rest) = Some (m, rest)"
    and get_Nil: "get [] = None"
    and get_prefix: "fits m \<Longrightarrow> n < length (put m) \<Longrightarrow> get (take n (put m)) = None"
begin

lemma get_all_concat:
  "list_all fits ms \<Longrightarrow> length ms < n \<Longrightarrow> get rest = None \<Longrightarrow>
     get_all get n (concat (map put ms) @ rest) = (ms, rest)"
proof (induction ms arbitrary: n)
  case Nil
  then show ?case by (cases n) simp_all
next
  case (Cons m ms)
  then show ?case by (cases n) (simp_all add: get_put)
qed

lemma put_inj: "fits m \<Longrightarrow> fits m' \<Longrightarrow> put m = put m' \<Longrightarrow> m = m'"
  using get_put [of m "[]"] get_put [of m' "[]"] by simp

lemma stream_cut:
  "list_all fits ms \<Longrightarrow> fits m \<Longrightarrow> n < length (put m) \<Longrightarrow> length ms < k \<Longrightarrow>
     get_all get k (concat (map put ms) @ take n (put m)) = (ms, take n (put m))"
  by (rule get_all_concat) (simp_all add: get_prefix)

end

interpretation raw: framing frame_bytes get_raw "\<lambda>p. length p \<le> MAX_FRAME_SIZE"
proof
  show "length p \<le> MAX_FRAME_SIZE \<Longrightarrow> get_raw (frame_bytes p @ rest) = Some (p, rest)" for p rest
    by (simp add: get_raw_def)
  show "get_raw [] = None"
    by (simp add: get_raw_def read_raw_def)
  show "length p \<le> MAX_FRAME_SIZE \<Longrightarrow> n < length (frame_bytes p) \<Longrightarrow>
      get_raw (take n (frame_bytes p)) = None" for p n
    by (simp add: get_raw_def read_raw_prefix)
qed

text \<open>Everything the framing writes, it reads back: any sequence of payloads of at most
  64 KiB, written one after the other and followed by a frame that was cut off anywhere, is
  recovered payload by payload, and the cut-off frame is left on the stream.\<close>

theorem framing_roundtrip:
  assumes "\<forall>p \<in> set (payload # payloads). length p \<le> MAX_FRAME_SIZE"
    and "n < length (frame_bytes payload)"
  shows "get_all get_raw (Suc (length payloads))
           (concat (map frame_bytes payloads) @ take n (frame_bytes payload))
         = (payloads, take n (frame_bytes payload))"
  using assms by (intro raw.stream_cut) (auto simp: list_all_iff)

theorem framing_roundtrip_witness:
  "get_all get_raw (Suc (length [[1, 2 :: u8], []]))
     (concat (map frame_bytes [[1, 2], []]) @ take 5 (frame_bytes [7, 8, 9]))
   = ([[1, 2], []], take 5 (frame_bytes [7, 8, 9]))"
  by (rule framing_roundtrip) (simp_all add: MAX_FRAME_SIZE_def frame_bytes_def)

end
