(* ===== verification/Ipc_Session.thy ===== *)
theory Ipc_Session
  imports Ipc_Framing
begin

text \<open>
  The session loop of \<open>src/ipc/mod.rs\<close> (\<open>handle_session_io\<close>) and the named-pipe server around it.

  The environment record holds what the loop reads from outside: the clocks, fresh UUIDs, the
  commands received from the broadcast channel, the current telemetry frame and relay session,
  the bytes arriving on the command pipe during a poll window, the outcome of a write on the event
  pipe, the iteration order of the hash map, and the codecs of \<open>rmp_serde\<close> and \<open>serde_json\<close>.
  Every read is answered by a function of the session's counter \<open>seq\<close>, which the read then
  advances: any sequence of outside events is a choice of these functions. The type \<open>'v\<close> is
  \<open>serde_json::Value\<close>.

  The state record holds the local variables of \<open>handle_session_io\<close>, the debug status shared with
  the HTTP server, the unread bytes of the command pipe, the bytes accepted by the event pipe and,
  for the statements below, the list of the envelopes whose \<open>write_frame\<close> succeeded.
\<close>

section \<open>Environment and state\<close>

text \<open>How a poll window on the command pipe ends when no whole frame has arrived in it.\<close>

datatype poll_end = Elapsed | Closed | Failed io_error

record 'v ipc_env =
  ie_instant :: "nat \<Rightarrow> instant"
  ie_unix_ms :: "nat \<Rightarrow> u64"
  ie_uuid :: "nat \<Rightarrow> string"
  ie_try_recv :: "nat \<Rightarrow> core_ipc_command list"
  ie_frame :: "nat \<Rightarrow> telemetry_frame"
  ie_relay :: "nat \<Rightarrow> relay_session option"
  ie_hash_order :: "nat \<Rightarrow> (string \<times> pending_switch_scene) list \<Rightarrow> (string \<times> pending_switch_scene) list"
  ie_poll :: "nat \<Rightarrow> u8 list \<times> poll_end"
  ie_pipe_write :: "nat \<Rightarrow> (nat \<times> io_error) option"
  ie_accept :: "nat \<Rightarrow> io_error option"
  ie_core_version :: string
  ie_from_slice :: "u8 list \<Rightarrow> ('v envelope, string) result"
  ie_to_vec_named :: "event_payload envelope \<Rightarrow> (u8 list, string) result"
  ie_hello :: "'v \<Rightarrow> (hello_payload, string) result"
  ie_ping :: "'v \<Rightarrow> (ping_payload, string) result"
  ie_request_status :: "'v \<Rightarrow> (unit, string) result"
  ie_set_mode :: "'v \<Rightarrow> (set_mode_request_payload, string) result"
  ie_set_setting :: "'v \<Rightarrow> (set_setting_request_payload, string) result"
  ie_scene_switch_result :: "'v \<Rightarrow> (scene_switch_result_payload, string) result"
  ie_obs_shutdown_notice :: "'v \<Rightarrow> (obs_shutdown_notice_payload, string) result"

record ipc_session =
  is_protocol_errors :: protocol_error_tracker
  is_pending_switches :: "(string \<times> pending_switch_scene) list"
  is_overrides :: session_overrides
  is_handshake_complete :: bool
  is_last_ping_at :: instant
  is_last_status_push_at :: instant
  is_debug :: ipc_debug_status
  is_cmd_buf :: "u8 list"
  is_evt_bytes :: "u8 list"
  is_evt_log :: "event_payload envelope list"
  is_seq :: nat

text \<open>What a part of the loop body does next: go on (at the end of the body: loop), or return
  from the session with an \<open>io::Result<()>\<close>.\<close>

datatype flow = Proceed | Return "(unit, io_error) result"

definition and_proceed :: "flow \<times> 's \<Rightarrow> ('s \<Rightarrow> flow \<times> 's) \<Rightarrow> flow \<times> 's" where
  "and_proceed r k = (case r of (Proceed, s) \<Rightarrow> k s | (Return x, s) \<Rightarrow> (Return x, s))"

definition try_io :: "(unit, io_error) result \<times> 's \<Rightarrow> ('s \<Rightarrow> flow \<times> 's) \<Rightarrow> flow \<times> 's" where
  "try_io r k = (case r of (Ok _, s) \<Rightarrow> k s | (Err e, s) \<Rightarrow> (Return (Err e), s))"

definition ask :: "(nat \<Rightarrow> 'a) \<Rightarrow> ipc_session \<Rightarrow> 'a \<times> ipc_session" where
  "ask f s = (f (is_seq s), s\<lparr>is_seq := Suc (is_seq s)\<rparr>)"

section \<open>Envelopes and frames\<close>

definition make_envelope ::
    "'v ipc_env \<Rightarrow> string \<Rightarrow> priority \<Rightarrow> event_payload \<Rightarrow> ipc_session
       \<Rightarrow> event_payload envelope \<times> ipc_session" where
  "make_envelope env message_type prio payload s =
     (let (id, s) = ask (ie_uuid env) s;
          (ts, s) = ask (ie_unix_ms env) s
      in (\<lparr>ev_v = IPC_PROTOCOL_VERSION, ev_id = id, ev_ts_unix_ms = ts, ev_type = message_type,
           ev_priority = prio, ev_payload = payload\<rparr>, s))"

definition make_protocol_error ::
    "'v ipc_env \<Rightarrow> protocol_error_code \<Rightarrow> string \<Rightarrow> string option \<Rightarrow> ipc_session
       \<Rightarrow> event_payload envelope \<times> ipc_session" where
  "make_protocol_error env code message related s =
     make_envelope env ''protocol_error'' High
       (Protocol_Error \<lparr>pe_code = code, pe_message = message, pe_related_message_id = related\<rparr>) s"

definition update_debug_status ::
    "'v ipc_env \<Rightarrow> (ipc_debug_status \<Rightarrow> ipc_debug_status) \<Rightarrow> ipc_session \<Rightarrow> ipc_session" where
  "update_debug_status env f s =
     (let (ts, s) = ask (ie_unix_ms env) s
      in s\<lparr>is_debug := (f (is_debug s))\<lparr>ds_updated_ts_unix_ms := Some ts\<rparr>\<rparr>)"

text \<open>One write on the event pipe: all bytes are accepted, or the first \<open>n\<close> and then an error. The
  write may take any time, since the clocks read after it may show anything, but it comes to an end: a
  write for which the pipe never has room keeps the session waiting for ever, and such a session is
  described by its states up to that write.\<close>

definition pipe_write ::
    "'v ipc_env \<Rightarrow> u8 list \<Rightarrow> ipc_session \<Rightarrow> (unit, io_error) result \<times> ipc_session" where
  "pipe_write env bs s =
     (case ask (ie_pipe_write env) s of
        (None, s) \<Rightarrow> (Ok (), s\<lparr>is_evt_bytes := is_evt_bytes s @ bs\<rparr>)
      | (Some (n, e), s) \<Rightarrow> (Err e, s\<lparr>is_evt_bytes := is_evt_bytes s @ take n bs\<rparr>))"

definition write_all ::
    "'v ipc_env \<Rightarrow> u8 list \<Rightarrow> ipc_session \<Rightarrow> (unit, io_error) result \<times> ipc_session" where
  "write_all env payload s =
     (case pipe_write env (write_u32_le (of_nat (length payload))) s of
        (Err e, s) \<Rightarrow> (Err e, s)
      | (Ok _, s) \<Rightarrow>
          (case pipe_write env payload s of
             (Err e, s) \<Rightarrow> (Err e, s)
           | (Ok _, s) \<Rightarrow> pipe_write env [] s))"

definition encode_frame :: "'v ipc_env \<Rightarrow> event_payload envelope \<Rightarrow> (u8 list, io_error) result" where
  "encode_frame env message =
     and_then (map_err (\<lambda>err. io_err InvalidData (''encode failed: '' @ err)) (ie_to_vec_named env message))
       (\<lambda>payload.
          if length payload > MAX_FRAME_SIZE
          then Err (io_err InvalidData (''encoded frame too large: '' @ show_nat (length payload)))
          else Ok payload)"

definition write_frame ::
    "'v ipc_env \<Rightarrow> event_payload envelope \<Rightarrow> ipc_session \<Rightarrow> (unit, io_error) result \<times> ipc_session" where
  "write_frame env message s =
     (case encode_frame env message of
        Err e \<Rightarrow> (Err e, s)
      | Ok payload \<Rightarrow>
          (case write_all env payload s of
             (Err e, s) \<Rightarrow> (Err e, s)
           | (Ok _, s) \<Rightarrow> (Ok (), s\<lparr>is_evt_log := is_evt_log s @ [message]\<rparr>)))"

text \<open>\<open>timeout(READ_POLL_TIMEOUT, read_frame(cmd_reader))\<close>: \<open>None\<close> is the elapsed timeout. The
  future of \<open>read_frame\<close> owns the bytes it has read, so when the window ends before the frame is
  whole, those bytes are gone.\<close>

definition read_frame ::
    "'v ipc_env \<Rightarrow> ipc_session \<Rightarrow> ('v envelope, io_error) result option \<times> ipc_session" where
  "read_frame env s =
     (let ((arrived, ending), s) = ask (ie_poll env) s
      in case read_raw (is_cmd_buf s @ arrived) of
           Frame payload rest \<Rightarrow>
             (Some (map_err (\<lambda>err. io_err InvalidData (''decode failed: '' @ err))
                      (ie_from_slice env payload)), s\<lparr>is_cmd_buf := rest\<rparr>)
         | Too_Large len rest \<Rightarrow>
             (Some (Err (io_err InvalidData (''frame too large: '' @ show_nat len))),
              s\<lparr>is_cmd_buf := rest\<rparr>)
         | Short \<Rightarrow>
             ((case ending of
                 Elapsed \<Rightarrow> None
               | Closed \<Rightarrow> Some (Err (io_err UnexpectedEof ''early eof''))
               | Failed e \<Rightarrow> Some (Err e)), s\<lparr>is_cmd_buf := []\<rparr>))"

definition decode_payload ::
    "('v \<Rightarrow> ('p, string) result) \<Rightarrow> 'v envelope \<Rightarrow> ('p, io_error) result" where
  "decode_payload from_value envelope =
     map_err (\<lambda>err. io_err InvalidData (''payload decode failed: '' @ err))
       (from_value (ev_payload envelope))"

definition emit_protocol_error_for_payload ::
    "'v ipc_env \<Rightarrow> 'v envelope \<Rightarrow> io_error \<Rightarrow> ipc_session \<Rightarrow> (unit, io_error) result \<times> ipc_session" where
  "emit_protocol_error_for_payload env incoming err s =
     (let (protocol_error, s) =
        make_protocol_error env InvalidPayload (io_message err) (Some (ev_id incoming)) s
      in write_frame env protocol_error s)"

section \<open>Parts of the loop body shared by the handlers\<close>

text \<open>\<open>if protocol_errors.record_and_should_reset() { return Ok(()) }\<close>.\<close>

definition record_protocol_error :: "'v ipc_env \<Rightarrow> ipc_session \<Rightarrow> flow \<times> ipc_session" where
  "record_protocol_error env s =
     (let (now, s) = ask (ie_instant env) s;
          (reset, recent) = record_and_should_reset now (is_protocol_errors s);
          s = s\<lparr>is_protocol_errors := recent\<rparr>
      in if reset then (Return (Ok ()), s) else (Proceed, s))"

text \<open>The \<open>match decode_payload(&incoming)\<close> at the head of every handler.\<close>

definition with_payload ::
    "'v ipc_env \<Rightarrow> ('v \<Rightarrow> ('p, string) result) \<Rightarrow> 'v envelope
       \<Rightarrow> ('p \<Rightarrow> ipc_session \<Rightarrow> flow \<times> ipc_session) \<Rightarrow> ipc_session \<Rightarrow> flow \<times> ipc_session" where
  "with_payload env from_value incoming handler s =
     (case decode_payload from_value incoming of
        Ok payload \<Rightarrow> handler payload s
      | Err err \<Rightarrow>
          try_io (emit_protocol_error_for_payload env incoming err s) (record_protocol_error env))"

text \<open>Building and writing a status snapshot, then restarting the push interval.\<close>

definition send_status :: "'v ipc_env \<Rightarrow> priority \<Rightarrow> ipc_session \<Rightarrow> flow \<times> ipc_session" where
  "send_status env prio s =
     (let (frame, s) = ask (ie_frame env) s;
          (relay, s) = ask (ie_relay env) s;
          payload = build_status_snapshot_with_overrides frame relay (is_overrides s);
          (snapshot, s) = make_envelope env ''status_snapshot'' prio (Status_Snapshot payload) s
      in try_io (write_frame env snapshot s) (\<lambda>s.
           let (now, s) = ask (ie_instant env) s
           in (Proceed, s\<lparr>is_last_status_push_at := now\<rparr>)))"

definition user_notice ::
    "'v ipc_env \<Rightarrow> priority \<Rightarrow> user_notice_level \<Rightarrow> string \<Rightarrow> ipc_session
       \<Rightarrow> event_payload envelope \<times> ipc_session" where
  "user_notice env prio level message s =
     make_envelope env ''user_notice'' prio (User_Notice \<lparr>un_level = level, un_message = message\<rparr>) s"

text \<open>The tail of both override requests: an informational notice, whose write error is ignored,
  and a fresh snapshot.\<close>

definition announce_override :: "'v ipc_env \<Rightarrow> string \<Rightarrow> ipc_session \<Rightarrow> flow \<times> ipc_session" where
  "announce_override env message s =
     (let (notice, s) = user_notice env Normal Info message s;
          (_, s) = write_frame env notice s
      in send_status env High s)"

section \<open>Head of the loop body\<close>

definition switch_scene ::
    "'v ipc_env \<Rightarrow> core_ipc_command \<Rightarrow> ipc_session \<Rightarrow> flow \<times> ipc_session" where
  "switch_scene env cmd s =
     (let (request_id, s) = ask (ie_uuid env) s;
          (request_ts, s) = ask (ie_unix_ms env) s;
          payload = \<lparr>sp_request_id = request_id, sp_scene_name = cmd_scene_name cmd,
                     sp_reason = cmd_reason cmd, sp_deadline_ms = cmd_deadline_ms cmd\<rparr>;
          (evt, s) = make_envelope env ''switch_scene'' Critical (Switch_Scene payload) s
      in try_io (write_frame env evt s) (\<lambda>s.
           let (now, s) = ask (ie_instant env) s;
               pending = \<lparr>ps_scene_name = cmd_scene_name cmd,
                          ps_deadline_at = now + int (from_millis (unat (cmd_deadline_ms cmd)))\<rparr>;
               s = s\<lparr>is_pending_switches := AList.update request_id pending (is_pending_switches s)\<rparr>;
               s = update_debug_status env (\<lambda>d. d\<lparr>
                 ds_pending_switch_count := of_nat (length (is_pending_switches s)),
                 ds_last_switch_request := Some
                   \<lparr>qd_request_id = sp_request_id payload, qd_scene_name = sp_scene_name payload,
                    qd_reason = sp_reason payload, qd_deadline_ms = sp_deadline_ms payload,
                    qd_ts_unix_ms = request_ts\<rparr>\<rparr>) s
           in (Proceed, s)))"

fun handle_commands ::
    "'v ipc_env \<Rightarrow> core_ipc_command list \<Rightarrow> ipc_session \<Rightarrow> flow \<times> ipc_session" where
  "handle_commands env [] s = (Proceed, s)"
| "handle_commands env (cmd # cmds) s =
     (if \<not> is_handshake_complete s then handle_commands env cmds s
      else and_proceed (switch_scene env cmd s) (handle_commands env cmds))"

definition drain_commands :: "'v ipc_env \<Rightarrow> ipc_session \<Rightarrow> flow \<times> ipc_session" where
  "drain_commands env s =
     (let (cmds, s) = ask (ie_try_recv env) s in handle_commands env cmds s)"

definition expire_one :: "'v ipc_env \<Rightarrow> string \<Rightarrow> ipc_session \<Rightarrow> ipc_session" where
  "expire_one env rid s =
     (case map_of (is_pending_switches s) rid of
        None \<Rightarrow> s
      | Some expired \<Rightarrow>
          (let s = s\<lparr>is_pending_switches := AList.delete rid (is_pending_switches s)\<rparr>;
               (notice, s) = user_notice env High Warn
                 (''Scene switch to '' @ [CHR 0x27] @ ps_scene_name expired @ [CHR 0x27]
                    @ '' timed out (request '' @ rid @ '')'') s;
               (_, s) = write_frame env notice s;
               (ts, s) = ask (ie_unix_ms env) s
           in update_debug_status env (\<lambda>d. d\<lparr>
                ds_pending_switch_count := of_nat (length (is_pending_switches s)),
                ds_last_switch_result := Some
                  \<lparr>rd_request_id = rid, rd_status = ''timeout'', rd_error = None, rd_ts_unix_ms = ts\<rparr>,
                ds_last_notice := Some
                  (''Scene switch '' @ [CHR 0x27] @ ps_scene_name expired @ [CHR 0x27]
                     @ '' timed out ('' @ rid @ '')'')\<rparr>) s))"

definition expired_ids ::
    "instant \<Rightarrow> (string \<times> pending_switch_scene) list \<Rightarrow> string list" where
  "expired_ids now pending = map fst (filter (\<lambda>(id, p). now \<ge> ps_deadline_at p) pending)"

definition expire_pending :: "'v ipc_env \<Rightarrow> ipc_session \<Rightarrow> ipc_session" where
  "expire_pending env s =
     (if is_pending_switches s = [] then s
      else let (now, s) = ask (ie_instant env) s;
               (order, s) = ask (ie_hash_order env) s
           in fold (expire_one env) (expired_ids now (order (is_pending_switches s))) s)"

definition push_status :: "'v ipc_env \<Rightarrow> ipc_session \<Rightarrow> flow \<times> ipc_session" where
  "push_status env s =
     (if \<not> is_handshake_complete s then (Proceed, s)
      else let (now, s) = ask (ie_instant env) s
           in if duration_since now (is_last_status_push_at s) \<ge> STATUS_PUSH_INTERVAL
              then send_status env Normal s
              else (Proceed, s))"

definition heartbeat_check :: "'v ipc_env \<Rightarrow> ipc_session \<Rightarrow> flow \<times> ipc_session" where
  "heartbeat_check env s =
     (if \<not> is_handshake_complete s then (Proceed, s)
      else let (now, s) = ask (ie_instant env) s
           in if duration_since now (is_last_ping_at s) \<ge> HEARTBEAT_TIMEOUT
              then let (protocol_error, s) =
                         make_protocol_error env Timeout ''Heartbeat timeout (missing ping)'' None s;
                       (_, s) = write_frame env protocol_error s;
                       s = update_debug_status env
                             (ds_last_notice_update (\<lambda>_. Some ''Heartbeat timeout (missing ping)'')) s
                   in (Return (Ok ()), s)
              else (Proceed, s))"

section \<open>Message handlers\<close>

definition on_hello :: "'v ipc_env \<Rightarrow> 'v envelope \<Rightarrow> ipc_session \<Rightarrow> flow \<times> ipc_session" where
  "on_hello env incoming =
     with_payload env (ie_hello env) incoming (\<lambda>hello s.
       if hp_protocol_version hello \<noteq> IPC_PROTOCOL_VERSION then
         let (notice, s) = user_notice env High Error
               (''Protocol mismatch (plugin '' @ show_nat (unat (hp_protocol_version hello))
                  @ '', core '' @ show_nat (unat IPC_PROTOCOL_VERSION) @ '')'') s
         in try_io (write_frame env notice s) (\<lambda>s.
              (Return (Ok ()), update_debug_status env
                 (ds_last_notice_update (\<lambda>_. Some ''IPC protocol mismatch'')) s))
       else
         let (ack, s) = make_envelope env ''hello_ack'' High
               (Hello_Ack \<lparr>ha_core_version = ie_core_version env,
                           ha_protocol_version = IPC_PROTOCOL_VERSION,
                           ha_capabilities = [''state_machine'', ''aegis'', ''ipc_stub'']\<rparr>) s
         in try_io (write_frame env ack s) (\<lambda>s.
              let s = s\<lparr>is_handshake_complete := True\<rparr>;
                  (now1, s) = ask (ie_instant env) s;
                  s = s\<lparr>is_last_ping_at := now1\<rparr>;
                  (now2, s) = ask (ie_instant env) s
              in (Proceed, s\<lparr>is_last_status_push_at := now2 - int STATUS_PUSH_INTERVAL\<rparr>)))"

definition on_ping :: "'v ipc_env \<Rightarrow> 'v envelope \<Rightarrow> ipc_session \<Rightarrow> flow \<times> ipc_session" where
  "on_ping env incoming =
     with_payload env (ie_ping env) incoming (\<lambda>ping s.
       let (pong, s) = make_envelope env ''pong'' Normal (Pong \<lparr>po_nonce = pp_nonce ping\<rparr>) s
       in try_io (write_frame env pong s) (\<lambda>s.
            let (now, s) = ask (ie_instant env) s
            in (Proceed, s\<lparr>is_last_ping_at := now\<rparr>)))"

definition on_request_status :: "'v ipc_env \<Rightarrow> 'v envelope \<Rightarrow> ipc_session \<Rightarrow> flow \<times> ipc_session" where
  "on_request_status env incoming =
     with_payload env (ie_request_status env) incoming (\<lambda>_ s. send_status env High s)"

definition on_set_mode :: "'v ipc_env \<Rightarrow> 'v envelope \<Rightarrow> ipc_session \<Rightarrow> flow \<times> ipc_session" where
  "on_set_mode env incoming =
     with_payload env (ie_set_mode env) incoming (\<lambda>req s.
       let normalized = (if mp_mode req = ''studio'' then Some Studio
                         else if mp_mode req = ''irl'' then Some Irl else None)
       in case normalized of
            None \<Rightarrow>
              (let (protocol_error, s) = make_protocol_error env InvalidPayload
                     (''Invalid mode for set_mode_request: '' @ mp_mode req)
                     (Some (ev_id incoming)) s
               in try_io (write_frame env protocol_error s) (\<lambda>s. (Proceed, s)))
          | Some mode \<Rightarrow>
              (let (changed, ov) = set_mode_if_changed mode (is_overrides s);
                   s = s\<lparr>is_overrides := ov\<rparr>
               in if \<not> changed then (Proceed, s)
                  else announce_override env (''Dock mode override set to '' @ mp_mode req) s))"

definition on_set_setting :: "'v ipc_env \<Rightarrow> 'v envelope \<Rightarrow> ipc_session \<Rightarrow> flow \<times> ipc_session" where
  "on_set_setting env incoming =
     with_payload env (ie_set_setting env) incoming (\<lambda>req s.
       let (res, ov) = apply_setting_if_changed (tp_key req) (tp_value req) (is_overrides s);
           s = s\<lparr>is_overrides := ov\<rparr>
       in case res of
            Err _ \<Rightarrow>
              (let (protocol_error, s) = make_protocol_error env InvalidPayload
                     (''Unsupported setting key for set_setting_request: '' @ tp_key req)
                     (Some (ev_id incoming)) s
               in try_io (write_frame env protocol_error s) (\<lambda>s. (Proceed, s)))
          | Ok changed \<Rightarrow>
              if \<not> changed then (Proceed, s)
              else announce_override env
                     (''Dock setting '' @ [CHR 0x27] @ tp_key req @ [CHR 0x27] @ '' set to ''
                        @ show_bool (tp_value req)) s)"

definition resolve_switch ::
    "'v ipc_env \<Rightarrow> scene_switch_result_payload \<Rightarrow> ipc_session \<Rightarrow> ipc_session" where
  "resolve_switch env res s =
     (let known = map_of (is_pending_switches s) (sr_request_id res) \<noteq> None;
          s = s\<lparr>is_pending_switches := AList.delete (sr_request_id res) (is_pending_switches s)\<rparr>;
          (ts, s) = ask (ie_unix_ms env) s
      in if \<not> known then
           update_debug_status env (\<lambda>d. d\<lparr>
             ds_last_switch_result := Some
               \<lparr>rd_request_id = sr_request_id res, rd_status = ''unknown_request'',
                rd_error = sr_error res, rd_ts_unix_ms = ts\<rparr>,
             ds_last_notice := Some ''scene_switch_result for unknown request''\<rparr>) s
         else
           update_debug_status env (\<lambda>d. d\<lparr>
             ds_pending_switch_count := of_nat (length (is_pending_switches s)),
             ds_last_switch_result := Some
               \<lparr>rd_request_id = sr_request_id res,
                rd_status = (if sr_ok res then ''ok'' else ''error''),
                rd_error = sr_error res, rd_ts_unix_ms = ts\<rparr>\<rparr>) s)"

definition on_scene_switch_result ::
    "'v ipc_env \<Rightarrow> 'v envelope \<Rightarrow> ipc_session \<Rightarrow> flow \<times> ipc_session" where
  "on_scene_switch_result env incoming =
     with_payload env (ie_scene_switch_result env) incoming (\<lambda>res s.
       (Proceed, resolve_switch env res s))"

definition on_obs_shutdown_notice ::
    "'v ipc_env \<Rightarrow> 'v envelope \<Rightarrow> ipc_session \<Rightarrow> flow \<times> ipc_session" where
  "on_obs_shutdown_notice env incoming =
     with_payload env (ie_obs_shutdown_notice env) incoming (\<lambda>notice s.
       (Return (Ok ()), update_debug_status env
          (ds_last_notice_update (\<lambda>_. Some (''obs shutdown notice: '' @ sn_reason notice))) s))"

definition on_unknown :: "'v ipc_env \<Rightarrow> 'v envelope \<Rightarrow> ipc_session \<Rightarrow> flow \<times> ipc_session" where
  "on_unknown env incoming s =
     (let (protocol_error, s) = make_protocol_error env UnknownType
            (''Unsupported IPC command in core stub: '' @ ev_type incoming) (Some (ev_id incoming)) s
      in try_io (write_frame env protocol_error s) (\<lambda>s.
           record_protocol_error env (update_debug_status env
             (ds_last_notice_update (\<lambda>_. Some (''Unsupported IPC command: '' @ ev_type incoming))) s)))"

definition on_version_mismatch :: "'v ipc_env \<Rightarrow> 'v envelope \<Rightarrow> ipc_session \<Rightarrow> flow \<times> ipc_session" where
  "on_version_mismatch env incoming s =
     (let (notice, s) = user_notice env High Error
            (''IPC protocol version mismatch: plugin='' @ show_nat (unat (ev_v incoming))
               @ '', core='' @ show_nat (unat IPC_PROTOCOL_VERSION)) s
      in try_io (write_frame env notice s) (\<lambda>s.
           (Return (Ok ()), update_debug_status env
              (ds_last_notice_update (\<lambda>_. Some ''IPC envelope version mismatch'')) s)))"

definition dispatch :: "'v ipc_env \<Rightarrow> 'v envelope \<Rightarrow> ipc_session \<Rightarrow> flow \<times> ipc_session" where
  "dispatch env incoming =
     (if ev_v incoming \<noteq> IPC_PROTOCOL_VERSION then on_version_mismatch env incoming
      else if ev_type incoming = ''hello'' then on_hello env incoming
      else if ev_type incoming = ''ping'' then on_ping env incoming
      else if ev_type incoming = ''request_status'' then on_request_status env incoming
      else if ev_type incoming = ''set_mode_request'' then on_set_mode env incoming
      else if ev_type incoming = ''set_setting_request'' then on_set_setting env incoming
      else if ev_type incoming = ''scene_switch_result'' then on_scene_switch_result env incoming
      else if ev_type incoming = ''obs_shutdown_notice'' then on_obs_shutdown_notice env incoming
      else on_unknown env incoming)"

definition on_invalid_frame :: "'v ipc_env \<Rightarrow> io_error \<Rightarrow> ipc_session \<Rightarrow> flow \<times> ipc_session" where
  "on_invalid_frame env err s =
     (let msg = io_message err;
          code = (if contains ''frame too large'' msg then FrameTooLarge else DecodeFailed);
          (protocol_error, s) = make_protocol_error env code msg None s;
          (_, s) = write_frame env protocol_error s;
          s = update_debug_status env
                (ds_last_notice_update (\<lambda>_. Some ''IPC decode/frame protocol error'')) s
      in record_protocol_error env s)"

definition poll_command :: "'v ipc_env \<Rightarrow> ipc_session \<Rightarrow> flow \<times> ipc_session" where
  "poll_command env s =
     (case read_frame env s of
        (None, s) \<Rightarrow> (Proceed, s)
      | (Some (Ok incoming), s) \<Rightarrow> dispatch env incoming s
      | (Some (Err err), s) \<Rightarrow>
          if io_kind err = InvalidData then on_invalid_frame env err s
          else (Return (Err err), s))"

section \<open>The loop\<close>

definition session_iteration :: "'v ipc_env \<Rightarrow> ipc_session \<Rightarrow> flow \<times> ipc_session" where
  "session_iteration env s =
     and_proceed (drain_commands env s) (\<lambda>s.
     and_proceed (push_status env (expire_pending env s)) (\<lambda>s.
     and_proceed (heartbeat_check env s) (\<lambda>s.
     poll_command env s)))"

text \<open>The loop, cut off after a number of iterations; it may run forever.\<close>

primrec session_loop :: "nat \<Rightarrow> 'v ipc_env \<Rightarrow> ipc_session \<Rightarrow> flow \<times> ipc_session" where
  "session_loop 0 env s = (Proceed, s)"
| "session_loop (Suc n) env s = and_proceed (session_iteration env s) (session_loop n env)"

definition session_start :: "'v ipc_env \<Rightarrow> ipc_debug_status \<Rightarrow> nat \<Rightarrow> ipc_session" where
  "session_start env debug seq =
     \<lparr>is_protocol_errors = tracker_new, is_pending_switches = [], is_overrides = overrides_default,
      is_handshake_complete = False, is_last_ping_at = ie_instant env seq,
      is_last_status_push_at = ie_instant env (Suc seq), is_debug = debug, is_cmd_buf = [],
      is_evt_bytes = [], is_evt_log = [], is_seq = Suc (Suc seq)\<rparr>"

definition handle_session_io ::
    "nat \<Rightarrow> 'v ipc_env \<Rightarrow> ipc_debug_status \<Rightarrow> nat \<Rightarrow> flow \<times> ipc_session" where
  "handle_session_io n env debug seq = session_loop n env (session_start env debug seq)"

text \<open>One turn of \<open>run_named_pipe_server\<close> once both pipes are connected: the outcome of the session
  and the debug status and counter after it; \<open>None\<close> while the session is still running.\<close>

definition serve_session ::
    "nat \<Rightarrow> 'v ipc_env \<Rightarrow> ipc_debug_status \<Rightarrow> nat
       \<Rightarrow> ((unit, io_error) result \<times> ipc_debug_status \<times> nat) option" where
  "serve_session n env debug seq =
     (let debug = debug\<lparr>ds_session_connected := True,
                        ds_updated_ts_unix_ms := Some (ie_unix_ms env seq)\<rparr>
      in case handle_session_io n env debug (Suc seq) of
           (Proceed, s) \<Rightarrow> None
         | (Return res, s) \<Rightarrow>
             (let s = update_debug_status env
                        (\<lambda>d. d\<lparr>ds_session_connected := False, ds_pending_switch_count := 0\<rparr>) s
              in Some (res, is_debug s, is_seq s)))"

text \<open>The server loop: the pipes are created and a client connects (or the server stops with the
  operating system's error), its session is served, and whatever the session returned the loop goes
  on. The first argument bounds the number of sessions, the second the iterations of each;
  \<open>None\<close> is a server that is still running within these bounds.\<close>

primrec run_named_pipe_server ::
    "nat \<Rightarrow> nat \<Rightarrow> 'v ipc_env \<Rightarrow> ipc_debug_status \<Rightarrow> nat \<Rightarrow> (io_error \<times> ipc_debug_status) option" where
  "run_named_pipe_server 0 n env debug seq = None"
| "run_named_pipe_server (Suc m) n env debug seq =
     (case ie_accept env seq of
        Some e \<Rightarrow> Some (e, debug)
      | None \<Rightarrow>
          (case serve_session n env debug (Suc seq) of
             None \<Rightarrow> None
           | Some (res, debug, seq) \<Rightarrow> run_named_pipe_server m n env debug seq))"

text \<open>\<open>spawn_server\<close> off Windows: no server runs and the status says so.\<close>

definition spawn_server_stub :: "u64 \<Rightarrow> ipc_debug_status \<Rightarrow> ipc_debug_status" where
  "spawn_server_stub now debug =
     debug\<lparr>ds_session_connected := False, ds_updated_ts_unix_ms := Some now\<rparr>"

end
