(* ===== verification/Ipc_Protocol.thy ===== *)
theory Ipc_Protocol
  imports Ipc_Session
begin

text \<open>
  The session as a state machine. Each iteration of \<open>handle_session_io\<close> is a sequence of steps of
  the relation \<open>sstep\<close>, which says only what a session may do to its pending switches, its handshake
  and its event pipe; the invariants of a session are proved on that relation by rule induction
  and carried back to the loop.
\<close>

section \<open>What the primitives change\<close>

lemma ask_eq [simp]: "ask f s = (f (is_seq s), s\<lparr>is_seq := Suc (is_seq s)\<rparr>)"
  by (simp add: ask_def)

text \<open>The envelope that \<open>make_envelope\<close> builds at a given state of the counter.\<close>

definition envelope_at ::
    "'v ipc_env \<Rightarrow> nat \<Rightarrow> string \<Rightarrow> priority \<Rightarrow> event_payload \<Rightarrow> event_payload envelope" where
  "envelope_at env q message_type prio payload =
     \<lparr>ev_v = IPC_PROTOCOL_VERSION, ev_id = ie_uuid env q, ev_ts_unix_ms = ie_unix_ms env (Suc q),
      ev_type = message_type, ev_priority = prio, ev_payload = payload\<rparr>"

lemma envelope_at_sel [simp]:
  "ev_v (envelope_at env q t p x) = IPC_PROTOCOL_VERSION"
  "ev_type (envelope_at env q t p x) = t"
  "ev_priority (envelope_at env q t p x) = p"
  "ev_payload (envelope_at env q t p x) = x"
  by (simp_all add: envelope_at_def)

lemma make_envelope_eq [ipc_simps]:
  "make_envelope env t p x s = (envelope_at env (is_seq s) t p x, s\<lparr>is_seq := Suc (Suc (is_seq s))\<rparr>)"
  by (simp add: make_envelope_def envelope_at_def)

lemmas envelope_makers [ipc_simps] = make_protocol_error_def user_notice_def

lemma update_debug_status_eq [ipc_simps]:
  "update_debug_status env f s =
     s\<lparr>is_seq := Suc (is_seq s),
       is_debug := (f (is_debug s))\<lparr>ds_updated_ts_unix_ms := Some (ie_unix_ms env (is_seq s))\<rparr>\<rparr>"
  by (simp add: update_debug_status_def)

lemma pipe_write_eq:
  "pipe_write env bs s =
     (case ie_pipe_write env (is_seq s) of
        None \<Rightarrow> (Ok (), s\<lparr>is_seq := Suc (is_seq s), is_evt_bytes := is_evt_bytes s @ bs\<rparr>)
      | Some (n, e) \<Rightarrow>
          (Err e, s\<lparr>is_seq := Suc (is_seq s), is_evt_bytes := is_evt_bytes s @ take n bs\<rparr>))"
  by (simp add: pipe_write_def split: option.splits prod.splits)

definition only_bytes :: "ipc_session \<Rightarrow> ipc_session \<Rightarrow> bool" where
  "only_bytes s t \<longleftrightarrow> (\<exists>q b. t = s\<lparr>is_seq := q, is_evt_bytes := b\<rparr> \<and> is_seq s \<le> q)"

lemma only_bytesI: "t = s\<lparr>is_seq := q, is_evt_bytes := b\<rparr> \<Longrightarrow> is_seq s \<le> q \<Longrightarrow> only_bytes s t"
  unfolding only_bytes_def by blast

lemma only_bytes_trans: "only_bytes s t \<Longrightarrow> only_bytes t u \<Longrightarrow> only_bytes s u"
  unfolding only_bytes_def [of s t] only_bytes_def [of t u]
  by (elim exE conjE, rule only_bytesI [where q = "is_seq u" and b = "is_evt_bytes u"]) simp_all

lemma pipe_write_only: "pipe_write env bs s = (r, t) \<Longrightarrow> only_bytes s t"
  by (rule only_bytesI [where q = "is_seq t" and b = "is_evt_bytes t"])
     (auto simp: pipe_write_eq split: option.splits)

lemma write_all_only: "write_all env payload s = (r, t) \<Longrightarrow> only_bytes s t"
  unfolding write_all_def
  by (auto split: prod.splits sum.splits dest!: pipe_write_only intro: only_bytes_trans)

lemma write_frame_form:
  obtains r q b where
    "write_frame env e s = (r, s\<lparr>is_seq := q, is_evt_bytes := b,
       is_evt_log := (if r = Ok () then is_evt_log s @ [e] else is_evt_log s)\<rparr>)"
    "is_seq s \<le> q"
proof (cases "encode_frame env e")
  case (Inl err)
  then show ?thesis
    using that [where r = "Err err" and q = "is_seq s" and b = "is_evt_bytes s"]
    by (simp add: write_frame_def)
next
  case (Inr payload)
  obtain r t where w: "write_all env payload s = (r, t)" by fastforce
  then obtain q b where "t = s\<lparr>is_seq := q, is_evt_bytes := b\<rparr>" "is_seq s \<le> q"
    using write_all_only [OF w] by (auto simp: only_bytes_def)
  with Inr w show ?thesis
    by (cases r) (auto simp: write_frame_def intro!: that)
qed

lemma write_frame_keeps:
  assumes "write_frame env e s = (r, t)"
  shows "is_protocol_errors t = is_protocol_errors s" "is_pending_switches t = is_pending_switches s"
    "is_overrides t = is_overrides s" "is_handshake_complete t = is_handshake_complete s"
    "is_last_ping_at t = is_last_ping_at s" "is_last_status_push_at t = is_last_status_push_at s"
    "is_debug t = is_debug s" "is_cmd_buf t = is_cmd_buf s" "is_seq s \<le> is_seq t"
    "is_evt_log t = (if r = Ok () then is_evt_log s @ [e] else is_evt_log s)"
  by (rule write_frame_form [of env e s]; use assms in simp)+

text \<open>What a successful \<open>write_frame\<close> and a write on a pipe that never fails put on the pipe.\<close>

lemma write_frame_reliable:
  assumes "\<And>q. ie_pipe_write env q = None"
  shows "write_frame env e s =
    (case encode_frame env e of
       Err err \<Rightarrow> (Err err, s)
     | Ok payload \<Rightarrow> (Ok (), s\<lparr>is_seq := is_seq s + 3,
         is_evt_bytes := is_evt_bytes s @ frame_bytes payload,
         is_evt_log := is_evt_log s @ [e]\<rparr>))"
  by (simp add: write_frame_def write_all_def pipe_write_eq assms frame_bytes_def split: sum.splits)

section \<open>Steps of a session\<close>

text \<open>A quiet change: nothing is written, the handshake and the pending switches stay, and the
  pending count shown to the HTTP server stays.\<close>

definition quiet :: "ipc_session \<Rightarrow> ipc_session \<Rightarrow> bool" where
  "quiet s t \<longleftrightarrow>
     is_pending_switches t = is_pending_switches s
   \<and> is_handshake_complete t = is_handshake_complete s
   \<and> is_evt_bytes t = is_evt_bytes s
   \<and> is_evt_log t = is_evt_log s
   \<and> ds_pending_switch_count (is_debug t) = ds_pending_switch_count (is_debug s)
   \<and> ds_session_connected (is_debug t) = ds_session_connected (is_debug s)
   \<and> is_seq s \<le> is_seq t"

text \<open>The message type that names each payload.\<close>

fun payload_type :: "event_payload \<Rightarrow> string" where
  "payload_type (Hello_Ack _) = ''hello_ack''"
| "payload_type (Pong _) = ''pong''"
| "payload_type (Status_Snapshot _) = ''status_snapshot''"
| "payload_type (Switch_Scene _) = ''switch_scene''"
| "payload_type (User_Notice _) = ''user_notice''"
| "payload_type (Protocol_Error _) = ''protocol_error''"

fun is_switch :: "event_payload \<Rightarrow> bool" where
  "is_switch (Switch_Scene _) = True"
| "is_switch _ = False"

definition well_formed :: "event_payload envelope \<Rightarrow> bool" where
  "well_formed e \<longleftrightarrow> ev_v e = IPC_PROTOCOL_VERSION \<and> ev_type e = payload_type (ev_payload e)
     \<and> Normal \<le> ev_priority e \<and> (ev_priority e = Critical \<longleftrightarrow> is_switch (ev_payload e))"

fun is_ack :: "event_payload \<Rightarrow> bool" where
  "is_ack (Hello_Ack _) = True"
| "is_ack _ = False"

text \<open>Payloads that only a session with a completed handshake may send.\<close>

fun needs_handshake :: "event_payload \<Rightarrow> bool" where
  "needs_handshake (Switch_Scene _) = True"
| "needs_handshake (Protocol_Error p) = (pe_code p = Timeout)"
| "needs_handshake _ = False"

text \<open>The command that a \<open>switch_scene\<close> message carries out.\<close>

definition command_of :: "switch_scene_payload \<Rightarrow> core_ipc_command" where
  "command_of sp = SwitchScene (sp_scene_name sp) (sp_reason sp) (sp_deadline_ms sp)"

text \<open>The steps of a session that carries out commands of the set \<open>A\<close>: with \<open>A\<close> empty, those of
  the parts of the loop that never ask for a scene switch.\<close>

inductive sstep ::
    "core_ipc_command set \<Rightarrow> 'v ipc_env \<Rightarrow> ipc_session \<Rightarrow> ipc_session \<Rightarrow> bool" for A env where
  Quiet: "quiet s t \<Longrightarrow> sstep A env s t"
| Send: "well_formed e \<Longrightarrow> \<not> is_ack (ev_payload e) \<Longrightarrow> \<not> is_switch (ev_payload e) \<Longrightarrow>
    needs_handshake (ev_payload e) \<longrightarrow> is_handshake_complete s \<Longrightarrow>
    write_frame env e s = (r, t) \<Longrightarrow> sstep A env s t"
| Send_Failed: "write_frame env e s = (Err err, t) \<Longrightarrow> sstep A env s t"
| Hello: "well_formed e \<Longrightarrow> is_ack (ev_payload e) \<Longrightarrow> write_frame env e s = (Ok (), t) \<Longrightarrow>
    u = t\<lparr>is_handshake_complete := True\<rparr> \<Longrightarrow> sstep A env s u"
| Switch: "is_handshake_complete s \<Longrightarrow> well_formed e \<Longrightarrow> ev_payload e = Switch_Scene sp \<Longrightarrow>
    command_of sp \<in> A \<Longrightarrow>
    write_frame env e s = (Ok (), t) \<Longrightarrow> ps_scene_name p = sp_scene_name sp \<Longrightarrow>
    pending = AList.update (sp_request_id sp) p (is_pending_switches t) \<Longrightarrow>
    ds_pending_switch_count d = of_nat (length pending) \<Longrightarrow>
    ds_session_connected d = ds_session_connected (is_debug t) \<Longrightarrow> is_seq t \<le> q \<Longrightarrow>
    u = t\<lparr>is_pending_switches := pending, is_seq := q, is_debug := d\<rparr> \<Longrightarrow> sstep A env s u"
| Resolve: "map_of (is_pending_switches s) rid = Some p \<Longrightarrow>
    pending = AList.delete rid (is_pending_switches s) \<Longrightarrow>
    ds_pending_switch_count d = of_nat (length pending) \<Longrightarrow>
    ds_session_connected d = ds_session_connected (is_debug s) \<Longrightarrow> is_seq s \<le> q \<Longrightarrow>
    t = s\<lparr>is_pending_switches := pending, is_seq := q, is_debug := d\<rparr> \<Longrightarrow> sstep A env s t"

inductive_cases sstepE: "sstep A env s t"

abbreviation steps ::
    "core_ipc_command set \<Rightarrow> 'v ipc_env \<Rightarrow> ipc_session \<Rightarrow> ipc_session \<Rightarrow> bool" where
  "steps A env \<equiv> (sstep A env)\<^sup>*\<^sup>*"

section \<open>Every part of the loop body is a sequence of steps\<close>

lemma quiet_refl [simp]: "quiet s s"
  by (simp add: quiet_def)

lemma quiet_trans: "quiet s t \<Longrightarrow> quiet t u \<Longrightarrow> quiet s u"
  by (auto simp: quiet_def)

lemma quiet_steps: "quiet s t \<Longrightarrow> steps A env s t"
  by (blast intro: Quiet)

lemma quiet_then: "quiet s t \<Longrightarrow> steps A env t u \<Longrightarrow> steps A env s u"
  by (blast intro: Quiet converse_rtranclp_into_rtranclp)

lemma and_proceed_steps:
  assumes "steps A env s (snd r)" and "\<And>t. r = (Proceed, t) \<Longrightarrow> steps A env t (snd (k t))"
  shows "steps A env s (snd (and_proceed r k))"
  using assms by (cases r) (auto simp: and_proceed_def split: flow.splits)

lemma try_io_steps:
  assumes "steps A env s (snd r)" and "\<And>t. r = (Ok (), t) \<Longrightarrow> steps A env t (snd (k t))"
  shows "steps A env s (snd (try_io r k))"
  using assms by (cases r) (auto simp: try_io_def split: sum.splits)

lemma well_formed_envelope_at [simp]:
  "well_formed (envelope_at env q t p x) \<longleftrightarrow>
     t = payload_type x \<and> Normal \<le> p \<and> (p = Critical \<longleftrightarrow> is_switch x)"
  by (simp add: well_formed_def)

lemma send_steps:
  assumes "quiet s u" and "well_formed e" and "\<not> is_ack (ev_payload e)"
    and "\<not> is_switch (ev_payload e)" and "needs_handshake (ev_payload e) \<longrightarrow> is_handshake_complete s"
  shows "steps A env s (snd (write_frame env e u))"
proof -
  have "sstep A env u (snd (write_frame env e u))"
    using assms by (intro Send [where r = "fst (write_frame env e u)"]) (auto simp: quiet_def)
  with assms(1) show ?thesis by (blast intro: quiet_then)
qed

lemma send_or_return:
  assumes "quiet s u" and "well_formed e" and "\<not> is_ack (ev_payload e)"
    and "\<not> is_switch (ev_payload e)" and "needs_handshake (ev_payload e) \<longrightarrow> is_handshake_complete s"
    and "\<And>t. write_frame env e u = (Ok (), t) \<Longrightarrow> steps A env t (snd (k t))"
  shows "steps A env s (snd (try_io (write_frame env e u) k))"
  using assms by (intro try_io_steps send_steps) auto

text \<open>\<open>write_frame\<close> neither reads nor writes the pending switches and the debug status.\<close>

lemma write_frame_pending:
  "write_frame env e (s\<lparr>is_pending_switches := p, is_seq := q\<rparr>) =
     apsnd (is_pending_switches_update (\<lambda>_. p)) (write_frame env e (s\<lparr>is_seq := q\<rparr>))"
  by (cases s)
     (simp add: write_frame_def write_all_def pipe_write_eq split: sum.split option.split prod.split)

lemma record_protocol_error_quiet: "quiet s (snd (record_protocol_error env s))"
  by (cases "record_and_should_reset (ie_instant env (is_seq s)) (is_protocol_errors s)")
     (simp add: record_protocol_error_def quiet_def Let_def)

lemma with_payload_steps:
  assumes "\<And>p. steps A env s (snd (handler p s))"
  shows "steps A env s (snd (with_payload env from_value incoming handler s))"
proof (cases "decode_payload from_value incoming")
  case (Inl err)
  then show ?thesis
    by (auto simp: with_payload_def emit_protocol_error_for_payload_def ipc_simps quiet_def
        intro!: send_or_return quiet_steps [OF record_protocol_error_quiet])
qed (simp add: with_payload_def assms)

lemma send_status_steps: "quiet s u \<Longrightarrow> prio \<in> {Normal, High} \<Longrightarrow> steps A env s (snd (send_status env prio u))"
  unfolding send_status_def ask_eq make_envelope_eq Let_def prod.case
  by (rule send_or_return) (auto simp: quiet_def intro!: quiet_steps)

lemmas step_unfold = ask_eq make_envelope_eq envelope_makers update_debug_status_eq Let_def prod.case

lemma on_hello_steps: "steps A env s (snd (on_hello env incoming s))"
  unfolding on_hello_def
proof (rule with_payload_steps, split if_split, intro conjI impI)
  fix hello
  let ?ack = "envelope_at env (is_seq s) ''hello_ack'' High
     (Hello_Ack \<lparr>ha_core_version = ie_core_version env, ha_protocol_version = IPC_PROTOCOL_VERSION,
                 ha_capabilities = [''state_machine'', ''aegis'', ''ipc_stub'']\<rparr>)"
  let ?s = "s\<lparr>is_seq := Suc (Suc (is_seq s))\<rparr>"
  let ?k = "\<lambda>s. let s = s\<lparr>is_handshake_complete := True\<rparr>; (now1, s) = ask (ie_instant env) s;
      s = s\<lparr>is_last_ping_at := now1\<rparr>; (now2, s) = ask (ie_instant env) s
    in (Proceed, s\<lparr>is_last_status_push_at := now2 - int STATUS_PUSH_INTERVAL\<rparr>)"
  have q: "quiet s ?s" by (simp add: quiet_def)
  have "steps A env s (snd (try_io (write_frame env ?ack ?s) ?k))"
  proof (cases "write_frame env ?ack ?s")
    case (Pair r t)
    show ?thesis
    proof (cases r)
      case (Inl err)
      then have "sstep A env ?s t" using Pair by (intro Send_Failed [of _ ?ack]) simp
      with q Pair Inl show ?thesis by (auto simp: try_io_def intro: quiet_then)
    next
      case (Inr u)
      then have "sstep A env ?s (t\<lparr>is_handshake_complete := True\<rparr>)"
        using Pair by (intro Hello [of ?ack]) simp_all
      then have "steps A env s (t\<lparr>is_handshake_complete := True\<rparr>)" using q by (blast intro: quiet_then)
      moreover have "quiet (t\<lparr>is_handshake_complete := True\<rparr>) (snd (?k t))"
        by (simp add: quiet_def)
      ultimately show ?thesis
        using Pair Inr by (auto simp: try_io_def intro: rtranclp_trans quiet_steps)
    qed
  qed
  then show "steps A env s (snd (let (ack, s) = make_envelope env ''hello_ack'' High
      (Hello_Ack \<lparr>ha_core_version = ie_core_version env, ha_protocol_version = IPC_PROTOCOL_VERSION,
         ha_capabilities = [''state_machine'', ''aegis'', ''ipc_stub'']\<rparr>) s
      in try_io (write_frame env ack s) ?k))"
    by (simp only: step_unfold)
qed (unfold step_unfold, rule send_or_return, auto simp: quiet_def intro!: quiet_steps)

lemma on_ping_steps: "steps A env s (snd (on_ping env incoming s))"
  unfolding on_ping_def
  by (rule with_payload_steps, unfold step_unfold, rule send_or_return)
     (auto simp: quiet_def intro!: quiet_steps)

lemma on_request_status_steps: "steps A env s (snd (on_request_status env incoming s))"
  unfolding on_request_status_def by (rule with_payload_steps) (rule send_status_steps, simp_all)

lemma announce_override_steps: "quiet s u \<Longrightarrow> steps A env s (snd (announce_override env message u))"
proof -
  assume q: "quiet s u"
  let ?e = "envelope_at env (is_seq u) ''user_notice'' Normal
    (User_Notice \<lparr>un_level = Info, un_message = message\<rparr>)"
  let ?t = "snd (write_frame env ?e (u\<lparr>is_seq := Suc (Suc (is_seq u))\<rparr>))"
  have "steps A env s ?t"
    using q by (intro send_steps) (simp_all add: quiet_def)
  then have "steps A env s (snd (send_status env High ?t))"
    by (rule rtranclp_trans) (rule send_status_steps, simp_all)
  then show ?thesis
    by (simp add: announce_override_def envelope_makers make_envelope_eq case_prod_beta)
qed

text \<open>Case distinctions of a handler body.\<close>

lemma steps_let: "steps A env s (snd (f x)) \<Longrightarrow> steps A env s (snd (Let x f))"
  by simp

lemma steps_if:
  "(b \<Longrightarrow> steps A env s (snd x)) \<Longrightarrow> (\<not> b \<Longrightarrow> steps A env s (snd y)) \<Longrightarrow> steps A env s (snd (if b then x else y))"
  by simp

lemma steps_prod: "(\<And>a b. p = (a, b) \<Longrightarrow> steps A env s (snd (f a b))) \<Longrightarrow> steps A env s (snd (case p of (a, b) \<Rightarrow> f a b))"
  by (cases p) simp

lemma steps_option:
  "steps A env s (snd x) \<Longrightarrow> (\<And>a. steps A env s (snd (f a))) \<Longrightarrow>
     steps A env s (snd (case m of None \<Rightarrow> x | Some a \<Rightarrow> f a))"
  by (cases m) simp_all

lemma steps_sum:
  "(\<And>e. steps A env s (snd (f e))) \<Longrightarrow> (\<And>a. steps A env s (snd (g a))) \<Longrightarrow>
     steps A env s (snd (case m of Inl e \<Rightarrow> f e | Inr a \<Rightarrow> g a))"
  by (cases m) simp_all

lemmas body_steps = steps_let steps_if steps_prod steps_option steps_sum

lemma protocol_error_steps:
  "code \<noteq> Timeout \<Longrightarrow>
   (\<And>t. steps A env t (snd (k t))) \<Longrightarrow>
   steps A env s (snd (let (e, u) = make_protocol_error env code message related s
                     in try_io (write_frame env e u) k))"
  unfolding step_unfold by (rule send_or_return) (simp_all add: quiet_def)

lemma overrides_quiet: "quiet s (s\<lparr>is_overrides := ov\<rparr>)"
  by (simp add: quiet_def)

lemma override_steps:
  "steps A env s (snd (if \<not> changed then (Proceed, s\<lparr>is_overrides := ov\<rparr>)
     else announce_override env message (s\<lparr>is_overrides := ov\<rparr>)))"
  by (simp add: announce_override_steps quiet_steps overrides_quiet)

lemma on_set_mode_steps: "steps A env s (snd (on_set_mode env incoming s))"
  unfolding on_set_mode_def
  by (rule with_payload_steps, rule steps_let, rule steps_option)
     (rule protocol_error_steps, simp_all only: Let_def split_beta override_steps snd_conv,
      simp_all)

lemma on_set_setting_steps: "steps A env s (snd (on_set_setting env incoming s))"
  unfolding on_set_setting_def
  by (rule with_payload_steps, rule steps_let, rule steps_prod, rule steps_let, rule steps_sum)
     (rule quiet_then [OF overrides_quiet], rule protocol_error_steps, simp_all add: override_steps)

text \<open>Removing a pending switch and refreshing the debug status.\<close>

lemma resolve_steps:
  assumes "map_of (is_pending_switches s) rid = Some p"
    and "t = s\<lparr>is_pending_switches := AList.delete rid (is_pending_switches s), is_seq := q, is_debug := d\<rparr>"
    and "ds_pending_switch_count d = of_nat (length (AList.delete rid (is_pending_switches s)))"
    and "ds_session_connected d = ds_session_connected (is_debug s)"
    and "is_seq s \<le> q"
  shows "steps A env s t"
  using assms by (intro r_into_rtranclp Resolve [of s rid p _ d q]) simp_all

lemma resolve_switch_steps: "steps A env s (resolve_switch env res s)"
proof (cases "map_of (is_pending_switches s) (sr_request_id res)")
  case None
  then show ?thesis by (simp add: resolve_switch_def ipc_simps quiet_steps quiet_def)
next
  case (Some p)
  then show ?thesis
    by (intro resolve_steps [where q = "Suc (Suc (is_seq s))"
          and d = "is_debug (resolve_switch env res s)"])
       (simp_all add: resolve_switch_def ipc_simps Let_def)
qed

lemma on_scene_switch_result_steps: "steps A env s (snd (on_scene_switch_result env incoming s))"
  unfolding on_scene_switch_result_def
  by (rule with_payload_steps) (simp add: resolve_switch_steps)

lemma on_obs_shutdown_notice_steps: "steps A env s (snd (on_obs_shutdown_notice env incoming s))"
  unfolding on_obs_shutdown_notice_def
  by (rule with_payload_steps) (simp add: ipc_simps quiet_steps quiet_def)

lemma debug_notice_quiet:
  "quiet s (update_debug_status env (ds_last_notice_update f) s)"
  by (simp add: ipc_simps quiet_def)

lemma on_unknown_steps: "steps A env s (snd (on_unknown env incoming s))"
  unfolding on_unknown_def
  by (rule protocol_error_steps, simp)
     (rule quiet_steps, rule quiet_trans [OF debug_notice_quiet record_protocol_error_quiet])

lemma on_version_mismatch_steps: "steps A env s (snd (on_version_mismatch env incoming s))"
  unfolding on_version_mismatch_def step_unfold
  by (rule send_or_return) (auto simp: quiet_def intro!: quiet_steps)

lemmas handler_steps =
  on_hello_steps on_ping_steps on_request_status_steps on_set_mode_steps on_set_setting_steps
  on_scene_switch_result_steps on_obs_shutdown_notice_steps on_unknown_steps on_version_mismatch_steps

lemma dispatch_steps: "steps A env s (snd (dispatch env incoming s))"
  by (simp add: dispatch_def handler_steps)

text \<open>A message whose write error is ignored.\<close>

lemma send_ignored_steps:
  assumes "code = Timeout \<longrightarrow> is_handshake_complete s"
    and "\<And>t. steps A env t (snd (k t))"
  shows "steps A env s (snd (let (e, u) = make_protocol_error env code message related s;
                               (_, u) = write_frame env e u in k u))"
proof -
  let ?e = "envelope_at env (is_seq s) ''protocol_error'' High
    (Protocol_Error \<lparr>pe_code = code, pe_message = message, pe_related_message_id = related\<rparr>)"
  let ?t = "snd (write_frame env ?e (s\<lparr>is_seq := Suc (Suc (is_seq s))\<rparr>))"
  have "steps A env s ?t"
    using assms(1) by (intro send_steps) (simp_all add: quiet_def)
  then have "steps A env s (snd (k ?t))" using assms(2) by (rule rtranclp_trans)
  then show ?thesis by (simp add: ipc_simps case_prod_beta)
qed

lemma on_invalid_frame_steps: "steps A env s (snd (on_invalid_frame env err s))"
  unfolding on_invalid_frame_def
  by (rule steps_let, rule steps_let, rule send_ignored_steps, simp)
     (unfold Let_def, rule quiet_steps, rule quiet_trans [OF debug_notice_quiet record_protocol_error_quiet])

lemma read_frame_quiet: "read_frame env s = (r, t) \<Longrightarrow> quiet s t"
  by (auto simp: read_frame_def quiet_def split: prod.splits raw_read.splits)

lemma poll_command_steps: "steps A env s (snd (poll_command env s))"
proof (cases "read_frame env s")
  case (Pair r t)
  then have "quiet s t" by (rule read_frame_quiet)
  then have "steps A env t (snd x) \<Longrightarrow> steps A env s (snd x)" for x :: "flow \<times> ipc_session"
    by (rule quiet_then)
  with Pair show ?thesis
    by (auto simp: poll_command_def dispatch_steps on_invalid_frame_steps
        split: option.split sum.split)
qed

lemma switch_scene_steps:
  assumes "is_handshake_complete s" and "cmd \<in> A"
  shows "steps A env s (snd (switch_scene env cmd s))"
proof -
  let ?sp = "\<lparr>sp_request_id = ie_uuid env (is_seq s), sp_scene_name = cmd_scene_name cmd,
              sp_reason = cmd_reason cmd, sp_deadline_ms = cmd_deadline_ms cmd\<rparr>"
  let ?e = "envelope_at env (is_seq s + 2) ''switch_scene'' Critical (Switch_Scene ?sp)"
  let ?s = "s\<lparr>is_seq := is_seq s + 4\<rparr>"
  have q: "quiet s ?s" by (simp add: quiet_def)
  obtain r t where w: "write_frame env ?e ?s = (r, t)" by fastforce
  show ?thesis
  proof (cases r)
    case (Inl err)
    then have "sstep A env ?s t" using w by (intro Send_Failed [of _ ?e]) simp
    with q w Inl show ?thesis
      by (auto simp: switch_scene_def ipc_simps try_io_def Let_def numeral_eq_Suc intro: quiet_then)
  next
    case (Inr u)
    have "snd (switch_scene env cmd s)
        = t\<lparr>is_pending_switches := is_pending_switches (snd (switch_scene env cmd s)),
            is_seq := Suc (Suc (is_seq t)), is_debug := is_debug (snd (switch_scene env cmd s))\<rparr>"
      using w Inr by (simp add: switch_scene_def ipc_simps try_io_def Let_def numeral_eq_Suc)
    then have "sstep A env ?s (snd (switch_scene env cmd s))"
      using w Inr assms
      by (intro Switch [where e = ?e and sp = ?sp and t = t and env = env and q = "Suc (Suc (is_seq t))"
            and p = "\<lparr>ps_scene_name = cmd_scene_name cmd, ps_deadline_at =
              ie_instant env (is_seq t) + int (from_millis (unat (cmd_deadline_ms cmd)))\<rparr>"
            and d = "is_debug (snd (switch_scene env cmd s))"])
         (simp_all add: switch_scene_def ipc_simps try_io_def Let_def numeral_eq_Suc command_of_def)
    with q show ?thesis by (blast intro: quiet_then)
  qed
qed

lemma handle_commands_steps: "set cmds \<subseteq> A \<Longrightarrow> steps A env s (snd (handle_commands env cmds s))"
proof (induction cmds arbitrary: s)
  case (Cons cmd cmds)
  then show ?case
    by (auto intro: and_proceed_steps switch_scene_steps)
qed simp

lemma drain_commands_steps:
  "set (ie_try_recv env (is_seq s)) \<subseteq> A \<Longrightarrow> steps A env s (snd (drain_commands env s))"
  by (rule quiet_then [of _ "s\<lparr>is_seq := Suc (is_seq s)\<rparr>"])
     (simp_all add: drain_commands_def quiet_def handle_commands_steps)

lemma push_status_steps: "steps A env s (snd (push_status env s))"
  by (auto simp: push_status_def quiet_def Let_def intro!: send_status_steps)
     (auto simp: quiet_def intro!: quiet_steps)

lemma heartbeat_check_steps: "steps A env s (snd (heartbeat_check env s))"
proof -
  have "steps A env (s\<lparr>is_seq := Suc (is_seq s)\<rparr>) (snd (heartbeat_check env s))"
    if "is_handshake_complete s"
    using that unfolding heartbeat_check_def ask_eq
    by (simp only: Let_def prod.case simp_thms if_False, intro steps_if)
       (rule send_ignored_steps [unfolded Let_def], auto intro!: quiet_steps simp: debug_notice_quiet)
  moreover have "quiet s (s\<lparr>is_seq := Suc (is_seq s)\<rparr>)" by (simp add: quiet_def)
  ultimately show ?thesis
    by (cases "is_handshake_complete s") (auto simp: heartbeat_check_def intro: quiet_then)
qed

definition timeout_notice :: "string \<Rightarrow> pending_switch_scene \<Rightarrow> event_payload" where
  "timeout_notice rid p = User_Notice \<lparr>un_level = Warn, un_message =
     ''Scene switch to '' @ [CHR 0x27] @ ps_scene_name p @ [CHR 0x27]
       @ '' timed out (request '' @ rid @ '')''\<rparr>"

lemma expire_one_Some:
  assumes "map_of (is_pending_switches s) rid = Some p"
    and "write_frame env (envelope_at env (is_seq s) ''user_notice'' High (timeout_notice rid p))
           (s\<lparr>is_seq := Suc (Suc (is_seq s))\<rparr>) = (r, t)"
  shows "\<exists>d. expire_one env rid s
      = t\<lparr>is_pending_switches := AList.delete rid (is_pending_switches s),
          is_seq := Suc (Suc (is_seq t)), is_debug := d\<rparr>
    \<and> ds_pending_switch_count d = of_nat (length (AList.delete rid (is_pending_switches s)))
    \<and> ds_session_connected d = ds_session_connected (is_debug s)"
proof -
  have "is_debug t = is_debug s" "is_pending_switches t = is_pending_switches s"
    using write_frame_keeps [OF assms(2)] by simp_all
  with assms(1) assms(2) [unfolded timeout_notice_def] show ?thesis
    by (simp add: expire_one_def ipc_simps Let_def write_frame_pending)
       (intro exI conjI, rule refl, simp_all)
qed

lemma expire_one_steps: "steps A env s (expire_one env rid s)"
proof (cases "map_of (is_pending_switches s) rid")
  case None
  then show ?thesis by (simp add: expire_one_def)
next
  case (Some p)
  let ?e = "envelope_at env (is_seq s) ''user_notice'' High (timeout_notice rid p)"
  let ?s = "s\<lparr>is_seq := Suc (Suc (is_seq s))\<rparr>"
  obtain r t where w: "write_frame env ?e ?s = (r, t)" by fastforce
  have "steps A env s t"
    using send_steps [of s ?s ?e A env] w by (simp add: quiet_def timeout_notice_def)
  moreover have "steps A env t (expire_one env rid s)"
    using expire_one_Some [OF Some w] Some write_frame_keeps [OF w]
    by (auto intro!: resolve_steps)
  ultimately show ?thesis by (rule rtranclp_trans)
qed

lemma expire_pending_steps: "steps A env s (expire_pending env s)"
proof -
  have "steps A env s (fold (expire_one env) ids s)" for ids s
    by (induction ids arbitrary: s) (auto intro: rtranclp_trans expire_one_steps)
  then show ?thesis
    by (auto simp: expire_pending_def Let_def
        intro: quiet_then [of _ "s\<lparr>is_seq := Suc (Suc (is_seq s))\<rparr>"])
       (rule quiet_then [of _ "s\<lparr>is_seq := Suc (Suc (is_seq s))\<rparr>"], simp_all add: quiet_def)
qed

lemma session_iteration_steps:
  assumes "set (ie_try_recv env (is_seq s)) \<subseteq> A"
  shows "steps A env s (snd (session_iteration env s))"
  unfolding session_iteration_def
proof (intro and_proceed_steps drain_commands_steps heartbeat_check_steps poll_command_steps assms)
  show "steps A env t (snd (push_status env (expire_pending env t)))" for t
    by (rule rtranclp_trans [OF expire_pending_steps push_status_steps])
qed

section \<open>Invariants\<close>

text \<open>The messages of the log up to the first \<open>hello_ack\<close>.\<close>

definition before_ack :: "event_payload envelope list \<Rightarrow> event_payload envelope list" where
  "before_ack = takeWhile (\<lambda>e. \<not> is_ack (ev_payload e))"

definition announced :: "event_payload envelope list \<Rightarrow> string \<Rightarrow> string \<Rightarrow> bool" where
  "announced es rid scene \<longleftrightarrow>
     (\<exists>e \<in> set es. \<exists>sp. ev_payload e = Switch_Scene sp \<and> sp_request_id sp = rid \<and> sp_scene_name sp = scene)"

definition session_ok :: "ipc_session \<Rightarrow> bool" where
  "session_ok s \<longleftrightarrow>
     distinct (map fst (is_pending_switches s))
   \<and> ds_pending_switch_count (is_debug s) = of_nat (length (is_pending_switches s))
   \<and> (is_pending_switches s \<noteq> [] \<longrightarrow> is_handshake_complete s)
   \<and> (is_handshake_complete s \<longleftrightarrow> (\<exists>e \<in> set (is_evt_log s). is_ack (ev_payload e)))
   \<and> (\<forall>e \<in> set (is_evt_log s). well_formed e)
   \<and> (\<forall>e \<in> set (before_ack (is_evt_log s)). \<not> needs_handshake (ev_payload e))
   \<and> (\<forall>(rid, p) \<in> set (is_pending_switches s). announced (is_evt_log s) rid (ps_scene_name p))"

lemma before_ack_snoc:
  "before_ack (es @ [e]) =
     (if \<exists>x \<in> set es. is_ack (ev_payload x) then before_ack es
      else if is_ack (ev_payload e) then es else es @ [e])"
  by (auto simp: before_ack_def takeWhile_append)

lemma before_ack_none: "\<forall>e \<in> set es. \<not> is_ack (ev_payload e) \<Longrightarrow> before_ack es = es"
  by (simp add: before_ack_def)

lemma announced_snoc: "announced es rid sc \<Longrightarrow> announced (es @ [e]) rid sc"
  by (auto simp: announced_def)

lemma session_ok_send:
  assumes "session_ok s" and "write_frame env e s = (r, t)" and "r = Ok () \<Longrightarrow> well_formed e"
    and "r = Ok () \<Longrightarrow> \<not> is_ack (ev_payload e)"
    and "r = Ok () \<Longrightarrow> needs_handshake (ev_payload e) \<longrightarrow> is_handshake_complete s"
  shows "session_ok t"
proof (cases "r = Ok ()")
  case True
  with assms write_frame_keeps [OF assms(2)] show ?thesis
    by (auto simp: session_ok_def before_ack_snoc before_ack_none intro: announced_snoc)
next
  case False
  with assms write_frame_keeps [OF assms(2)] show ?thesis
    unfolding session_ok_def by simp metis
qed

lemma session_ok_hello:
  assumes "session_ok s" and "write_frame env e s = (Ok (), t)" and "well_formed e"
    and "is_ack (ev_payload e)"
  shows "session_ok (t\<lparr>is_handshake_complete := True\<rparr>)"
proof -
  have "\<not> needs_handshake (ev_payload x)" if "is_ack (ev_payload x)" for x :: "event_payload envelope"
    using that by (cases "ev_payload x") simp_all
  with assms write_frame_keeps [OF assms(2)] show ?thesis
    by (auto simp: session_ok_def before_ack_snoc before_ack_none intro: announced_snoc)
qed

lemma distinct_fst_update:
  "distinct (map fst m) \<Longrightarrow> distinct (map fst (AList.update k v m))"
  by (rule distinct_update)

lemma session_ok_switch:
  assumes "session_ok s" and "is_handshake_complete s" and "well_formed e"
    and "ev_payload e = Switch_Scene sp" and "write_frame env e s = (Ok (), t)"
    and "ps_scene_name p = sp_scene_name sp"
    and "ds_pending_switch_count d = of_nat (length (AList.update (sp_request_id sp) p (is_pending_switches t)))"
  shows "session_ok (t\<lparr>is_pending_switches := AList.update (sp_request_id sp) p (is_pending_switches t),
                       is_seq := q, is_debug := d\<rparr>)"
proof -
  have "session_ok t"
    using assms by (intro session_ok_send [of s env e "Ok ()" t]) simp_all
  moreover have "is_handshake_complete t" "e \<in> set (is_evt_log t)"
    using write_frame_keeps [OF assms(5)] assms(2) by simp_all
  moreover have "announced (is_evt_log t) (sp_request_id sp) (ps_scene_name p)"
    using \<open>e \<in> set (is_evt_log t)\<close> assms(4,6) by (auto simp: announced_def)
  moreover have "set (AList.update k v m) \<subseteq> insert (k, v) (set m)" for k v and m :: "(string \<times> pending_switch_scene) list"
    by (induction m) auto
  ultimately show ?thesis
    using assms(7) by (fastforce simp: session_ok_def distinct_fst_update)
qed

lemma session_ok_resolve:
  assumes "session_ok s"
    and "ds_pending_switch_count d = of_nat (length (AList.delete rid (is_pending_switches s)))"
  shows "session_ok (s\<lparr>is_pending_switches := AList.delete rid (is_pending_switches s),
                       is_seq := q, is_debug := d\<rparr>)"
proof -
  have "set (AList.delete rid m) \<subseteq> set m" for m :: "(string \<times> pending_switch_scene) list"
    by (auto simp: AList.delete_eq)
  with assms show ?thesis
    by (fastforce simp: session_ok_def distinct_keys_delete)
qed

lemma session_ok_step: "session_ok s \<Longrightarrow> sstep A env s t \<Longrightarrow> session_ok t"
proof (erule sstepE)
  show "session_ok s \<Longrightarrow> quiet s t \<Longrightarrow> session_ok t"
    unfolding session_ok_def quiet_def by auto
qed (auto intro: session_ok_send session_ok_hello session_ok_switch session_ok_resolve)

text \<open>The states of sessions begun with a zero pending count.\<close>

definition session_init :: "'v ipc_env \<Rightarrow> ipc_session \<Rightarrow> bool" where
  "session_init env s \<longleftrightarrow> (\<exists>d q. s = session_start env d q \<and> ds_pending_switch_count d = 0)"

interpretation session: invariant_system "session_init env" "sstep A env" session_ok
  for A and env :: "'v ipc_env"
proof
  show "session_init env s \<Longrightarrow> session_ok s" for s
    by (auto simp: session_init_def session_start_def session_ok_def before_ack_def)
qed (rule session_ok_step)

text \<open>The commands that ever reach a session.\<close>

definition received :: "'v ipc_env \<Rightarrow> core_ipc_command set" where
  "received env = (\<Union>q. set (ie_try_recv env q))"

lemma session_loop_steps: "steps (received env) env s (snd (session_loop n env s))"
proof (induction n arbitrary: s)
  case (Suc n)
  have "steps (received env) env s (snd (session_iteration env s))"
    by (rule session_iteration_steps) (auto simp: received_def)
  with Suc show ?case by (auto intro: and_proceed_steps)
qed simp

lemma session_loop_ok:
  "ds_pending_switch_count debug = 0 \<Longrightarrow> session_ok (snd (handle_session_io n env debug seq))"
  unfolding handle_session_io_def
  by (rule session.inv_rtranclp [OF session.inv_init session_loop_steps])
     (auto simp: session_init_def)

end
