(* ===== verification/Ipc_Correctness.thy ===== *)
theory Ipc_Correctness
  imports Ipc_Protocol "HOL-Library.Multiset"
begin

text \<open>
  What a session promises: the properties of \<open>handle_session_io\<close>, of its handlers and of the
  pipe server, obtained from the invariants of \<open>Ipc_Protocol\<close> and from the equations of the
  handlers. A small concrete environment, in which one second passes with every read, serves the
  instances.
\<close>

section \<open>A concrete environment\<close>

text \<open>Values are strings; every event is encoded by its version byte; the frame \<open>[1]\<close> is a hello
  and every other frame is a ping; nothing arrives on the command pipe.\<close>

definition sample_env :: "string ipc_env" where
  "sample_env =
     \<lparr>ie_instant = (\<lambda>q. int q * 10 ^ 9), ie_unix_ms = (\<lambda>q. of_nat q), ie_uuid = (\<lambda>q. show_nat q),
      ie_try_recv = (\<lambda>_. []), ie_frame = (\<lambda>_. telemetry_frame_default), ie_relay = (\<lambda>_. None),
      ie_hash_order = (\<lambda>_ m. m), ie_poll = (\<lambda>_. ([], Elapsed)), ie_pipe_write = (\<lambda>_. None),
      ie_accept = (\<lambda>q. if q = 0 then None else Some (io_err OtherKind ''pipe'')),
      ie_core_version = ''0.1.0'',
      ie_from_slice = (\<lambda>bs. Ok \<lparr>ev_v = 1, ev_id = ''m'', ev_ts_unix_ms = 0,
        ev_type = (if bs = [1] then ''hello'' else ''ping''), ev_priority = Normal, ev_payload = ''''\<rparr>),
      ie_to_vec_named = (\<lambda>e. Ok [ev_v e]),
      ie_hello = (\<lambda>_. Ok \<lparr>hp_plugin_version = ''1'', hp_protocol_version = 1, hp_obs_pid = 1,
        hp_capabilities = []\<rparr>),
      ie_ping = (\<lambda>v. Ok \<lparr>pp_nonce = v\<rparr>), ie_request_status = (\<lambda>_. Ok ()),
      ie_set_mode = (\<lambda>v. Ok \<lparr>mp_mode = v\<rparr>),
      ie_set_setting = (\<lambda>v. Ok \<lparr>tp_key = v, tp_value = True\<rparr>),
      ie_scene_switch_result = (\<lambda>v. Ok \<lparr>sr_request_id = v, sr_ok = True, sr_error = None\<rparr>),
      ie_obs_shutdown_notice = (\<lambda>v. Ok \<lparr>sn_reason = v\<rparr>)\<rparr>"

definition sample_state :: ipc_session where
  "sample_state =
     (session_start sample_env new_debug_status 0)\<lparr>is_handshake_complete := True,
        is_pending_switches := [(''r1'', \<lparr>ps_scene_name = ''A'', ps_deadline_at = 1\<rparr>),
                                (''r2'', \<lparr>ps_scene_name = ''B'', ps_deadline_at = 10 ^ 12\<rparr>)]\<rparr>"

section \<open>The loop is an instance of the state machine\<close>

text \<open>C1. The session loop refines the session state machine: whatever the clients, the clocks and
  the pipes do, the state after any number of iterations of \<open>handle_session_io\<close> is reached from
  its initial state by steps that write one well-formed frame, complete the handshake together
  with a written \<open>hello_ack\<close>, carry out a received command by adding a pending switch together with
  its written \<open>switch_scene\<close>, or remove a pending switch.\<close>

theorem session_refines_machine:
  "(sstep (received env) env)\<^sup>*\<^sup>* (session_start env debug seq) (snd (handle_session_io n env debug seq))"
  unfolding handle_session_io_def by (rule session_loop_steps)

text \<open>C2. In every session that starts with a zero pending count, after any number of iterations,
  the pending count shown to the HTTP server is the number of outstanding switch requests, request
  ids are distinct, and every outstanding request was announced to the plugin by a written
  \<open>switch_scene\<close> message with the same id and scene.\<close>

theorem pending_count_consistent:
  assumes "ds_pending_switch_count debug = 0"
  shows "let s = snd (handle_session_io n env debug seq) in
    ds_pending_switch_count (is_debug s) = of_nat (length (is_pending_switches s))
    \<and> distinct (map fst (is_pending_switches s))
    \<and> (\<forall>(rid, p) \<in> set (is_pending_switches s). announced (is_evt_log s) rid (ps_scene_name p))"
  using session_loop_ok [OF assms, of n env seq] by (simp add: session_ok_def Let_def)

theorem pending_count_consistent_witness:
  "let s = snd (handle_session_io 3 sample_env new_debug_status 0) in
    ds_pending_switch_count (is_debug s) = of_nat (length (is_pending_switches s))"
  using pending_count_consistent [of new_debug_status 3 sample_env 0]
  by (simp add: new_debug_status_def Let_def)

text \<open>C4. Before the handshake the core never sends a \<open>switch_scene\<close> and never a heartbeat timeout:
  in the sequence of messages written by a session they only occur after a \<open>hello_ack\<close>; the
  handshake flag is set exactly when a \<open>hello_ack\<close> has been written, and every message carries the
  protocol version and the type of its payload; nothing goes out in the lowest lane, and the critical
  lane is that of the scene switches and of nothing else.\<close>

theorem handshake_first:
  assumes "ds_pending_switch_count debug = 0"
  shows "let s = snd (handle_session_io n env debug seq) in
    (\<forall>e \<in> set (before_ack (is_evt_log s)). \<not> needs_handshake (ev_payload e))
    \<and> (is_handshake_complete s \<longleftrightarrow> (\<exists>e \<in> set (is_evt_log s). is_ack (ev_payload e)))
    \<and> (\<forall>e \<in> set (is_evt_log s). ev_v e = IPC_PROTOCOL_VERSION \<and> ev_type e = payload_type (ev_payload e)
        \<and> Normal \<le> ev_priority e \<and> (ev_priority e = Critical \<longleftrightarrow> is_switch (ev_payload e)))"
  using session_loop_ok [OF assms, of n env seq]
  by (auto simp: session_ok_def Let_def well_formed_def)

theorem handshake_first_witness:
  "let s = snd (handle_session_io 2 sample_env new_debug_status 0) in
    (\<forall>e \<in> set (before_ack (is_evt_log s)). \<not> needs_handshake (ev_payload e))"
  using handshake_first [of new_debug_status 2 sample_env 0]
  by (simp add: new_debug_status_def Let_def)

section \<open>The event pipe\<close>

definition reliable :: "'v ipc_env \<Rightarrow> bool" where
  "reliable env \<longleftrightarrow> (\<forall>q. ie_pipe_write env q = None)"

definition stream_ok :: "'v ipc_env \<Rightarrow> ipc_session \<Rightarrow> bool" where
  "stream_ok env s \<longleftrightarrow>
     (\<exists>ps. list_all2 (\<lambda>e p. encode_frame env e = Ok p) (is_evt_log s) ps
         \<and> is_evt_bytes s = concat (map frame_bytes ps))"

lemma stream_ok_write:
  assumes "reliable env" and "write_frame env e s = (r, t)" and "stream_ok env s"
  shows "stream_ok env t"
proof -
  have no: "\<And>q. ie_pipe_write env q = None" using assms(1) by (simp add: reliable_def)
  obtain ps where ps: "list_all2 (\<lambda>e p. encode_frame env e = Ok p) (is_evt_log s) ps"
    "is_evt_bytes s = concat (map frame_bytes ps)" using assms(3) by (auto simp: stream_ok_def)
  show ?thesis
  proof (cases "encode_frame env e")
    case (Inr p)
    have t: "is_evt_log t = is_evt_log s @ [e]" "is_evt_bytes t = is_evt_bytes s @ frame_bytes p"
      using Inr assms(2) unfolding write_frame_reliable [OF no] by auto
    have "list_all2 (\<lambda>e p. encode_frame env e = Ok p) (is_evt_log s @ [e]) (ps @ [p])"
      using Inr ps(1) by (simp add: list_all2_appendI)
    with t ps(2) show ?thesis unfolding stream_ok_def by (intro exI [of _ "ps @ [p]"]) simp
  qed (use assms no in \<open>simp add: write_frame_reliable\<close>)
qed

lemma stream_ok_cong:
  "is_evt_log t = is_evt_log s \<Longrightarrow> is_evt_bytes t = is_evt_bytes s \<Longrightarrow> stream_ok env t = stream_ok env s"
  by (simp add: stream_ok_def)

lemma stream_ok_step:
  assumes "reliable env" and "stream_ok env s" and "sstep A env s t"
  shows "stream_ok env t"
  using assms(3)
proof (rule sstepE)
  assume "quiet s t"
  with assms(2) show ?thesis by (simp add: quiet_def stream_ok_def)
next
  fix e u
  assume "write_frame env e s = (Ok (), u)" and "t = u\<lparr>is_handshake_complete := True\<rparr>"
  with stream_ok_write [OF assms(1) _ assms(2)] show ?thesis by (simp add: stream_ok_def)
next
  fix e u sp p d q pending
  assume "write_frame env e s = (Ok (), u)"
    and "t = u\<lparr>is_pending_switches := pending, is_seq := q, is_debug := d\<rparr>"
  with stream_ok_write [OF assms(1) _ assms(2)] show ?thesis by (simp add: stream_ok_def)
next
  fix d q pending
  assume "t = s\<lparr>is_pending_switches := pending, is_seq := q, is_debug := d\<rparr>"
  with assms(2) show ?thesis by (simp add: stream_ok_def)
qed (blast intro: stream_ok_write [OF assms(1) _ assms(2)])+

interpretation stream: invariant_system "session_init env" "sstep A env"
  "\<lambda>s. reliable env \<longrightarrow> stream_ok env s" for A and env :: "'v ipc_env"
proof
  show "session_init env s \<Longrightarrow> reliable env \<longrightarrow> stream_ok env s" for s
    by (auto simp: session_init_def session_start_def stream_ok_def)
qed (blast intro: stream_ok_step)

text \<open>On a pipe that accepts every write, the bytes of the event pipe are exactly the frames of the
  messages written so far: reading them frame by frame gives back the encoding of each message in order,
  none longer than the 64 KiB the reader accepts, and nothing is left over.\<close>

lemma loop_stream_ok: "reliable env \<Longrightarrow> stream_ok env (snd (handle_session_io n env debug seq))"
  using stream.inv_rtranclp [of env "session_start env debug seq" "received env"]
    session_loop_steps [of env "session_start env debug seq" n]
  by (simp add: handle_session_io_def stream_ok_def session_start_def)

lemma event_stream_decodes:
  assumes "reliable env" and "s = snd (handle_session_io n env debug seq)"
  obtains ps where "list_all2 (\<lambda>e p. ie_to_vec_named env e = Ok p \<and> length p \<le> MAX_FRAME_SIZE) (is_evt_log s) ps"
    and "is_evt_bytes s = concat (map frame_bytes ps)"
    and "get_all get_raw (Suc (length ps)) (is_evt_bytes s) = (ps, [])"
proof -
  obtain ps where ps: "list_all2 (\<lambda>e p. encode_frame env e = Ok p) (is_evt_log s) ps"
    "is_evt_bytes s = concat (map frame_bytes ps)"
    using loop_stream_ok [OF assms(1), of n debug seq] assms(2) by (auto simp: stream_ok_def)
  have enc: "list_all2 (\<lambda>e p. ie_to_vec_named env e = Ok p \<and> length p \<le> MAX_FRAME_SIZE) (is_evt_log s) ps"
    using ps(1) by (rule list_all2_mono) (auto simp: encode_frame_def and_then_eq_Ok split: if_splits)
  then have "list_all (\<lambda>p. length p \<le> MAX_FRAME_SIZE) ps"
    by (auto simp: list_all2_conv_all_nth list_all_length)
  then have "get_all get_raw (Suc (length ps)) (is_evt_bytes s) = (ps, [])"
    using raw.get_all_concat [of ps "Suc (length ps)" "[]"] raw.get_Nil ps(2) by simp
  with enc ps(2) show ?thesis by (rule that)
qed

section \<open>The command pipe\<close>

lemma read_frame_Ok:
  assumes "read_frame env s = (Some (Ok e), t)"
  obtains p rest where "read_raw (is_cmd_buf s @ fst (ie_poll env (is_seq s))) = Frame p rest"
    "ie_from_slice env p = Ok e"
  using assms by (auto simp: read_frame_def split: prod.splits raw_read.splits poll_end.splits)

text \<open>C14. A frame that arrives across the end of a poll window is lost: when the window elapses with
  only a part of the frame on the pipe, the bytes read so far are dropped and no error is reported;
  when the rest arrives in the next window, whatever message is delivered is decoded from fewer
  bytes than were sent.\<close>

theorem split_frame_lost:
  assumes "is_cmd_buf s = []" and "length payload \<le> MAX_FRAME_SIZE"
    and "0 < n" and "n < length (frame_bytes payload)"
    and "ie_poll env (is_seq s) = (take n (frame_bytes payload), Elapsed)"
    and "ie_poll env (Suc (is_seq s)) = (drop n (frame_bytes payload), ending)"
  shows "\<exists>s'. read_frame env s = (None, s') \<and> is_cmd_buf s' = []
    \<and> (\<forall>e t. read_frame env s' = (Some (Ok e), t) \<longrightarrow>
         (\<exists>p. length p < length payload \<and> ie_from_slice env p = Ok e))"
proof (intro exI [of _ "s\<lparr>is_seq := Suc (is_seq s), is_cmd_buf := []\<rparr>"] conjI allI impI)
  let ?s' = "s\<lparr>is_seq := Suc (is_seq s), is_cmd_buf := []\<rparr>"
  have "read_raw (take n (frame_bytes payload)) = Short"
    using assms(2,4) by (rule read_raw_prefix)
  with assms(1,5) show "read_frame env s = (None, ?s')"
    by (simp add: read_frame_def)
  show "is_cmd_buf ?s' = []" by simp
  fix e t
  assume "read_frame env ?s' = (Some (Ok e), t)"
  then obtain p rest where "read_raw (drop n (frame_bytes payload)) = Frame p rest"
    and dec: "ie_from_slice env p = Ok e"
    using assms(6) by (auto elim!: read_frame_Ok)
  then have "length p < length payload"
    using read_raw_Frame_length assms(3,4) by (fastforce simp: frame_bytes_def)
  with dec show "\<exists>p. length p < length payload \<and> ie_from_slice env p = Ok e" by blast
qed

text \<open>A ping frame \<open>[2]\<close> whose last byte comes after the window of the first poll.\<close>

definition slow_env :: "string ipc_env" where
  "slow_env = sample_env\<lparr>ie_poll :=
     (\<lambda>q. if q = 2 then (take 4 (frame_bytes [2]), Elapsed)
          else if q = 3 then (drop 4 (frame_bytes [2]), Elapsed) else ([], Elapsed))\<rparr>"

theorem split_frame_lost_witness:
  "\<exists>s'. read_frame slow_env (session_start slow_env new_debug_status 0) = (None, s') \<and> is_cmd_buf s' = []
    \<and> (\<forall>e t. read_frame slow_env s' = (Some (Ok e), t) \<longrightarrow>
         (\<exists>p. length p < length [2 :: u8] \<and> ie_from_slice slow_env p = Ok e))"
  by (rule split_frame_lost [where n = 4 and ending = Elapsed])
     (simp_all add: session_start_def slow_env_def frame_bytes_def MAX_FRAME_SIZE_def)

section \<open>Pending switches\<close>

lemma handle_commands_dropped:
  "\<not> is_handshake_complete s \<Longrightarrow> handle_commands env cmds s = (Proceed, s)"
  by (induction cmds) simp_all

text \<open>Commands of the HTTP server received before the handshake are dropped: they are consumed,
  nothing is written, nothing becomes pending and the debug status does not change.\<close>

theorem commands_dropped_before_handshake:
  assumes "\<not> is_handshake_complete s"
  shows "drain_commands env s = (Proceed, s\<lparr>is_seq := Suc (is_seq s)\<rparr>)"
  using assms by (simp add: drain_commands_def handle_commands_dropped)

theorem commands_dropped_before_handshake_witness:
  "drain_commands (sample_env\<lparr>ie_try_recv := \<lambda>_. [SwitchScene ''A'' ''test'' 500]\<rparr>)
     (session_start sample_env new_debug_status 0)
   = (Proceed, (session_start sample_env new_debug_status 0)\<lparr>is_seq := 3\<rparr>)"
  using commands_dropped_before_handshake [of "session_start sample_env new_debug_status 0"
      "sample_env\<lparr>ie_try_recv := \<lambda>_. [SwitchScene ''A'' ''test'' 500]\<rparr>"]
  by (simp add: session_start_def)

text \<open>C16. The plugin's answer to a switch request resolves it exactly once: an answer to an
  outstanding request removes that request and no other, records its outcome and updates the
  count; an answer to any other id, such as a repeated or late one, leaves the outstanding requests
  and the count alone and is recorded as unknown.\<close>

theorem switch_result_resolves_once:
  "let s' = resolve_switch env res s;
       out = ds_last_switch_result (is_debug s')
   in map_of (is_pending_switches s') = (map_of (is_pending_switches s))(sr_request_id res := None)
    \<and> (if map_of (is_pending_switches s) (sr_request_id res) = None
       then is_pending_switches s' = is_pending_switches s
          \<and> ds_pending_switch_count (is_debug s') = ds_pending_switch_count (is_debug s)
          \<and> map_option rd_status out = Some ''unknown_request''
       else ds_pending_switch_count (is_debug s') = of_nat (length (is_pending_switches s'))
          \<and> map_option rd_status out = Some (if sr_ok res then ''ok'' else ''error''))
    \<and> map_option rd_request_id out = Some (sr_request_id res)
    \<and> map_option rd_error out = Some (sr_error res)
    \<and> map_option rd_status (ds_last_switch_result (is_debug (resolve_switch env res s')))
        = Some ''unknown_request''"
  by (simp add: resolve_switch_def ipc_simps Let_def map_of_delete_eq) (auto simp: fun_upd_idem_iff)

text \<open>Expiring a list of ids removes them; on a pipe that accepts the notices, each id present is
  answered by one notice, in order.\<close>

lemma expire_one_pending:
  "is_pending_switches (expire_one env rid s) = AList.delete rid (is_pending_switches s)"
proof (cases "map_of (is_pending_switches s) rid")
  case None
  then show ?thesis by (simp add: expire_one_def)
next
  case (Some p)
  obtain r t where w: "write_frame env (envelope_at env (is_seq s) ''user_notice'' High
      (timeout_notice rid p)) (s\<lparr>is_seq := Suc (Suc (is_seq s))\<rparr>) = (r, t)" by fastforce
  with expire_one_Some [OF Some w] show ?thesis by auto
qed

lemma expire_fold_pending:
  "is_pending_switches (fold (expire_one env) ids s)
     = filter (\<lambda>(rid, p). rid \<notin> set ids) (is_pending_switches s)"
  by (induction ids arbitrary: s)
     (auto simp: expire_one_pending AList.delete_eq filter_filter intro!: filter_cong)

lemma expire_one_log:
  assumes "reliable env" and "map_of (is_pending_switches s) rid = Some p"
    and "\<And>q. is_ok (encode_frame env (envelope_at env q ''user_notice'' High (timeout_notice rid p)))"
  shows "map ev_payload (is_evt_log (expire_one env rid s))
    = map ev_payload (is_evt_log s) @ [timeout_notice rid p]"
proof -
  let ?e = "envelope_at env (is_seq s) ''user_notice'' High (timeout_notice rid p)"
  obtain r t where w: "write_frame env ?e (s\<lparr>is_seq := Suc (Suc (is_seq s))\<rparr>) = (r, t)" by fastforce
  then have "r = Ok ()"
    using assms(1) assms(3) [of "is_seq s"]
    by (auto simp: write_frame_reliable reliable_def split: sum.splits)
  then have "is_evt_log t = is_evt_log s @ [?e]" using write_frame_keeps [OF w] by simp
  with expire_one_Some [OF assms(2) w] show ?thesis by auto
qed

lemma expire_fold_log:
  assumes "reliable env" and "distinct ids" and "\<forall>rid \<in> set ids. map_of (is_pending_switches s) rid = Some (f rid)"
    and "\<And>rid q. rid \<in> set ids \<Longrightarrow>
      is_ok (encode_frame env (envelope_at env q ''user_notice'' High (timeout_notice rid (f rid))))"
  shows "map ev_payload (is_evt_log (fold (expire_one env) ids s))
    = map ev_payload (is_evt_log s) @ map (\<lambda>rid. timeout_notice rid (f rid)) ids"
  using assms
proof (induction ids arbitrary: s)
  case (Cons rid ids)
  have "map_of (is_pending_switches (expire_one env rid s)) k = Some (f k)" if "k \<in> set ids" for k
    using Cons.prems that by (auto simp: expire_one_pending map_of_delete_eq)
  then show ?case
    using Cons by (simp add: expire_one_log)
qed simp

lemma expired_key_iff:
  assumes "distinct (map fst m)" and "(rid, p) \<in> set m"
  shows "rid \<in> set (map fst (filter (\<lambda>(rid, p). P p) m)) \<longleftrightarrow> P p"
proof
  assume "rid \<in> set (map fst (filter (\<lambda>(rid, p). P p) m))"
  then obtain p' where "(rid, p') \<in> set m" and "P p'" by auto
  then show "P p" using assms eq_key_imp_eq_value by metis
next
  assume "P p"
  with assms(2) have "(rid, p) \<in> set (filter (\<lambda>(rid, p). P p) m)" by simp
  then show "rid \<in> set (map fst (filter (\<lambda>(rid, p). P p) m))" by force
qed

text \<open>C6. When switch requests are outstanding, under distinct ids, one pass of the expiry keeps exactly
  those whose deadline is still ahead, whatever order the hash map is walked in and whether or not the
  event pipe takes what is written; and if it takes every write and the notices can be encoded, the plugin
  gets exactly one timeout notice for each expired request and nothing else.\<close>

theorem expiry_exact:
  assumes "is_pending_switches s \<noteq> []"
    and "distinct (map fst (is_pending_switches s))"
    and "mset (ie_hash_order env (Suc (is_seq s)) (is_pending_switches s)) = mset (is_pending_switches s)"
  shows "let now = ie_instant env (is_seq s); t = expire_pending env s in
    is_pending_switches t = filter (\<lambda>(rid, p). now < ps_deadline_at p) (is_pending_switches s)
    \<and> ((\<forall>q. ie_pipe_write env q = None) \<and>
       (\<forall>(rid, p) \<in> set (is_pending_switches s). \<forall>q.
          is_ok (encode_frame env (envelope_at env q ''user_notice'' High (timeout_notice rid p)))) \<longrightarrow>
       (\<exists>sent. map ev_payload (is_evt_log t) = map ev_payload (is_evt_log s) @ sent
         \<and> mset sent = image_mset (\<lambda>(rid, p). timeout_notice rid p)
             (filter_mset (\<lambda>(rid, p). ps_deadline_at p \<le> now) (mset (is_pending_switches s)))))"
proof -
  define now where "now = ie_instant env (is_seq s)"
  define order where "order = ie_hash_order env (Suc (is_seq s)) (is_pending_switches s)"
  define s2 where "s2 = s\<lparr>is_seq := Suc (Suc (is_seq s))\<rparr>"
  let ?exp = "filter (\<lambda>(rid, p). ps_deadline_at p \<le> now) order"
  let ?f = "\<lambda>rid. the (map_of (is_pending_switches s) rid)"
  have t: "expire_pending env s = fold (expire_one env) (map fst ?exp) s2"
    using assms(1) by (simp add: expire_pending_def expired_ids_def now_def order_def s2_def)
  have set_order: "set order = set (is_pending_switches s)"
    using assms(3) unfolding order_def by (rule mset_eq_setD)
  have d: "distinct (map fst order)"
    using assms(2,3) unfolding order_def
    by (metis mset_map mset_eq_imp_distinct_iff)
  have dexp: "distinct (map fst ?exp)" using d by (rule distinct_map_filter)
  have look: "map_of (is_pending_switches s) rid = Some p" if "(rid, p) \<in> set order" for rid p
    using that assms(2) set_order by simp
  have log: "map ev_payload (is_evt_log (expire_pending env s))
      = map ev_payload (is_evt_log s) @ map (\<lambda>rid. timeout_notice rid (?f rid)) (map fst ?exp)"
    if "\<forall>q. ie_pipe_write env q = None"
      "\<forall>(rid, p) \<in> set (is_pending_switches s). \<forall>q.
         is_ok (encode_frame env (envelope_at env q ''user_notice'' High (timeout_notice rid p)))"
    unfolding t
    by (subst expire_fold_log [where f = ?f])
       (use that dexp look set_order in \<open>auto simp: reliable_def s2_def\<close>)
  have eq: "map (\<lambda>rid. timeout_notice rid (?f rid)) (map fst ?exp)
      = map (\<lambda>(rid, p). timeout_notice rid p) ?exp"
    using look by auto
  have ms: "mset (map (\<lambda>(rid, p). timeout_notice rid p) ?exp) = image_mset (\<lambda>(rid, p). timeout_notice rid p)
      (filter_mset (\<lambda>(rid, p). ps_deadline_at p \<le> now) (mset (is_pending_switches s)))"
    using assms(3) by (simp add: order_def)
  have pend: "is_pending_switches (expire_pending env s)
      = filter (\<lambda>(rid, p). now < ps_deadline_at p) (is_pending_switches s)"
    unfolding t expire_fold_pending
  proof (rule filter_cong)
    fix x assume "x \<in> set (is_pending_switches s)"
    then obtain rid p where x: "x = (rid, p)" "(rid, p) \<in> set order" using set_order by (metis surj_pair)
    show "(case x of (rid, p) \<Rightarrow> rid \<notin> set (map fst ?exp)) \<longleftrightarrow>
        (case x of (rid, p) \<Rightarrow> now < ps_deadline_at p)"
      unfolding x(1) prod.case using expired_key_iff [OF d x(2), of "\<lambda>p. ps_deadline_at p \<le> now"]
      by (simp add: not_le)
  qed (simp add: s2_def)
  from log [unfolded eq] ms pend show ?thesis
    unfolding Let_def now_def [symmetric] by blast
qed

theorem expiry_exact_witness:
  "let now = ie_instant sample_env (is_seq sample_state); t = expire_pending sample_env sample_state in
    is_pending_switches t = filter (\<lambda>(rid, p). now < ps_deadline_at p) (is_pending_switches sample_state)
    \<and> (\<exists>sent. map ev_payload (is_evt_log t) = map ev_payload (is_evt_log sample_state) @ sent
         \<and> mset sent = image_mset (\<lambda>(rid, p). timeout_notice rid p)
             (filter_mset (\<lambda>(rid, p). ps_deadline_at p \<le> now) (mset (is_pending_switches sample_state))))"
  using expiry_exact [of sample_state sample_env]
  by (simp add: sample_state_def sample_env_def session_start_def encode_frame_def MAX_FRAME_SIZE_def Let_def)

section \<open>Heartbeat\<close>

lemma heartbeat_due: "duration_since now t \<ge> HEARTBEAT_TIMEOUT \<longleftrightarrow> now - t \<ge> 3500 * 10 ^ 6"
  by (auto simp: duration_since_def HEARTBEAT_TIMEOUT_def from_millis_def)

lemma heartbeat_flow:
  "fst (heartbeat_check env s) =
     (if is_handshake_complete s \<and> ie_instant env (is_seq s) - is_last_ping_at s \<ge> 3500 * 10 ^ 6
      then Return (Ok ()) else Proceed)"
  by (simp add: heartbeat_check_def heartbeat_due Let_def case_prod_beta)

text \<open>The heartbeat check closes the session exactly when the handshake is complete and at
  least 3.5 seconds have passed since the last ping, and it closes it without an error. When it does
  not close it, it reads the clock and changes nothing else; when it does, the debug status carries
  the reason and, on a pipe that accepts it, the plugin is sent a timeout error.\<close>

theorem heartbeat_exact:
  "case heartbeat_check env s of (flow, t) \<Rightarrow>
     if is_handshake_complete s \<and> ie_instant env (is_seq s) - is_last_ping_at s \<ge> 3500 * 10 ^ 6
     then flow = Return (Ok ())
       \<and> ds_last_notice (is_debug t) = Some ''Heartbeat timeout (missing ping)''
       \<and> is_pending_switches t = is_pending_switches s
       \<and> (\<exists>sent. is_evt_log t = is_evt_log s @ sent
            \<and> set (map ev_payload sent) \<subseteq> {Protocol_Error \<lparr>pe_code = Timeout,
                 pe_message = ''Heartbeat timeout (missing ping)'', pe_related_message_id = None\<rparr>})
     else flow = Proceed
       \<and> t = (if is_handshake_complete s then s\<lparr>is_seq := Suc (is_seq s)\<rparr> else s)"
proof (cases "is_handshake_complete s \<and> ie_instant env (is_seq s) - is_last_ping_at s \<ge> 3500 * 10 ^ 6")
  case True
  let ?e = "envelope_at env (Suc (is_seq s)) ''protocol_error'' High (Protocol_Error \<lparr>pe_code = Timeout,
    pe_message = ''Heartbeat timeout (missing ping)'', pe_related_message_id = None\<rparr>)"
  obtain r u where w: "write_frame env ?e (s\<lparr>is_seq := Suc (Suc (Suc (is_seq s)))\<rparr>) = (r, u)" by fastforce
  have "heartbeat_check env s = (Return (Ok ()), update_debug_status env
      (ds_last_notice_update (\<lambda>_. Some ''Heartbeat timeout (missing ping)'')) u)"
    using True w by (simp add: heartbeat_check_def heartbeat_due ipc_simps Let_def)
  with True write_frame_keeps [OF w] show ?thesis
    by (simp add: ipc_simps)
next
  case False
  then show ?thesis by (auto simp: heartbeat_check_def heartbeat_due Let_def)
qed

text \<open>The parts of the loop body before the heartbeat check do not touch what the check reads.\<close>

definition keeps :: "ipc_session \<Rightarrow> ipc_session \<Rightarrow> bool" where
  "keeps s t \<longleftrightarrow> is_last_ping_at t = is_last_ping_at s \<and> is_handshake_complete t = is_handshake_complete s
     \<and> is_cmd_buf t = is_cmd_buf s \<and> is_seq s \<le> is_seq t"

lemma keeps_refl [simp]: "keeps s s" and keeps_trans: "keeps s t \<Longrightarrow> keeps t u \<Longrightarrow> keeps s u"
  by (auto simp: keeps_def)

lemma write_frame_keeps_snd: "keeps s (snd (write_frame env e s))"
  using write_frame_keeps [of env e s "fst (write_frame env e s)" "snd (write_frame env e s)"]
  by (simp add: keeps_def)

lemma try_io_keeps:
  assumes "keeps s (snd r)" and "\<And>t. r = (Ok (), t) \<Longrightarrow> keeps t (snd (k t))"
  shows "keeps s (snd (try_io r k))"
  using assms by (cases r) (auto simp: try_io_def split: sum.splits intro: keeps_trans)

lemma write_or_return_keeps:
  assumes "keeps s u" and "\<And>t. keeps t (snd (k t))"
  shows "keeps s (snd (try_io (write_frame env e u) k))"
  using assms by (intro try_io_keeps keeps_trans [OF _ write_frame_keeps_snd])

lemma send_status_keeps: "keeps s (snd (send_status env prio s))"
  unfolding send_status_def step_unfold
  by (rule write_or_return_keeps) (simp_all add: keeps_def)

lemma push_status_keeps: "keeps s (snd (push_status env s))"
proof -
  have "keeps s (s\<lparr>is_seq := Suc (is_seq s)\<rparr>)" by (simp add: keeps_def)
  then show ?thesis
    by (auto simp: push_status_def Let_def intro: keeps_trans [OF _ send_status_keeps])
qed

lemma handle_commands_keeps: "keeps s (snd (handle_commands env cmds s))"
proof (induction cmds arbitrary: s)
  case (Cons cmd cmds)
  have "keeps s (snd (switch_scene env cmd s))"
    unfolding switch_scene_def step_unfold
    by (rule write_or_return_keeps) (simp_all add: keeps_def)
  then show ?case
    using Cons by (cases "switch_scene env cmd s")
      (auto simp: and_proceed_def split: flow.split intro: keeps_trans)
qed simp

lemma drain_commands_keeps: "keeps s (snd (drain_commands env s))"
  by (rule keeps_trans [where t = "s\<lparr>is_seq := Suc (is_seq s)\<rparr>"])
     (simp add: keeps_def, simp add: drain_commands_def handle_commands_keeps)

lemma expire_one_keeps: "keeps s (expire_one env rid s)"
proof (cases "map_of (is_pending_switches s) rid")
  case (Some p)
  obtain r t where w: "write_frame env (envelope_at env (is_seq s) ''user_notice'' High
      (timeout_notice rid p)) (s\<lparr>is_seq := Suc (Suc (is_seq s))\<rparr>) = (r, t)" by fastforce
  from expire_one_Some [OF Some w] write_frame_keeps [OF w] show ?thesis
    by (auto simp: keeps_def)
qed (simp add: expire_one_def)

lemma expire_pending_keeps: "keeps s (expire_pending env s)"
proof -
  have "keeps u (fold (expire_one env) ids u)" for ids u
    by (induction ids arbitrary: u) (auto intro: keeps_trans expire_one_keeps)
  from this [of "s\<lparr>is_seq := Suc (Suc (is_seq s))\<rparr>"] show ?thesis
    by (fastforce simp: expire_pending_def Let_def keeps_def)
qed

lemma silent_iteration:
  assumes "is_handshake_complete s" and "is_cmd_buf s = []"
    and "\<forall>q \<ge> is_seq s. ie_poll env q = ([], Elapsed)"
    and "session_iteration env s = (Proceed, t)"
  shows "is_handshake_complete t \<and> is_cmd_buf t = [] \<and> is_last_ping_at t = is_last_ping_at s
    \<and> (\<exists>q. is_seq s \<le> q \<and> q < is_seq t \<and> ie_instant env q - is_last_ping_at s < 3500 * 10 ^ 6)"
proof -
  obtain a where a: "drain_commands env s = (Proceed, a)"
    using assms(4) by (cases "drain_commands env s") (auto simp: session_iteration_def and_proceed_def split: flow.splits)
  obtain b where b: "push_status env (expire_pending env a) = (Proceed, b)"
    using assms(4) a by (cases "push_status env (expire_pending env a)")
      (auto simp: session_iteration_def and_proceed_def split: flow.splits)
  have "keeps s b"
    using drain_commands_keeps [of s env] expire_pending_keeps [of a env]
      push_status_keeps [of "expire_pending env a" env] a b by (auto intro: keeps_trans)
  then have sb: "is_handshake_complete b" "is_cmd_buf b = []" "is_last_ping_at b = is_last_ping_at s"
    "is_seq s \<le> is_seq b" using assms(1,2) by (auto simp: keeps_def)
  obtain c where c: "heartbeat_check env b = (Proceed, c)"
    using assms(4) a b by (cases "heartbeat_check env b")
      (auto simp: session_iteration_def and_proceed_def split: flow.splits)
  have now: "\<not> ie_instant env (is_seq b) - is_last_ping_at b \<ge> 3500 * 10 ^ 6"
    using heartbeat_flow [of env b] sb(1) c by (auto split: if_splits)
  have cb: "c = b\<lparr>is_seq := Suc (is_seq b)\<rparr>"
    using c sb(1) by (auto simp: heartbeat_check_def Let_def case_prod_beta split: if_splits)
  have "poll_command env c = (Proceed, c\<lparr>is_seq := Suc (is_seq c), is_cmd_buf := []\<rparr>)"
    using assms(3) sb cb by (simp add: poll_command_def read_frame_def read_raw_def)
  then have "t = c\<lparr>is_seq := Suc (is_seq c), is_cmd_buf := []\<rparr>"
    using assms(4) a b c by (simp add: session_iteration_def and_proceed_def)
  with sb cb now show ?thesis by (auto intro!: exI [of _ "is_seq b"])
qed

text \<open>C11. A client that falls silent after the handshake is disconnected, provided that every write
  on the event pipe comes to an end, with or without an error: if no more bytes arrive,
  the clock never runs backwards, and 3.5 seconds after the last ping have passed by the time of
  the \<open>N\<close>-th read of the environment, then the session returns within \<open>N + 1\<close> iterations,
  whatever commands arrive and whichever writes fail. The proviso is part of the model, whose
  \<open>pipe_write\<close> always has an outcome; \<open>write_frame\<close> is awaited without a time limit, so a client that
  keeps the pipe open without reading can hold the session in a write for ever, and then no
  heartbeat is checked.\<close>

theorem silent_client_disconnected:
  assumes "is_handshake_complete s" and "is_cmd_buf s = []"
    and "\<forall>q \<ge> is_seq s. ie_poll env q = ([], Elapsed)"
    and "mono (ie_instant env)"
    and "ie_instant env N \<ge> is_last_ping_at s + 3500 * 10 ^ 6"
  shows "\<exists>r t. session_loop (Suc N) env s = (Return r, t)"
proof -
  have "\<exists>r t. session_loop (Suc k) env u = (Return r, t)"
    if "is_handshake_complete u" "is_cmd_buf u = []" "is_last_ping_at u = is_last_ping_at s"
      "\<forall>q \<ge> is_seq u. ie_poll env q = ([], Elapsed)" "N \<le> is_seq u + k" for k u
    using that
  proof (induction k arbitrary: u)
    case (0 u)
    show ?case
    proof (cases "session_iteration env u")
      case (Pair f t)
      have "f \<noteq> Proceed"
      proof
        assume "f = Proceed"
        with 0 Pair obtain q where "is_seq u \<le> q" "ie_instant env q - is_last_ping_at s < 3500 * 10 ^ 6"
          using silent_iteration [of u env t] by auto
        moreover have "ie_instant env N \<le> ie_instant env q"
          using assms(4) \<open>is_seq u \<le> q\<close> 0 by (simp add: monoD)
        ultimately show False using assms(5) by simp
      qed
      with Pair show ?thesis by (cases f) (simp_all add: and_proceed_def)
    qed
  next
    case (Suc k u)
    show ?case
    proof (cases "session_iteration env u")
      case (Pair f t)
      show ?thesis
      proof (cases f)
        case Proceed
        with Pair Suc.prems have "is_handshake_complete t \<and> is_cmd_buf t = []
            \<and> is_last_ping_at t = is_last_ping_at s \<and> is_seq u < is_seq t"
          using silent_iteration [of u env t] by auto
        with Suc.prems have "\<exists>r t'. session_loop (Suc k) env t = (Return r, t')"
          by (intro Suc.IH) auto
        then show ?thesis
          using Pair Proceed by (subst session_loop.simps) (simp add: and_proceed_def del: session_loop.simps)
      qed (use Pair in \<open>simp add: and_proceed_def\<close>)
    qed
  qed
  from this [of s N] show ?thesis using assms(1-3) by (simp del: session_loop.simps)
qed

theorem silent_client_disconnected_witness:
  "\<exists>r t. session_loop (Suc 4) sample_env sample_state = (Return r, t)"
proof (rule silent_client_disconnected)
  show "mono (ie_instant sample_env)" by (simp add: sample_env_def mono_def)
qed (simp_all add: sample_state_def session_start_def sample_env_def)

end
