(* ===== verification/Ipc_Server.thy ===== *)
theory Ipc_Server
  imports Ipc_Correctness
begin

text \<open>
  The named-pipe server around the sessions, and the handlers whose effect the session invariants
  do not determine: the handshake and the override requests.
\<close>

section \<open>The pipe server\<close>

lemma connected_step: "sstep A env s t \<Longrightarrow> ds_session_connected (is_debug t) = ds_session_connected (is_debug s)"
  by (erule sstepE) (auto simp: quiet_def dest: write_frame_keeps(7))

lemma connected_steps: "steps A env s t \<Longrightarrow> ds_session_connected (is_debug t) = ds_session_connected (is_debug s)"
  by (induction rule: rtranclp_induct) (simp_all add: connected_step)

text \<open>The status seen by the HTTP server follows the session: while a session runs it says
  connected, and when the session has returned, for whatever reason, it says disconnected with no
  pending switch.\<close>

theorem session_status_tracked:
  "case serve_session n env debug seq of
     None \<Rightarrow>
       ds_session_connected (is_debug (snd (handle_session_io n env
         (debug\<lparr>ds_session_connected := True,
                ds_updated_ts_unix_ms := Some (ie_unix_ms env seq)\<rparr>) (Suc seq))))
   | Some (res, debug', seq') \<Rightarrow>
       \<not> ds_session_connected debug' \<and> ds_pending_switch_count debug' = 0"
proof -
  let ?d = "debug\<lparr>ds_session_connected := True, ds_updated_ts_unix_ms := Some (ie_unix_ms env seq)\<rparr>"
  have "ds_session_connected (is_debug (snd (handle_session_io n env ?d (Suc seq))))"
    using connected_steps [OF session_loop_steps [of env "session_start env ?d (Suc seq)" n]]
    by (simp add: session_start_def handle_session_io_def)
  then show ?thesis
    by (cases "handle_session_io n env ?d (Suc seq)")
       (auto simp: serve_session_def Let_def ipc_simps split: flow.split)
qed

lemma session_status_reset:
  "serve_session n env debug seq = Some (res, debug', seq') \<Longrightarrow>
     \<not> ds_session_connected debug' \<and> ds_pending_switch_count debug' = 0"
  by (auto simp: serve_session_def Let_def ipc_simps split: prod.splits flow.splits)

lemma server_stops:
  assumes "run_named_pipe_server m n env debug seq = Some (e, debug')"
    and "\<not> ds_session_connected debug" and "ds_pending_switch_count debug = 0"
  shows "(\<exists>q. ie_accept env q = Some e) \<and> \<not> ds_session_connected debug'
    \<and> ds_pending_switch_count debug' = 0"
  using assms
proof (induction m arbitrary: debug seq)
  case (Suc m)
  show ?case
  proof (cases "ie_accept env seq")
    case None
    with Suc.prems obtain res d q where s: "serve_session n env debug (Suc seq) = Some (res, d, q)"
      and r: "run_named_pipe_server m n env d q = Some (e, debug')"
      by (auto split: option.splits)
    have "\<not> ds_session_connected d \<and> ds_pending_switch_count d = 0"
      using session_status_reset [OF s] by simp
    then show ?thesis using Suc.IH [OF r] by simp
  qed (use Suc.prems in auto)
qed simp

definition closing_env :: "string ipc_env" where
  "closing_env = sample_env\<lparr>ie_poll := \<lambda>_. ([], Closed)\<rparr>"

section \<open>Handshake and overrides\<close>

definition hello_answer :: "'v ipc_env \<Rightarrow> hello_payload \<Rightarrow> event_payload" where
  "hello_answer env hello =
     (if hp_protocol_version hello = IPC_PROTOCOL_VERSION
      then Hello_Ack \<lparr>ha_core_version = ie_core_version env, ha_protocol_version = IPC_PROTOCOL_VERSION,
             ha_capabilities = [''state_machine'', ''aegis'', ''ipc_stub'']\<rparr>
      else User_Notice \<lparr>un_level = Error, un_message =
             ''Protocol mismatch (plugin '' @ show_nat (unat (hp_protocol_version hello))
               @ '', core '' @ show_nat (unat IPC_PROTOCOL_VERSION) @ '')''\<rparr>)"

text \<open>C17. A decoded \<open>hello\<close> on a pipe that takes the answer: with the core's protocol version it
  completes the handshake, is answered by a \<open>hello_ack\<close>, counts as a ping, and makes a status
  snapshot due at once; with any other version it is answered by an error notice and the session
  ends without completing the handshake.\<close>

theorem hello_negotiates_version:
  assumes "ie_hello env (ev_payload incoming) = Ok hello"
    and "\<forall>q. ie_pipe_write env q = None"
    and "\<forall>q. is_ok (encode_frame env (envelope_at env q (payload_type (hello_answer env hello)) High
            (hello_answer env hello)))"
    and "mono (ie_instant env)"
  shows "\<exists>f t e. on_hello env incoming s = (f, t) \<and> is_evt_log t = is_evt_log s @ [e]
    \<and> ev_payload e = hello_answer env hello
    \<and> (if hp_protocol_version hello = IPC_PROTOCOL_VERSION
       then f = Proceed \<and> is_handshake_complete t
          \<and> (\<forall>q \<ge> is_seq t. ie_instant env q - is_last_status_push_at t \<ge> 10 ^ 9)
          \<and> (\<exists>q \<ge> is_seq s. is_last_ping_at t = ie_instant env q)
       else f = Return (Ok ()) \<and> is_handshake_complete t = is_handshake_complete s)"
proof -
  let ?x = "hello_answer env hello"
  let ?e = "envelope_at env (is_seq s) (payload_type ?x) High ?x"
  obtain p where enc: "encode_frame env ?e = Ok p"
    using assms(3) by (metis is_ok_simps(2) sum.exhaust)
  note w = write_frame_reliable [of env, OF assms(2) [rule_format]]
  show ?thesis
  proof (cases "hp_protocol_version hello = IPC_PROTOCOL_VERSION")
    case True
    have push: "\<forall>q \<ge> is_seq s + 7. 10 ^ 9 \<le>
        ie_instant env q - (ie_instant env (is_seq s + 6) - int STATUS_PUSH_INTERVAL)"
    proof (intro allI impI)
      fix q assume "is_seq s + 7 \<le> q"
      then show "10 ^ 9 \<le> ie_instant env q - (ie_instant env (is_seq s + 6) - int STATUS_PUSH_INTERVAL)"
        using monoD [OF assms(4), of "is_seq s + 6" q] by (simp add: STATUS_PUSH_INTERVAL_def from_millis_def)
    qed
    let ?t = "s\<lparr>is_handshake_complete := True, is_last_ping_at := ie_instant env (is_seq s + 5),
      is_last_status_push_at := ie_instant env (is_seq s + 6) - int STATUS_PUSH_INTERVAL,
      is_evt_bytes := is_evt_bytes s @ frame_bytes p, is_evt_log := is_evt_log s @ [?e],
      is_seq := is_seq s + 7\<rparr>"
    have "on_hello env incoming s = (Proceed, ?t)"
      using True assms(1) enc
      by (cases s) (simp add: on_hello_def with_payload_def decode_payload_def ipc_simps w try_io_def
          Let_def hello_answer_def add.commute)
    with True push show ?thesis
      by (intro exI [of _ Proceed] exI [of _ ?t] exI [of _ ?e]) (auto intro!: exI [of _ "is_seq s + 5"])
  next
    case False
    with assms(1) enc show ?thesis
      by (simp add: on_hello_def with_payload_def decode_payload_def ipc_simps w try_io_def Let_def
          hello_answer_def)
  qed
qed

theorem hello_negotiates_version_witness:
  "\<exists>f t e. on_hello sample_env \<lparr>ev_v = 1, ev_id = ''m'', ev_ts_unix_ms = 0, ev_type = ''hello'',
        ev_priority = Normal, ev_payload = ''''\<rparr> (session_start sample_env new_debug_status 0) = (f, t)
    \<and> ev_payload e = hello_answer sample_env \<lparr>hp_plugin_version = ''1'', hp_protocol_version = 1,
        hp_obs_pid = 1, hp_capabilities = []\<rparr> \<and> is_evt_log t = [e]
    \<and> f = Proceed \<and> is_handshake_complete t"
proof -
  have "mono (ie_instant sample_env)" by (simp add: sample_env_def mono_def)
  with hello_negotiates_version [of sample_env "\<lparr>ev_v = 1, ev_id = ''m'', ev_ts_unix_ms = 0,
      ev_type = ''hello'', ev_priority = Normal, ev_payload = ''''\<rparr>" "\<lparr>hp_plugin_version = ''1'',
      hp_protocol_version = 1, hp_obs_pid = 1, hp_capabilities = []\<rparr>" "session_start sample_env new_debug_status 0"]
  show ?thesis
    by (auto simp: sample_env_def encode_frame_def MAX_FRAME_SIZE_def IPC_PROTOCOL_VERSION_def session_start_def)
qed

text \<open>Sending a status snapshot or a notice leaves the overrides alone.\<close>

lemma try_write_overrides:
  assumes "try_io (write_frame env e u) k = (f, t)" and "is_overrides u = ov"
    and "\<And>v. is_overrides v = ov \<Longrightarrow> is_overrides (snd (k v)) = ov"
  shows "is_overrides t = ov"
proof (cases "write_frame env e u")
  case (Pair r v)
  with assms write_frame_keeps(3) [OF Pair] assms(3) [of v] show ?thesis
    by (cases r) (auto simp: try_io_def)
qed

lemma send_status_overrides: "send_status env prio s = (f, t) \<Longrightarrow> is_overrides t = is_overrides s"
  unfolding send_status_def step_unfold by (erule try_write_overrides) simp_all

lemma announce_override_overrides:
  "is_overrides (snd (announce_override env message s)) = is_overrides s"
  by (cases "announce_override env message s") (auto simp: announce_override_def envelope_makers make_envelope_eq split: prod.splits
      dest!: send_status_overrides write_frame_keeps(3))

text \<open>Mode requests are idempotent: whatever the pipe did while the first request for a known
  mode was served, serving the same request again changes nothing at all: no message, no snapshot.\<close>

theorem set_mode_idempotent:
  assumes "ie_set_mode env (ev_payload incoming) = Ok req"
    and "mp_mode req = ''studio'' \<or> mp_mode req = ''irl''"
  shows "let t = snd (on_set_mode env incoming s) in
    ov_mode (is_overrides t) = Some (if mp_mode req = ''irl'' then Irl else Studio)
    \<and> on_set_mode env incoming t = (Proceed, t)"
proof -
  define mode where "mode = (if mp_mode req = ''irl'' then Irl else Studio)"
  have body: "on_set_mode env incoming u =
      (case set_mode_if_changed mode (is_overrides u) of (changed, ov) \<Rightarrow>
         if \<not> changed then (Proceed, u\<lparr>is_overrides := ov\<rparr>)
         else announce_override env (''Dock mode override set to '' @ mp_mode req) (u\<lparr>is_overrides := ov\<rparr>))"
    for u
    using assms by (elim disjE)
      (simp_all add: on_set_mode_def with_payload_def decode_payload_def mode_def Let_def)
  have after: "is_overrides (snd (on_set_mode env incoming s)) = snd (set_mode_if_changed mode (is_overrides s))"
    unfolding body
    by (simp add: announce_override_overrides split: prod.split)
  have same: "on_set_mode env incoming t = (Proceed, t)"
    if "is_overrides t = snd (set_mode_if_changed mode (is_overrides s))" for t
    using that mode_slot.repeat_noop [of mode "is_overrides s"] unfolding body
    by (cases t) simp
  show ?thesis
    using after same mode_slot.get_after [of mode "is_overrides s"] by (simp add: Let_def mode_def)
qed

theorem set_mode_idempotent_witness:
  "let inc = \<lparr>ev_v = 1, ev_id = ''m'', ev_ts_unix_ms = 0, ev_type = ''set_mode_request'',
        ev_priority = Normal, ev_payload = ''irl''\<rparr>;
       t = snd (on_set_mode sample_env inc sample_state)
   in on_set_mode sample_env inc t = (Proceed, t)"
  using set_mode_idempotent [of sample_env "\<lparr>ev_v = 1, ev_id = ''m'', ev_ts_unix_ms = 0,
      ev_type = ''set_mode_request'', ev_priority = Normal, ev_payload = ''irl''\<rparr>" "\<lparr>mp_mode = ''irl''\<rparr>"
      sample_state]
  by (simp add: sample_env_def Let_def)

end
