(* ===== verification/Dev_Client.thy ===== *)
theory Dev_Client
  imports Ipc_Server
begin

text \<open>
  The development client of \<open>src/bin/ipc_dev_client.rs\<close>, the plugin's side of the protocol: it waits
  for the two pipes, says hello, asks for a status, pings every second and acknowledges every scene
  switch. Everything it sends goes through one queue to the task that writes the command pipe, so what
  is on that pipe is an interleaving of the pings with the other messages. The codecs, the clock,
  the identifiers and the pipes are the environment record.
\<close>

section \<open>The client\<close>

definition CLIENT_MAX_FRAME_SIZE :: nat where
  "CLIENT_MAX_FRAME_SIZE = 64 * 1024"

datatype client_payload =
    Hello_Message hello_payload
  | Ping_Message ping_payload
  | Request_Status_Message
  | Scene_Switch_Result_Message scene_switch_result_payload

text \<open>\<open>'v\<close> is \<open>serde_json::Value\<close>: \<open>dc_null\<close> its default, \<open>dc_to_value\<close> \<open>to_value\<close>, \<open>dc_print\<close> \<open>to_string\<close>
  and \<open>dc_switch_scene\<close> \<open>from_value\<close> for the payload of a \<open>switch_scene\<close>. \<open>dc_open k\<close>: whether the \<open>k\<close>-th
  attempt opens the command pipe and the event pipe. \<open>dc_write k\<close>: if the \<open>k\<close>-th write fails, how many
  bytes got out before and the error.\<close>

record 'v dev_env =
  dc_args :: "string list"
  dc_pid :: u32
  dc_uuid :: "nat \<Rightarrow> string"
  dc_unix_ms :: "nat \<Rightarrow> u64"
  dc_open :: "nat \<Rightarrow> bool \<times> bool"
  dc_write :: "nat \<Rightarrow> (nat \<times> io_error) option"
  dc_null :: 'v
  dc_to_value :: "client_payload \<Rightarrow> ('v, string) result"
  dc_print :: "'v \<Rightarrow> (string, string) result"
  dc_switch_scene :: "'v \<Rightarrow> (switch_scene_payload, string) result"
  dc_from_slice :: "u8 list \<Rightarrow> ('v envelope, string) result"
  dc_to_vec_named :: "'v envelope \<Rightarrow> (u8 list, string) result"

definition auto_ack :: "'v dev_env \<Rightarrow> bool" where
  "auto_ack env \<longleftrightarrow> \<not> list_ex (\<lambda>a. a = ''--no-auto-ack'') (dc_args env)"

definition request_status :: "'v dev_env \<Rightarrow> bool" where
  "request_status env \<longleftrightarrow> \<not> list_ex (\<lambda>a. a = ''--no-request-status'') (dc_args env)"

text \<open>The connection loop; \<open>None\<close> while it is still trying after the number of attempts in the first
  argument, else the attempt that succeeded.\<close>

fun client_connect :: "nat \<Rightarrow> 'v dev_env \<Rightarrow> nat \<Rightarrow> nat option" where
  "client_connect 0 env k = None"
| "client_connect (Suc n) env k =
     (case dc_open env k of
        (True, True) \<Rightarrow> Some k
      | _ \<Rightarrow> client_connect n env (Suc k))"

section \<open>Frames\<close>

text \<open>\<open>read_frame\<close> on the bytes of a pipe that then ends.\<close>

definition client_read_frame :: "'v dev_env \<Rightarrow> u8 list \<Rightarrow> ('v envelope \<times> u8 list, io_error) result" where
  "client_read_frame env bs =
     (case read_u32_le bs of
        None \<Rightarrow> Err (io_err UnexpectedEof ''early eof'')
      | Some (len, rest) \<Rightarrow>
          if len > CLIENT_MAX_FRAME_SIZE then Err (io_err InvalidData (''frame too large: '' @ show_nat len))
          else if length rest < len then Err (io_err UnexpectedEof ''early eof'')
          else (case dc_from_slice env (take len rest) of
                  Err err \<Rightarrow> Err (io_err InvalidData err)
                | Ok msg \<Rightarrow> Ok (msg, drop len rest)))"

text \<open>The bytes that \<open>write_frame\<close> puts on the pipe, and its result.\<close>

definition client_write_frame :: "'v dev_env \<Rightarrow> nat \<Rightarrow> 'v envelope \<Rightarrow> u8 list \<times> (unit, io_error) result" where
  "client_write_frame env k msg =
     (case dc_to_vec_named env msg of
        Err err \<Rightarrow> ([], Err (io_err InvalidData err))
      | Ok buf \<Rightarrow>
          if length buf > CLIENT_MAX_FRAME_SIZE
          then ([], Err (io_err InvalidData (''encoded frame too large: '' @ show_nat (length buf))))
          else (let bytes = write_u32_le (of_nat (length buf)) @ buf
                in case dc_write env k of
                     None \<Rightarrow> (bytes, Ok ())
                   | Some (n, e) \<Rightarrow> (take n bytes, Err e)))"

text \<open>The task that empties the queue into the command pipe; it ends with the first failure.\<close>

fun client_writer :: "'v dev_env \<Rightarrow> nat \<Rightarrow> 'v envelope list \<Rightarrow> u8 list" where
  "client_writer env k [] = []"
| "client_writer env k (msg # msgs) =
     (case client_write_frame env k msg of
        (bytes, Err _) \<Rightarrow> bytes
      | (bytes, Ok _) \<Rightarrow> bytes @ client_writer env (Suc k) msgs)"

section \<open>Messages\<close>

definition client_envelope ::
    "'v dev_env \<Rightarrow> nat \<Rightarrow> string \<Rightarrow> priority \<Rightarrow> 'p \<Rightarrow> 'p envelope" where
  "client_envelope env q message_type prio payload =
     \<lparr>ev_v = IPC_PROTOCOL_VERSION, ev_id = dc_uuid env q, ev_ts_unix_ms = dc_unix_ms env q,
      ev_type = message_type, ev_priority = prio, ev_payload = payload\<rparr>"

text \<open>A message with its payload turned into a JSON value.\<close>

definition client_message ::
    "'v dev_env \<Rightarrow> nat \<Rightarrow> string \<Rightarrow> priority \<Rightarrow> client_payload \<Rightarrow> ('v envelope, string) result" where
  "client_message env q message_type prio payload =
     and_then (dc_to_value env payload) (\<lambda>v. Ok (client_envelope env q message_type prio v))"

definition client_hello :: "'v dev_env \<Rightarrow> ('v envelope, string) result" where
  "client_hello env = client_message env 0 ''hello'' High (Hello_Message
     \<lparr>hp_plugin_version = ''ipc-dev-client'', hp_protocol_version = IPC_PROTOCOL_VERSION,
      hp_obs_pid = dc_pid env, hp_capabilities = [''scene_switch'', ''dock'', ''restart_hint'']\<rparr>)"

text \<open>The messages queued before the event loop, and the error if one of them could not be built.\<close>

definition client_start :: "'v dev_env \<Rightarrow> 'v envelope list \<times> string option" where
  "client_start env =
     (case client_hello env of
        Err e \<Rightarrow> ([], Some e)
      | Ok hello \<Rightarrow>
          if request_status env then
            (case client_message env 1 ''request_status'' High Request_Status_Message of
               Err e \<Rightarrow> ([hello], Some e)
             | Ok req \<Rightarrow> ([hello, req], None))
          else ([hello], None))"

definition client_ping :: "'v dev_env \<Rightarrow> nat \<Rightarrow> string \<Rightarrow> 'v envelope" where
  "client_ping env q nonce =
     client_envelope env q ''ping'' Normal
       (case dc_to_value env (Ping_Message \<lparr>pp_nonce = nonce\<rparr>) of Ok v \<Rightarrow> v | Err _ \<Rightarrow> dc_null env)"

definition ack_of :: "switch_scene_payload \<Rightarrow> scene_switch_result_payload" where
  "ack_of payload = \<lparr>sr_request_id = sp_request_id payload, sr_ok = True, sr_error = None\<rparr>"

text \<open>One event: what is queued in answer to it, or the error that ends the client.\<close>

definition client_on_event ::
    "'v dev_env \<Rightarrow> nat \<Rightarrow> 'v envelope \<Rightarrow> ('v envelope list, string) result" where
  "client_on_event env q msg =
     and_then (dc_print env (ev_payload msg)) (\<lambda>_.
     if ev_type msg = ''switch_scene'' then
       and_then (dc_switch_scene env (ev_payload msg)) (\<lambda>payload.
         if auto_ack env then
           and_then (client_message env q ''scene_switch_result'' High
             (Scene_Switch_Result_Message (ack_of payload))) (\<lambda>ack. Ok [ack])
         else Ok [])
     else Ok [])"

lemma client_read_frame_shorter:
  "client_read_frame env bs = Ok (msg, rest) \<Longrightarrow> length rest < length bs"
  by (cases bs rule: read_u32_le.cases)
     (auto simp: client_read_frame_def split: if_splits sum.splits)

text \<open>The event loop on the bytes of an event pipe that then ends: what it queued and the error with
  which it ended.\<close>

function (sequential) client_loop :: "'v dev_env \<Rightarrow> nat \<Rightarrow> u8 list \<Rightarrow> 'v envelope list \<times> string" where
  "client_loop env q bs =
     (case client_read_frame env bs of
        Err e \<Rightarrow> ([], io_message e)
      | Ok (msg, rest) \<Rightarrow>
          (case client_on_event env q msg of
             Err e \<Rightarrow> ([], e)
           | Ok out \<Rightarrow> apfst (append out) (client_loop env (Suc q) rest)))"
  by pat_completeness auto
termination
  by (relation "measure (\<lambda>(env, q, bs). length bs)") (auto dest: client_read_frame_shorter)

declare client_loop.simps [simp del]

section \<open>Properties\<close>

lemma client_limit [simp]: "CLIENT_MAX_FRAME_SIZE = MAX_FRAME_SIZE"
  by (simp add: CLIENT_MAX_FRAME_SIZE_def MAX_FRAME_SIZE_def)

lemma client_reads_frame:
  "length p \<le> MAX_FRAME_SIZE \<Longrightarrow> dc_from_slice env p = Ok msg \<Longrightarrow>
     client_read_frame env (frame_bytes p @ rest) = Ok (msg, rest)"
  by (simp add: client_read_frame_def frame_bytes_def)

text \<open>The answer to a \<open>switch_scene\<close> with the given request id.\<close>

definition acknowledgement :: "'v dev_env \<Rightarrow> 'v envelope \<Rightarrow> ('v, string) result" where
  "acknowledgement env msg =
     and_then (dc_switch_scene env (ev_payload msg)) (\<lambda>sp.
       dc_to_value env (Scene_Switch_Result_Message
         \<lparr>sr_request_id = sp_request_id sp, sr_ok = True, sr_error = None\<rparr>))"

definition switches :: "'v envelope list \<Rightarrow> 'v envelope list" where
  "switches msgs = filter (\<lambda>msg. ev_type msg = ''switch_scene'') msgs"

text \<open>The development client acknowledges every scene switch exactly once and in order: when the
  event pipe carries frames that decode to messages \<open>msgs\<close> and then ends, acknowledging is on and every
  payload that has to be converted can be, the client has queued one \<open>scene_switch_result\<close> for each
  \<open>switch_scene\<close>, with its request id and reporting success, and nothing else; and it has read the
  pipe to its end.\<close>

lemma dev_client_acknowledges:
  assumes "auto_ack env"
    and "list_all2 (\<lambda>p msg. length p \<le> MAX_FRAME_SIZE \<and> dc_from_slice env p = Ok msg) payloads msgs"
    and "\<forall>msg \<in> set msgs. is_ok (dc_print env (ev_payload msg))"
    and "\<forall>msg \<in> set (switches msgs). is_ok (acknowledgement env msg)"
  shows "\<exists>acks. client_loop env q (concat (map frame_bytes payloads)) = (acks, ''early eof'')
    \<and> map (\<lambda>e. Ok (ev_payload e)) acks = map (acknowledgement env) (switches msgs)
    \<and> list_all (\<lambda>e. ev_type e = ''scene_switch_result'' \<and> ev_v e = IPC_PROTOCOL_VERSION) acks"
  using assms(2-4)
proof (induction payloads msgs arbitrary: q rule: list_all2_induct)
  case Nil
  then show ?case
    by (subst client_loop.simps) (simp add: client_read_frame_def switches_def io_err_def)
next
  case (Cons p payloads msg msgs)
  obtain acks where acks: "client_loop env (Suc q) (concat (map frame_bytes payloads)) = (acks, ''early eof'')"
    "map (\<lambda>e. Ok (ev_payload e)) acks = map (acknowledgement env) (switches msgs)"
    "list_all (\<lambda>e. ev_type e = ''scene_switch_result'' \<and> ev_v e = IPC_PROTOCOL_VERSION) acks"
    using Cons.IH [of "Suc q"] Cons.prems by (auto simp: switches_def)
  obtain printed where "dc_print env (ev_payload msg) = Ok printed"
    using Cons.prems by (cases "dc_print env (ev_payload msg)") auto
  moreover have "client_read_frame env (concat (map frame_bytes (p # payloads)))
      = Ok (msg, concat (map frame_bytes payloads))"
    using Cons.hyps by (simp add: client_reads_frame)
  ultimately have step: "client_loop env q (concat (map frame_bytes (p # payloads)))
      = (case client_on_event env q msg of Err e \<Rightarrow> ([], e) | Ok out \<Rightarrow> (out @ acks, ''early eof''))"
    using acks(1) by (subst client_loop.simps) (simp split: sum.split)
  show ?case
  proof (cases "ev_type msg = ''switch_scene''")
    case True
    with Cons.prems obtain sp v where "dc_switch_scene env (ev_payload msg) = Ok sp"
      "dc_to_value env (Scene_Switch_Result_Message (ack_of sp)) = Ok v"
      by (cases "acknowledgement env msg")
         (auto simp: switches_def acknowledgement_def ack_of_def and_then_eq_Ok)
    with True acks step assms(1) \<open>dc_print env (ev_payload msg) = Ok printed\<close> show ?thesis
      by (simp add: client_on_event_def switches_def client_message_def client_envelope_def
          acknowledgement_def ack_of_def)
  next
    case False
    with acks step \<open>dc_print env (ev_payload msg) = Ok printed\<close> show ?thesis
      by (simp add: client_on_event_def switches_def)
  qed
qed

definition sample_bytes :: "string \<Rightarrow> u8 list" where
  "sample_bytes s = map (\<lambda>c. of_nat (of_char c)) s"

definition sample_text :: "u8 list \<Rightarrow> string" where
  "sample_text bs = map (\<lambda>b. char_of (unat b)) bs"

lemma sample_text_bytes [simp]:
  "sample_text (sample_bytes s) = s" "length (sample_bytes s) = length s"
proof -
  have "unat (of_nat (of_char c) :: u8) = of_char c" for c :: char
    using of_char_mod_256 [of c, where 'a = nat] by (simp add: unat_of_nat take_bit_eq_mod)
  then show "sample_text (sample_bytes s) = s" by (simp add: sample_text_def sample_bytes_def comp_def)
qed (simp add: sample_bytes_def)

text \<open>A codec for the samples: a JSON value is a string, an envelope is encoded as its payload.\<close>

definition sample_dev_env :: "string dev_env" where
  "sample_dev_env =
     \<lparr>dc_args = [], dc_pid = 1, dc_uuid = (\<lambda>q. show_nat q), dc_unix_ms = (\<lambda>_. 0),
      dc_open = (\<lambda>k. (True, k = 2)), dc_write = (\<lambda>_. None), dc_null = '''',
      dc_to_value = (\<lambda>p. Ok (case p of Scene_Switch_Result_Message r \<Rightarrow> sr_request_id r | _ \<Rightarrow> '''')),
      dc_print = Ok,
      dc_switch_scene = (\<lambda>v. Ok \<lparr>sp_request_id = v, sp_scene_name = ''A'', sp_reason = ''r'', sp_deadline_ms = 500\<rparr>),
      dc_from_slice = (\<lambda>bs. Ok \<lparr>ev_v = 1, ev_id = ''m'', ev_ts_unix_ms = 0, ev_type = ''switch_scene'',
        ev_priority = Critical, ev_payload = sample_text bs\<rparr>),
      dc_to_vec_named = (\<lambda>e. Ok (sample_bytes (ev_payload e)))\<rparr>"

definition sample_dev_ack :: "string \<Rightarrow> string envelope" where
  "sample_dev_ack rid = \<lparr>ev_v = 1, ev_id = ''m'', ev_ts_unix_ms = 0, ev_type = ''switch_scene'',
     ev_priority = Critical, ev_payload = rid\<rparr>"

lemma sample_dev_simps [simp]:
  "auto_ack sample_dev_env" "dc_print sample_dev_env v = Ok v" "dc_write sample_dev_env k = None"
  "dc_from_slice sample_dev_env (sample_bytes rid) = Ok (sample_dev_ack rid)"
  "dc_to_vec_named sample_dev_env (sample_dev_ack rid) = Ok (sample_bytes rid)"
  "acknowledgement sample_dev_env (sample_dev_ack rid) = Ok rid"
  "ev_type (sample_dev_ack rid) = ''switch_scene''" "ev_payload (sample_dev_ack rid) = rid"
  by (simp_all add: sample_dev_env_def auto_ack_def sample_dev_ack_def acknowledgement_def)

lemma client_writes:
  assumes "\<forall>k. dc_write env k = None"
    and "\<forall>msg \<in> set msgs. \<exists>buf. dc_to_vec_named env msg = Ok buf \<and> length buf \<le> MAX_FRAME_SIZE"
  shows "client_writer env k msgs = concat (map (\<lambda>msg. frame_bytes (projr (dc_to_vec_named env msg))) msgs)"
  using assms(2)
proof (induction msgs arbitrary: k)
  case (Cons msg msgs)
  then obtain buf where "dc_to_vec_named env msg = Ok buf" "length buf \<le> MAX_FRAME_SIZE" by auto
  with Cons assms(1) show ?case by (simp add: client_write_frame_def frame_bytes_def Let_def)
qed simp

text \<open>What the development client writes can be read: for any interleaving of the pings with the
  other queued messages, as long as they can be encoded within the limit, the pipe takes the writes and
  the reader's codec inverts the client's, the command pipe is read back to its end as frames that
  decode to an interleaving of the same messages.\<close>

theorem client_stream_decodes:
  assumes "msgs \<in> shuffles pings others" and "\<forall>k. dc_write env k = None"
    and "\<forall>msg \<in> set pings \<union> set others. \<exists>buf. dc_to_vec_named env msg = Ok buf
        \<and> length buf \<le> MAX_FRAME_SIZE \<and> decode buf = Ok msg"
  shows "\<exists>frames read. get_all get_raw (Suc (length pings + length others)) (client_writer env k msgs)
        = (frames, [])
    \<and> map decode frames = map Ok read \<and> read \<in> shuffles pings others"
proof -
  let ?enc = "\<lambda>msg. projr (dc_to_vec_named env msg)"
  have set: "set msgs = set pings \<union> set others" and len: "length msgs = length pings + length others"
    using set_shuffles [OF assms(1)] length_shuffles [OF assms(1)] by auto
  have enc: "length (?enc msg) \<le> MAX_FRAME_SIZE \<and> decode (?enc msg) = Ok msg" if "msg \<in> set msgs" for msg
    using bspec [OF assms(3), of msg] that set by auto
  have "client_writer env k msgs = concat (map frame_bytes (map ?enc msgs)) @ []"
    using client_writes [of env msgs k] assms(2,3) set by (fastforce simp: comp_def)
  then have "get_all get_raw (Suc (length pings + length others)) (client_writer env k msgs) = (map ?enc msgs, [])"
    using enc len by (simp only:) (intro raw.get_all_concat, auto simp: list_all_iff raw.get_Nil)
  moreover have "map decode (map ?enc msgs) = map Ok msgs"
    using enc by simp
  ultimately show ?thesis using assms(1) by blast
qed

theorem client_stream_decodes_witness:
  "\<exists>frames read. get_all get_raw 3
      (client_writer sample_dev_env 0 [sample_dev_ack ''n'', sample_dev_ack ''r1'']) = (frames, [])
    \<and> map (dc_from_slice sample_dev_env) frames = map Ok read
    \<and> read \<in> shuffles [sample_dev_ack ''n''] [sample_dev_ack ''r1'']"
proof -
  have "[sample_dev_ack ''n'', sample_dev_ack ''r1''] \<in> shuffles [sample_dev_ack ''n''] [sample_dev_ack ''r1'']"
    by simp
  from client_stream_decodes [OF this, of sample_dev_env "dc_from_slice sample_dev_env" 0] show ?thesis
    by (simp add: numeral_3_eq_3 MAX_FRAME_SIZE_def del: client_writer.simps get_all.simps)
qed

text \<open>The client gets past its connection loop: if an attempt opens both pipes, it goes on with the
  first such attempt.\<close>

lemma client_connects:
  assumes "dc_open env (k + n) = (True, True)" and "\<forall>i < n. dc_open env (k + i) \<noteq> (True, True)"
  shows "client_connect (Suc n) env k = Some (k + n)"
  using assms
proof (induction n arbitrary: k)
  case (Suc n)
  have "dc_open env k \<noteq> (True, True)" using Suc.prems(2) by force
  moreover have "client_connect (Suc n) env (Suc k) = Some (Suc k + n)"
    using Suc.prems by (intro Suc.IH) auto
  ultimately show ?case
    by (subst client_connect.simps) (auto split: prod.split bool.split)
qed simp

end
