(* ===== verification/Bridge.thy ===== *)
theory Bridge
  imports App Dev_Client "HOL-Library.Sublist"
begin

text \<open>
  The running bridge: the HTTP server of \<open>Http_Server\<close> and the IPC session of \<open>Ipc_Session\<close> over the
  state they share, as \<open>run\<close> of \<open>src/app/mod.rs\<close> wires them up. They share the debug status, which
  the session writes and the HTTP server reads, and the broadcast channel, into which the HTTP server
  sends commands and from which the session receives them.

  One step is a whole request or a whole iteration of the session loop. In the program a request can
  also be served while an iteration waits for a pipe: \<open>Interleaving\<close> has those runs. The channel may drop commands when the session lags
  behind: what an iteration receives is any subsequence of what is queued.
\<close>

section \<open>State and steps\<close>

text \<open>\<open>br_archive\<close> holds the messages written in earlier sessions and \<open>br_accepted\<close> the commands the
  HTTP server sent into the channel, each with the bearer token its request carried; the program
  keeps neither.\<close>

record bridge =
  br_server :: server_state
  br_session :: "ipc_session option"
  br_archive :: "event_payload envelope list"
  br_accepted :: "(string option \<times> core_ipc_command) list"

definition written :: "bridge \<Rightarrow> event_payload envelope list" where
  "written b = br_archive b @ (case br_session b of None \<Rightarrow> [] | Some s \<Rightarrow> is_evt_log s)"

definition bridge_init :: "'u app_env \<Rightarrow> bridge \<Rightarrow> bool" where
  "bridge_init env b \<longleftrightarrow>
     (\<exists>fs reg la. run env fs reg = Ok (Inr la) \<and> br_server b = la_server la)
   \<and> br_session b = None \<and> br_archive b = [] \<and> br_accepted b = []"

text \<open>The commands that a request adds to the channel.\<close>

definition new_commands :: "server_state \<Rightarrow> server_state \<Rightarrow> core_ipc_command list" where
  "new_commands st st' = drop (length (hs_ipc_queue st)) (hs_ipc_queue st')"

definition connected_status :: "'v ipc_env \<Rightarrow> nat \<Rightarrow> ipc_debug_status \<Rightarrow> ipc_debug_status" where
  "connected_status env q d = d\<lparr>ds_session_connected := True, ds_updated_ts_unix_ms := Some (ie_unix_ms env q)\<rparr>"

definition disconnected :: "'v ipc_env \<Rightarrow> ipc_session \<Rightarrow> ipc_session" where
  "disconnected env s =
     update_debug_status env (\<lambda>d. d\<lparr>ds_session_connected := False, ds_pending_switch_count := 0\<rparr>) s"

text \<open>Sending into the channel fails exactly when there is no session to receive.\<close>

inductive bridge_step :: "'u http_env set \<Rightarrow> 'v ipc_env set \<Rightarrow> bridge \<Rightarrow> bridge \<Rightarrow> bool" for H E where
  Request: "henv \<in> H \<Longrightarrow> he_send_error henv = None \<longleftrightarrow> br_session b \<noteq> None \<Longrightarrow>
    serve henv req r (br_server b) = (resp, st) \<Longrightarrow>
    b' = b\<lparr>br_server := st,
           br_accepted := br_accepted b @ map (Pair (bearer henv req)) (new_commands (br_server b) st)\<rparr> \<Longrightarrow>
    bridge_step H E b b'"
| Connect: "env \<in> E \<Longrightarrow> br_session b = None \<Longrightarrow> ie_accept env q = None \<Longrightarrow>
    d = connected_status env (Suc q) (hs_ipc_debug (br_server b)) \<Longrightarrow>
    b' = b\<lparr>br_server := (br_server b)\<lparr>hs_ipc_queue := [], hs_ipc_debug := d\<rparr>,
           br_session := Some (session_start env d (Suc (Suc q)))\<rparr> \<Longrightarrow>
    bridge_step H E b b'"
| Iterate: "env \<in> E \<Longrightarrow> br_session b = Some s \<Longrightarrow>
    subseq (ie_try_recv env (is_seq s) @ queue) (hs_ipc_queue (br_server b)) \<Longrightarrow>
    session_iteration env s = (Proceed, t) \<Longrightarrow>
    b' = b\<lparr>br_server := (br_server b)\<lparr>hs_ipc_queue := queue, hs_ipc_debug := is_debug t\<rparr>,
           br_session := Some t\<rparr> \<Longrightarrow>
    bridge_step H E b b'"
| Finish: "env \<in> E \<Longrightarrow> br_session b = Some s \<Longrightarrow>
    subseq (ie_try_recv env (is_seq s)) (hs_ipc_queue (br_server b)) \<Longrightarrow>
    session_iteration env s = (Return res, t) \<Longrightarrow>
    b' = b\<lparr>br_server := (br_server b)\<lparr>hs_ipc_queue := [], hs_ipc_debug := is_debug (disconnected env t)\<rparr>,
           br_session := None, br_archive := br_archive b @ is_evt_log t\<rparr> \<Longrightarrow>
    bridge_step H E b b'"

section \<open>Requests\<close>

definition sane_command :: "core_ipc_command \<Rightarrow> bool" where
  "sane_command cmd \<longleftrightarrow>
     50 \<le> unat (cmd_deadline_ms cmd) \<and> unat (cmd_deadline_ms cmd) \<le> 5000 \<and> cmd_reason cmd \<noteq> []"

lemma submit_grafana_frame:
  "submit_grafana env form c st = (r, st') \<Longrightarrow>
     \<exists>v fs g. st' = st\<lparr>hs_vault := v, hs_files := fs, hs_grafana_configured := g\<rparr>"
  by (cases st)
     (auto simp: submit_grafana_def store_secret_def Let_def split: if_splits sum.splits prod.splits)

lemma post_switch_effect:
  "snd (post_ipc_switch_scene env req body st) = st
   \<or> (\<exists>cmd. snd (post_ipc_switch_scene env req body st) = st\<lparr>hs_ipc_queue := hs_ipc_queue st @ [cmd]\<rparr>
        \<and> authorized env req st Deny \<and> he_send_error env = None \<and> sane_command cmd)"
proof -
  have "50 \<le> unat (clamp (50::u64) 5000 x) \<and> unat (clamp (50::u64) 5000 x) \<le> 5000" for x
    using clamp_bounds [of "50::u64" 5000 x] by (simp add: word_le_nat_alt)
  then show ?thesis
    by (auto simp: post_ipc_switch_scene_def sane_command_def Let_def split: option.split)
qed

text \<open>What a request can do to the state shared with the session.\<close>

lemma serve_shared:
  assumes "serve env req r st = (resp, st')"
  shows "hs_token st' = hs_token st" and "hs_ipc_debug st' = hs_ipc_debug st"
    and "hs_ipc_queue st' = hs_ipc_queue st
       \<or> (\<exists>cmd. hs_ipc_queue st' = hs_ipc_queue st @ [cmd] \<and> he_send_error env = None
            \<and> bearer env req = Some (hs_token st) \<and> sane_command cmd)"
proof -
  have auth: "bearer env req = Some (hs_token st)" if "authorized env req st Deny"
    using that by (auto simp: auth_simps split: option.splits)
  consider (post) body where "r = Post_Ipc_Switch_Scene body"
    | (other) "\<And>body. r \<noteq> Post_Ipc_Switch_Scene body" by blast
  then have "hs_token st' = hs_token st \<and> hs_ipc_debug st' = hs_ipc_debug st
    \<and> (hs_ipc_queue st' = hs_ipc_queue st
       \<or> (\<exists>cmd. hs_ipc_queue st' = hs_ipc_queue st @ [cmd] \<and> he_send_error env = None
            \<and> bearer env req = Some (hs_token st) \<and> sane_command cmd))"
  proof cases
    case post
    then show ?thesis
      using assms post_switch_effect [of env req body st] auth by auto
  next
    case other
    then show ?thesis
      using assms
      by (cases r)
         (auto simp: settings_submit_def save_output_names_def get_aegis_status_def Let_def
           post_aegis_start_def post_aegis_stop_def with_aegis_client_def action_ok_def action_failed_def
           save_config_def
           dest!: submit_password_frame submit_grafana_frame
           split: sum.splits option.splits if_splits prod.splits)
  qed
  then show "hs_token st' = hs_token st" and "hs_ipc_debug st' = hs_ipc_debug st"
    and "hs_ipc_queue st' = hs_ipc_queue st
       \<or> (\<exists>cmd. hs_ipc_queue st' = hs_ipc_queue st @ [cmd] \<and> he_send_error env = None
            \<and> bearer env req = Some (hs_token st) \<and> sane_command cmd)" by blast+
qed

section \<open>What an iteration writes\<close>

definition switch_commands :: "event_payload envelope list \<Rightarrow> core_ipc_command list" where
  "switch_commands es =
     List.map_filter (\<lambda>e. case ev_payload e of Switch_Scene sp \<Rightarrow> Some (command_of sp) | _ \<Rightarrow> None) es"

lemma switch_commands_simps [simp]:
  "switch_commands [] = []"
  "switch_commands (es @ fs) = switch_commands es @ switch_commands fs"
  "\<not> is_switch (ev_payload e) \<Longrightarrow> switch_commands [e] = []"
  "ev_payload e = Switch_Scene sp \<Longrightarrow> switch_commands [e] = [command_of sp]"
  by (cases "ev_payload e"; simp add: switch_commands_def map_filter_def)+

text \<open>Steps that carry out no command write no \<open>switch_scene\<close> and leave no new pending switch.\<close>

lemma idle_step:
  assumes "sstep {} env s t"
  shows "switch_commands (is_evt_log t) = switch_commands (is_evt_log s)
    \<and> set (is_pending_switches t) \<subseteq> set (is_pending_switches s)"
  using assms
proof (rule sstepE)
  fix e u
  assume a: "write_frame env e s = (Ok (), u)" "is_ack (ev_payload e)" "t = u\<lparr>is_handshake_complete := True\<rparr>"
  then have "\<not> is_switch (ev_payload e)" by (cases "ev_payload e") simp_all
  with a write_frame_keeps [OF a(1)] show ?thesis by simp
qed (auto simp: quiet_def AList.delete_eq dest: write_frame_keeps(2,10))

lemma idle_steps:
  "steps {} env s t \<Longrightarrow> switch_commands (is_evt_log t) = switch_commands (is_evt_log s)
    \<and> set (is_pending_switches t) \<subseteq> set (is_pending_switches s)"
  by (induction rule: rtranclp_induct) (auto dest: idle_step)

lemma switch_scene_writes:
  "switch_commands (is_evt_log (snd (switch_scene env cmd s)))
     = switch_commands (is_evt_log s) @ (if fst (switch_scene env cmd s) = Proceed then [cmd] else [])"
proof -
  let ?sp = "\<lparr>sp_request_id = ie_uuid env (is_seq s), sp_scene_name = cmd_scene_name cmd,
              sp_reason = cmd_reason cmd, sp_deadline_ms = cmd_deadline_ms cmd\<rparr>"
  let ?e = "envelope_at env (is_seq s + 2) ''switch_scene'' Critical (Switch_Scene ?sp)"
  obtain r t where w: "write_frame env ?e (s\<lparr>is_seq := is_seq s + 4\<rparr>) = (r, t)" by fastforce
  have "switch_commands [?e] = [cmd]" by (simp add: command_of_def)
  with w write_frame_keeps(10) [OF w] show ?thesis
    by (cases r) (auto simp: switch_scene_def ipc_simps try_io_def Let_def numeral_eq_Suc)
qed

lemma handle_commands_writes:
  "\<exists>k. switch_commands (is_evt_log (snd (handle_commands env cmds s)))
     = switch_commands (is_evt_log s) @ take k cmds"
proof (induction cmds arbitrary: s)
  case (Cons cmd cmds)
  show ?case
  proof (cases "is_handshake_complete s")
    case False
    then show ?thesis by (intro exI [of _ 0]) (simp add: handle_commands_dropped)
  next
    case True
    obtain f u where sw: "switch_scene env cmd s = (f, u)" by fastforce
    show ?thesis
    proof (cases f)
      case Proceed
      with Cons.IH [of u] obtain k where
        "switch_commands (is_evt_log (snd (handle_commands env cmds u))) = switch_commands (is_evt_log u) @ take k cmds"
        by blast
      then show ?thesis
        using True sw Proceed switch_scene_writes [of env cmd s]
        by (intro exI [of _ "Suc k"]) (simp add: and_proceed_def)
    next
      case (Return x)
      then show ?thesis
        using True sw switch_scene_writes [of env cmd s]
        by (intro exI [of _ 0]) (simp add: and_proceed_def)
    qed
  qed
qed simp

text \<open>Only the head of the loop body writes switches: those of one iteration are the first of the
  commands it received, in order.\<close>

lemma iteration_switches:
  "switch_commands (is_evt_log (snd (session_iteration env s)))
     = switch_commands (is_evt_log (snd (drain_commands env s)))"
proof -
  obtain f a where a: "drain_commands env s = (f, a)" by fastforce
  have "steps {} env a (snd (and_proceed (push_status env (expire_pending env a)) (\<lambda>s.
     and_proceed (heartbeat_check env s) (\<lambda>s. poll_command env s))))"
    by (intro and_proceed_steps heartbeat_check_steps poll_command_steps)
       (rule rtranclp_trans [OF expire_pending_steps push_status_steps])
  from idle_steps [OF this] a show ?thesis
    by (cases f) (simp_all add: session_iteration_def and_proceed_def)
qed

lemma iteration_writes:
  "\<exists>k. switch_commands (is_evt_log (snd (session_iteration env s)))
     = switch_commands (is_evt_log s) @ take k (ie_try_recv env (is_seq s))"
  using handle_commands_writes [of env "ie_try_recv env (is_seq s)" "s\<lparr>is_seq := Suc (is_seq s)\<rparr>"]
  by (simp add: iteration_switches drain_commands_def)

lemma iteration_ok: "session_ok s \<Longrightarrow> session_ok (snd (session_iteration env s))"
  using session.inv_rtranclp [OF _ session_iteration_steps [OF subset_refl]] .

lemma iteration_connected:
  "ds_session_connected (is_debug (snd (session_iteration env s))) = ds_session_connected (is_debug s)"
  by (rule connected_steps [OF session_iteration_steps [OF subset_refl]])

section \<open>The invariant\<close>

definition bridge_ok :: "bridge \<Rightarrow> bool" where
  "bridge_ok b \<longleftrightarrow>
     (case br_session b of
        None \<Rightarrow> \<not> ds_session_connected (hs_ipc_debug (br_server b))
          \<and> ds_pending_switch_count (hs_ipc_debug (br_server b)) = 0 \<and> hs_ipc_queue (br_server b) = []
      | Some s \<Rightarrow> session_ok s \<and> is_debug s = hs_ipc_debug (br_server b)
          \<and> ds_session_connected (is_debug s))
   \<and> subseq (switch_commands (written b) @ hs_ipc_queue (br_server b)) (map snd (br_accepted b))
   \<and> (\<forall>(tok, cmd) \<in> set (br_accepted b). tok = Some (hs_token (br_server b)) \<and> sane_command cmd)"

lemma launch_fresh:
  "run env fs reg = Ok (Inr la) \<Longrightarrow>
     hs_ipc_queue (la_server la) = [] \<and> hs_ipc_debug (la_server la) = new_debug_status"
  by (elim run_server) simp

lemma bridge_init_ok: "bridge_init env b \<Longrightarrow> bridge_ok b"
  by (auto simp: bridge_init_def bridge_ok_def written_def new_debug_status_def
      dest!: launch_fresh)

lemma request_ok:
  assumes "bridge_ok b" and "he_send_error henv = None \<longleftrightarrow> br_session b \<noteq> None"
    and "serve henv req r (br_server b) = (resp, st)"
  shows "bridge_ok (b\<lparr>br_server := st,
    br_accepted := br_accepted b @ map (Pair (bearer henv req)) (new_commands (br_server b) st)\<rparr>)"
  using serve_shared(3) [OF assms(3)]
proof (elim disjE exE conjE)
  assume "hs_ipc_queue st = hs_ipc_queue (br_server b)"
  with assms(1) serve_shared(1,2) [OF assms(3)] show ?thesis
    by (auto simp: bridge_ok_def new_commands_def written_def split: option.splits)
next
  fix cmd
  assume q: "hs_ipc_queue st = hs_ipc_queue (br_server b) @ [cmd]" and e: "he_send_error henv = None"
    and c: "bearer henv req = Some (hs_token (br_server b))" "sane_command cmd"
  have "subseq (switch_commands (written b) @ hs_ipc_queue (br_server b) @ [cmd])
      (map snd (br_accepted b) @ [cmd])"
    using assms(1) list_emb_append_mono [of "(=)" "switch_commands (written b) @ hs_ipc_queue (br_server b)"
        "map snd (br_accepted b)" "[cmd]" "[cmd]"] by (simp add: bridge_ok_def)
  with q c e assms(1,2) serve_shared(1,2) [OF assms(3)] show ?thesis
    by (auto simp: bridge_ok_def new_commands_def written_def split: option.splits)
qed

lemma iteration_subseq:
  assumes "subseq (switch_commands (es @ is_evt_log s) @ q) acc"
    and "subseq (ie_try_recv env (is_seq s) @ q') q"
  shows "subseq (switch_commands (es @ is_evt_log (snd (session_iteration env s))) @ q') acc"
proof -
  obtain k where k: "switch_commands (is_evt_log (snd (session_iteration env s)))
     = switch_commands (is_evt_log s) @ take k (ie_try_recv env (is_seq s))"
    using iteration_writes by blast
  let ?cmds = "ie_try_recv env (is_seq s)"
  have "subseq (take k ?cmds @ q') (?cmds @ q')"
    by (rule list_emb_append_mono) (metis append_take_drop_id prefixI prefix_imp_subseq, simp)
  then have "subseq (take k ?cmds @ q') q" using assms(2) by (rule subseq_order.trans)
  then have "subseq (switch_commands (es @ is_evt_log s) @ take k ?cmds @ q')
      (switch_commands (es @ is_evt_log s) @ q)"
    by (rule list_emb_append_mono [OF subseq_order.refl])
  with assms(1) k show ?thesis by (auto intro: subseq_order.trans)
qed

lemma bridge_ok_step:
  assumes "bridge_ok b" and "bridge_step H E b b'"
  shows "bridge_ok b'"
  using assms(2)
proof cases
  case (Request henv req r resp st)
  with assms(1) show ?thesis by (auto intro: request_ok)
next
  case (Connect env q d)
  moreover from this assms(1) have "session_ok (session_start env d (Suc (Suc q)))"
    by (intro session.inv_init [where env = env])
       (auto simp: session_init_def bridge_ok_def connected_status_def)
  ultimately show ?thesis
    using assms(1) by (auto simp: bridge_ok_def written_def session_start_def connected_status_def)
next
  case (Iterate env s queue t)
  then show ?thesis
    using assms(1) iteration_ok [of s env] iteration_connected [of env s]
      iteration_subseq [of "br_archive b" s "hs_ipc_queue (br_server b)" "map snd (br_accepted b)" env queue]
    by (auto simp: bridge_ok_def written_def)
next
  case (Finish env s res t)
  then show ?thesis
    using assms(1)
      iteration_subseq [of "br_archive b" s "hs_ipc_queue (br_server b)" "map snd (br_accepted b)" env "[]"]
    by (simp add: bridge_ok_def written_def disconnected_def ipc_simps)
qed

interpretation link: invariant_system "bridge_init env" "bridge_step H E" bridge_ok for env H E
  by unfold_locales (blast intro: bridge_init_ok bridge_ok_step)+

section \<open>Properties\<close>

text \<open>C3. No scene is ever switched without the token: in every run of the bridge, over any number of
  requests, sessions and iterations, the switches sent to the plugin are a subsequence of the commands
  the HTTP server accepted, each of them came with the server token as its bearer token, and each asks
  for a deadline between 50 and 5000 milliseconds with a reason.\<close>

theorem switches_are_authorised:
  assumes "reach (bridge_init env) (bridge_step H E) b"
  shows "subseq (switch_commands (written b)) (map snd (br_accepted b))
    \<and> (\<forall>(tok, cmd) \<in> set (br_accepted b). tok = Some (hs_token (br_server b))
         \<and> 50 \<le> unat (cmd_deadline_ms cmd) \<and> unat (cmd_deadline_ms cmd) \<le> 5000 \<and> cmd_reason cmd \<noteq> [])"
proof -
  have ok: "bridge_ok b" using assms by (rule link.inv_reach)
  then have "subseq (switch_commands (written b)) (map snd (br_accepted b))"
    unfolding bridge_ok_def by (metis prefixI prefix_imp_subseq subseq_order.trans)
  with ok show ?thesis by (auto simp: bridge_ok_def sane_command_def)
qed

text \<open>The IPC status route tells the truth: in every run of the bridge, a request that carries the
  token is answered with \<open>connected\<close> exactly while a session is running, and with the number of switch
  requests that session is waiting for, zero when there is none.\<close>

theorem ipc_status_is_truthful:
  assumes "reach (bridge_init env) (bridge_step H E) b"
    and "bearer henv req = Some (hs_token (br_server b))"
  shows "\<exists>d. serve henv req Get_Ipc_Status (br_server b) = ((200, Ipc_Status d), br_server b)
    \<and> (ds_session_connected d \<longleftrightarrow> br_session b \<noteq> None)
    \<and> ds_pending_switch_count d = of_nat (case br_session b of None \<Rightarrow> 0 | Some s \<Rightarrow> length (is_pending_switches s))"
proof -
  have "bridge_ok b" using assms(1) by (rule link.inv_reach)
  with assms(2) show ?thesis
    by (cases "br_session b") (auto simp: bridge_ok_def session_ok_def get_ipc_status_def auth_simps)
qed

section \<open>An instance\<close>

text \<open>A plugin says hello, an HTTP client asks for a scene, the session sends it; no time passes.\<close>

definition hello_env :: "string ipc_env" where
  "hello_env = sample_env\<lparr>ie_instant := \<lambda>_. 0, ie_poll := \<lambda>q. (frame_bytes [1], Elapsed)\<rparr>"

definition command_env :: "string ipc_env" where
  "command_env = sample_env\<lparr>ie_instant := \<lambda>_. 0,
     ie_try_recv := \<lambda>_. [SwitchScene ''A'' ''manual_debug'' 550]\<rparr>"

definition switch_request :: route where
  "switch_request = Post_Ipc_Switch_Scene \<lparr>wr_scene_name = ''A'', wr_reason = None, wr_deadline_ms = None,
     wr_allow_empty = None\<rparr>"

lemma hello_iteration:
  "\<exists>t. session_iteration hello_env (session_start hello_env d q) = (Proceed, t)
     \<and> is_handshake_complete t \<and> is_last_ping_at t = 0 \<and> is_pending_switches t = []
     \<and> is_cmd_buf t = [] \<and> switch_commands (is_evt_log t) = []"
  by (simp add: session_iteration_def and_proceed_def drain_commands_def hello_env_def sample_env_def
      session_start_def expire_pending_def push_status_def heartbeat_check_def poll_command_def
      read_frame_def read_raw_frame [of "[1]" "[]", simplified] dispatch_def on_hello_def with_payload_def decode_payload_def
      try_io_def ipc_simps write_frame_def encode_frame_def write_all_def pipe_write_eq MAX_FRAME_SIZE_def
      IPC_PROTOCOL_VERSION_def Let_def)

lemma command_env_writes:
  "\<exists>t. write_frame command_env e s = (Ok (), t)"
  by (subst write_frame_reliable)
     (simp_all add: command_env_def sample_env_def encode_frame_def MAX_FRAME_SIZE_def)

lemma command_drained:
  assumes "is_handshake_complete s" and "is_pending_switches s = []"
  shows "\<exists>a rid. drain_commands command_env s = (Proceed, a)
     \<and> is_pending_switches a = [(rid, \<lparr>ps_scene_name = ''A'', ps_deadline_at = 550 * 10 ^ 6\<rparr>)]
     \<and> switch_commands (is_evt_log a) = switch_commands (is_evt_log s) @ [SwitchScene ''A'' ''manual_debug'' 550]"
  using assms
  by (simp add: drain_commands_def and_proceed_def switch_scene_def ipc_simps try_io_def
      write_frame_reliable command_env_def sample_env_def encode_frame_def MAX_FRAME_SIZE_def
      from_millis_def Let_def command_of_def)

lemma command_iteration:
  assumes "is_handshake_complete s" and "is_last_ping_at s = 0" and "is_pending_switches s = []"
    and "is_cmd_buf s = []"
  shows "\<exists>t. session_iteration command_env s = (Proceed, t)
     \<and> switch_commands (is_evt_log t) = switch_commands (is_evt_log s) @ [SwitchScene ''A'' ''manual_debug'' 550]"
proof -
  obtain a rid where a: "drain_commands command_env s = (Proceed, a)"
    "is_pending_switches a = [(rid, \<lparr>ps_scene_name = ''A'', ps_deadline_at = 550 * 10 ^ 6\<rparr>)]"
    "switch_commands (is_evt_log a) = switch_commands (is_evt_log s) @ [SwitchScene ''A'' ''manual_debug'' 550]"
    using command_drained [OF assms(1,3)] by blast
  have ka: "is_handshake_complete a" "is_last_ping_at a = 0" "is_cmd_buf a = []"
    using drain_commands_keeps [of s command_env] a(1) assms by (simp_all add: keeps_def)
  have now: "ie_instant command_env q = 0" and quiet_pipe: "ie_poll command_env q = ([], Elapsed)" for q
    by (simp_all add: command_env_def sample_env_def)
  have ex: "expire_pending command_env a = a\<lparr>is_seq := Suc (Suc (is_seq a))\<rparr>"
    using a(2) by (simp add: expire_pending_def expired_ids_def now)
       (simp add: command_env_def sample_env_def)
  have "\<exists>b. push_status command_env (expire_pending command_env a) = (Proceed, b)"
  proof -
    have "\<exists>b. send_status command_env Normal u = (Proceed, b)" for u
    proof -
      obtain t where "write_frame command_env (envelope_at command_env (Suc (Suc (is_seq u))) ''status_snapshot''
          Normal (Status_Snapshot (build_status_snapshot_with_overrides (ie_frame command_env (is_seq u))
            (ie_relay command_env (Suc (is_seq u))) (is_overrides u))))
          (u\<lparr>is_seq := Suc (Suc (Suc (Suc (is_seq u))))\<rparr>) = (Ok (), t)"
        using command_env_writes by blast
      then show ?thesis by (simp add: send_status_def ipc_simps try_io_def Let_def)
    qed
    then show ?thesis by (simp add: push_status_def Let_def)
  qed
  then obtain b where b: "push_status command_env (expire_pending command_env a) = (Proceed, b)" by blast
  have kb: "is_handshake_complete b" "is_last_ping_at b = 0" "is_cmd_buf b = []"
    using push_status_keeps [of "expire_pending command_env a" command_env] b ka
    by (simp_all add: keeps_def ex)
  have "fst (session_iteration command_env s) = Proceed"
    using a(1) b kb
    by (simp add: session_iteration_def and_proceed_def heartbeat_check_def now duration_since_def
        HEARTBEAT_TIMEOUT_def from_millis_def poll_command_def read_frame_def read_raw_def quiet_pipe)
  then obtain t where t: "session_iteration command_env s = (Proceed, t)"
    by (cases "session_iteration command_env s") auto
  then show ?thesis
    using iteration_switches [of command_env s] a by simp
qed

lemma request_accepted:
  assumes "hs_token st = ''tok''"
  shows "\<exists>reply. serve sample_http_env bearer_get switch_request st
    = ((200, reply), st\<lparr>hs_ipc_queue := hs_ipc_queue st @ [SwitchScene ''A'' ''manual_debug'' 550]\<rparr>)"
proof -
  have "trim ''A'' = ''A''" "trim ''manual_debug'' = ''manual_debug''"
    by (auto intro!: trim_id simp: byte_def ws1_def ws2_def ws3_def)
  moreover have "clamp (50::u64) 5000 550 = 550" by (simp add: clamp_def)
  ultimately show ?thesis
    using assms bearer_sample
    by (simp add: switch_request_def post_ipc_switch_scene_def auth_simps Let_def)
       (simp add: sample_http_env_def)
qed

lemma sample_run:
  "\<exists>b. reach (bridge_init open_app_env) (bridge_step {sample_http_env} {hello_env, command_env}) b
     \<and> switch_commands (written b) = [SwitchScene ''A'' ''manual_debug'' 550]
     \<and> br_session b \<noteq> None \<and> hs_token (br_server b) = ''tok''"
proof -
  let ?step = "bridge_step {sample_http_env} {hello_env, command_env}"
  let ?cmd = "SwitchScene ''A'' ''manual_debug'' 550"
  obtain la where la: "run open_app_env [CONFIG_FILE \<mapsto> CHR ''t'' # ''tok''] Map.empty = Ok (Inr la)"
    and tok: "hs_token (la_server la) = ''tok''"
    by (rule sample_launch [of "''tok''"])
  define st where "st = la_server la"
  then have st: "\<exists>fs reg la. run open_app_env fs reg = Ok (Inr la) \<and> st = la_server la" "hs_token st = ''tok''"
    using la tok by auto
  define b0 where "b0 = \<lparr>br_server = st, br_session = None, br_archive = [], br_accepted = []\<rparr>"
  have r0: "reach (bridge_init open_app_env) ?step b0"
    using st by (intro reach_init) (auto simp: bridge_init_def b0_def)
  define d where "d = connected_status hello_env 1 (hs_ipc_debug st)"
  define s1 where "s1 = session_start hello_env d 2"
  define b1 where "b1 = b0\<lparr>br_server := st\<lparr>hs_ipc_queue := [], hs_ipc_debug := d\<rparr>, br_session := Some s1\<rparr>"
  have "?step b0 b1"
    by (rule Connect [of hello_env _ _ 0 d])
       (simp_all add: b0_def b1_def d_def s1_def hello_env_def sample_env_def numeral_eq_Suc)
  with r0 have r1: "reach (bridge_init open_app_env) ?step b1" by (rule reach_step)
  obtain t where t: "session_iteration hello_env s1 = (Proceed, t)" "is_handshake_complete t"
    "is_last_ping_at t = 0" "is_pending_switches t = []" "is_cmd_buf t = []" "switch_commands (is_evt_log t) = []"
    using hello_iteration unfolding s1_def by blast
  define b2 where "b2 = b1\<lparr>br_server := (br_server b1)\<lparr>hs_ipc_queue := [], hs_ipc_debug := is_debug t\<rparr>,
      br_session := Some t\<rparr>"
  have "?step b1 b2"
    by (rule Iterate [of hello_env _ _ s1 "[]" t])
       (simp_all add: b1_def b2_def t, simp add: hello_env_def sample_env_def)
  with r1 have r2: "reach (bridge_init open_app_env) ?step b2" by (rule reach_step)
  define b3 where "b3 = b2\<lparr>br_server := (br_server b2)\<lparr>hs_ipc_queue := [?cmd]\<rparr>,
      br_accepted := [(bearer sample_http_env bearer_get, ?cmd)]\<rparr>"
  have q: "hs_ipc_queue (br_server b2) = []" "hs_token (br_server b2) = ''tok''"
    using st by (simp_all add: b2_def b1_def)
  then obtain reply where "serve sample_http_env bearer_get switch_request (br_server b2)
      = ((200, reply), (br_server b2)\<lparr>hs_ipc_queue := [?cmd]\<rparr>)"
    using request_accepted [of "br_server b2"] by auto
  then have "?step b2 b3"
    by (rule Request [rotated 2])
       (simp_all add: b0_def b1_def b2_def b3_def new_commands_def, simp add: sample_http_env_def)
  with r2 have r3: "reach (bridge_init open_app_env) ?step b3" by (rule reach_step)
  obtain u where u: "session_iteration command_env t = (Proceed, u)" "switch_commands (is_evt_log u) = [?cmd]"
    using command_iteration [of t] t by auto
  define b4 where "b4 = b3\<lparr>br_server := (br_server b3)\<lparr>hs_ipc_queue := [], hs_ipc_debug := is_debug u\<rparr>,
      br_session := Some u\<rparr>"
  have "?step b3 b4"
    by (rule Iterate [of command_env _ _ t "[]" u])
       (simp_all add: b2_def b3_def b4_def u(1), simp add: command_env_def)
  with r3 have "reach (bridge_init open_app_env) ?step b4" by (rule reach_step)
  moreover have "written b4 = is_evt_log u"
    by (simp add: written_def b0_def b1_def b2_def b3_def b4_def)
  ultimately show ?thesis
    using u st by (intro exI [of _ b4]) (simp add: b0_def b1_def b2_def b3_def b4_def)
qed

theorem switches_are_authorised_witness:
  "\<exists>b. reach (bridge_init open_app_env) (bridge_step {sample_http_env} {hello_env, command_env}) b
     \<and> switch_commands (written b) = [SwitchScene ''A'' ''manual_debug'' 550]
     \<and> subseq (switch_commands (written b)) (map snd (br_accepted b))"
  using sample_run switches_are_authorised [of open_app_env "{sample_http_env}" "{hello_env, command_env}"]
  by blast

theorem ipc_status_is_truthful_witness:
  "\<exists>(b :: bridge) d. serve sample_http_env bearer_get Get_Ipc_Status (br_server b) = ((200, Ipc_Status d), br_server b)
     \<and> ds_session_connected d"
proof -
  obtain b where b: "reach (bridge_init open_app_env) (bridge_step {sample_http_env} {hello_env, command_env}) b"
    "br_session b \<noteq> None" "hs_token (br_server b) = ''tok''"
    using sample_run by blast
  have "bearer sample_http_env bearer_get = Some (hs_token (br_server b))"
    using b(3) bearer_sample by simp
  from ipc_status_is_truthful [OF b(1) this] b(2) show ?thesis by blast
qed

section \<open>The life of a switch request\<close>

text \<open>The deadline is counted from the clock reading that follows the writing of the message, the last
  reading of the session before the one that stamps the debug status.\<close>

lemma switch_scene_pending:
  assumes "switch_scene env cmd s = (Proceed, t)"
  shows "\<exists>rid q. is_seq s + 4 \<le> q \<and> q + 2 = is_seq t \<and> map_of (is_pending_switches t) rid
      = Some \<lparr>ps_scene_name = cmd_scene_name cmd,
              ps_deadline_at = ie_instant env q + int (from_millis (unat (cmd_deadline_ms cmd)))\<rparr>
    \<and> announced (is_evt_log t) rid (cmd_scene_name cmd)"
proof -
  let ?sp = "\<lparr>sp_request_id = ie_uuid env (is_seq s), sp_scene_name = cmd_scene_name cmd,
              sp_reason = cmd_reason cmd, sp_deadline_ms = cmd_deadline_ms cmd\<rparr>"
  let ?e = "envelope_at env (is_seq s + 2) ''switch_scene'' Critical (Switch_Scene ?sp)"
  obtain r u where w: "write_frame env ?e (s\<lparr>is_seq := is_seq s + 4\<rparr>) = (r, u)" by fastforce
  with assms have "r = Ok ()"
    by (cases r) (auto simp: switch_scene_def ipc_simps try_io_def Let_def numeral_eq_Suc)
  with w write_frame_keeps(9,10) [OF w] assms show ?thesis
    by (intro exI [of _ "ie_uuid env (is_seq s)"] exI [of _ "is_seq u"])
       (auto simp: switch_scene_def ipc_simps try_io_def Let_def numeral_eq_Suc announced_def map_of_update)
qed

text \<open>A scene switch that the HTTP server answered with OK is the newest command of the channel; once the
  session has sent it, it is announced to the plugin and pending.\<close>

lemma accepted_switch_queued:
  assumes "post_ipc_switch_scene henv req body st = ((200, reply), st')"
  obtains reason message where "reply = Switch_Scene_Reply \<lparr>wo_ok = True, wo_message = message\<rparr>"
    and "last (hs_ipc_queue st') = SwitchScene (trim (wr_scene_name body)) reason
      (clamp 50 5000 (unwrap_or (wr_deadline_ms body) 550))"
  using assms
  by (auto simp: post_ipc_switch_scene_def Let_def unauthorized_text_def split: if_splits option.splits)

lemma accepted_switch_pending:
  assumes "post_ipc_switch_scene henv req body st = ((200, reply), st')"
    and "switch_scene env (last (hs_ipc_queue st')) s = (Proceed, t)"
  obtains message rid sent where "reply = Switch_Scene_Reply \<lparr>wo_ok = True, wo_message = message\<rparr>"
    and "is_seq s + 4 \<le> sent" and "sent + 2 = is_seq t"
    and "map_of (is_pending_switches t) rid = Some \<lparr>ps_scene_name = trim (wr_scene_name body),
      ps_deadline_at = ie_instant env sent + uint (clamp 50 5000 (unwrap_or (wr_deadline_ms body) 550)) * 10 ^ 6\<rparr>"
    and "announced (is_evt_log t) rid (trim (wr_scene_name body))"
proof -
  let ?dl = "clamp (50::u64) 5000 (unwrap_or (wr_deadline_ms body) 550)"
  obtain reason message where r: "reply = Switch_Scene_Reply \<lparr>wo_ok = True, wo_message = message\<rparr>"
    and q: "last (hs_ipc_queue st') = SwitchScene (trim (wr_scene_name body)) reason ?dl"
    using assms(1) by (rule accepted_switch_queued)
  obtain rid sent where sent: "is_seq s + 4 \<le> sent" "sent + 2 = is_seq t" and
    "map_of (is_pending_switches t) rid = Some \<lparr>ps_scene_name = trim (wr_scene_name body),
       ps_deadline_at = ie_instant env sent + int (from_millis (unat ?dl))\<rparr>"
    and a: "announced (is_evt_log t) rid (trim (wr_scene_name body))"
    using switch_scene_pending [OF assms(2)] unfolding q by auto
  then have "map_of (is_pending_switches t) rid = Some \<lparr>ps_scene_name = trim (wr_scene_name body),
       ps_deadline_at = ie_instant env sent + uint ?dl * 10 ^ 6\<rparr>"
    by (simp add: from_millis_def flip: uint_nat)
  with that r sent a show thesis by blast
qed

lemma sample_switch_sent:
  "\<exists>t. switch_scene command_env (SwitchScene ''A'' ''manual_debug'' 550) sample_state = (Proceed, t)"
proof -
  obtain t where "write_frame command_env (envelope_at command_env (Suc (Suc (is_seq sample_state)))
      ''switch_scene'' Critical (Switch_Scene \<lparr>sp_request_id = ie_uuid command_env (is_seq sample_state),
        sp_scene_name = ''A'', sp_reason = ''manual_debug'', sp_deadline_ms = 550\<rparr>))
      (sample_state\<lparr>is_seq := Suc (Suc (Suc (Suc (is_seq sample_state))))\<rparr>) = (Ok (), t)"
    using command_env_writes by blast
  then show ?thesis by (simp add: switch_scene_def ipc_simps try_io_def Let_def)
qed

text \<open>From the HTTP request to the plugin: a scene switch that the HTTP server answered with OK gets a
  deadline between 50 milliseconds and 5 seconds after the moment it was sent.\<close>

theorem accepted_switch_has_deadline:
  assumes "post_ipc_switch_scene henv req body st = ((200, reply), st')"
    and "switch_scene env (last (hs_ipc_queue st')) s = (Proceed, t)"
  shows "\<exists>rid p sent. map_of (is_pending_switches t) rid = Some p
    \<and> announced (is_evt_log t) rid (trim (wr_scene_name body))
    \<and> ie_instant env sent + 50 * 10 ^ 6 \<le> ps_deadline_at p
    \<and> ps_deadline_at p \<le> ie_instant env sent + 5000 * 10 ^ 6"
proof -
  define dl where "dl = clamp (50::u64) 5000 (unwrap_or (wr_deadline_ms body) 550)"
  have "50 \<le> uint dl" "uint dl \<le> 5000"
    using clamp_bounds [of "50::u64" 5000 "unwrap_or (wr_deadline_ms body) 550"]
    by (simp_all add: dl_def word_le_def)
  moreover obtain rid sent where
    "map_of (is_pending_switches t) rid = Some \<lparr>ps_scene_name = trim (wr_scene_name body),
      ps_deadline_at = ie_instant env sent + uint dl * 10 ^ 6\<rparr>"
    "announced (is_evt_log t) rid (trim (wr_scene_name body))"
    using accepted_switch_pending [OF assms] unfolding dl_def by metis
  ultimately show ?thesis
    by (intro exI [of _ rid] exI [of _ "\<lparr>ps_scene_name = trim (wr_scene_name body),
      ps_deadline_at = ie_instant env sent + uint dl * 10 ^ 6\<rparr>"] exI [of _ sent]) simp
qed

theorem accepted_switch_has_deadline_witness:
  "\<exists>st' rid p t. snd (serve sample_http_env bearer_get switch_request sample_server) = st'
     \<and> switch_scene command_env (last (hs_ipc_queue st')) sample_state = (Proceed, t)
     \<and> map_of (is_pending_switches t) rid = Some p \<and> ps_deadline_at p \<le> 5000 * 10 ^ 6"
proof -
  obtain reply where r: "serve sample_http_env bearer_get switch_request sample_server
    = ((200, reply), sample_server\<lparr>hs_ipc_queue := [SwitchScene ''A'' ''manual_debug'' 550]\<rparr>)"
    using request_accepted [of sample_server] by (auto simp: sample_server_def)
  let ?st = "sample_server\<lparr>hs_ipc_queue := [SwitchScene ''A'' ''manual_debug'' 550]\<rparr>"
  let ?body = "\<lparr>wr_scene_name = ''A'', wr_reason = None, wr_deadline_ms = None, wr_allow_empty = None\<rparr>"
  have p: "post_ipc_switch_scene sample_http_env bearer_get ?body sample_server = ((200, reply), ?st)"
    using r by (simp add: switch_request_def)
  obtain t where t: "switch_scene command_env (last (hs_ipc_queue ?st)) sample_state = (Proceed, t)"
    using sample_switch_sent by auto
  have "ie_instant command_env q = 0" for q by (simp add: command_env_def)
  with accepted_switch_has_deadline [OF p t] r t show ?thesis by auto
qed

text \<open>The two ends of the protocol fit together, down to the bytes: when the development client
  receives the \<open>switch_scene\<close> of a pending request, it queues exactly one message; if that message is
  the next whole frame on the command pipe and the codecs of the two ends agree on it, the session reads
  and decodes it, takes its bytes and no others from the pipe, and goes on with exactly that request
  resolved, as successful, and the pending count corrected.\<close>

theorem dev_client_resolves_switch:
  assumes "map_of (is_pending_switches s) (sp_request_id sp) = Some p"
    and "distinct (map fst (is_pending_switches s))"
    and "dc_print denv (ev_payload msg) = Ok printed"
    and "ev_type msg = ''switch_scene''" and "dc_switch_scene denv (ev_payload msg) = Ok sp"
    and "auto_ack denv"
    and "client_message denv q ''scene_switch_result'' High (Scene_Switch_Result_Message (ack_of sp)) = Ok ack"
    and "dc_to_vec_named denv ack = Ok buf" and "length buf \<le> MAX_FRAME_SIZE"
    and "ie_from_slice env buf = Ok ack" and "ie_scene_switch_result env (ev_payload ack) = Ok (ack_of sp)"
    and "is_cmd_buf s @ fst (ie_poll env (is_seq s)) = fst (client_write_frame denv k ack) @ rest"
    and "dc_write denv k = None"
  shows "client_on_event denv q msg = Ok [ack]
    \<and> (\<exists>s' t. read_frame env s = (Some (Ok ack), s') \<and> is_cmd_buf s' = rest
      \<and> dispatch env ack s' = (Proceed, t)
      \<and> map_of (is_pending_switches t) = (map_of (is_pending_switches s))(sp_request_id sp := None)
      \<and> Suc (length (is_pending_switches t)) = length (is_pending_switches s)
      \<and> ds_pending_switch_count (is_debug t) = of_nat (length (is_pending_switches t))
      \<and> map_option (\<lambda>r. (rd_request_id r, rd_status r)) (ds_last_switch_result (is_debug t))
          = Some (sp_request_id sp, ''ok''))"
proof -
  have c: "client_on_event denv q msg = Ok [ack]"
    using assms(3-7) by (simp add: client_on_event_def)
  have "fst (client_write_frame denv k ack) = frame_bytes buf"
    using assms(8,9,13) by (simp add: client_write_frame_def frame_bytes_def Let_def)
  then obtain s' where r: "read_frame env s = (Some (Ok ack), s')" and
    s': "is_cmd_buf s' = rest" "is_pending_switches s' = is_pending_switches s" "is_debug s' = is_debug s"
    using assms(9,10,12) by (cases "ie_poll env (is_seq s)") (simp add: read_frame_def ask_def Let_def)
  have ack: "ev_v ack = IPC_PROTOCOL_VERSION" "ev_type ack = ''scene_switch_result''"
    using assms(7) by (auto simp: client_message_def client_envelope_def and_then_eq_Ok)
  let ?t = "resolve_switch env (ack_of sp) s'"
  have d: "dispatch env ack s' = (Proceed, ?t)"
    using assms(11) ack by (simp add: dispatch_def on_scene_switch_result_def
        with_payload_def decode_payload_def)
  have len: "Suc (length (AList.delete k m)) = length m" if "map_of m k = Some p" "distinct (map fst m)"
    for k and m :: "(string \<times> pending_switch_scene) list"
    using that
  proof (induction m)
    case (Cons x m)
    then show ?case by (cases x) (auto split: if_splits)
  qed simp
  show ?thesis
    using assms(1) c r d s' len [OF assms(1,2)]
    by (intro conjI exI [of _ s'] exI [of _ ?t])
       (simp_all add: resolve_switch_def ack_of_def ipc_simps Let_def map_of_delete_eq)
qed

definition sample_ack :: "string envelope" where
  "sample_ack = client_envelope sample_dev_env 7 ''scene_switch_result'' High ''r1''"

definition ack_env :: "string ipc_env" where
  "ack_env = sample_env\<lparr>ie_poll := (\<lambda>_. (frame_bytes (sample_bytes ''r1''), Elapsed)),
     ie_from_slice := (\<lambda>_. Ok sample_ack)\<rparr>"

theorem dev_client_resolves_switch_witness:
  "client_on_event sample_dev_env 7 (sample_dev_ack ''r1'') = Ok [sample_ack]
    \<and> (\<exists>s' t. read_frame ack_env sample_state = (Some (Ok sample_ack), s')
      \<and> dispatch ack_env sample_ack s' = (Proceed, t)
      \<and> Suc (length (is_pending_switches t)) = length (is_pending_switches sample_state))"
proof -
  let ?sp = "\<lparr>sp_request_id = ''r1'', sp_scene_name = ''A'', sp_reason = ''r'', sp_deadline_ms = 500\<rparr>"
  have m: "map_of (is_pending_switches sample_state) (sp_request_id ?sp) = Some \<lparr>ps_scene_name = ''A'', ps_deadline_at = 1\<rparr>"
    and d: "distinct (map fst (is_pending_switches sample_state))"
    by (simp_all add: sample_state_def)
  have sw: "dc_switch_scene sample_dev_env (ev_payload (sample_dev_ack ''r1'')) = Ok ?sp"
    by (simp add: sample_dev_env_def)
  have c: "client_message sample_dev_env 7 ''scene_switch_result'' High
      (Scene_Switch_Result_Message (ack_of ?sp)) = Ok sample_ack"
    and b: "dc_to_vec_named sample_dev_env sample_ack = Ok (sample_bytes ''r1'')"
    by (simp_all add: client_message_def sample_ack_def client_envelope_def ack_of_def sample_dev_env_def)
  have fs: "ie_from_slice ack_env (sample_bytes ''r1'') = Ok sample_ack"
    and re: "ie_scene_switch_result ack_env (ev_payload sample_ack) = Ok (ack_of ?sp)"
    by (simp_all add: ack_env_def sample_env_def sample_ack_def client_envelope_def ack_of_def)
  have le: "length (sample_bytes ''r1'') \<le> MAX_FRAME_SIZE" by (simp add: MAX_FRAME_SIZE_def)
  have io: "is_cmd_buf sample_state @ fst (ie_poll ack_env (is_seq sample_state))
      = fst (client_write_frame sample_dev_env 0 sample_ack) @ []"
    using b by (simp add: client_write_frame_def ack_env_def sample_state_def session_start_def
        frame_bytes_def Let_def MAX_FRAME_SIZE_def)
  from dev_client_resolves_switch [OF m d sample_dev_simps(2) sample_dev_simps(7) sw sample_dev_simps(1)
      c b le fs re io sample_dev_simps(3)]
  show ?thesis by (elim conjE exE) (intro conjI exI)
qed

end
