(* ===== verification/Interleaving.thy ===== *)
theory Interleaving
  imports Bridge
begin

text \<open>
  The running bridge at a finer grain than \<open>Bridge\<close>: a session does not move by whole iterations but
  by the single steps of \<open>sstep\<close>, and requests are served between any two of them, as they are while
  an iteration waits for a pipe. A command is carried out if it was accepted before that very step, so
  that a command which arrives while the session drains the channel may still be taken along.

  The expiry of a switch takes two steps, because the session waits for the event pipe in the middle of it:
  the switch is removed first, then the notice is written, and only then is the new count entered in the
  debug status. The state remembers the switch whose notice is under way. A new switch and the plugin's
  answer change the pending switches and the count without waiting in between, so each is one step.

  No step is forced. A session that waits for ever in a write is one that takes no further step, so that
  what holds of every state here holds of such a session too.
\<close>

section \<open>Steps\<close>

text \<open>The session has moved to \<open>t\<close>, with \<open>queue\<close> left in the channel.\<close>

definition moved :: "ipc_session \<Rightarrow> core_ipc_command list \<Rightarrow> bridge \<Rightarrow> bridge" where
  "moved t queue b = b\<lparr>br_server := (br_server b)\<lparr>hs_ipc_queue := queue, hs_ipc_debug := is_debug t\<rparr>,
                       br_session := Some t\<rparr>"

abbreviation accepted :: "bridge \<Rightarrow> core_ipc_command set" where
  "accepted b \<equiv> set (map snd (br_accepted b))"

text \<open>The two halves of \<open>expire_one\<close>, before and after the session first waits for the event pipe.\<close>

definition expire_remove :: "string \<Rightarrow> ipc_session \<Rightarrow> ipc_session" where
  "expire_remove rid s = s\<lparr>is_pending_switches := AList.delete rid (is_pending_switches s)\<rparr>"

definition expire_notify ::
    "'v ipc_env \<Rightarrow> string \<Rightarrow> pending_switch_scene \<Rightarrow> ipc_session \<Rightarrow> ipc_session" where
  "expire_notify env rid expired s =
     (let (notice, s) = user_notice env High Warn
            (''Scene switch to '' @ [CHR 0x27] @ ps_scene_name expired @ [CHR 0x27]
               @ '' timed out (request '' @ rid @ '')'') s;
          (_, s) = write_frame env notice s;
          (ts, s) = ask (ie_unix_ms env) s
      in update_debug_status env (\<lambda>d. d\<lparr>
           ds_pending_switch_count := of_nat (length (is_pending_switches s)),
           ds_last_switch_result := Some
             \<lparr>rd_request_id = rid, rd_status = ''timeout'', rd_error = None, rd_ts_unix_ms = ts\<rparr>,
           ds_last_notice := Some
             (''Scene switch '' @ [CHR 0x27] @ ps_scene_name expired @ [CHR 0x27]
                @ '' timed out ('' @ rid @ '')'')\<rparr>) s)"

lemma expire_one_halves:
  "map_of (is_pending_switches s) rid = Some p \<Longrightarrow>
     expire_one env rid s = expire_notify env rid p (expire_remove rid s)"
  by (simp add: expire_one_def expire_notify_def expire_remove_def)

text \<open>The bridge, and the expired switch whose notice the session is writing.\<close>

type_synonym fine = "bridge \<times> (string \<times> pending_switch_scene) option"

inductive fine_step :: "'u http_env set \<Rightarrow> 'v ipc_env set \<Rightarrow> fine \<Rightarrow> fine \<Rightarrow> bool" for H E where
  Serve: "henv \<in> H \<Longrightarrow> he_send_error henv = None \<longleftrightarrow> br_session b \<noteq> None \<Longrightarrow>
    serve henv req r (br_server b) = (resp, st) \<Longrightarrow>
    b' = b\<lparr>br_server := st,
           br_accepted := br_accepted b @ map (Pair (bearer henv req)) (new_commands (br_server b) st)\<rparr> \<Longrightarrow>
    fine_step H E (b, x) (b', x)"
| Open: "env \<in> E \<Longrightarrow> br_session b = None \<Longrightarrow> ie_accept env q = None \<Longrightarrow>
    d = connected_status env (Suc q) (hs_ipc_debug (br_server b)) \<Longrightarrow>
    b' = moved (session_start env d (Suc (Suc q))) [] b \<Longrightarrow> fine_step H E (b, None) (b', None)"
| Move: "env \<in> E \<Longrightarrow> br_session b = Some s \<Longrightarrow> sstep (accepted b) env s t \<Longrightarrow>
    subseq queue (hs_ipc_queue (br_server b)) \<Longrightarrow> b' = moved t queue b \<Longrightarrow>
    fine_step H E (b, None) (b', None)"
| Expire: "env \<in> E \<Longrightarrow> br_session b = Some s \<Longrightarrow> map_of (is_pending_switches s) rid = Some p \<Longrightarrow>
    q < is_seq s \<Longrightarrow> ps_deadline_at p \<le> ie_instant env q \<Longrightarrow>
    b' = b\<lparr>br_session := Some (expire_remove rid s)\<rparr> \<Longrightarrow> fine_step H E (b, None) (b', Some (rid, p))"
| Notify: "env \<in> E \<Longrightarrow> br_session b = Some s \<Longrightarrow>
    b' = moved (expire_notify env rid p s) (hs_ipc_queue (br_server b)) b \<Longrightarrow>
    fine_step H E (b, Some (rid, p)) (b', None)"
| Close: "env \<in> E \<Longrightarrow> br_session b = Some s \<Longrightarrow>
    b' = b\<lparr>br_server := (br_server b)\<lparr>hs_ipc_queue := [], hs_ipc_debug := is_debug (disconnected env s)\<rparr>,
           br_session := None, br_archive := br_archive b @ is_evt_log s\<rparr> \<Longrightarrow>
    fine_step H E (b, None) (b', None)"

definition fine_init :: "'u app_env \<Rightarrow> fine \<Rightarrow> bool" where
  "fine_init env f \<longleftrightarrow> bridge_init env (fst f) \<and> snd f = None"

lemma moved_sel [simp]:
  "br_session (moved t queue b) = Some t" "br_archive (moved t queue b) = br_archive b"
  "br_accepted (moved t queue b) = br_accepted b" "hs_ipc_queue (br_server (moved t queue b)) = queue"
  "hs_ipc_debug (br_server (moved t queue b)) = is_debug t"
  "hs_token (br_server (moved t queue b)) = hs_token (br_server b)"
  "moved u queue' (moved t queue b) = moved u queue' b"
  by (simp_all add: moved_def)

lemma moved_same:
  "br_session b = Some s \<Longrightarrow> is_debug s = hs_ipc_debug (br_server b) \<Longrightarrow>
     moved s (hs_ipc_queue (br_server b)) b = b"
  by (simp add: moved_def)

text \<open>Expiring one switch passes through the state in which it is removed and still counted.\<close>

lemma expire_one_fine:
  assumes "env \<in> E" and "br_session b = Some s" and "map_of (is_pending_switches s) rid = Some p"
    and "q < is_seq s" and "ps_deadline_at p \<le> ie_instant env q"
  shows "\<exists>c. fine_step H E (b, None) (c, Some (rid, p)) \<and> br_session c = Some (expire_remove rid s)
    \<and> hs_ipc_debug (br_server c) = hs_ipc_debug (br_server b)
    \<and> fine_step H E (c, Some (rid, p)) (moved (expire_one env rid s) (hs_ipc_queue (br_server b)) b, None)"
proof (intro exI conjI)
  let ?c = "b\<lparr>br_session := Some (expire_remove rid s)\<rparr>"
  show "fine_step H E (b, None) (?c, Some (rid, p))" using assms by (intro Expire) simp_all
  show "fine_step H E (?c, Some (rid, p))
      (moved (expire_one env rid s) (hs_ipc_queue (br_server b)) b, None)"
    by (rule Notify [OF assms(1), of _ "expire_remove rid s"])
       (simp_all add: expire_one_halves [OF assms(3)] moved_def)
qed simp_all

section \<open>The invariant\<close>

text \<open>A step writes at most the switch of a command it was allowed to carry out.\<close>

lemma sstep_switches:
  assumes "sstep A env s t"
  shows "set (switch_commands (is_evt_log t)) \<subseteq> set (switch_commands (is_evt_log s)) \<union> A"
  using assms
proof (rule sstepE)
  fix e u
  assume a: "write_frame env e s = (Ok (), u)" "is_ack (ev_payload e)" "t = u\<lparr>is_handshake_complete := True\<rparr>"
  then have "\<not> is_switch (ev_payload e)" by (cases "ev_payload e") simp_all
  with a write_frame_keeps [OF a(1)] show ?thesis by simp
qed (auto simp: quiet_def dest!: write_frame_keeps(10) split: if_splits)

lemma sstep_mono: "sstep A env s t \<Longrightarrow> A \<subseteq> B \<Longrightarrow> sstep B env s t"
  by (induction rule: sstep.induct) (auto intro: sstep.intros)

text \<open>The count shown is that of the pending switches and of \<open>n\<close> more.\<close>

definition counts :: "nat \<Rightarrow> ipc_session \<Rightarrow> bool" where
  "counts n s \<longleftrightarrow> distinct (map fst (is_pending_switches s))
     \<and> ds_pending_switch_count (is_debug s) = of_nat (length (is_pending_switches s) + n)"

lemma write_frame_shown:
  "write_frame env e s = (r, t) \<Longrightarrow> is_pending_switches t = is_pending_switches s \<and> is_debug t = is_debug s"
  by (simp add: write_frame_keeps)

lemma counts_step: "counts 0 s \<Longrightarrow> sstep A env s t \<Longrightarrow> counts 0 t"
  by (erule sstepE)
     (auto simp: counts_def quiet_def distinct_keys_delete distinct_update dest!: write_frame_shown)

lemma length_delete:
  "distinct (map fst m) \<Longrightarrow> map_of m k = Some v \<Longrightarrow> Suc (length (AList.delete k m)) = length m"
proof (induction m)
  case (Cons x m)
  then show ?case by (cases x) (auto split: if_splits)
qed simp

lemma counts_remove:
  assumes "counts 0 s" and "map_of (is_pending_switches s) rid = Some p"
  shows "counts 1 (expire_remove rid s)"
  using assms length_delete [of "is_pending_switches s" rid p, symmetric]
  by (auto simp: counts_def expire_remove_def distinct_keys_delete)

lemma expire_notify_effect:
  "is_pending_switches (expire_notify env rid p s) = is_pending_switches s"
  "ds_pending_switch_count (is_debug (expire_notify env rid p s)) = of_nat (length (is_pending_switches s))"
  "ds_session_connected (is_debug (expire_notify env rid p s)) = ds_session_connected (is_debug s)"
  "switch_commands (is_evt_log (expire_notify env rid p s)) = switch_commands (is_evt_log s)"
proof -
  let ?e = "envelope_at env (is_seq s) ''user_notice'' High (timeout_notice rid p)"
  obtain r t where w: "write_frame env ?e (s\<lparr>is_seq := Suc (Suc (is_seq s))\<rparr>) = (r, t)" by fastforce
  from w [unfolded timeout_notice_def] write_frame_keeps [OF w]
  show "is_pending_switches (expire_notify env rid p s) = is_pending_switches s"
    "ds_pending_switch_count (is_debug (expire_notify env rid p s)) = of_nat (length (is_pending_switches s))"
    "ds_session_connected (is_debug (expire_notify env rid p s)) = ds_session_connected (is_debug s)"
    "switch_commands (is_evt_log (expire_notify env rid p s)) = switch_commands (is_evt_log s)"
    by (simp_all add: expire_notify_def ipc_simps Let_def timeout_notice_def)
qed

definition fine_ok :: "fine \<Rightarrow> bool" where
  "fine_ok f \<longleftrightarrow> (case f of (b, x) \<Rightarrow>
     (case br_session b of
        None \<Rightarrow> x = None \<and> \<not> ds_session_connected (hs_ipc_debug (br_server b))
          \<and> ds_pending_switch_count (hs_ipc_debug (br_server b)) = 0
      | Some s \<Rightarrow> counts (if x = None then 0 else 1) s \<and> is_debug s = hs_ipc_debug (br_server b)
          \<and> ds_session_connected (is_debug s))
   \<and> set (switch_commands (written b)) \<union> set (hs_ipc_queue (br_server b)) \<subseteq> accepted b
   \<and> (\<forall>(tok, cmd) \<in> set (br_accepted b). tok = Some (hs_token (br_server b)) \<and> sane_command cmd))"

lemma fine_ok_init: "fine_init env f \<Longrightarrow> fine_ok f"
  by (cases f)
     (auto simp: fine_init_def bridge_init_def fine_ok_def written_def new_debug_status_def dest!: launch_fresh)

lemma fine_serve:
  assumes "fine_ok (b, x)" and "serve henv req r (br_server b) = (resp, st)"
  shows "fine_ok (b\<lparr>br_server := st,
    br_accepted := br_accepted b @ map (Pair (bearer henv req)) (new_commands (br_server b) st)\<rparr>, x)"
  using serve_shared(3) [OF assms(2)] assms(1) serve_shared(1,2) [OF assms(2)]
  by (auto simp: fine_ok_def new_commands_def written_def split: option.splits)

lemma fine_move:
  assumes "fine_ok (b, None)" and "br_session b = Some s" and "sstep (accepted b) env s t"
    and "subseq queue (hs_ipc_queue (br_server b))"
  shows "fine_ok (moved t queue b, None)"
proof -
  have "counts 0 t"
    using assms(1-3) by (auto simp: fine_ok_def intro: counts_step)
  moreover have "set queue \<subseteq> set (hs_ipc_queue (br_server b))"
    using assms(4) by (auto dest: list_emb_set)
  ultimately show ?thesis
    using assms(1,2) connected_step [OF assms(3)] sstep_switches [OF assms(3)]
    by (auto simp: fine_ok_def written_def)
qed

lemma fine_notify:
  assumes "fine_ok (b, Some (rid, p))" and "br_session b = Some s"
  shows "fine_ok (moved (expire_notify env rid p s) (hs_ipc_queue (br_server b)) b, None)"
  using assms by (auto simp: fine_ok_def written_def counts_def expire_notify_effect)

lemma fine_ok_step:
  assumes "fine_ok f" and "fine_step H E f f'"
  shows "fine_ok f'"
  using assms(2)
proof cases
  case (Serve henv b req r resp st b' x)
  with assms(1) show ?thesis by (auto intro: fine_serve)
next
  case (Open env b q d b')
  with assms(1) show ?thesis
    by (auto simp: fine_ok_def written_def session_start_def connected_status_def counts_def)
next
  case (Move env b s t queue b')
  with assms(1) show ?thesis by (auto intro: fine_move)
next
  case (Expire env b s rid p q b')
  with assms(1) show ?thesis
    using counts_remove [of s rid p] by (auto simp: fine_ok_def written_def expire_remove_def)
next
  case (Notify env b s b' rid p)
  with assms(1) show ?thesis by (auto intro: fine_notify)
next
  case (Close env b s b')
  with assms(1) show ?thesis by (auto simp: fine_ok_def written_def disconnected_def ipc_simps)
qed

interpretation interleaved: invariant_system "fine_init env" "fine_step H E" fine_ok for env H E
  by unfold_locales (blast intro: fine_ok_init fine_ok_step)+

section \<open>Whole iterations are sequences of steps\<close>

text \<open>So whatever holds in every interleaving holds of \<open>Bridge\<close>, where a request waits for the end of
  an iteration.\<close>

abbreviation settled :: "bridge \<Rightarrow> fine" where
  "settled b \<equiv> (b, None)"

lemma lift_steps:
  assumes "steps A env s t" and "env \<in> E" and "A \<subseteq> accepted b" and "br_session b = Some s"
    and "is_debug s = hs_ipc_debug (br_server b)"
  shows "(fine_step H E)\<^sup>*\<^sup>* (settled b) (settled (moved t (hs_ipc_queue (br_server b)) b))"
  using assms(1)
proof (induction rule: rtranclp_induct)
  case base
  show ?case by (simp add: moved_same [OF assms(4,5)])
next
  case (step u t)
  have "sstep (accepted b) env u t"
    using step.hyps(2) assms(3) by (rule sstep_mono)
  then have "fine_step H E (settled (moved u (hs_ipc_queue (br_server b)) b))
      (settled (moved t (hs_ipc_queue (br_server b)) b))"
    using assms(2) by (intro Move [of env _ _ u t]) simp_all
  with step.IH show ?case by (rule rtranclp.rtrancl_into_rtrancl)
qed

lemma iteration_refines:
  assumes "fine_ok (settled b)" and "env \<in> E" and "br_session b = Some s"
    and "subseq (ie_try_recv env (is_seq s) @ queue) (hs_ipc_queue (br_server b))"
  shows "(fine_step H E)\<^sup>*\<^sup>* (settled b) (settled (moved (snd (session_iteration env s)) queue b))"
proof -
  let ?t = "snd (session_iteration env s)"
  have "subseq queue (ie_try_recv env (is_seq s) @ queue)"
    by (intro list_emb_append2 subseq_order.refl)
  then have sub: "set (ie_try_recv env (is_seq s)) \<subseteq> accepted b"
    "subseq queue (hs_ipc_queue (br_server b))"
    using assms(1,4) by (auto simp: fine_ok_def dest: list_emb_set intro: subseq_order.trans)
  have "(fine_step H E)\<^sup>*\<^sup>* (settled b) (settled (moved ?t (hs_ipc_queue (br_server b)) b))"
    using assms(1-3) by (intro lift_steps [OF session_iteration_steps [OF subset_refl] _ sub(1)])
      (simp_all add: fine_ok_def)
  moreover have "fine_step H E (settled (moved ?t (hs_ipc_queue (br_server b)) b)) (settled (moved ?t queue b))"
    using assms(2) sub(2) by (intro Move [of env _ _ ?t ?t]) (auto intro: Quiet)
  ultimately show ?thesis by (rule rtranclp.rtrancl_into_rtrancl)
qed

lemma bridge_step_refines:
  assumes "fine_ok (settled b)" and "bridge_step H E b b'"
  shows "(fine_step H E)\<^sup>*\<^sup>* (settled b) (settled b')"
  using assms(2)
proof cases
  case (Request henv req r resp st)
  then show ?thesis by (intro r_into_rtranclp) (rule Serve)
next
  case (Connect env q d)
  then show ?thesis
    by (intro r_into_rtranclp Open [of env]) (simp_all add: moved_def session_start_def)
next
  case (Iterate env s queue t)
  with iteration_refines [OF assms(1) Iterate(1,2,3)] show ?thesis by (simp add: moved_def)
next
  case (Finish env s res t)
  let ?b = "moved t [] b"
  have "(fine_step H E)\<^sup>*\<^sup>* (settled b) (settled ?b)"
    using iteration_refines [OF assms(1) Finish(1,2), where queue = "[]"] Finish by simp
  moreover have "fine_step H E (settled ?b) (settled b')"
    using Finish by (intro Close [of env _ _ t]) (simp_all add: moved_def)
  ultimately show ?thesis by (rule rtranclp.rtrancl_into_rtrancl)
qed

lemma iterations_refine_interleaving:
  assumes "reach (bridge_init env) (bridge_step H E) b"
  shows "reach (fine_init env) (fine_step H E) (settled b)"
  using assms
proof (induction rule: reach.induct)
  case (reach_init b)
  then show ?case by (intro reach.reach_init) (simp add: fine_init_def)
next
  case (reach_step b b')
  have "(fine_step H E)\<^sup>*\<^sup>* (settled b) (settled b')"
    using interleaved.inv_reach [OF reach_step.IH] reach_step.hyps(2) by (rule bridge_step_refines)
  then show ?case
    by (induction rule: rtranclp_induct) (auto intro: reach.reach_step reach_step.IH)
qed

section \<open>Properties\<close>




end
