(* ===== verification/Ipc_Pipes.thy ===== *)
theory Ipc_Pipes
  imports Ipc_Server
begin

text \<open>
  How the pipe server of \<open>src/ipc/mod.rs\<close> makes the two pipes of a session: the security descriptor, the
  creation of both pipes and the wait for a client on each. The Windows calls are the record \<open>pipe_lib\<close>:
  their faults; what they do to the descriptor is written out. The outcome is what \<open>Ipc_Session\<close> reads
  from \<open>ie_accept\<close>.
\<close>

section \<open>Creating and connecting the pipes\<close>

definition CMD_PIPE_NAME :: string where
  "CMD_PIPE_NAME = [CHR 0x5C, CHR 0x5C, CHR ''.'', CHR 0x5C] @ ''pipe'' @ [CHR 0x5C] @ ''aegis_cmd_v1''"

definition EVT_PIPE_NAME :: string where
  "EVT_PIPE_NAME = [CHR 0x5C, CHR 0x5C, CHR ''.'', CHR 0x5C] @ ''pipe'' @ [CHR 0x5C] @ ''aegis_evt_v1''"

text \<open>A discretionary access control list names those who are let in; \<open>None\<close> is the null list.\<close>

record security_descriptor =
  sd_revision :: nat
  sd_dacl_present :: bool
  sd_dacl :: "string list option"
  sd_dacl_defaulted :: bool

record pipe =
  np_name :: string
  np_inbound :: bool
  np_outbound :: bool
  np_security :: security_descriptor

text \<open>\<open>pl_cmd_first\<close>: if waiting fails on both pipes, whether the command pipe's failure is noticed
  first.\<close>

record pipe_lib =
  pl_initialize_fault :: "string option"
  pl_set_dacl_fault :: "string option"
  pl_create_fault :: "pipe \<Rightarrow> io_error option"
  pl_connect_fault :: "pipe \<Rightarrow> io_error option"
  pl_cmd_first :: bool

definition descriptor_default :: security_descriptor where
  "descriptor_default =
     \<lparr>sd_revision = 0, sd_dacl_present = False, sd_dacl = None, sd_dacl_defaulted = False\<rparr>"

definition make_permissive_pipe_security_descriptor :: "pipe_lib \<Rightarrow> (security_descriptor, io_error) result" where
  "make_permissive_pipe_security_descriptor lib =
     (case pl_initialize_fault lib of
        Some err \<Rightarrow> Err (io_err OtherKind (''InitializeSecurityDescriptor failed: '' @ err))
      | None \<Rightarrow>
          (let sd = descriptor_default\<lparr>sd_revision := 1\<rparr>
           in case pl_set_dacl_fault lib of
                Some err \<Rightarrow> Err (io_err OtherKind (''SetSecurityDescriptorDacl failed: '' @ err))
              | None \<Rightarrow> Ok (sd\<lparr>sd_dacl_present := True, sd_dacl := None, sd_dacl_defaulted := False\<rparr>)))"

definition create_pipe :: "pipe_lib \<Rightarrow> pipe \<Rightarrow> (pipe, io_error) result" where
  "create_pipe lib p = (case pl_create_fault lib p of Some e \<Rightarrow> Err e | None \<Rightarrow> Ok p)"

definition connect_pipe :: "pipe_lib \<Rightarrow> pipe \<Rightarrow> (pipe, io_error) result" where
  "connect_pipe lib p = (case pl_connect_fault lib p of Some e \<Rightarrow> Err e | None \<Rightarrow> Ok p)"

text \<open>\<open>tokio::try_join!\<close> on the two waits.\<close>

definition try_join :: "bool \<Rightarrow> ('a, 'e) result \<Rightarrow> ('b, 'e) result \<Rightarrow> ('a \<times> 'b, 'e) result" where
  "try_join left_first r s =
     (case (r, s) of
        (Ok a, Ok b) \<Rightarrow> Ok (a, b)
      | (Err e, Ok _) \<Rightarrow> Err e
      | (Ok _, Err e) \<Rightarrow> Err e
      | (Err e, Err f) \<Rightarrow> Err (if left_first then e else f))"

definition open_pipes :: "pipe_lib \<Rightarrow> (pipe \<times> pipe, io_error) result" where
  "open_pipes lib =
     and_then (make_permissive_pipe_security_descriptor lib) (\<lambda>sd.
     and_then (create_pipe lib \<lparr>np_name = CMD_PIPE_NAME, np_inbound = True, np_outbound = False, np_security = sd\<rparr>) (\<lambda>cmd_pipe.
     and_then (create_pipe lib \<lparr>np_name = EVT_PIPE_NAME, np_inbound = False, np_outbound = True, np_security = sd\<rparr>) (\<lambda>evt_pipe.
     try_join (pl_cmd_first lib) (connect_pipe lib cmd_pipe) (connect_pipe lib evt_pipe))))"

text \<open>The environment of a server whose pipes are opened this way, with the library's state at each
  consultation.\<close>

definition with_pipes :: "(nat \<Rightarrow> pipe_lib) \<Rightarrow> 'v ipc_env \<Rightarrow> 'v ipc_env" where
  "with_pipes libs env = env\<lparr>ie_accept := \<lambda>q. case open_pipes (libs q) of Err e \<Rightarrow> Some e | Ok _ \<Rightarrow> None\<rparr>"

section \<open>Properties\<close>

lemma try_join_Ok: "try_join b r s = Ok p \<longleftrightarrow> r = Ok (fst p) \<and> s = Ok (snd p)"
  by (cases r; cases s; cases p) (auto simp: try_join_def)

lemma open_pipes_Ok:
  "open_pipes lib = Ok (cmd, evt) \<Longrightarrow>
     pl_create_fault lib cmd = None \<and> pl_create_fault lib evt = None
   \<and> np_name cmd = CMD_PIPE_NAME \<and> np_inbound cmd \<and> \<not> np_outbound cmd
   \<and> np_name evt = EVT_PIPE_NAME \<and> \<not> np_inbound evt \<and> np_outbound evt
   \<and> sd_dacl_present (np_security cmd) \<and> sd_dacl (np_security cmd) = None
   \<and> np_security evt = np_security cmd"
  by (auto simp: open_pipes_def make_permissive_pipe_security_descriptor_def create_pipe_def
      connect_pipe_def and_then_eq_Ok try_join_Ok Let_def split: option.splits)

text \<open>Anybody on the machine can be the client of a session: whatever the access check of Windows
  is, as long as it lets everyone past a descriptor whose access control list is present and null, every
  user may open both pipes of every session; the protocol's documentation asks for pipes that only the
  current user can open. The direction of each pipe is what keeps the roles apart: the client can only
  write the command pipe and only read the event pipe.\<close>

theorem pipes_open_to_everyone:
  assumes "open_pipes lib = Ok (cmd, evt)"
    and "\<And>sd u. sd_dacl_present sd \<Longrightarrow> sd_dacl sd = None \<Longrightarrow> access_check sd u"
  shows "access_check (np_security cmd) user \<and> access_check (np_security evt) user
    \<and> (np_name cmd, np_inbound cmd, np_outbound cmd) = (CMD_PIPE_NAME, True, False)
    \<and> (np_name evt, np_inbound evt, np_outbound evt) = (EVT_PIPE_NAME, False, True)"
  using open_pipes_Ok [OF assms(1)] assms(2) by simp

definition sample_pipe_lib :: pipe_lib where
  "sample_pipe_lib = \<lparr>pl_initialize_fault = None, pl_set_dacl_fault = None, pl_create_fault = (\<lambda>_. None),
     pl_connect_fault = (\<lambda>_. None), pl_cmd_first = True\<rparr>"

text \<open>The access check of Windows: no list or the null list lets everyone in.\<close>

definition sample_access :: "security_descriptor \<Rightarrow> string \<Rightarrow> bool" where
  "sample_access sd u \<longleftrightarrow> \<not> sd_dacl_present sd \<or> (case sd_dacl sd of None \<Rightarrow> True | Some us \<Rightarrow> u \<in> set us)"

theorem pipes_open_to_everyone_witness:
  "\<exists>cmd evt. open_pipes sample_pipe_lib = Ok (cmd, evt) \<and> sample_access (np_security cmd) ''guest''
    \<and> \<not> sample_access ((np_security cmd)\<lparr>sd_dacl := Some [''owner'']\<rparr>) ''guest''"
proof -
  obtain cmd evt where o: "open_pipes sample_pipe_lib = Ok (cmd, evt)"
    by (simp add: open_pipes_def make_permissive_pipe_security_descriptor_def create_pipe_def
        connect_pipe_def try_join_def sample_pipe_lib_def)
  have a: "sd_dacl_present sd \<Longrightarrow> sd_dacl sd = None \<Longrightarrow> sample_access sd u" for sd u
    by (simp add: sample_access_def)
  show ?thesis
    using o pipes_open_to_everyone [OF o a, where user = "''guest''"] open_pipes_Ok [OF o] a
    by (auto simp: sample_access_def)
qed

text \<open>C18. The pipe server outlives its sessions: it only ever stops with the error of making the
  security descriptor, of creating one of the pipes or of waiting for a client on them, never with the
  error of a session; and it stops with a status that says disconnected and no pending switch, if that
  was so when it was started.\<close>

theorem pipe_server_stops_only_on_accept:
  assumes "run_named_pipe_server m n (with_pipes libs env) debug seq = Some (e, debug')"
    and "\<not> ds_session_connected debug" and "ds_pending_switch_count debug = 0"
  shows "(\<exists>q. open_pipes (libs q) = Err e) \<and> \<not> ds_session_connected debug'
    \<and> ds_pending_switch_count debug' = 0"
proof -
  obtain q where "ie_accept (with_pipes libs env) q = Some e" and
    "\<not> ds_session_connected debug' \<and> ds_pending_switch_count debug' = 0"
    using server_stops [OF assms] by blast
  then show ?thesis by (cases "open_pipes (libs q)") (auto simp: with_pipes_def)
qed

definition failing_libs :: "nat \<Rightarrow> pipe_lib" where
  "failing_libs q = sample_pipe_lib\<lparr>pl_set_dacl_fault := (if q = 0 then None else Some ''denied'')\<rparr>"

theorem pipe_server_stops_only_on_accept_witness:
  "\<exists>e debug'. run_named_pipe_server 2 1 (with_pipes failing_libs closing_env) new_debug_status 0 = Some (e, debug')
    \<and> (\<exists>q. open_pipes (failing_libs q) = Err e) \<and> \<not> ds_session_connected debug'
    \<and> ds_pending_switch_count debug' = 0"
proof -
  have "(case open_pipes (failing_libs q) of Err e \<Rightarrow> Some e | Ok _ \<Rightarrow> None) = (if q = 0 then None else
      Some (io_err OtherKind ''SetSecurityDescriptorDacl failed: denied''))" for q
    by (simp add: open_pipes_def make_permissive_pipe_security_descriptor_def create_pipe_def
        connect_pipe_def try_join_def failing_libs_def sample_pipe_lib_def)
  then have env: "with_pipes failing_libs closing_env = closing_env\<lparr>ie_accept := \<lambda>q. if q = 0 then None else
      Some (io_err OtherKind ''SetSecurityDescriptorDacl failed: denied'')\<rparr>"
    by (simp only: with_pipes_def)
  have "\<exists>e debug'. run_named_pipe_server (Suc (Suc 0)) (Suc 0) (with_pipes failing_libs closing_env)
      new_debug_status 0 = Some (e, debug')"
    unfolding env
    by (simp add: closing_env_def sample_env_def serve_session_def handle_session_io_def
        session_start_def session_iteration_def drain_commands_def expire_pending_def push_status_def
        heartbeat_check_def poll_command_def read_frame_def read_raw_def and_proceed_def ipc_simps Let_def)
  then obtain e debug' where "run_named_pipe_server 2 1 (with_pipes failing_libs closing_env) new_debug_status 0
      = Some (e, debug')"
    by (auto simp: numeral_2_eq_2)
  with pipe_server_stops_only_on_accept [OF this] show ?thesis
    by (auto simp: new_debug_status_def)
qed

end
