(* ===== verification/Tray.thy ===== *)
theory Tray
  imports Telemy_Prelude
begin

text \<open>
  The tray icon of \<open>src/tray/mod.rs\<close>: its menu, what each item does, and the loop that keeps the
  icon alive until somebody asks for the shutdown. The tray library is the record \<open>tray_lib\<close>. Between
  two looks at the shutdown flag, half a second apart, any number of items are clicked and the rest of
  the program may raise the flag: such a window is one element of the list the loop runs over.
\<close>

section \<open>Menu\<close>

datatype menu_item = Open_Dashboard | Open_Settings | Copy_Dashboard_Url | Quit

definition menu_label :: "menu_item \<Rightarrow> string" where
  "menu_label item =
     (case item of
        Open_Dashboard \<Rightarrow> ''Open Dashboard''
      | Open_Settings \<Rightarrow> ''Settings''
      | Copy_Dashboard_Url \<Rightarrow> ''Copy Dashboard URL''
      | Quit \<Rightarrow> ''Quit'')"

text \<open>A process started by an item: program, arguments and what is written to its standard input.\<close>

datatype spawned = Spawned (program: string) (arguments: "string list") (input: "string option")

record tray_lib =
  tl_new :: "string \<Rightarrow> (unit, string) result"
  tl_add_menu_item :: "string \<Rightarrow> (unit, string) result"

record tray_state =
  ty_shutdown_flag :: bool
  ty_shutdown_sent :: bool
  ty_spawned :: "spawned list"

text \<open>The handler of each item. Whether a process could be started does not matter to the program; the
  list holds the attempts.\<close>

definition on_menu_item :: "string \<Rightarrow> string \<Rightarrow> menu_item \<Rightarrow> tray_state \<Rightarrow> tray_state" where
  "on_menu_item dashboard_url settings_url item s =
     (case item of
        Open_Dashboard \<Rightarrow>
          s\<lparr>ty_spawned := ty_spawned s @ [Spawned ''cmd'' [''/C'', ''start'', '''', dashboard_url] None]\<rparr>
      | Open_Settings \<Rightarrow>
          s\<lparr>ty_spawned := ty_spawned s @ [Spawned ''cmd'' [''/C'', ''start'', '''', settings_url] None]\<rparr>
      | Copy_Dashboard_Url \<Rightarrow>
          s\<lparr>ty_spawned := ty_spawned s @ [Spawned ''clip'' [] (Some dashboard_url)]\<rparr>
      | Quit \<Rightarrow> s\<lparr>ty_shutdown_flag := True, ty_shutdown_sent := True\<rparr>)"

text \<open>The items in the order in which they are added; the first failure ends the start.\<close>

fun add_menu_items :: "tray_lib \<Rightarrow> menu_item list \<Rightarrow> (unit, string) result" where
  "add_menu_items lib [] = Ok ()"
| "add_menu_items lib (item # items) =
     and_then (tl_add_menu_item lib (menu_label item)) (\<lambda>_. add_menu_items lib items)"

text \<open>A window: the items clicked during half a second, and whether another task raised the flag.\<close>

type_synonym window = "menu_item list \<times> bool"

definition after_window :: "string \<Rightarrow> string \<Rightarrow> window \<Rightarrow> tray_state \<Rightarrow> tray_state" where
  "after_window dashboard_url settings_url w s =
     (let s = fold (on_menu_item dashboard_url settings_url) (fst w) s
      in if snd w then s\<lparr>ty_shutdown_flag := True\<rparr> else s)"

text \<open>The loop: \<open>None\<close> while the given windows have not ended it.\<close>

fun tray_loop :: "string \<Rightarrow> string \<Rightarrow> window list \<Rightarrow> tray_state \<Rightarrow> (unit, string) result option \<times> tray_state" where
  "tray_loop dashboard_url settings_url ws s =
     (if ty_shutdown_flag s then (Some (Ok ()), s)
      else case ws of
             [] \<Rightarrow> (None, s)
           | w # ws \<Rightarrow> tray_loop dashboard_url settings_url ws (after_window dashboard_url settings_url w s))"

declare tray_loop.simps [simp del]

definition start_tray ::
    "tray_lib option \<Rightarrow> string \<Rightarrow> string \<Rightarrow> window list \<Rightarrow> tray_state
       \<Rightarrow> (unit, string) result option \<times> tray_state" where
  "start_tray lib dashboard_url settings_url ws s =
     (case lib of
        None \<Rightarrow> (Some (Err ''tray is only supported on Windows''), s)
      | Some lib \<Rightarrow>
          (case and_then (tl_new lib ''Telemy'')
                  (\<lambda>_. add_menu_items lib [Open_Dashboard, Open_Settings, Copy_Dashboard_Url, Quit]) of
             Err e \<Rightarrow> (Some (Err e), s)
           | Ok _ \<Rightarrow> tray_loop dashboard_url settings_url ws s))"

section \<open>Properties\<close>

definition ends_loop :: "window \<Rightarrow> bool" where
  "ends_loop w \<longleftrightarrow> Quit \<in> set (fst w) \<or> snd w"

lemma clicks_effect:
  "fold (on_menu_item d u) items s =
     s\<lparr>ty_shutdown_flag := (ty_shutdown_flag s \<or> Quit \<in> set items),
       ty_shutdown_sent := (ty_shutdown_sent s \<or> Quit \<in> set items),
       ty_spawned := ty_spawned (fold (on_menu_item d u) items s)\<rparr>"
proof (induction items arbitrary: s)
  case (Cons item items)
  show ?case
    by (subst fold_simps, subst (1) Cons.IH) (cases item; simp add: on_menu_item_def)
qed simp

lemma after_window_flags:
  "ty_shutdown_flag (after_window d u w s) \<longleftrightarrow> ty_shutdown_flag s \<or> ends_loop w"
  "ty_shutdown_sent (after_window d u w s) \<longleftrightarrow> ty_shutdown_sent s \<or> Quit \<in> set (fst w)"
proof -
  let ?t = "fold (on_menu_item d u) (fst w) s"
  have "ty_shutdown_flag ?t \<longleftrightarrow> ty_shutdown_flag s \<or> Quit \<in> set (fst w)"
    by (subst clicks_effect) simp
  then show "ty_shutdown_flag (after_window d u w s) \<longleftrightarrow> ty_shutdown_flag s \<or> ends_loop w"
    by (auto simp: after_window_def ends_loop_def Let_def)
  have "ty_shutdown_sent ?t \<longleftrightarrow> ty_shutdown_sent s \<or> Quit \<in> set (fst w)"
    by (subst clicks_effect) simp
  then show "ty_shutdown_sent (after_window d u w s) \<longleftrightarrow> ty_shutdown_sent s \<or> Quit \<in> set (fst w)"
    by (simp add: after_window_def Let_def)
qed

text \<open>The tray icon lives until the shutdown is asked for and no longer: the loop returns, without
  an error, exactly when one of the half-second windows contained a click on \<open>Quit\<close> or saw the flag
  raised by another task; what it does is decided by the windows up to the first such one; and the server
  is told to shut down exactly when \<open>Quit\<close> was clicked in them.\<close>

theorem tray_ends_on_quit:
  "tray_loop d u ws \<lparr>ty_shutdown_flag = False, ty_shutdown_sent = False, ty_spawned = sp\<rparr>
     = (if \<exists>w \<in> set ws. ends_loop w then Some (Ok ()) else None,
        fold (after_window d u) (takeWhile (\<lambda>w. \<not> ends_loop w) ws @ take 1 (dropWhile (\<lambda>w. \<not> ends_loop w) ws))
          \<lparr>ty_shutdown_flag = False, ty_shutdown_sent = False, ty_spawned = sp\<rparr>)
   \<and> (ty_shutdown_sent (snd (tray_loop d u ws \<lparr>ty_shutdown_flag = False, ty_shutdown_sent = False, ty_spawned = sp\<rparr>))
      \<longleftrightarrow> (case find ends_loop ws of None \<Rightarrow> False | Some w \<Rightarrow> Quit \<in> set (fst w)))"
proof -
  have loop: "tray_loop d u ws s = (if \<exists>w \<in> set ws. ends_loop w then Some (Ok ()) else None,
        fold (after_window d u) (takeWhile (\<lambda>w. \<not> ends_loop w) ws @ take 1 (dropWhile (\<lambda>w. \<not> ends_loop w) ws)) s)
     \<and> (ty_shutdown_sent (snd (tray_loop d u ws s))
        \<longleftrightarrow> ty_shutdown_sent s \<or> (case find ends_loop ws of None \<Rightarrow> False | Some w \<Rightarrow> Quit \<in> set (fst w)))"
    if "\<not> ty_shutdown_flag s" for s
    using that
  proof (induction ws arbitrary: s)
    case Nil
    then show ?case by (simp add: tray_loop.simps)
  next
    case (Cons w ws)
    let ?s = "after_window d u w s"
    have step: "tray_loop d u (w # ws) s = tray_loop d u ws ?s"
      using Cons.prems by (subst tray_loop.simps) simp
    show ?case
    proof (cases "ends_loop w")
      case True
      then have "tray_loop d u ws ?s = (Some (Ok ()), ?s)"
        by (subst tray_loop.simps) (simp add: after_window_flags)
      with step True show ?thesis by (simp add: after_window_flags)
    next
      case False
      then have "\<not> ty_shutdown_flag ?s" "Quit \<notin> set (fst w)"
        using Cons.prems by (simp_all add: after_window_flags) (simp add: ends_loop_def)
      with Cons.IH [of ?s] step False show ?thesis by (clarsimp simp: after_window_flags)
    qed
  qed
  let ?s = "\<lparr>ty_shutdown_flag = False, ty_shutdown_sent = False, ty_spawned = sp\<rparr>"
  have "\<not> ty_shutdown_flag ?s" "\<not> ty_shutdown_sent ?s" by simp_all
  with loop [of ?s] show ?thesis by blast
qed

definition url_processes :: "string \<Rightarrow> string \<Rightarrow> nat \<Rightarrow> tray_state \<Rightarrow> bool" where
  "url_processes d u n s \<longleftrightarrow>
     list_all (\<lambda>p. p \<in> {Spawned ''cmd'' [''/C'', ''start'', '''', d] None,
       Spawned ''cmd'' [''/C'', ''start'', '''', u] None, Spawned ''clip'' [] (Some d)}) (ty_spawned s)
   \<and> length (ty_spawned s) \<le> n"

lemma click_processes:
  "url_processes d u n s \<Longrightarrow> url_processes d u (n + length items) (fold (on_menu_item d u) items s)"
proof (induction items arbitrary: n s)
  case (Cons item items)
  then have "url_processes d u (Suc n) (on_menu_item d u item s)"
    by (cases item) (auto simp: url_processes_def on_menu_item_def)
  from Cons.IH [OF this] show ?case by simp
qed simp

lemma loop_processes:
  "url_processes d u n s \<Longrightarrow>
     url_processes d u (n + length (concat (map fst ws))) (snd (tray_loop d u ws s))"
proof (induction ws arbitrary: n s)
  case Nil
  then show ?case by (simp add: tray_loop.simps)
next
  case (Cons w ws)
  have w: "url_processes d u (n + length (fst w)) (after_window d u w s)"
    using click_processes [OF Cons.prems, of "fst w"]
    by (auto simp: after_window_def url_processes_def Let_def)
  show ?case
    using Cons.IH [OF w] Cons.prems
    by (cases "ty_shutdown_flag s")
       (auto simp: tray_loop.simps [of d u "w # ws" s] add.assoc url_processes_def)
qed

text \<open>The tray only ever starts the shell on one of its two URLs and the clipboard program, and it
  never acts on its own: every process it starts was asked for by a click.\<close>

theorem tray_spawns_only_urls:
  "list_all (\<lambda>p. p \<in> {Spawned ''cmd'' [''/C'', ''start'', '''', d] None,
       Spawned ''cmd'' [''/C'', ''start'', '''', u] None, Spawned ''clip'' [] (Some d)})
     (ty_spawned (snd (start_tray lib d u ws \<lparr>ty_shutdown_flag = f, ty_shutdown_sent = g, ty_spawned = []\<rparr>)))
   \<and> length (ty_spawned (snd (start_tray lib d u ws \<lparr>ty_shutdown_flag = f, ty_shutdown_sent = g, ty_spawned = []\<rparr>)))
     \<le> length (concat (map fst ws))"
proof -
  have init: "url_processes d u 0 \<lparr>ty_shutdown_flag = f, ty_shutdown_sent = g, ty_spawned = []\<rparr>"
    by (simp add: url_processes_def)
  have "url_processes d u (length (concat (map fst ws)))
      (snd (start_tray lib d u ws \<lparr>ty_shutdown_flag = f, ty_shutdown_sent = g, ty_spawned = []\<rparr>))"
    using loop_processes [OF init, of ws] init
    by (auto simp: start_tray_def url_processes_def split: option.split sum.split)
  then show ?thesis by (simp add: url_processes_def)
qed

end
