(* ===== verification/Lifecycle.thy ===== *)
theory Lifecycle
  imports App Tray
begin

text \<open>
  How the program ends: the tray thread, the HTTP server and the event loop of \<open>run\<close>
  (\<open>src/app/mod.rs\<close>) over the shutdown flag and the shutdown channel they share, and the exit code that
  \<open>src/main.rs\<close> makes of the result. The relation interleaves them freely; an ending of the event loop is
  the branch of its \<open>select\<close> that is chosen among those that are ready.
\<close>

section \<open>State and steps\<close>

text \<open>\<open>lf_clicks\<close>: the items that were clicked so far. \<open>lf_signalled\<close>: somebody sent on the shutdown channel.
  \<open>lf_ctrl_c\<close>: what waiting for Ctrl-C gave, once it gave something. \<open>lf_server\<close>: the result of the server
  once it has one. \<open>lf_tray_result\<close>: the result of the tray's thread once it has ended, an error also when
  it could not be started or was not meant to be. \<open>lf_result\<close>: the result of \<open>run\<close>.\<close>

record life =
  lf_clicks :: "menu_item list"
  lf_tray :: tray_state
  lf_tray_result :: "(unit, string) result option"
  lf_signalled :: bool
  lf_ctrl_c :: "(unit, string) result option"
  lf_server :: "(unit, string) result option"
  lf_metrics_aborted :: bool
  lf_result :: "(unit, string) result option"

definition life_init :: "launched \<Rightarrow> life \<Rightarrow> bool" where
  "life_init la l \<longleftrightarrow>
     (\<exists>tray_result. tray_result \<noteq> Some (Ok ()) \<and> (la_tray la = None \<longrightarrow> tray_result \<noteq> None) \<and> l =
       \<lparr>lf_clicks = [], lf_tray = \<lparr>ty_shutdown_flag = False, ty_shutdown_sent = False, ty_spawned = []\<rparr>,
        lf_tray_result = tray_result, lf_signalled = False, lf_ctrl_c = None, lf_server = None,
        lf_metrics_aborted = False, lf_result = None\<rparr>)"

text \<open>The effect of an ending, as \<open>run_end\<close> has it.\<close>

definition end_with :: "ending \<Rightarrow> life \<Rightarrow> life" where
  "end_with e l =
     (let (res, aborted, sent) = run_end e
      in l\<lparr>lf_result := Some res, lf_metrics_aborted := aborted, lf_signalled := lf_signalled l \<or> sent\<rparr>)"

text \<open>A click is handled while the tray's thread lives; the thread's loop ends when it sees the flag. The
  server returns without an error only by its graceful shutdown, for which it waits on the channel. Waiting for
  Ctrl-C is over when an interrupt arrives, or at once if its handler cannot be installed; the event loop
  does not look at which it was.\<close>

inductive life_step :: "launched \<Rightarrow> life \<Rightarrow> life \<Rightarrow> bool" for la where
  Click: "lf_result l = None \<Longrightarrow> lf_tray_result l = None \<Longrightarrow> la_tray la = Some (dashboard, settings) \<Longrightarrow>
    tray = on_menu_item dashboard settings item (lf_tray l) \<Longrightarrow>
    l' = l\<lparr>lf_clicks := lf_clicks l @ [item], lf_tray := tray, lf_signalled := (lf_signalled l \<or> ty_shutdown_sent tray)\<rparr> \<Longrightarrow> life_step la l l'"
| Tray_Ends: "lf_result l = None \<Longrightarrow> lf_tray_result l = None \<Longrightarrow> ty_shutdown_flag (lf_tray l) \<Longrightarrow>
    l' = l\<lparr>lf_tray_result := Some (Ok ())\<rparr> \<Longrightarrow> life_step la l l'"
| Interrupt: "lf_result l = None \<Longrightarrow> lf_ctrl_c l = None \<Longrightarrow>
    l' = l\<lparr>lf_ctrl_c := Some (Ok ())\<rparr> \<Longrightarrow> life_step la l l'"
| No_Handler: "lf_result l = None \<Longrightarrow> lf_ctrl_c l = None \<Longrightarrow>
    l' = l\<lparr>lf_ctrl_c := Some (Err e)\<rparr> \<Longrightarrow> life_step la l l'"
| Server_Stops: "lf_result l = None \<Longrightarrow> lf_server l = None \<Longrightarrow> lf_signalled l \<Longrightarrow>
    l' = l\<lparr>lf_server := Some (Ok ())\<rparr> \<Longrightarrow> life_step la l l'"
| Server_Fails: "lf_result l = None \<Longrightarrow> lf_server l = None \<Longrightarrow>
    l' = l\<lparr>lf_server := Some (Err e)\<rparr> \<Longrightarrow> life_step la l l'"
| Select_Server: "lf_result l = None \<Longrightarrow> lf_server l = Some res \<Longrightarrow>
    l' = end_with (Server_Ended res) l \<Longrightarrow> life_step la l l'"
| Select_Ctrl_C: "lf_result l = None \<Longrightarrow> lf_ctrl_c l \<noteq> None \<Longrightarrow> l' = end_with Ctrl_C l \<Longrightarrow> life_step la l l'"
| Select_Shutdown: "lf_result l = None \<Longrightarrow> lf_signalled l \<Longrightarrow>
    l' = end_with Shutdown_Requested l \<Longrightarrow> life_step la l l'"

inductive_cases life_stepE: "life_step la l l'"
inductive_simps life_step_simps: "life_step la l l'"

text \<open>\<open>main\<close>: the exit code.\<close>

definition exit_code :: "(unit, string) result \<Rightarrow> nat" where
  "exit_code r = (case r of Ok _ \<Rightarrow> 0 | Err _ \<Rightarrow> 1)"

section \<open>The invariant\<close>

definition life_ok :: "life \<Rightarrow> bool" where
  "life_ok l \<longleftrightarrow>
     (ty_shutdown_flag (lf_tray l) \<longleftrightarrow> Quit \<in> set (lf_clicks l))
   \<and> (ty_shutdown_sent (lf_tray l) \<longleftrightarrow> Quit \<in> set (lf_clicks l))
   \<and> (lf_signalled l \<longrightarrow> Quit \<in> set (lf_clicks l) \<or> lf_ctrl_c l \<noteq> None)
   \<and> (Quit \<in> set (lf_clicks l) \<longrightarrow> lf_signalled l)
   \<and> (lf_tray_result l = Some (Ok ()) \<longrightarrow> Quit \<in> set (lf_clicks l))
   \<and> (lf_server l = Some (Ok ()) \<longrightarrow> lf_signalled l)
   \<and> (lf_result l = None \<longrightarrow> \<not> lf_metrics_aborted l)
   \<and> (\<forall>r. lf_result l = Some r \<longrightarrow>
        (if lf_metrics_aborted l then r = Ok () \<and> lf_signalled l else lf_server l = Some r))"

lemma on_menu_item_shutdown:
  "ty_shutdown_flag (on_menu_item d u item s) = (ty_shutdown_flag s \<or> item = Quit)"
  "ty_shutdown_sent (on_menu_item d u item s) = (ty_shutdown_sent s \<or> item = Quit)"
  by (cases item; simp add: on_menu_item_def)+

lemma life_ok_step: "life_ok l \<Longrightarrow> life_step la l l' \<Longrightarrow> life_ok l'"
  by (erule life_stepE)
     (auto simp: life_ok_def end_with_def run_end_def on_menu_item_shutdown)

interpretation life: invariant_system "life_init la" "life_step la" life_ok for la
proof
  show "life_init la l \<Longrightarrow> life_ok l" for l by (auto simp: life_init_def life_ok_def)
qed (rule life_ok_step)

section \<open>Properties\<close>

definition sample_launched :: launched where
  "sample_launched = \<lparr>la_server = sample_server, la_port = 7070, la_hub = sample_hub, la_exporter = None,
     la_tray = Some (''d'', ''s''), la_registry = Map.empty\<rparr>"

definition life_started :: life where
  "life_started =
     \<lparr>lf_clicks = [], lf_tray = \<lparr>ty_shutdown_flag = False, ty_shutdown_sent = False, ty_spawned = []\<rparr>,
      lf_tray_result = None, lf_signalled = False, lf_ctrl_c = None, lf_server = None,
      lf_metrics_aborted = False, lf_result = None\<rparr>"

definition life_quit :: life where
  "life_quit = life_started\<lparr>lf_clicks := [Quit], lf_tray := on_menu_item ''d'' ''s'' Quit (lf_tray life_started), lf_signalled := True\<rparr>"

lemma sample_quit: "reach (life_init sample_launched) (life_step sample_launched) life_quit"
proof (rule reach_step)
  show "reach (life_init sample_launched) (life_step sample_launched) life_started"
    by (rule reach_init) (simp add: life_init_def life_started_def sample_launched_def)
  show "life_step sample_launched life_started life_quit"
    by (rule Click [where item = Quit, OF _ _ _ refl])
       (simp_all add: life_started_def sample_launched_def life_quit_def on_menu_item_def)
qed

text \<open>C23. The program ends for a reason: in every interleaving of clicks, interrupts, the server and the
  event loop, a run that has ended failed only with the error its server returned, and then exits with
  code 1; it ended without an error only after \<open>Quit\<close> was clicked or the wait for Ctrl-C was over, be it by
  an interrupt or because no handler for it could be installed; and the metrics task is aborted only by
  such an ending.\<close>

theorem program_ends_for_a_reason:
  assumes "reach (life_init la) (life_step la) l"
  shows "case lf_result l of
      None \<Rightarrow> \<not> lf_metrics_aborted l
    | Some r \<Rightarrow>
        (exit_code r = 1 \<longleftrightarrow> (\<exists>e. r = Err e \<and> lf_server l = Some (Err e)))
      \<and> (exit_code r = 0 \<longleftrightarrow> r = Ok () \<and> (Quit \<in> set (lf_clicks l) \<or> lf_ctrl_c l \<noteq> None))
      \<and> (lf_metrics_aborted l \<longrightarrow> r = Ok ())"
proof (cases "lf_result l")
  case None
  then show ?thesis using life.inv_reach [OF assms] by (simp add: life_ok_def)
next
  case (Some r)
  moreover have "life_ok l" using assms by (rule life.inv_reach)
  ultimately show ?thesis
    by (cases r) (auto simp: life_ok_def exit_code_def split: if_splits)
qed

theorem program_ends_for_a_reason_witness:
  "\<exists>l. reach (life_init sample_launched) (life_step sample_launched) l \<and> lf_result l = Some (Ok ())
    \<and> exit_code (Ok ()) = 0 \<and> Quit \<in> set (lf_clicks l)"
proof -
  let ?l = "end_with Shutdown_Requested life_quit"
  have "life_step sample_launched life_quit ?l"
    by (rule Select_Shutdown) (simp_all add: life_quit_def life_started_def)
  with sample_quit have r: "reach (life_init sample_launched) (life_step sample_launched) ?l"
    by (rule reach_step)
  have e: "lf_result ?l = Some (Ok ())" "lf_ctrl_c ?l = None"
    by (simp_all add: end_with_def run_end_def life_quit_def life_started_def)
  from program_ends_for_a_reason [OF r] r e show ?thesis
    by (intro exI [of _ ?l]) (simp add: exit_code_def)
qed

lemma clicks_stay: "life_step la l l' \<Longrightarrow> set (lf_clicks l) \<subseteq> set (lf_clicks l')"
  by (erule life_stepE) (auto simp: end_with_def split: prod.splits)

text \<open>C24. Clicking \<open>Quit\<close> ends the program: when \<open>Quit\<close> is clicked in a state of the running program,
  then in every state that the program gets into afterwards, as long as it is running it can end in its next
  step, and without an error, and the tray's thread has ended or can; and if it has ended, it ended without
  an error, unless its server had failed with that very error.\<close>

theorem quit_ends_program:
  assumes "reach (life_init la) (life_step la) l" and "lf_result l = None" and "lf_tray_result l = None"
    and "la_tray la = Some (dashboard, settings)"
    and "tray = on_menu_item dashboard settings Quit (lf_tray l)"
    and "l' = l\<lparr>lf_clicks := lf_clicks l @ [Quit], lf_tray := tray,
                lf_signalled := (lf_signalled l \<or> ty_shutdown_sent tray)\<rparr>"
  shows "life_step la l l' \<and> (\<forall>m. (life_step la)\<^sup>*\<^sup>* l' m \<longrightarrow>
      (case lf_result m of
         None \<Rightarrow> (\<exists>m'. life_step la m m' \<and> lf_result m' = Some (Ok ()))
           \<and> (lf_tray_result m = None \<longrightarrow> (\<exists>m'. life_step la m m' \<and> lf_tray_result m' = Some (Ok ())))
       | Some r \<Rightarrow> r = Ok () \<or> (\<exists>e. r = Err e \<and> lf_server m = Some (Err e))))"
proof (intro conjI allI impI)
  show step: "life_step la l l'" using assms(2-6) by (intro Click [where item = Quit]) auto
  fix m
  assume m: "(life_step la)\<^sup>*\<^sup>* l' m"
  then have "reach (life_init la) (life_step la) m \<and> Quit \<in> set (lf_clicks m)"
  proof (induction rule: rtranclp_induct)
    case base
    show ?case using reach_step [OF assms(1) step] assms(6) by simp
  next
    case (step y z)
    moreover from step have "set (lf_clicks y) \<subseteq> set (lf_clicks z)" by (blast dest: clicks_stay)
    ultimately show ?case by (blast intro: reach_step)
  qed
  then have ok: "life_ok m" and q: "Quit \<in> set (lf_clicks m)" by (auto intro: life.inv_reach)
  show "case lf_result m of
         None \<Rightarrow> (\<exists>m'. life_step la m m' \<and> lf_result m' = Some (Ok ()))
           \<and> (lf_tray_result m = None \<longrightarrow> (\<exists>m'. life_step la m m' \<and> lf_tray_result m' = Some (Ok ())))
       | Some r \<Rightarrow> r = Ok () \<or> (\<exists>e. r = Err e \<and> lf_server m = Some (Err e))"
  proof (cases "lf_result m")
    case None
    with ok q have "life_step la m (end_with Shutdown_Requested m)"
      by (intro Select_Shutdown) (simp_all add: life_ok_def)
    moreover have "lf_result (end_with Shutdown_Requested m) = Some (Ok ())"
      by (simp add: end_with_def run_end_def)
    moreover have "life_step la m (m\<lparr>lf_tray_result := Some (Ok ())\<rparr>)" if "lf_tray_result m = None"
      using ok q None that by (intro Tray_Ends) (simp_all add: life_ok_def)
    ultimately show ?thesis using None by fastforce
  next
    case (Some r)
    with ok show ?thesis by (cases r) (auto simp: life_ok_def split: if_splits)
  qed
qed

theorem quit_ends_program_witness:
  "life_step sample_launched life_started life_quit
    \<and> (\<exists>m. life_step sample_launched life_quit m \<and> lf_result m = Some (Ok ()))"
proof -
  have r: "reach (life_init sample_launched) (life_step sample_launched) life_started"
    by (rule reach_init) (simp add: life_init_def life_started_def sample_launched_def)
  have "la_tray sample_launched = Some (''d'', ''s'')" "lf_result life_started = None"
    "lf_tray_result life_started = None" "lf_result life_quit = None"
    by (simp_all add: sample_launched_def life_started_def life_quit_def)
  moreover have "life_quit = life_started\<lparr>lf_clicks := lf_clicks life_started @ [Quit],
      lf_tray := on_menu_item ''d'' ''s'' Quit (lf_tray life_started), lf_signalled := (lf_signalled life_started
        \<or> ty_shutdown_sent (on_menu_item ''d'' ''s'' Quit (lf_tray life_started)))\<rparr>"
    by (simp add: life_quit_def life_started_def on_menu_item_def)
  ultimately have "life_step sample_launched life_started life_quit
    \<and> (\<forall>m. (life_step sample_launched)\<^sup>*\<^sup>* life_quit m \<longrightarrow>
      (case lf_result m of
         None \<Rightarrow> (\<exists>m'. life_step sample_launched m m' \<and> lf_result m' = Some (Ok ()))
           \<and> (lf_tray_result m = None \<longrightarrow> (\<exists>m'. life_step sample_launched m m' \<and> lf_tray_result m' = Some (Ok ())))
       | Some r \<Rightarrow> r = Ok () \<or> (\<exists>e. r = Err e \<and> lf_server m = Some (Err e))))"
    by (intro quit_ends_program [OF r _ _ _ refl])
  from conjunct1 [OF this] conjunct2 [OF this, rule_format, OF rtranclp.rtrancl_refl]
  show ?thesis using \<open>lf_result life_quit = None\<close> by simp
qed

end
