(* ===== verification/Serde.thy ===== *)
theory Serde
  imports Float32 "HOL-Library.Monad_Syntax" "HOL-Library.List_Lexorder" "HOL-Library.Char_ord"
begin

text \<open>
  The meaning of \<open>#[derive(Serialize, Deserialize)]\<close> on the values of \<open>serde_json::Value\<close>: which value
  a struct or enum is written as, and which values it is read from. The theories of the wire formats
  build the codec of each type of the program from these parts, following its fields and attributes.
  The texts and bytes that the values stand for are the business of the libraries and stay parameters.
  An object keeps its entries ordered by their keys, as the map of \<open>serde_json\<close> does.
\<close>

section \<open>Values\<close>

datatype json =
    JNull
  | JBool bool
  | JInt int
  | JFloat rat
  | JString string
  | JArray "json list"
  | JObject "(string \<times> json) list"

fun put :: "string \<Rightarrow> 'a \<Rightarrow> (string \<times> 'a) list \<Rightarrow> (string \<times> 'a) list" where
  "put k v [] = [(k, v)]"
| "put k v ((k', v') # m) =
     (if k < k' then (k, v) # (k', v') # m
      else if k = k' then (k, v) # m
      else (k', v') # put k v m)"

definition ordered :: "(string \<times> 'a) list \<Rightarrow> (string \<times> 'a) list" where
  "ordered kvs = fold (\<lambda>(k, v). put k v) kvs []"

definition object :: "(string \<times> json) list \<Rightarrow> json" where
  "object kvs = JObject (ordered kvs)"

lemma map_of_put [simp]: "map_of (put k v m) = (map_of m)(k \<mapsto> v)"
  by (induction m) (auto simp: fun_eq_iff)

lemma map_of_fold_put: "map_of (fold (\<lambda>(k, v). put k v) kvs m) = map_of m ++ map_of (rev kvs)"
  by (induction kvs arbitrary: m) (auto simp: fun_eq_iff map_add_def split: option.splits)

lemma map_of_ordered [simp]: "map_of (ordered kvs) = map_of (rev kvs)"
  by (simp add: ordered_def map_of_fold_put)

lemma keys_put [simp]: "fst ` set (put k v m) = insert k (fst ` set m)"
  by (induction k v m rule: put.induct) (simp_all add: insert_commute)

lemma sorted_put: "sorted_wrt (<) (map fst m) \<Longrightarrow> sorted_wrt (<) (map fst (put k v m))"
proof (induction m)
  case (Cons x m)
  obtain k' v' where x: "x = (k', v')" by (cases x)
  have less: "k' < l" if "l \<in> fst ` set m" for l
    using Cons.prems that x by auto
  then have "k < l" if "k < k'" "l \<in> fst ` set m" for l
    using that by (meson less_trans)
  moreover have "k' < k" if "\<not> k < k'" "k \<noteq> k'"
    using that by simp
  ultimately show ?case
    using Cons less x by (simp flip: set_map) (simp add: image_iff)
qed simp

text \<open>The keys of an object are strictly ordered, so an object is the same for any order in which its
  entries were written.\<close>

lemma sorted_ordered: "sorted_wrt (<) (map fst (ordered kvs))"
proof -
  have "sorted_wrt (<) (map fst m) \<Longrightarrow> sorted_wrt (<) (map fst (fold (\<lambda>(k, v). put k v) kvs m))" for m
    by (induction kvs arbitrary: m) (auto intro: sorted_put)
  then show ?thesis by (simp add: ordered_def)
qed

lemma map_of_keys:
  "distinct (map fst m) \<Longrightarrow> map (\<lambda>k. (k, the (map_of m k))) (map fst m) = m"
  by (auto simp: comp_def intro: map_idI)

lemma sorted_map_unique:
  assumes "sorted_wrt (<) (map fst m)" and "sorted_wrt (<) (map fst m')" and "map_of m = map_of m'"
  shows "m = (m' :: (string \<times> 'a) list)"
proof -
  have "set (map fst m) = set (map fst m')"
    using arg_cong [OF assms(3), of dom] by (simp add: dom_map_of_conv_image_fst)
  then have "map fst m = map fst m'"
    using assms(1,2) by (intro strict_sorted_equal) simp_all
  moreover have "distinct (map fst m)" "distinct (map fst m')"
    using assms(1,2) by (simp_all add: strict_sorted_iff)
  ultimately show ?thesis
    using map_of_keys [of m] map_of_keys [of m'] assms(3) by simp
qed

lemma object_cong: "map_of (rev kvs) = map_of (rev kvs') \<Longrightarrow> object kvs = object kvs'"
  by (simp add: object_def sorted_map_unique sorted_ordered)

lemma ordered_ordered [simp]: "ordered (ordered kvs) = ordered kvs"
proof -
  have "distinct (map fst (ordered kvs))"
    using sorted_ordered by (auto simp: strict_sorted_iff)
  then have "map_of (rev (ordered kvs)) = map_of (ordered kvs)"
    using map_of_inject_set [of "rev (ordered kvs)" "ordered kvs"] by (simp flip: rev_map)
  then show ?thesis by (intro sorted_map_unique sorted_ordered) simp
qed

lemma map_of_ordered_distinct: "distinct (map fst kvs) \<Longrightarrow> map_of (ordered kvs) = map_of kvs"
  using map_of_inject_set [of "rev kvs" kvs] by (simp flip: rev_map)

section \<open>Scalars, options and lists\<close>

fun of_string :: "json \<Rightarrow> string option" where
  "of_string (JString s) = Some s"
| "of_string _ = None"

fun of_bool :: "json \<Rightarrow> bool option" where
  "of_bool (JBool b) = Some b"
| "of_bool _ = None"

text \<open>An unsigned integer of some width: a number in range, never a fraction.\<close>

definition to_word :: "'a::len word \<Rightarrow> json" where
  "to_word w = JInt (uint w)"

fun of_word :: "json \<Rightarrow> 'a::len word option" where
  "of_word (JInt n) = (if 0 \<le> n \<and> n < 2 ^ LENGTH('a) then Some (word_of_int n) else None)"
| "of_word _ = None"

definition to_option :: "('a \<Rightarrow> json) \<Rightarrow> 'a option \<Rightarrow> json" where
  "to_option enc x = (case x of None \<Rightarrow> JNull | Some a \<Rightarrow> enc a)"

definition of_option :: "(json \<Rightarrow> 'a option) \<Rightarrow> json \<Rightarrow> 'a option option" where
  "of_option dec v = (if v = JNull then Some None else map_option Some (dec v))"

definition to_list :: "('a \<Rightarrow> json) \<Rightarrow> 'a list \<Rightarrow> json" where
  "to_list enc xs = JArray (map enc xs)"

fun of_list :: "(json \<Rightarrow> 'a option) \<Rightarrow> json \<Rightarrow> 'a list option" where
  "of_list dec (JArray vs) = those (map dec vs)"
| "of_list dec _ = None"

text \<open>A unit variant is written as its name; it is also read from an object that maps the name to null.\<close>

fun of_variant :: "(string \<times> 'a) list \<Rightarrow> json \<Rightarrow> 'a option" where
  "of_variant names (JString s) = map_of names s"
| "of_variant names (JObject [(s, JNull)]) = map_of names s"
| "of_variant names _ = None"

section \<open>Structs\<close>

text \<open>A struct of \<open>n\<close> fields is read from an object, in which unknown keys are ignored, or from an array
  of at most \<open>n\<close> elements, which are its first fields.\<close>

fun is_struct :: "nat \<Rightarrow> json \<Rightarrow> bool" where
  "is_struct n (JObject m) = True"
| "is_struct n (JArray vs) = (length vs \<le> n)"
| "is_struct n _ = False"

fun field :: "nat \<Rightarrow> string \<Rightarrow> json \<Rightarrow> json option" where
  "field i name (JObject m) = map_of m name"
| "field i name (JArray vs) = (if i < length vs then Some (vs ! i) else None)"
| "field i name _ = None"

text \<open>The \<open>i\<close>-th field: one that must be there, one of an optional type, which may be missing from an
  object, and one with a default.\<close>

definition required :: "nat \<Rightarrow> string \<Rightarrow> (json \<Rightarrow> 'a option) \<Rightarrow> json \<Rightarrow> 'a option" where
  "required i name dec v = field i name v \<bind> dec"

definition nullable :: "nat \<Rightarrow> string \<Rightarrow> (json \<Rightarrow> 'a option) \<Rightarrow> json \<Rightarrow> 'a option option" where
  "nullable i name dec v =
     (case field i name v of
        Some x \<Rightarrow> of_option dec x
      | None \<Rightarrow> (case v of JObject _ \<Rightarrow> Some None | _ \<Rightarrow> None))"

definition defaulted :: "'a \<Rightarrow> nat \<Rightarrow> string \<Rightarrow> (json \<Rightarrow> 'a option) \<Rightarrow> json \<Rightarrow> 'a option" where
  "defaulted d i name dec v = (case field i name v of Some x \<Rightarrow> dec x | None \<Rightarrow> Some d)"

definition struct :: "nat \<Rightarrow> (json \<Rightarrow> 'a option) \<Rightarrow> json \<Rightarrow> 'a option" where
  "struct n dec v = (if is_struct n v then dec v else None)"

text \<open>\<open>skip_serializing_if = "Option::is_none"\<close>: the entry, when there is a value.\<close>

definition unless_none :: "string \<Rightarrow> ('a \<Rightarrow> json) \<Rightarrow> 'a option \<Rightarrow> (string \<times> json) list" where
  "unless_none name enc x = (case x of None \<Rightarrow> [] | Some a \<Rightarrow> [(name, enc a)])"

lemma map_of_unless_none [simp]:
  "map_of (rev (unless_none name enc x)) = (\<lambda>key. if key = name then map_option enc x else None)"
  by (cases x) (auto simp: unless_none_def)

text \<open>A conversion whose error text is that of the library.\<close>

definition result_ok :: "('a, 'e) result \<Rightarrow> 'a option" where
  "result_ok r = (case r of Ok a \<Rightarrow> Some a | Err _ \<Rightarrow> None)"

lemma result_ok_Some: "result_ok r = Some a \<longleftrightarrow> r = Ok a"
  by (cases r) (simp_all add: result_ok_def)

lemma result_ok_None: "result_ok r = None \<longleftrightarrow> (\<exists>e. r = Err e)"
  by (cases r) (simp_all add: result_ok_def)

lemma result_ok_ok_or [simp]: "result_ok (ok_or x e) = x"
  by (cases x) (simp_all add: result_ok_def)

section \<open>The contract of a codec\<close>

locale codec =
  fixes enc :: "'a \<Rightarrow> json" and dec :: "json \<Rightarrow> 'a option"
  assumes dec_enc [simp]: "dec (enc x) = Some x"
begin

lemma enc_inject: "enc x = enc y \<longleftrightarrow> x = y"
  by (metis dec_enc option.inject)

lemma of_list_to_list: "of_list dec (to_list enc xs) = Some xs"
  by (induction xs) (simp_all add: to_list_def)

end

text \<open>The codec of a type whose values are never written as null can be used for an option.\<close>

locale plain_codec = codec +
  assumes enc_not_null [simp]: "enc x \<noteq> JNull"
begin

lemma of_option_enc: "of_option dec (enc x) = Some (Some x)"
  by (simp add: of_option_def)

lemma of_option_to_option: "of_option dec (to_option enc x) = Some x"
  by (cases x) (simp_all add: of_option_def to_option_def)

text \<open>An optional field is read back, whether it is written as null or left out when there is no value.\<close>

lemma nullable_to_option:
  "map_of m name = Some (to_option enc x) \<Longrightarrow> nullable i name dec (JObject m) = Some x"
  by (simp add: nullable_def of_option_to_option)

lemma nullable_unless_none:
  "map_of m name = map_option enc x \<Longrightarrow> nullable i name dec (JObject m) = Some x"
  by (cases x) (simp_all add: nullable_def of_option_enc)

lemma defaulted_unless_none:
  "map_of m name = map_option enc x \<Longrightarrow> defaulted None i name (of_option dec) (JObject m) = Some x"
  by (cases x) (simp_all add: defaulted_def of_option_enc)

end

lemma of_option_JNull [simp]: "of_option dec JNull = Some None"
  by (simp add: of_option_def)

interpretation str: plain_codec JString of_string
  by unfold_locales simp_all

interpretation bool: plain_codec JBool of_bool
  by unfold_locales simp_all

interpretation word: plain_codec to_word of_word
proof
  fix x :: "'a::len word"
  show "of_word (to_word x) = Some x"
    using uint_lt2p [of x] by (simp add: to_word_def)
  show "to_word x \<noteq> JNull" by (simp add: to_word_def)
qed

interpretation strings: plain_codec "to_list JString" "of_list of_string"
  by unfold_locales (simp_all add: str.of_list_to_list, simp add: to_list_def)

named_theorems serde \<open>reading back the parts of a struct\<close>

lemma map_add_lookup [serde]:
  "n key = None \<Longrightarrow> (m ++ n) key = m key"
  "n key = Some v \<Longrightarrow> (m ++ n) key = Some v"
  "m key = None \<Longrightarrow> (m ++ n) key = n key"
  by (simp_all add: map_add_def split: option.split)

lemma defaulted_lookup [serde]:
  "map_of m name = None \<Longrightarrow> defaulted d i name dec (JObject m) = Some d"
  "map_of m name = Some v \<Longrightarrow> defaulted d i name dec (JObject m) = dec v"
  by (simp_all add: defaulted_def)

lemmas [serde] = str.nullable_to_option bool.nullable_to_option word.nullable_to_option
  str.nullable_unless_none bool.nullable_unless_none
  str.of_option_to_option bool.of_option_to_option word.of_option_to_option
  str.defaulted_unless_none object_def struct_def required_def

end
