(* ===== verification/Ipc_Wire.thy ===== *)
theory Ipc_Wire
  imports Dev_Client Serde
begin

text \<open>
  The names on the wire of the IPC protocol: what the derived codecs of the messages in
  \<open>src/ipc/mod.rs\<close> and of the development client's own copies of them in \<open>src/bin/ipc_dev_client.rs\<close>
  write and read, field by field, and that the two ends and the two directions fit together.
\<close>

section \<open>Enums\<close>

primrec priority_name :: "priority \<Rightarrow> string" where
  "priority_name Critical = ''critical''"
| "priority_name High = ''high''"
| "priority_name Normal = ''normal''"
| "priority_name Low = ''low''"

definition priority_of :: "json \<Rightarrow> priority option" where
  "priority_of = of_variant
     [(''critical'', Critical),
      (''high'', High),
      (''normal'', Normal),
      (''low'', Low)]"

primrec snapshot_mode_name :: "snapshot_mode \<Rightarrow> string" where
  "snapshot_mode_name Studio = ''studio''"
| "snapshot_mode_name Irl = ''irl''"

definition snapshot_mode_of :: "json \<Rightarrow> snapshot_mode option" where
  "snapshot_mode_of = of_variant
     [(''studio'', Studio),
      (''irl'', Irl)]"

primrec snapshot_health_name :: "snapshot_health \<Rightarrow> string" where
  "snapshot_health_name Good = ''good''"
| "snapshot_health_name Health_Degraded = ''degraded''"
| "snapshot_health_name Offline = ''offline''"

definition snapshot_health_of :: "json \<Rightarrow> snapshot_health option" where
  "snapshot_health_of = of_variant
     [(''good'', Good),
      (''degraded'', Health_Degraded),
      (''offline'', Offline)]"

primrec relay_status_name :: "relay_status \<Rightarrow> string" where
  "relay_status_name Inactive = ''inactive''"
| "relay_status_name Provisioning = ''provisioning''"
| "relay_status_name Active = ''active''"
| "relay_status_name Grace = ''grace''"

definition relay_status_of :: "json \<Rightarrow> relay_status option" where
  "relay_status_of = of_variant
     [(''inactive'', Inactive),
      (''provisioning'', Provisioning),
      (''active'', Active),
      (''grace'', Grace)]"

primrec state_mode_name :: "state_mode_v1 \<Rightarrow> string" where
  "state_mode_name Mode_Studio = ''STUDIO''"
| "state_mode_name Irl_Connecting = ''IRL_CONNECTING''"
| "state_mode_name Irl_Active = ''IRL_ACTIVE''"
| "state_mode_name Irl_Grace = ''IRL_GRACE''"
| "state_mode_name Degraded = ''DEGRADED''"
| "state_mode_name Fatal = ''FATAL''"

definition state_mode_of :: "json \<Rightarrow> state_mode_v1 option" where
  "state_mode_of = of_variant
     [(''STUDIO'', Mode_Studio),
      (''IRL_CONNECTING'', Irl_Connecting),
      (''IRL_ACTIVE'', Irl_Active),
      (''IRL_GRACE'', Irl_Grace),
      (''DEGRADED'', Degraded),
      (''FATAL'', Fatal)]"

primrec notice_level_name :: "user_notice_level \<Rightarrow> string" where
  "notice_level_name Info = ''info''"
| "notice_level_name Warn = ''warn''"
| "notice_level_name Error = ''error''"

definition notice_level_of :: "json \<Rightarrow> user_notice_level option" where
  "notice_level_of = of_variant
     [(''info'', Info),
      (''warn'', Warn),
      (''error'', Error)]"

primrec error_code_name :: "protocol_error_code \<Rightarrow> string" where
  "error_code_name FrameTooLarge = ''frame_too_large''"
| "error_code_name DecodeFailed = ''decode_failed''"
| "error_code_name UnknownType = ''unknown_type''"
| "error_code_name Timeout = ''timeout''"
| "error_code_name InvalidPayload = ''invalid_payload''"

definition error_code_of :: "json \<Rightarrow> protocol_error_code option" where
  "error_code_of = of_variant
     [(''frame_too_large'', FrameTooLarge),
      (''decode_failed'', DecodeFailed),
      (''unknown_type'', UnknownType),
      (''timeout'', Timeout),
      (''invalid_payload'', InvalidPayload)]"

text \<open>The variants of every enum have different names, and each is read back.\<close>

interpretation priority: plain_codec "\<lambda>x. JString (priority_name x)" priority_of
proof
  show "priority_of (JString (priority_name x)) = Some x" for x
    by (cases x) (simp_all add: priority_of_def)
qed simp

interpretation snapshot_mode: plain_codec "\<lambda>x. JString (snapshot_mode_name x)" snapshot_mode_of
proof
  show "snapshot_mode_of (JString (snapshot_mode_name x)) = Some x" for x
    by (cases x) (simp_all add: snapshot_mode_of_def)
qed simp

interpretation snapshot_health: plain_codec "\<lambda>x. JString (snapshot_health_name x)" snapshot_health_of
proof
  show "snapshot_health_of (JString (snapshot_health_name x)) = Some x" for x
    by (cases x) (simp_all add: snapshot_health_of_def)
qed simp

interpretation relay_status: plain_codec "\<lambda>x. JString (relay_status_name x)" relay_status_of
proof
  show "relay_status_of (JString (relay_status_name x)) = Some x" for x
    by (cases x) (simp_all add: relay_status_of_def)
qed simp

interpretation state_mode: plain_codec "\<lambda>x. JString (state_mode_name x)" state_mode_of
proof
  show "state_mode_of (JString (state_mode_name x)) = Some x" for x
    by (cases x) (simp_all add: state_mode_of_def)
qed simp

interpretation notice_level: plain_codec "\<lambda>x. JString (notice_level_name x)" notice_level_of
proof
  show "notice_level_of (JString (notice_level_name x)) = Some x" for x
    by (cases x) (simp_all add: notice_level_of_def)
qed simp

interpretation error_code: plain_codec "\<lambda>x. JString (error_code_name x)" error_code_of
proof
  show "error_code_of (JString (error_code_name x)) = Some x" for x
    by (cases x) (simp_all add: error_code_of_def)
qed simp

section \<open>What the core reads\<close>

definition hello_of :: "json \<Rightarrow> hello_payload option" where
  "hello_of = struct 4 (\<lambda>v. do {
       plugin_version \<leftarrow> required 0 ''plugin_version'' of_string v;
       protocol_version \<leftarrow> required 1 ''protocol_version'' of_word v;
       obs_pid \<leftarrow> required 2 ''obs_pid'' of_word v;
       capabilities \<leftarrow> defaulted [] 3 ''capabilities'' (of_list of_string) v;
       Some \<lparr>hp_plugin_version = plugin_version, hp_protocol_version = protocol_version,
         hp_obs_pid = obs_pid, hp_capabilities = capabilities\<rparr>
     })"

definition ping_of :: "json \<Rightarrow> ping_payload option" where
  "ping_of = struct 1 (\<lambda>v. do {
       nonce \<leftarrow> required 0 ''nonce'' of_string v;
       Some \<lparr>pp_nonce = nonce\<rparr>
     })"

definition request_status_of :: "json \<Rightarrow> unit option" where
  "request_status_of = struct 0 (\<lambda>v. Some ())"

definition scene_switch_result_of :: "json \<Rightarrow> scene_switch_result_payload option" where
  "scene_switch_result_of = struct 3 (\<lambda>v. do {
       request_id \<leftarrow> required 0 ''request_id'' of_string v;
       ok \<leftarrow> required 1 ''ok'' of_bool v;
       error \<leftarrow> nullable 2 ''error'' of_string v;
       Some \<lparr>sr_request_id = request_id, sr_ok = ok, sr_error = error\<rparr>
     })"

definition obs_shutdown_notice_of :: "json \<Rightarrow> obs_shutdown_notice_payload option" where
  "obs_shutdown_notice_of = struct 1 (\<lambda>v. do {
       reason \<leftarrow> required 0 ''reason'' of_string v;
       Some \<lparr>sn_reason = reason\<rparr>
     })"

definition set_mode_request_of :: "json \<Rightarrow> set_mode_request_payload option" where
  "set_mode_request_of = struct 1 (\<lambda>v. do {
       mode \<leftarrow> required 0 ''mode'' of_string v;
       Some \<lparr>mp_mode = mode\<rparr>
     })"

definition set_setting_request_of :: "json \<Rightarrow> set_setting_request_payload option" where
  "set_setting_request_of = struct 2 (\<lambda>v. do {
       key \<leftarrow> required 0 ''key'' of_string v;
       value \<leftarrow> required 1 ''value'' of_bool v;
       Some \<lparr>tp_key = key, tp_value = value\<rparr>
     })"

section \<open>What the core writes\<close>

text \<open>With the readers derived for the same structs.\<close>

definition hello_ack_value :: "hello_ack_payload \<Rightarrow> json" where
  "hello_ack_value x = object
     [(''core_version'', JString (ha_core_version x)),
      (''protocol_version'', to_word (ha_protocol_version x)),
      (''capabilities'', to_list JString (ha_capabilities x))]"

definition hello_ack_of :: "json \<Rightarrow> hello_ack_payload option" where
  "hello_ack_of = struct 3 (\<lambda>v. do {
       core_version \<leftarrow> required 0 ''core_version'' of_string v;
       protocol_version \<leftarrow> required 1 ''protocol_version'' of_word v;
       capabilities \<leftarrow> required 2 ''capabilities'' (of_list of_string) v;
       Some \<lparr>ha_core_version = core_version, ha_protocol_version = protocol_version,
         ha_capabilities = capabilities\<rparr>
     })"

definition pong_value :: "pong_payload \<Rightarrow> json" where
  "pong_value x = object
     [(''nonce'', JString (po_nonce x))]"

definition pong_of :: "json \<Rightarrow> pong_payload option" where
  "pong_of = struct 1 (\<lambda>v. do {
       nonce \<leftarrow> required 0 ''nonce'' of_string v;
       Some \<lparr>po_nonce = nonce\<rparr>
     })"

definition switch_scene_value :: "switch_scene_payload \<Rightarrow> json" where
  "switch_scene_value x = object
     [(''request_id'', JString (sp_request_id x)),
      (''scene_name'', JString (sp_scene_name x)),
      (''reason'', JString (sp_reason x)),
      (''deadline_ms'', to_word (sp_deadline_ms x))]"

definition switch_scene_of :: "json \<Rightarrow> switch_scene_payload option" where
  "switch_scene_of = struct 4 (\<lambda>v. do {
       request_id \<leftarrow> required 0 ''request_id'' of_string v;
       scene_name \<leftarrow> required 1 ''scene_name'' of_string v;
       reason \<leftarrow> required 2 ''reason'' of_string v;
       deadline_ms \<leftarrow> required 3 ''deadline_ms'' of_word v;
       Some \<lparr>sp_request_id = request_id, sp_scene_name = scene_name, sp_reason = reason,
         sp_deadline_ms = deadline_ms\<rparr>
     })"

definition snapshot_relay_value :: "relay_snapshot \<Rightarrow> json" where
  "snapshot_relay_value x = object
     [(''status'', JString (relay_status_name (rl_status x))),
      (''region'', to_option JString (rl_region x)),
      (''grace_remaining_seconds'', to_word (rl_grace_remaining_seconds x))]"

definition snapshot_relay_of :: "json \<Rightarrow> relay_snapshot option" where
  "snapshot_relay_of = struct 3 (\<lambda>v. do {
       status \<leftarrow> required 0 ''status'' relay_status_of v;
       region \<leftarrow> nullable 1 ''region'' of_string v;
       grace_remaining_seconds \<leftarrow> required 2 ''grace_remaining_seconds'' of_word v;
       Some \<lparr>rl_status = status, rl_region = region,
         rl_grace_remaining_seconds = grace_remaining_seconds\<rparr>
     })"

definition settings_value :: "status_snapshot_settings \<Rightarrow> json" where
  "settings_value x = object
     (unless_none ''auto_scene_switch'' JBool (st_auto_scene_switch x)
      @ unless_none ''low_quality_fallback'' JBool (st_low_quality_fallback x)
      @ unless_none ''manual_override'' JBool (st_manual_override x)
      @ unless_none ''chat_bot'' JBool (st_chat_bot x)
      @ unless_none ''alerts'' JBool (st_alerts x))"

definition settings_of :: "json \<Rightarrow> status_snapshot_settings option" where
  "settings_of = struct 5 (\<lambda>v. do {
       auto_scene_switch \<leftarrow> nullable 0 ''auto_scene_switch'' of_bool v;
       low_quality_fallback \<leftarrow> nullable 1 ''low_quality_fallback'' of_bool v;
       manual_override \<leftarrow> nullable 2 ''manual_override'' of_bool v;
       chat_bot \<leftarrow> nullable 3 ''chat_bot'' of_bool v;
       alerts \<leftarrow> nullable 4 ''alerts'' of_bool v;
       Some \<lparr>st_auto_scene_switch = auto_scene_switch,
         st_low_quality_fallback = low_quality_fallback,
         st_manual_override = manual_override, st_chat_bot = chat_bot,
         st_alerts = alerts\<rparr>
     })"

definition status_snapshot_value :: "status_snapshot \<Rightarrow> json" where
  "status_snapshot_value x = object
     ([(''mode'', JString (snapshot_mode_name (ss_mode x))),
       (''state_mode'', JString (state_mode_name (ss_state_mode x))),
       (''health'', JString (snapshot_health_name (ss_health x))),
       (''bitrate_kbps'', to_word (ss_bitrate_kbps x)),
       (''rtt_ms'', to_word (ss_rtt_ms x)),
       (''override_enabled'', JBool (ss_override_enabled x)),
       (''relay'', snapshot_relay_value (ss_relay x))]
      @ unless_none ''settings'' settings_value (ss_settings x))"

definition status_snapshot_of :: "json \<Rightarrow> status_snapshot option" where
  "status_snapshot_of = struct 8 (\<lambda>v. do {
       mode \<leftarrow> required 0 ''mode'' snapshot_mode_of v;
       state_mode \<leftarrow> required 1 ''state_mode'' state_mode_of v;
       health \<leftarrow> required 2 ''health'' snapshot_health_of v;
       bitrate_kbps \<leftarrow> required 3 ''bitrate_kbps'' of_word v;
       rtt_ms \<leftarrow> required 4 ''rtt_ms'' of_word v;
       override_enabled \<leftarrow> required 5 ''override_enabled'' of_bool v;
       relay \<leftarrow> required 6 ''relay'' snapshot_relay_of v;
       settings \<leftarrow> nullable 7 ''settings'' settings_of v;
       Some \<lparr>ss_mode = mode, ss_state_mode = state_mode, ss_health = health,
         ss_bitrate_kbps = bitrate_kbps, ss_rtt_ms = rtt_ms,
         ss_override_enabled = override_enabled, ss_relay = relay,
         ss_settings = settings\<rparr>
     })"

definition user_notice_value :: "user_notice_payload \<Rightarrow> json" where
  "user_notice_value x = object
     [(''level'', JString (notice_level_name (un_level x))),
      (''message'', JString (un_message x))]"

definition user_notice_of :: "json \<Rightarrow> user_notice_payload option" where
  "user_notice_of = struct 2 (\<lambda>v. do {
       level \<leftarrow> required 0 ''level'' notice_level_of v;
       message \<leftarrow> required 1 ''message'' of_string v;
       Some \<lparr>un_level = level, un_message = message\<rparr>
     })"

definition protocol_error_value :: "protocol_error_payload \<Rightarrow> json" where
  "protocol_error_value x = object
     ([(''code'', JString (error_code_name (pe_code x))),
       (''message'', JString (pe_message x))]
      @ unless_none ''related_message_id'' JString (pe_related_message_id x))"

definition protocol_error_of :: "json \<Rightarrow> protocol_error_payload option" where
  "protocol_error_of = struct 3 (\<lambda>v. do {
       code \<leftarrow> required 0 ''code'' error_code_of v;
       message \<leftarrow> required 1 ''message'' of_string v;
       related_message_id \<leftarrow> nullable 2 ''related_message_id'' of_string v;
       Some \<lparr>pe_code = code, pe_message = message,
         pe_related_message_id = related_message_id\<rparr>
     })"

lemmas wire_defs = hello_ack_value_def hello_ack_of_def pong_value_def pong_of_def switch_scene_value_def
  switch_scene_of_def user_notice_value_def user_notice_of_def protocol_error_value_def protocol_error_of_def
  snapshot_relay_value_def snapshot_relay_of_def settings_value_def settings_of_def
  status_snapshot_value_def status_snapshot_of_def

interpretation hello_ack: plain_codec hello_ack_value hello_ack_of
  by unfold_locales (simp_all add: wire_defs serde)

interpretation pong: plain_codec pong_value pong_of
  by unfold_locales (simp_all add: wire_defs serde)

interpretation switch_scene: plain_codec switch_scene_value switch_scene_of
  by unfold_locales (simp_all add: wire_defs serde)

interpretation user_notice: plain_codec user_notice_value user_notice_of
  by unfold_locales (simp_all add: wire_defs serde)

interpretation snapshot_relay: plain_codec snapshot_relay_value snapshot_relay_of
  by unfold_locales (simp_all add: wire_defs serde)

interpretation protocol_error: plain_codec protocol_error_value protocol_error_of
  by unfold_locales (simp_all add: wire_defs serde)

interpretation settings: plain_codec settings_value settings_of
  by unfold_locales (simp_all add: wire_defs serde)

interpretation status_snapshot: plain_codec status_snapshot_value status_snapshot_of
proof
  show "status_snapshot_of (status_snapshot_value x) = Some x" for x
    by (simp add: status_snapshot_value_def status_snapshot_of_def serde settings.nullable_unless_none)
qed (simp add: wire_defs serde)

section \<open>Messages\<close>

primrec event_value :: "event_payload \<Rightarrow> json" where
  "event_value (Hello_Ack p) = hello_ack_value p"
| "event_value (Pong p) = pong_value p"
| "event_value (Status_Snapshot p) = status_snapshot_value p"
| "event_value (Switch_Scene p) = switch_scene_value p"
| "event_value (User_Notice p) = user_notice_value p"
| "event_value (Protocol_Error p) = protocol_error_value p"

text \<open>What a reader of the event pipe makes of a payload, going by the message type.\<close>

definition event_of :: "string \<Rightarrow> json \<Rightarrow> event_payload option" where
  "event_of message_type v =
     (if message_type = ''hello_ack'' then map_option Hello_Ack (hello_ack_of v)
      else if message_type = ''pong'' then map_option Pong (pong_of v)
      else if message_type = ''status_snapshot'' then map_option Status_Snapshot (status_snapshot_of v)
      else if message_type = ''switch_scene'' then map_option Switch_Scene (switch_scene_of v)
      else if message_type = ''user_notice'' then map_option User_Notice (user_notice_of v)
      else if message_type = ''protocol_error'' then map_option Protocol_Error (protocol_error_of v)
      else None)"

definition envelope_value :: "('p \<Rightarrow> json) \<Rightarrow> 'p envelope \<Rightarrow> json" where
  "envelope_value enc e = object
     [(''v'', to_word (ev_v e)),
      (''id'', JString (ev_id e)),
      (''ts_unix_ms'', to_word (ev_ts_unix_ms e)),
      (''type'', JString (ev_type e)),
      (''priority'', JString (priority_name (ev_priority e))),
      (''payload'', enc (ev_payload e))]"

definition envelope_of :: "(json \<Rightarrow> 'p option) \<Rightarrow> json \<Rightarrow> 'p envelope option" where
  "envelope_of dec = struct 6 (\<lambda>x. do {
       v \<leftarrow> required 0 ''v'' of_word x;
       id \<leftarrow> required 1 ''id'' of_string x;
       ts_unix_ms \<leftarrow> required 2 ''ts_unix_ms'' of_word x;
       message_type \<leftarrow> required 3 ''type'' of_string x;
       priority \<leftarrow> required 4 ''priority'' priority_of x;
       payload \<leftarrow> required 5 ''payload'' dec x;
       Some \<lparr>ev_v = v, ev_id = id, ev_ts_unix_ms = ts_unix_ms, ev_type = message_type,
         ev_priority = priority, ev_payload = payload\<rparr>
     })"

definition with_value :: "event_payload envelope \<Rightarrow> json envelope" where
  "with_value e = \<lparr>ev_v = ev_v e, ev_id = ev_id e, ev_ts_unix_ms = ev_ts_unix_ms e, ev_type = ev_type e,
     ev_priority = ev_priority e, ev_payload = event_value (ev_payload e)\<rparr>"

lemma envelope_read_back: "dec (enc (ev_payload e)) = Some p \<Longrightarrow>
   envelope_of dec (envelope_value enc e) = Some \<lparr>ev_v = ev_v e, ev_id = ev_id e,
     ev_ts_unix_ms = ev_ts_unix_ms e, ev_type = ev_type e, ev_priority = ev_priority e, ev_payload = p\<rparr>"
  by (simp add: envelope_value_def envelope_of_def serde)

interpretation envelope: plain_codec "envelope_value (\<lambda>v. v)" "envelope_of Some"
  by unfold_locales (simp_all add: envelope_read_back, simp add: envelope_value_def object_def)

lemma envelope_with_value: "envelope_of Some (envelope_value event_value e) = Some (with_value e)"
  by (simp add: envelope_read_back with_value_def)

section \<open>The development client's copies\<close>

primrec client_priority_name :: "priority \<Rightarrow> string" where
  "client_priority_name Critical = ''critical''"
| "client_priority_name High = ''high''"
| "client_priority_name Normal = ''normal''"
| "client_priority_name Low = ''low''"

definition client_priority_of :: "json \<Rightarrow> priority option" where
  "client_priority_of = of_variant
     [(''critical'', Critical), (''high'', High), (''normal'', Normal), (''low'', Low)]"

definition client_envelope_value :: "json envelope \<Rightarrow> json" where
  "client_envelope_value e = object
     [(''v'', to_word (ev_v e)),
      (''id'', JString (ev_id e)),
      (''ts_unix_ms'', to_word (ev_ts_unix_ms e)),
      (''type'', JString (ev_type e)),
      (''priority'', JString (client_priority_name (ev_priority e))),
      (''payload'', ev_payload e)]"

definition client_envelope_of :: "json \<Rightarrow> json envelope option" where
  "client_envelope_of = struct 6 (\<lambda>x. do {
       v \<leftarrow> required 0 ''v'' of_word x;
       id \<leftarrow> required 1 ''id'' of_string x;
       ts_unix_ms \<leftarrow> required 2 ''ts_unix_ms'' of_word x;
       message_type \<leftarrow> required 3 ''type'' of_string x;
       priority \<leftarrow> required 4 ''priority'' client_priority_of x;
       payload \<leftarrow> required 5 ''payload'' Some x;
       Some \<lparr>ev_v = v, ev_id = id, ev_ts_unix_ms = ts_unix_ms, ev_type = message_type,
         ev_priority = priority, ev_payload = payload\<rparr>
     })"

definition client_hello_value :: "hello_payload \<Rightarrow> json" where
  "client_hello_value x = object
     [(''plugin_version'', JString (hp_plugin_version x)),
      (''protocol_version'', to_word (hp_protocol_version x)),
      (''obs_pid'', to_word (hp_obs_pid x)),
      (''capabilities'', to_list JString (hp_capabilities x))]"

definition client_ping_value :: "ping_payload \<Rightarrow> json" where
  "client_ping_value x = object [(''nonce'', JString (pp_nonce x))]"

definition client_request_status_value :: json where
  "client_request_status_value = object []"

definition client_result_value :: "scene_switch_result_payload \<Rightarrow> json" where
  "client_result_value x = object
     [(''request_id'', JString (sr_request_id x)),
      (''ok'', JBool (sr_ok x)),
      (''error'', to_option JString (sr_error x))]"

definition client_switch_scene_of :: "json \<Rightarrow> switch_scene_payload option" where
  "client_switch_scene_of = struct 4 (\<lambda>v. do {
       request_id \<leftarrow> required 0 ''request_id'' of_string v;
       scene_name \<leftarrow> required 1 ''scene_name'' of_string v;
       reason \<leftarrow> required 2 ''reason'' of_string v;
       deadline_ms \<leftarrow> required 3 ''deadline_ms'' of_word v;
       Some \<lparr>sp_request_id = request_id, sp_scene_name = scene_name, sp_reason = reason,
         sp_deadline_ms = deadline_ms\<rparr>
     })"

primrec client_value :: "client_payload \<Rightarrow> json" where
  "client_value (Hello_Message p) = client_hello_value p"
| "client_value (Ping_Message p) = client_ping_value p"
| "client_value Request_Status_Message = client_request_status_value"
| "client_value (Scene_Switch_Result_Message p) = client_result_value p"

lemma client_priority_agrees: "client_priority_name p = priority_name p"
  by (cases p) simp_all

lemma client_envelope_agrees: "client_envelope_value e = envelope_value (\<lambda>v. v) e"
  by (simp add: client_envelope_value_def envelope_value_def client_priority_agrees)

text \<open>Each side reads what the other writes: the codec made of the client's writer and the core's reader,
  and the other way round.\<close>

interpretation to_core_hello: plain_codec client_hello_value hello_of
  by unfold_locales (simp_all add: client_hello_value_def hello_of_def serde)

interpretation to_core_ping: plain_codec client_ping_value ping_of
  by unfold_locales (simp_all add: client_ping_value_def ping_of_def serde)

interpretation to_core_request_status: plain_codec "\<lambda>_. client_request_status_value" request_status_of
  by unfold_locales (simp_all add: client_request_status_value_def request_status_of_def serde ordered_def)

interpretation to_core_result: plain_codec client_result_value scene_switch_result_of
  by unfold_locales (simp_all add: client_result_value_def scene_switch_result_of_def serde)

interpretation to_core_envelope: plain_codec client_envelope_value "envelope_of Some"
  by unfold_locales (simp_all add: client_envelope_agrees)

interpretation to_client_switch_scene: plain_codec switch_scene_value client_switch_scene_of
  by unfold_locales (simp_all add: client_switch_scene_of_def switch_scene_value_def serde)

interpretation to_client_envelope: plain_codec "envelope_value (\<lambda>v. v)" client_envelope_of
proof
  show "client_envelope_of (envelope_value (\<lambda>v. v) e) = Some e" for e
    by (cases "ev_priority e")
       (simp_all add: envelope_value_def client_envelope_of_def client_priority_of_def serde)
qed simp

end
