(* ===== verification/Wire_Link.thy ===== *)
theory Wire_Link
  imports Ipc_Wire Bridge
begin

text \<open>
  The IPC session and the development client over the wire, with the derived codecs of both programs in
  place. Of the MessagePack library only this is assumed: a text it has written stands for the value that
  was written, and a text that stands for a value with the fields of an envelope is read as that
  envelope. Of \<open>serde_json\<close>: that its values are converted as the derived codecs say.
\<close>

section \<open>The libraries\<close>

text \<open>\<open>unpack\<close>: the value that a MessagePack text with named fields stands for.\<close>

definition core_codecs :: "(u8 list \<Rightarrow> json option) \<Rightarrow> json ipc_env \<Rightarrow> bool" where
  "core_codecs unpack env \<longleftrightarrow>
     (\<forall>e bs. ie_to_vec_named env e = Ok bs \<longrightarrow> unpack bs = Some (envelope_value event_value e))
   \<and> (\<forall>bs v e. unpack bs = Some v \<longrightarrow> envelope_of Some v = Some e \<longrightarrow> ie_from_slice env bs = Ok e)
   \<and> (\<forall>v. result_ok (ie_hello env v) = hello_of v)
   \<and> (\<forall>v. result_ok (ie_ping env v) = ping_of v)
   \<and> (\<forall>v. result_ok (ie_request_status env v) = request_status_of v)
   \<and> (\<forall>v. result_ok (ie_set_mode env v) = set_mode_request_of v)
   \<and> (\<forall>v. result_ok (ie_set_setting env v) = set_setting_request_of v)
   \<and> (\<forall>v. result_ok (ie_scene_switch_result env v) = scene_switch_result_of v)
   \<and> (\<forall>v. result_ok (ie_obs_shutdown_notice env v) = obs_shutdown_notice_of v)"

definition client_codecs :: "(u8 list \<Rightarrow> json option) \<Rightarrow> json dev_env \<Rightarrow> bool" where
  "client_codecs unpack denv \<longleftrightarrow>
     (\<forall>m bs. dc_to_vec_named denv m = Ok bs \<longrightarrow> unpack bs = Some (client_envelope_value m))
   \<and> (\<forall>bs v m. unpack bs = Some v \<longrightarrow> client_envelope_of v = Some m \<longrightarrow> dc_from_slice denv bs = Ok m)
   \<and> (\<forall>p. dc_to_value denv p = Ok (client_value p))
   \<and> (\<forall>v. is_ok (dc_print denv v))
   \<and> (\<forall>v. result_ok (dc_switch_scene denv v) = client_switch_scene_of v)
   \<and> dc_null denv = JNull"

lemma client_reads_core:
  assumes "core_codecs unpack env" and "client_codecs unpack denv" and "ie_to_vec_named env e = Ok bs"
  shows "dc_from_slice denv bs = Ok (with_value e)"
proof -
  have "unpack bs = Some (envelope_value event_value e)"
    using assms(1,3) by (simp add: core_codecs_def)
  moreover have "envelope_value event_value e = envelope_value (\<lambda>v. v) (with_value e)"
    by (simp add: envelope_value_def with_value_def)
  ultimately show ?thesis
    using assms(2) by (simp add: client_codecs_def)
qed

lemma core_reads_client:
  assumes "core_codecs unpack env" and "client_codecs unpack denv" and "dc_to_vec_named denv m = Ok bs"
  shows "ie_from_slice env bs = Ok m"
  using assms by (simp add: core_codecs_def client_codecs_def)

lemma with_value_sel [simp]:
  "ev_type (with_value e) = ev_type e" "ev_payload (with_value e) = event_value (ev_payload e)"
  by (simp_all add: with_value_def)

lemma event_of_value: "event_of (payload_type p) (event_value p) = Some p"
  by (cases p) (simp_all add: event_of_def)

section \<open>The event pipe\<close>

lemma logged_well_formed:
  "ds_pending_switch_count debug = 0 \<Longrightarrow> e \<in> set (is_evt_log (snd (handle_session_io n env debug seq))) \<Longrightarrow>
     well_formed e"
  using session_loop_ok [of debug n env seq] by (auto simp: session_ok_def)

text \<open>C5. The event pipe carries the messages: on a pipe that takes every write, after any number of
  iterations, its bytes are frames none of which is over the limit, and read frame by frame with the
  client's codec they give back every message that the session wrote, in order and with the payload it
  had; nothing is left over.\<close>

theorem event_pipe_carries_messages:
  assumes "core_codecs unpack env" and "client_codecs unpack denv"
    and "\<forall>q. ie_pipe_write env q = None" and "ds_pending_switch_count debug = 0"
  shows "let s = snd (handle_session_io n env debug seq) in
    \<exists>ps. get_all get_raw (Suc (length ps)) (is_evt_bytes s) = (ps, [])
       \<and> list_all2 (\<lambda>e p. length p \<le> MAX_FRAME_SIZE \<and> (\<exists>m. dc_from_slice denv p = Ok m
           \<and> ev_type m = ev_type e \<and> event_of (ev_type m) (ev_payload m) = Some (ev_payload e))) (is_evt_log s) ps"
proof -
  let ?s = "snd (handle_session_io n env debug seq)"
  have "reliable env" using assms(3) by (simp add: reliable_def)
  then obtain ps where
    ps: "list_all2 (\<lambda>e p. ie_to_vec_named env e = Ok p \<and> length p \<le> MAX_FRAME_SIZE) (is_evt_log ?s) ps"
    and bytes: "get_all get_raw (Suc (length ps)) (is_evt_bytes ?s) = (ps, [])"
    by (rule event_stream_decodes [OF _ refl])
  have "length p \<le> MAX_FRAME_SIZE \<and> (\<exists>m. dc_from_slice denv p = Ok m \<and> ev_type m = ev_type e
      \<and> event_of (ev_type m) (ev_payload m) = Some (ev_payload e))"
    if "e \<in> set (is_evt_log ?s)" "ie_to_vec_named env e = Ok p \<and> length p \<le> MAX_FRAME_SIZE" for e p
    using that client_reads_core [OF assms(1,2), of e p] logged_well_formed [OF assms(4) that(1)]
    by (simp add: well_formed_def event_of_value)
  with ps have "list_all2 (\<lambda>e p. length p \<le> MAX_FRAME_SIZE \<and> (\<exists>m. dc_from_slice denv p = Ok m
      \<and> ev_type m = ev_type e \<and> event_of (ev_type m) (ev_payload m) = Some (ev_payload e))) (is_evt_log ?s) ps"
    by (rule list.rel_mono_strong)
  with bytes show ?thesis by (auto simp: Let_def)
qed

section \<open>Acknowledgements\<close>

definition switch_payloads :: "event_payload envelope list \<Rightarrow> switch_scene_payload list" where
  "switch_payloads es = List.map_filter (\<lambda>e. case ev_payload e of Switch_Scene sp \<Rightarrow> Some sp | _ \<Rightarrow> None) es"

lemma switch_payloads_simps [simp]:
  "switch_payloads [] = []"
  "switch_payloads (e # es) = (case ev_payload e of Switch_Scene sp \<Rightarrow> [sp] | _ \<Rightarrow> []) @ switch_payloads es"
  by (simp_all add: switch_payloads_def map_filter_simps split: event_payload.split)

lemma client_converts:
  assumes "client_codecs unpack denv"
  shows "dc_switch_scene denv (switch_scene_value sp) = Ok sp"
    and "dc_to_value denv p = Ok (client_value p)" and "is_ok (dc_print denv v)"
  using assms by (simp_all add: client_codecs_def flip: result_ok_Some)

lemma acknowledgement_of_switch:
  assumes "client_codecs unpack denv"
  shows "acknowledgement denv (with_value e) =
    (case ev_payload e of Switch_Scene sp \<Rightarrow> Ok (client_result_value (ack_of sp)) | _ \<Rightarrow> acknowledgement denv (with_value e))"
  using client_converts [OF assms]
  by (simp add: acknowledgement_def ack_of_def split: event_payload.split)

lemma switch_type: "well_formed e \<Longrightarrow> ev_type e = ''switch_scene'' \<longleftrightarrow> is_switch (ev_payload e)"
  by (cases "ev_payload e") (simp_all add: well_formed_def)

lemma acknowledgements:
  assumes "client_codecs unpack denv" and "\<forall>e \<in> set es. well_formed e"
  shows "map (acknowledgement denv) (switches (map with_value es))
    = map (\<lambda>sp. Ok (client_result_value (ack_of sp))) (switch_payloads es)"
  using assms(2)
proof (induction es)
  case (Cons e es)
  then show ?case
    using switch_type [of e] acknowledgement_of_switch [OF assms(1), of e]
    by (cases "ev_payload e") (simp_all add: switches_def)
qed (simp add: switches_def)

text \<open>C38. Every scene switch is acknowledged by a development client that was started without
  \<open>--no-auto-ack\<close>: after any number of iterations of a session that began with no switch pending, on a pipe
  that takes every write, such a client, reading what the session wrote, queues one
  \<open>scene_switch_result\<close> for each \<open>switch_scene\<close>, in order, which the core's codec reads as a success
  with the request id of that switch; it queues nothing else and has read the pipe to its end.\<close>

theorem every_switch_acknowledged:
  assumes "core_codecs unpack env" and "client_codecs unpack denv" and "auto_ack denv"
    and "\<forall>q. ie_pipe_write env q = None" and "ds_pending_switch_count debug = 0"
  shows "let s = snd (handle_session_io n env debug seq) in
    \<exists>acks. client_loop denv q (is_evt_bytes s) = (acks, ''early eof'')
       \<and> map (\<lambda>a. scene_switch_result_of (ev_payload a)) acks = map (\<lambda>sp. Some (ack_of sp)) (switch_payloads (is_evt_log s))
       \<and> list_all (\<lambda>a. ev_type a = ''scene_switch_result'' \<and> ev_v a = IPC_PROTOCOL_VERSION) acks"
proof -
  define s where "s = snd (handle_session_io n env debug seq)"
  have wf: "\<forall>e \<in> set (is_evt_log s). well_formed e"
    unfolding s_def by (intro ballI logged_well_formed [OF assms(5)])
  have "reliable env" using assms(4) by (simp add: reliable_def)
  then obtain ps where
    ps: "list_all2 (\<lambda>e p. ie_to_vec_named env e = Ok p \<and> length p \<le> MAX_FRAME_SIZE) (is_evt_log s) ps"
    and bytes: "is_evt_bytes s = concat (map frame_bytes ps)"
    by (rule event_stream_decodes [OF _ s_def])
  let ?ms = "map with_value (is_evt_log s)"
  have "list_all2 (\<lambda>p m. length p \<le> MAX_FRAME_SIZE \<and> dc_from_slice denv p = Ok m) ps ?ms"
    using ps client_reads_core [OF assms(1,2)]
    by (auto simp: list_all2_conv_all_nth)
  moreover have acks: "map (acknowledgement denv) (switches ?ms)
      = map (\<lambda>sp. Ok (client_result_value (ack_of sp))) (switch_payloads (is_evt_log s))"
    by (rule acknowledgements [OF assms(2) wf])
  moreover have "\<forall>m \<in> set (switches ?ms). is_ok (acknowledgement denv m)"
    using arg_cong [OF acks, of "list_all is_ok"] by (simp add: list_all_iff)
  moreover have "\<forall>m \<in> set ?ms. is_ok (dc_print denv (ev_payload m))"
    using client_converts(3) [OF assms(2)] by blast
  ultimately obtain out where out: "client_loop denv q (is_evt_bytes s) = (out, ''early eof'')"
    "map (\<lambda>e. Ok (ev_payload e)) out = map (acknowledgement denv) (switches ?ms)"
    "list_all (\<lambda>e. ev_type e = ''scene_switch_result'' \<and> ev_v e = IPC_PROTOCOL_VERSION) out"
    using dev_client_acknowledges [OF assms(3), of ps ?ms q] unfolding bytes by blast
  have "map ev_payload out = map (client_result_value \<circ> ack_of) (switch_payloads (is_evt_log s))"
    using arg_cong [OF out(2) [unfolded acks], of "map projr"] by (simp add: comp_def)
  then have "map scene_switch_result_of (map ev_payload out) = map (\<lambda>sp. Some (ack_of sp)) (switch_payloads (is_evt_log s))"
    by simp
  with out show ?thesis by (auto simp: comp_def s_def)
qed

section \<open>The command pipe\<close>

definition arrived :: "'v ipc_env \<Rightarrow> ipc_session \<Rightarrow> u8 list" where
  "arrived env s = is_cmd_buf s @ fst (ie_poll env (is_seq s))"

text \<open>A frame of the client that has arrived is the next message of the session.\<close>

lemma client_frame_read:
  assumes "core_codecs unpack env" and "client_codecs unpack denv"
    and "client_write_frame denv k msg = (bytes, Ok ())" and "arrived env s = bytes @ rest"
  shows "read_frame env s = (Some (Ok msg), s\<lparr>is_seq := Suc (is_seq s), is_cmd_buf := rest\<rparr>)"
proof -
  obtain buf where buf: "dc_to_vec_named denv msg = Ok buf" "length buf \<le> MAX_FRAME_SIZE" "bytes = frame_bytes buf"
    using assms(3) by (auto simp: client_write_frame_def frame_bytes_def Let_def split: sum.splits if_splits option.splits)
  with assms(4) core_reads_client [OF assms(1,2) buf(1)] show ?thesis
    by (cases "ie_poll env (is_seq s)") (simp add: read_frame_def arrived_def Let_def)
qed

lemma core_frame_read:
  assumes "core_codecs unpack env" and "client_codecs unpack denv" and "encode_frame env e = Ok p"
  shows "client_read_frame denv (frame_bytes p @ rest) = Ok (with_value e, rest)"
  using assms(3) client_reads_core [OF assms(1,2)]
  by (intro client_reads_frame) (auto simp: encode_frame_def and_then_eq_Ok split: if_splits)

lemma core_converts:
  assumes "core_codecs unpack env"
  shows "ie_hello env (client_hello_value h) = Ok h"
    and "ie_scene_switch_result env (client_result_value r) = Ok r"
  using assms by (simp_all add: core_codecs_def flip: result_ok_Some)

text \<open>What a session sends for a command, what the development client makes of it, and what the session
  makes of the client's answer.\<close>

definition sent_payload :: "'v ipc_env \<Rightarrow> ipc_session \<Rightarrow> core_ipc_command \<Rightarrow> switch_scene_payload" where
  "sent_payload env s cmd = \<lparr>sp_request_id = ie_uuid env (is_seq s), sp_scene_name = cmd_scene_name cmd,
     sp_reason = cmd_reason cmd, sp_deadline_ms = cmd_deadline_ms cmd\<rparr>"

lemma switch_sent:
  assumes "\<forall>q. ie_pipe_write env q = None" and "switch_scene env cmd s = (Proceed, t)"
  obtains p where "encode_frame env (envelope_at env (is_seq s + 2) ''switch_scene'' Critical
      (Switch_Scene (sent_payload env s cmd))) = Ok p"
    and "is_evt_bytes t = is_evt_bytes s @ frame_bytes p"
    and "map_of (is_pending_switches t) (ie_uuid env (is_seq s)) \<noteq> None"
proof -
  note w = write_frame_reliable [of env, OF assms(1) [rule_format]]
  let ?e = "envelope_at env (is_seq s + 2) ''switch_scene'' Critical (Switch_Scene (sent_payload env s cmd))"
  obtain p where p: "encode_frame env ?e = Ok p"
    using assms(2)
    by (cases "encode_frame env ?e") (simp_all add: switch_scene_def sent_payload_def ipc_simps try_io_def Let_def w)
  show thesis
    by (rule that [OF p])
       (use assms(2) p in \<open>auto simp: switch_scene_def sent_payload_def ipc_simps try_io_def Let_def w map_of_update\<close>)
qed

lemma client_answers_switch:
  assumes "client_codecs unpack denv" and "auto_ack denv"
    and "ev_type e = ''switch_scene''" and "ev_payload e = Switch_Scene sp"
  shows "client_on_event denv q (with_value e)
    = Ok [client_envelope denv q ''scene_switch_result'' High (client_result_value (ack_of sp))]"
  using assms(2-) client_converts(1,2) [OF assms(1)] client_converts(3) [OF assms(1), of "switch_scene_value sp"]
  by (cases "dc_print denv (switch_scene_value sp)") (simp_all add: client_on_event_def client_message_def)

lemma answer_resolves:
  assumes "core_codecs unpack env" and "client_codecs unpack denv"
    and "client_write_frame denv k (client_envelope denv q ''scene_switch_result'' High
      (client_result_value (ack_of sp))) = (bytes, Ok ())"
    and "arrived env u = bytes @ rest" and "map_of (is_pending_switches u) (sp_request_id sp) \<noteq> None"
  shows "\<exists>v. poll_command env u = (Proceed, v) \<and> is_cmd_buf v = rest
    \<and> map_of (is_pending_switches v) = (map_of (is_pending_switches u))(sp_request_id sp := None)
    \<and> map_option (\<lambda>r. (rd_request_id r, rd_status r)) (ds_last_switch_result (is_debug v)) = Some (sp_request_id sp, ''ok'')"
  using client_frame_read [OF assms(1-4)] assms(5) core_converts(2) [OF assms(1)]
  by (auto simp: poll_command_def dispatch_def client_envelope_def on_scene_switch_result_def with_payload_def
      decode_payload_def resolve_switch_def ack_of_def ipc_simps Let_def map_of_delete_eq)

text \<open>A scene switch goes all the way round, on the bytes of the pipes: when the session has sent one,
  the frame it added to the event pipe is read by the development client, which answers it with one
  message; and whenever the frame of that answer is the next on the command pipe of a session in which
  the request is still pending, the session takes exactly its bytes, resolves exactly that request, as
  successful, and goes on.\<close>

theorem switch_goes_round:
  assumes "core_codecs unpack env" and "client_codecs unpack denv" and "auto_ack denv"
    and "\<forall>q. ie_pipe_write env q = None" and "switch_scene env cmd s = (Proceed, t)"
  shows "\<exists>frame rid. is_evt_bytes t = is_evt_bytes s @ frame \<and> map_of (is_pending_switches t) rid \<noteq> None
    \<and> (\<forall>rest q. \<exists>msg ack. client_read_frame denv (frame @ rest) = Ok (msg, rest)
        \<and> client_on_event denv q msg = Ok [ack]
        \<and> (\<forall>k bytes u rest'. client_write_frame denv k ack = (bytes, Ok ()) \<and> arrived env u = bytes @ rest'
              \<and> map_of (is_pending_switches u) rid \<noteq> None \<longrightarrow>
            (\<exists>v. poll_command env u = (Proceed, v) \<and> is_cmd_buf v = rest'
              \<and> map_of (is_pending_switches v) = (map_of (is_pending_switches u))(rid := None)
              \<and> map_option (\<lambda>r. (rd_request_id r, rd_status r)) (ds_last_switch_result (is_debug v)) = Some (rid, ''ok''))))"
proof -
  let ?sp = "sent_payload env s cmd"
  obtain p where p: "encode_frame env (envelope_at env (is_seq s + 2) ''switch_scene'' Critical (Switch_Scene ?sp)) = Ok p"
    and t: "is_evt_bytes t = is_evt_bytes s @ frame_bytes p" "map_of (is_pending_switches t) (sp_request_id ?sp) \<noteq> None"
    using switch_sent [OF assms(4,5)] by (auto simp: sent_payload_def)
  show ?thesis
    by (intro exI conjI allI, rule t, rule t, rule core_frame_read [OF assms(1,2) p],
        rule client_answers_switch [OF assms(2,3)], simp, simp)
       (intro impI, elim conjE, rule answer_resolves [OF assms(1,2)])
qed

definition core_hello_ack :: "'v ipc_env \<Rightarrow> hello_ack_payload" where
  "core_hello_ack env = \<lparr>ha_core_version = ie_core_version env, ha_protocol_version = IPC_PROTOCOL_VERSION,
     ha_capabilities = [''state_machine'', ''aegis'', ''ipc_stub'']\<rparr>"

text \<open>C28. The handshake over the wire, if the event pipe takes every write and the \<open>hello_ack\<close> can be
  encoded: when the first message of the development client is the next frame
  on the command pipe of a session, the session takes exactly its bytes, completes the handshake, and adds
  one frame to the event pipe, which the client reads as a \<open>hello_ack\<close> with the core's version and
  protocol.\<close>

theorem handshake_over_the_wire:
  assumes "core_codecs unpack env" and "client_codecs unpack denv" and "\<forall>q. ie_pipe_write env q = None"
    and "client_start denv = (hello # others, err)"
    and "client_write_frame denv k hello = (bytes, Ok ())" and "arrived env s = bytes @ rest"
    and "\<forall>q. is_ok (encode_frame env (envelope_at env q ''hello_ack'' High (Hello_Ack (core_hello_ack env))))"
  shows "\<exists>t frame msg. poll_command env s = (Proceed, t) \<and> is_handshake_complete t \<and> is_cmd_buf t = rest
    \<and> is_evt_bytes t = is_evt_bytes s @ frame \<and> client_read_frame denv frame = Ok (msg, [])
    \<and> event_of (ev_type msg) (ev_payload msg) = Some (Hello_Ack (core_hello_ack env))"
proof -
  let ?h = "\<lparr>hp_plugin_version = ''ipc-dev-client'', hp_protocol_version = IPC_PROTOCOL_VERSION,
      hp_obs_pid = dc_pid denv, hp_capabilities = [''scene_switch'', ''dock'', ''restart_hint'']\<rparr>"
  have hello: "hello = client_envelope denv 0 ''hello'' High (client_hello_value ?h)"
    using assms(4) client_converts(2) [OF assms(2)]
    by (auto simp: client_start_def client_hello_def client_message_def split: sum.splits if_splits)
  let ?a = "core_hello_ack env"
  let ?e = "envelope_at env (Suc (is_seq s)) ''hello_ack'' High (Hello_Ack ?a)"
  obtain p where p: "encode_frame env ?e = Ok p"
    using assms(7) by (cases "encode_frame env ?e") (metis is_ok_simps(2), blast)
  have w: "write_frame env e u = (case encode_frame env e of Err err \<Rightarrow> (Err err, u)
      | Ok payload \<Rightarrow> (Ok (), u\<lparr>is_seq := is_seq u + 3, is_evt_bytes := is_evt_bytes u @ frame_bytes payload,
         is_evt_log := is_evt_log u @ [e]\<rparr>))" for e u
    by (rule write_frame_reliable) (simp add: assms(3))
  have "\<exists>t. poll_command env s = (Proceed, t) \<and> is_handshake_complete t \<and> is_cmd_buf t = rest
    \<and> is_evt_bytes t = is_evt_bytes s @ frame_bytes p"
    using client_frame_read [OF assms(1,2,5,6)] p core_converts(1) [OF assms(1), of ?h]
    by (simp add: poll_command_def dispatch_def hello client_envelope_def on_hello_def with_payload_def
        decode_payload_def ipc_simps w try_io_def Let_def core_hello_ack_def)
  moreover have "client_read_frame denv (frame_bytes p) = Ok (with_value ?e, [])"
    using core_frame_read [OF assms(1,2) p, of "[]"] by simp
  moreover have "event_of ''hello_ack'' (hello_ack_value ?a) = Some (Hello_Ack ?a)"
    using event_of_value [of "Hello_Ack ?a"] by simp
  ultimately show ?thesis by (fastforce intro!: exI [of _ "with_value ?e"])
qed

section \<open>An instance\<close>

text \<open>Libraries that know four texts: the \<open>hello_ack\<close> and the \<open>switch_scene\<close> of a session in which no time
  passes and every identifier is the same, and the \<open>hello\<close> and the acknowledgement of a client.\<close>

definition the_ack :: "event_payload envelope" where
  "the_ack = \<lparr>ev_v = 1, ev_id = ''i'', ev_ts_unix_ms = 0, ev_type = ''hello_ack'', ev_priority = High,
     ev_payload = Hello_Ack \<lparr>ha_core_version = ''0.1.0'', ha_protocol_version = 1,
       ha_capabilities = [''state_machine'', ''aegis'', ''ipc_stub'']\<rparr>\<rparr>"

definition the_payload :: switch_scene_payload where
  "the_payload = \<lparr>sp_request_id = ''i'', sp_scene_name = ''A'', sp_reason = ''manual_debug'', sp_deadline_ms = 550\<rparr>"

definition the_switch :: "event_payload envelope" where
  "the_switch = \<lparr>ev_v = 1, ev_id = ''i'', ev_ts_unix_ms = 0, ev_type = ''switch_scene'',
     ev_priority = Critical, ev_payload = Switch_Scene the_payload\<rparr>"

definition the_hello :: "json envelope" where
  "the_hello = \<lparr>ev_v = 1, ev_id = ''c'', ev_ts_unix_ms = 0, ev_type = ''hello'', ev_priority = High,
     ev_payload = client_hello_value \<lparr>hp_plugin_version = ''ipc-dev-client'', hp_protocol_version = 1,
       hp_obs_pid = 7, hp_capabilities = [''scene_switch'', ''dock'', ''restart_hint'']\<rparr>\<rparr>"

definition the_result :: "json envelope" where
  "the_result = \<lparr>ev_v = 1, ev_id = ''c'', ev_ts_unix_ms = 0, ev_type = ''scene_switch_result'',
     ev_priority = High, ev_payload = client_result_value (ack_of the_payload)\<rparr>"

definition sample_unpack :: "u8 list \<Rightarrow> json option" where
  "sample_unpack bs =
     (if bs = [1] then Some (envelope_value event_value the_ack)
      else if bs = [2] then Some (envelope_value event_value the_switch)
      else if bs = [3] then Some (client_envelope_value the_hello)
      else if bs = [4] then Some (client_envelope_value the_result)
      else None)"

definition wire_core_env :: "json ipc_env" where
  "wire_core_env =
     \<lparr>ie_instant = (\<lambda>_. 0), ie_unix_ms = (\<lambda>_. 0), ie_uuid = (\<lambda>_. ''i''),
      ie_try_recv = (\<lambda>_. [SwitchScene ''A'' ''manual_debug'' 550]),
      ie_frame = (\<lambda>_. telemetry_frame_default), ie_relay = (\<lambda>_. None), ie_hash_order = (\<lambda>_ m. m),
      ie_poll = (\<lambda>_. (frame_bytes [3], Elapsed)), ie_pipe_write = (\<lambda>_. None), ie_accept = (\<lambda>_. None),
      ie_core_version = ''0.1.0'',
      ie_from_slice = (\<lambda>bs. ok_or (Option.bind (sample_unpack bs) (envelope_of Some)) ''invalid''),
      ie_to_vec_named = (\<lambda>e. if e = the_switch then Ok [2] else if e = the_ack then Ok [1] else Err ''unknown''),
      ie_hello = (\<lambda>v. ok_or (hello_of v) ''invalid''), ie_ping = (\<lambda>v. ok_or (ping_of v) ''invalid''),
      ie_request_status = (\<lambda>v. ok_or (request_status_of v) ''invalid''),
      ie_set_mode = (\<lambda>v. ok_or (set_mode_request_of v) ''invalid''),
      ie_set_setting = (\<lambda>v. ok_or (set_setting_request_of v) ''invalid''),
      ie_scene_switch_result = (\<lambda>v. ok_or (scene_switch_result_of v) ''invalid''),
      ie_obs_shutdown_notice = (\<lambda>v. ok_or (obs_shutdown_notice_of v) ''invalid'')\<rparr>"

definition wire_dev_env :: "json dev_env" where
  "wire_dev_env =
     \<lparr>dc_args = [], dc_pid = 7, dc_uuid = (\<lambda>_. ''c''), dc_unix_ms = (\<lambda>_. 0), dc_open = (\<lambda>_. (True, True)),
      dc_write = (\<lambda>_. None), dc_null = JNull, dc_to_value = (\<lambda>p. Ok (client_value p)), dc_print = (\<lambda>_. Ok ''''),
      dc_switch_scene = (\<lambda>v. ok_or (client_switch_scene_of v) ''invalid''),
      dc_from_slice = (\<lambda>bs. ok_or (Option.bind (sample_unpack bs) client_envelope_of) ''invalid''),
      dc_to_vec_named = (\<lambda>m. if m = the_hello then Ok [3] else if m = the_result then Ok [4] else Err ''unknown'')\<rparr>"

lemma sample_core_codecs: "core_codecs sample_unpack wire_core_env"
  by (simp add: core_codecs_def wire_core_env_def sample_unpack_def)

lemma sample_client_codecs: "client_codecs sample_unpack wire_dev_env"
  by (simp add: client_codecs_def wire_dev_env_def sample_unpack_def)

lemma wire_env_sel [simp]:
  "ie_pipe_write wire_core_env q = None" "ie_instant wire_core_env q = 0" "ie_unix_ms wire_core_env q = 0"
  "ie_uuid wire_core_env q = ''i''" "ie_core_version wire_core_env = ''0.1.0''" "auto_ack wire_dev_env"
  "ie_try_recv wire_core_env q = [SwitchScene ''A'' ''manual_debug'' 550]"
  by (simp_all add: wire_core_env_def wire_dev_env_def auto_ack_def)

lemma sample_hello_frame: "client_write_frame wire_dev_env k the_hello = (frame_bytes [3], Ok ())"
  by (simp add: client_write_frame_def wire_dev_env_def frame_bytes_def MAX_FRAME_SIZE_def)

lemma sample_start: "\<exists>others err. client_start wire_dev_env = (the_hello # others, err)"
  by (simp add: client_start_def client_hello_def client_message_def client_envelope_def wire_dev_env_def
      the_hello_def IPC_PROTOCOL_VERSION_def)

lemma sample_encodes:
  "encode_frame wire_core_env the_ack = Ok [1]" "encode_frame wire_core_env the_switch = Ok [2]"
  by (simp_all add: encode_frame_def wire_core_env_def MAX_FRAME_SIZE_def the_ack_def the_switch_def)

lemma sample_writes:
  "write_frame wire_core_env the_ack s = (Ok (), s\<lparr>is_seq := is_seq s + 3,
     is_evt_bytes := is_evt_bytes s @ frame_bytes [1], is_evt_log := is_evt_log s @ [the_ack]\<rparr>)"
  "write_frame wire_core_env the_switch s = (Ok (), s\<lparr>is_seq := is_seq s + 3,
     is_evt_bytes := is_evt_bytes s @ frame_bytes [2], is_evt_log := is_evt_log s @ [the_switch]\<rparr>)"
  "e \<noteq> the_ack \<Longrightarrow> e \<noteq> the_switch \<Longrightarrow>
     write_frame wire_core_env e s = (Err (io_err InvalidData ''encode failed: unknown''), s)"
  by (simp_all add: write_frame_reliable sample_encodes)
     (simp add: encode_frame_def wire_core_env_def)

lemma sample_envelopes:
  "envelope_at wire_core_env q ''hello_ack'' High (Hello_Ack (core_hello_ack wire_core_env)) = the_ack"
  "envelope_at wire_core_env q ''switch_scene'' Critical (Switch_Scene the_payload) = the_switch"
  by (simp_all add: envelope_at_def the_ack_def the_switch_def core_hello_ack_def IPC_PROTOCOL_VERSION_def)

lemma sample_switch_scene:
  "\<exists>t. switch_scene wire_core_env (SwitchScene ''A'' ''manual_debug'' 550) s = (Proceed, t)
     \<and> is_evt_log t = is_evt_log s @ [the_switch] \<and> is_handshake_complete t = is_handshake_complete s
     \<and> is_last_status_push_at t = is_last_status_push_at s
     \<and> is_pending_switches t = AList.update ''i'' \<lparr>ps_scene_name = ''A'', ps_deadline_at = 550 * 10 ^ 6\<rparr> (is_pending_switches s)"
  using sample_envelopes(2)
  by (simp add: switch_scene_def ipc_simps Let_def the_payload_def sample_writes try_io_def from_millis_def)

lemma sample_read:
  "is_cmd_buf s = [] \<Longrightarrow> read_frame wire_core_env s = (Some (Ok the_hello), s\<lparr>is_seq := Suc (is_seq s), is_cmd_buf := []\<rparr>)"
  by (rule client_frame_read [OF sample_core_codecs sample_client_codecs sample_hello_frame [of 0]])
     (simp add: arrived_def wire_core_env_def)

lemma sample_on_hello:
  "\<exists>t. dispatch wire_core_env the_hello s = (Proceed, t) \<and> is_handshake_complete t
     \<and> is_evt_log t = is_evt_log s @ [the_ack] \<and> is_pending_switches t = is_pending_switches s
     \<and> is_last_status_push_at t = - (10 ^ 9)"
proof -
  have "ie_hello wire_core_env (ev_payload the_hello) = Ok \<lparr>hp_plugin_version = ''ipc-dev-client'',
      hp_protocol_version = 1, hp_obs_pid = 7, hp_capabilities = [''scene_switch'', ''dock'', ''restart_hint'']\<rparr>"
    using core_converts(1) [OF sample_core_codecs] by (simp add: the_hello_def)
  moreover have "ev_v the_hello = IPC_PROTOCOL_VERSION" "ev_type the_hello = ''hello''"
    by (simp_all add: the_hello_def IPC_PROTOCOL_VERSION_def)
  ultimately show ?thesis
    using sample_envelopes(1)
    by (simp add: dispatch_def on_hello_def with_payload_def decode_payload_def ipc_simps try_io_def Let_def
        core_hello_ack_def sample_writes IPC_PROTOCOL_VERSION_def STATUS_PUSH_INTERVAL_def from_millis_def)
qed

lemma sample_first:
  "\<exists>t. session_iteration wire_core_env (session_start wire_core_env new_debug_status 0) = (Proceed, t)
     \<and> is_handshake_complete t \<and> is_evt_log t = [the_ack] \<and> is_pending_switches t = []
     \<and> is_last_status_push_at t = - (10 ^ 9)"
proof -
  let ?s = "(session_start wire_core_env new_debug_status 0)\<lparr>is_seq := 3\<rparr>"
  have "session_iteration wire_core_env (session_start wire_core_env new_debug_status 0) = poll_command wire_core_env ?s"
    by (simp add: session_iteration_def and_proceed_def drain_commands_def session_start_def expire_pending_def
        push_status_def heartbeat_check_def numeral_3_eq_3)
  also have "\<dots> = dispatch wire_core_env the_hello (?s\<lparr>is_seq := 4\<rparr>)"
    by (simp add: poll_command_def sample_read session_start_def)
  finally show ?thesis
    using sample_on_hello [of "?s\<lparr>is_seq := 4\<rparr>"] by (simp add: session_start_def)
qed

lemma sample_push:
  assumes "is_handshake_complete s" and "is_last_status_push_at s = - (10 ^ 9)"
  shows "\<exists>err t. push_status wire_core_env s = (Return (Err err), t) \<and> is_evt_log t = is_evt_log s"
proof -
  have "envelope_at wire_core_env q ''status_snapshot'' Normal x \<noteq> the_ack"
    "envelope_at wire_core_env q ''status_snapshot'' Normal x \<noteq> the_switch" for q x
    by (simp_all add: envelope_at_def the_ack_def the_switch_def)
  note fails = sample_writes(3) [OF this]
  show ?thesis
    using assms
    by (simp add: push_status_def duration_since_def STATUS_PUSH_INTERVAL_def from_millis_def send_status_def
        ipc_simps try_io_def Let_def fails)
qed

lemma sample_second:
  assumes "is_handshake_complete s" and "is_evt_log s = [the_ack]" and "is_pending_switches s = []"
    and "is_last_status_push_at s = - (10 ^ 9)"
  shows "\<exists>err t. session_iteration wire_core_env s = (Return (Err err), t) \<and> is_evt_log t = [the_ack, the_switch]"
proof -
  obtain u where u: "switch_scene wire_core_env (SwitchScene ''A'' ''manual_debug'' 550) (s\<lparr>is_seq := Suc (is_seq s)\<rparr>) = (Proceed, u)"
    "is_evt_log u = [the_ack, the_switch]" "is_handshake_complete u" "is_last_status_push_at u = - (10 ^ 9)"
    "is_pending_switches u = [(''i'', \<lparr>ps_scene_name = ''A'', ps_deadline_at = 550 * 10 ^ 6\<rparr>)]"
    using sample_switch_scene [of "s\<lparr>is_seq := Suc (is_seq s)\<rparr>"] assms by auto
  then have drain: "drain_commands wire_core_env s = (Proceed, u)"
    using assms(1) by (simp add: drain_commands_def and_proceed_def)
  have "ie_hash_order wire_core_env q m = m" for q m by (simp add: wire_core_env_def)
  then have "expire_pending wire_core_env u = u\<lparr>is_seq := Suc (Suc (is_seq u))\<rparr>"
    by (simp add: expire_pending_def expired_ids_def u(5) Let_def)
  with drain u sample_push [of "u\<lparr>is_seq := Suc (Suc (is_seq u))\<rparr>"] show ?thesis
    by (auto simp: session_iteration_def and_proceed_def)
qed

lemma sample_log:
  "is_evt_log (snd (handle_session_io 2 wire_core_env new_debug_status 0)) = [the_ack, the_switch]"
proof -
  obtain t where t: "session_iteration wire_core_env (session_start wire_core_env new_debug_status 0) = (Proceed, t)"
    "is_handshake_complete t" "is_evt_log t = [the_ack]" "is_pending_switches t = []" "is_last_status_push_at t = - (10 ^ 9)"
    using sample_first by blast
  with sample_second [OF t(2-5)] show ?thesis
    by (auto simp: handle_session_io_def numeral_2_eq_2 and_proceed_def)
qed

lemma sample_reliable: "\<forall>q. ie_pipe_write wire_core_env q = None" by simp

lemma sample_idle: "ds_pending_switch_count new_debug_status = 0" by (simp add: new_debug_status_def)

theorem event_pipe_carries_messages_witness:
  "\<exists>p1 p2. get_all get_raw 3 (is_evt_bytes (snd (handle_session_io 2 wire_core_env new_debug_status 0))) = ([p1, p2], [])
     \<and> (\<exists>m. dc_from_slice wire_dev_env p2 = Ok m \<and> event_of (ev_type m) (ev_payload m) = Some (Switch_Scene the_payload))"
proof -
  obtain ps where ps: "get_all get_raw (Suc (length ps)) (is_evt_bytes (snd (handle_session_io 2 wire_core_env new_debug_status 0))) = (ps, [])"
    "list_all2 (\<lambda>e p. length p \<le> MAX_FRAME_SIZE \<and> (\<exists>m. dc_from_slice wire_dev_env p = Ok m \<and> ev_type m = ev_type e
       \<and> event_of (ev_type m) (ev_payload m) = Some (ev_payload e))) [the_ack, the_switch] ps"
    using event_pipe_carries_messages [OF sample_core_codecs sample_client_codecs sample_reliable sample_idle, of 2 0]
    unfolding Let_def sample_log by blast
  obtain p1 p2 where two: "ps = [p1, p2]"
    using ps(2) by (auto simp: list_all2_Cons1)
  have "get_all get_raw 3 (is_evt_bytes (snd (handle_session_io 2 wire_core_env new_debug_status 0))) = ([p1, p2], [])"
    using ps(1) unfolding two by (simp add: numeral_3_eq_3 numeral_2_eq_2 del: get_all.simps)
  moreover have "\<exists>m. dc_from_slice wire_dev_env p2 = Ok m \<and> event_of (ev_type m) (ev_payload m) = Some (ev_payload the_switch)"
    using ps(2) unfolding two list_all2_Cons by blast
  ultimately show ?thesis
    by - (rule exI [of _ p1], rule exI [of _ p2], rule conjI, simp_all add: the_switch_def)
qed

theorem every_switch_acknowledged_witness:
  "\<exists>a. client_loop wire_dev_env 0 (is_evt_bytes (snd (handle_session_io 2 wire_core_env new_debug_status 0))) = ([a], ''early eof'')
     \<and> scene_switch_result_of (ev_payload a) = Some \<lparr>sr_request_id = ''i'', sr_ok = True, sr_error = None\<rparr>"
proof -
  have p: "switch_payloads [the_ack, the_switch] = [the_payload]"
    by (simp add: the_ack_def the_switch_def)
  show ?thesis
    using every_switch_acknowledged [OF sample_core_codecs sample_client_codecs wire_env_sel(6) sample_reliable
        sample_idle, of 2 0 0]
    unfolding sample_log Let_def p by (auto simp: ack_of_def the_payload_def)
qed

theorem switch_goes_round_witness:
  "\<exists>t frame rid msg. switch_scene wire_core_env (SwitchScene ''A'' ''manual_debug'' 550)
       (session_start wire_core_env new_debug_status 0) = (Proceed, t)
     \<and> is_evt_bytes t = frame \<and> map_of (is_pending_switches t) rid \<noteq> None
     \<and> client_read_frame wire_dev_env frame = Ok (msg, [])"
proof -
  obtain t where t: "switch_scene wire_core_env (SwitchScene ''A'' ''manual_debug'' 550)
      (session_start wire_core_env new_debug_status 0) = (Proceed, t)"
    using sample_switch_scene by blast
  from switch_goes_round [OF sample_core_codecs sample_client_codecs wire_env_sel(6) sample_reliable t]
  obtain frame rid where "is_evt_bytes t = is_evt_bytes (session_start wire_core_env new_debug_status 0) @ frame"
    "map_of (is_pending_switches t) rid \<noteq> None"
    "\<exists>msg. client_read_frame wire_dev_env (frame @ []) = Ok (msg, [])"
    by meson
  with t show ?thesis by (auto simp: session_start_def)
qed

theorem handshake_over_the_wire_witness:
  "\<exists>t frame msg. poll_command wire_core_env (session_start wire_core_env new_debug_status 0) = (Proceed, t)
     \<and> is_handshake_complete t \<and> is_evt_bytes t = frame \<and> client_read_frame wire_dev_env frame = Ok (msg, [])"
proof -
  let ?s = "session_start wire_core_env new_debug_status 0"
  obtain others err where st: "client_start wire_dev_env = (the_hello # others, err)"
    using sample_start by blast
  have a: "arrived wire_core_env ?s = frame_bytes [3] @ []"
    by (simp add: arrived_def session_start_def wire_core_env_def)
  have e: "\<forall>q. is_ok (encode_frame wire_core_env
      (envelope_at wire_core_env q ''hello_ack'' High (Hello_Ack (core_hello_ack wire_core_env))))"
    by (simp add: sample_envelopes sample_encodes)
  from handshake_over_the_wire [OF sample_core_codecs sample_client_codecs sample_reliable st
      sample_hello_frame [of 0] a e]
  show ?thesis by (elim exE conjE) (intro exI conjI, assumption+, simp add: session_start_def)
qed

end
