(* ===== verification/Config_Wire.thy ===== *)
theory Config_Wire
  imports Serde App_Config
begin

text \<open>
  What a configuration file says: the derived codecs of the structs of \<open>src/config/mod.rs\<close>. Every struct is
  \<open>#[serde(default)]\<close>, so a missing key takes the value it has in the default of its struct; TOML has no null,
  so an optional value that is not there is left out. What remains of the TOML library is how a text is
  read as a tree of values.
\<close>

section \<open>The codecs\<close>

definition obs_config_value :: "obs_config \<Rightarrow> json" where
  "obs_config_value x = object
     ([(''host'', JString (oc_host x)),
       (''port'', to_word (oc_port x))]
      @ unless_none ''password_key'' JString (oc_password_key x)
      @ [(''auto_detect_process'', JBool (oc_auto_detect_process x)),
       (''process_name'', JString (oc_process_name x))])"

definition obs_config_of :: "json \<Rightarrow> obs_config option" where
  "obs_config_of = struct 5 (\<lambda>v. do {
       host \<leftarrow> defaulted (oc_host obs_config_default) 0 ''host'' of_string v;
       port \<leftarrow> defaulted (oc_port obs_config_default) 1 ''port'' of_word v;
       password_key \<leftarrow> defaulted (oc_password_key obs_config_default) 2 ''password_key'' (of_option of_string) v;
       auto_detect_process \<leftarrow> defaulted (oc_auto_detect_process obs_config_default) 3 ''auto_detect_process'' of_bool v;
       process_name \<leftarrow> defaulted (oc_process_name obs_config_default) 4 ''process_name'' of_string v;
       Some \<lparr>oc_host = host, oc_port = port, oc_password_key = password_key,
         oc_auto_detect_process = auto_detect_process, oc_process_name = process_name\<rparr>
     })"

definition server_config_value :: "server_config \<Rightarrow> json" where
  "server_config_value x = object
     ([(''port'', to_word (sv_port x))]
      @ unless_none ''token'' JString (sv_token x))"

definition server_config_of :: "json \<Rightarrow> server_config option" where
  "server_config_of = struct 2 (\<lambda>v. do {
       port \<leftarrow> defaulted (sv_port server_config_default) 0 ''port'' of_word v;
       token \<leftarrow> defaulted (sv_token server_config_default) 1 ''token'' (of_option of_string) v;
       Some \<lparr>sv_port = port, sv_token = token\<rparr>
     })"

definition vault_config_value :: "vault_config \<Rightarrow> json" where
  "vault_config_value x = object
     (unless_none ''path'' JString (vc_path x))"

definition vault_config_of :: "json \<Rightarrow> vault_config option" where
  "vault_config_of = struct 1 (\<lambda>v. do {
       path \<leftarrow> defaulted None 0 ''path'' (of_option of_string) v;
       Some \<lparr>vc_path = path\<rparr>
     })"

definition grafana_config_value :: "grafana_config \<Rightarrow> json" where
  "grafana_config_value x = object
     ([(''enabled'', JBool (gc_enabled x))]
      @ unless_none ''endpoint'' JString (gc_endpoint x)
      @ [(''auth_header'', JString (gc_auth_header x))]
      @ unless_none ''auth_value_key'' JString (gc_auth_value_key x)
      @ [(''push_interval_ms'', to_word (gc_push_interval_ms x))])"

definition grafana_config_of :: "json \<Rightarrow> grafana_config option" where
  "grafana_config_of = struct 5 (\<lambda>v. do {
       enabled \<leftarrow> defaulted (gc_enabled grafana_config_default) 0 ''enabled'' of_bool v;
       endpoint \<leftarrow> defaulted (gc_endpoint grafana_config_default) 1 ''endpoint'' (of_option of_string) v;
       auth_header \<leftarrow> defaulted (gc_auth_header grafana_config_default) 2 ''auth_header'' of_string v;
       auth_value_key \<leftarrow> defaulted (gc_auth_value_key grafana_config_default) 3 ''auth_value_key'' (of_option of_string) v;
       push_interval_ms \<leftarrow> defaulted (gc_push_interval_ms grafana_config_default) 4 ''push_interval_ms'' of_word v;
       Some \<lparr>gc_enabled = enabled, gc_endpoint = endpoint, gc_auth_header = auth_header,
         gc_auth_value_key = auth_value_key, gc_push_interval_ms = push_interval_ms\<rparr>
     })"

definition aegis_config_value :: "aegis_config \<Rightarrow> json" where
  "aegis_config_value x = object
     ([(''enabled'', JBool (ac_enabled x))]
      @ unless_none ''base_url'' JString (ac_base_url x)
      @ unless_none ''access_jwt_key'' JString (ac_access_jwt_key x))"

definition aegis_config_of :: "json \<Rightarrow> aegis_config option" where
  "aegis_config_of = struct 3 (\<lambda>v. do {
       enabled \<leftarrow> defaulted (ac_enabled aegis_config_default) 0 ''enabled'' of_bool v;
       base_url \<leftarrow> defaulted (ac_base_url aegis_config_default) 1 ''base_url'' (of_option of_string) v;
       access_jwt_key \<leftarrow> defaulted (ac_access_jwt_key aegis_config_default) 2 ''access_jwt_key'' (of_option of_string) v;
       Some \<lparr>ac_enabled = enabled, ac_base_url = base_url,
         ac_access_jwt_key = access_jwt_key\<rparr>
     })"

definition network_config_value :: "network_config \<Rightarrow> json" where
  "network_config_value x = object
     [(''latency_target'', JString (nc_latency_target x))]"

definition network_config_of :: "json \<Rightarrow> network_config option" where
  "network_config_of = struct 1 (\<lambda>v. do {
       latency_target \<leftarrow> defaulted (nc_latency_target network_config_default) 0 ''latency_target'' of_string v;
       Some \<lparr>nc_latency_target = latency_target\<rparr>
     })"

definition startup_config_value :: "startup_config \<Rightarrow> json" where
  "startup_config_value x = object
     [(''enable_autostart'', JBool (su_enable_autostart x)),
      (''app_name'', JString (su_app_name x))]"

definition startup_config_of :: "json \<Rightarrow> startup_config option" where
  "startup_config_of = struct 2 (\<lambda>v. do {
       enable_autostart \<leftarrow> defaulted (su_enable_autostart startup_config_default) 0 ''enable_autostart'' of_bool v;
       app_name \<leftarrow> defaulted (su_app_name startup_config_default) 1 ''app_name'' of_string v;
       Some \<lparr>su_enable_autostart = enable_autostart, su_app_name = app_name\<rparr>
     })"

definition tray_config_value :: "tray_config \<Rightarrow> json" where
  "tray_config_value x = object
     [(''enable'', JBool (tc_enable x))]"

definition tray_config_of :: "json \<Rightarrow> tray_config option" where
  "tray_config_of = struct 1 (\<lambda>v. do {
       enable \<leftarrow> defaulted (tc_enable tray_config_default) 0 ''enable'' of_bool v;
       Some \<lparr>tc_enable = enable\<rparr>
     })"

definition theme_config_value :: "theme_config \<Rightarrow> json" where
  "theme_config_value x = object
     [(''font_family'', JString (th_font_family x)),
      (''bg'', JString (th_bg x)),
      (''panel'', JString (th_panel x)),
      (''muted'', JString (th_muted x)),
      (''good'', JString (th_good x)),
      (''warn'', JString (th_warn x)),
      (''bad'', JString (th_bad x)),
      (''line'', JString (th_line x))]"

definition theme_config_of :: "json \<Rightarrow> theme_config option" where
  "theme_config_of = struct 8 (\<lambda>v. do {
       font_family \<leftarrow> defaulted (th_font_family theme_config_default) 0 ''font_family'' of_string v;
       bg \<leftarrow> defaulted (th_bg theme_config_default) 1 ''bg'' of_string v;
       panel \<leftarrow> defaulted (th_panel theme_config_default) 2 ''panel'' of_string v;
       muted \<leftarrow> defaulted (th_muted theme_config_default) 3 ''muted'' of_string v;
       good \<leftarrow> defaulted (th_good theme_config_default) 4 ''good'' of_string v;
       warn \<leftarrow> defaulted (th_warn theme_config_default) 5 ''warn'' of_string v;
       bad \<leftarrow> defaulted (th_bad theme_config_default) 6 ''bad'' of_string v;
       line \<leftarrow> defaulted (th_line theme_config_default) 7 ''line'' of_string v;
       Some \<lparr>th_font_family = font_family, th_bg = bg, th_panel = panel, th_muted = muted,
         th_good = good, th_warn = warn, th_bad = bad, th_line = line\<rparr>
     })"

text \<open>A map of strings, its entries ordered by key.\<close>

fun names_of :: "json \<Rightarrow> (string \<times> string) list option" where
  "names_of (JObject m) = those (map (\<lambda>(k, v). map_option (Pair k) (of_string v)) m)"
| "names_of _ = None"

definition names_value :: "(string \<times> string) list \<Rightarrow> json" where
  "names_value names = object (map (apsnd JString) names)"

definition config_value :: "config \<Rightarrow> json" where
  "config_value c = object
     [(''obs'', obs_config_value (cf_obs c)),
      (''server'', server_config_value (cf_server c)),
      (''vault'', vault_config_value (cf_vault c)),
      (''grafana'', grafana_config_value (cf_grafana c)),
      (''aegis'', aegis_config_value (cf_aegis c)),
      (''network'', network_config_value (cf_network c)),
      (''startup'', startup_config_value (cf_startup c)),
      (''tray'', tray_config_value (cf_tray c)),
      (''theme'', theme_config_value (cf_theme c)),
      (''output_names'', names_value (cf_output_names c))]"

definition config_of :: "json \<Rightarrow> config option" where
  "config_of = struct 10 (\<lambda>v. do {
       obs \<leftarrow> defaulted (cf_obs config_default) 0 ''obs'' obs_config_of v;
       server \<leftarrow> defaulted (cf_server config_default) 1 ''server'' server_config_of v;
       vault \<leftarrow> defaulted (cf_vault config_default) 2 ''vault'' vault_config_of v;
       grafana \<leftarrow> defaulted (cf_grafana config_default) 3 ''grafana'' grafana_config_of v;
       aegis \<leftarrow> defaulted (cf_aegis config_default) 4 ''aegis'' aegis_config_of v;
       network \<leftarrow> defaulted (cf_network config_default) 5 ''network'' network_config_of v;
       startup \<leftarrow> defaulted (cf_startup config_default) 6 ''startup'' startup_config_of v;
       tray \<leftarrow> defaulted (cf_tray config_default) 7 ''tray'' tray_config_of v;
       theme \<leftarrow> defaulted (cf_theme config_default) 8 ''theme'' theme_config_of v;
       output_names \<leftarrow> defaulted (cf_output_names config_default) 9 ''output_names'' names_of v;
       Some \<lparr>cf_obs = obs, cf_server = server, cf_vault = vault, cf_grafana = grafana,
         cf_aegis = aegis, cf_network = network, cf_startup = startup, cf_tray = tray,
         cf_theme = theme, cf_output_names = output_names\<rparr>
     })"

section \<open>Round trips\<close>

lemmas default_defs = obs_config_default_def server_config_default_def grafana_config_default_def
  aegis_config_default_def

interpretation obs_config: plain_codec obs_config_value obs_config_of
  by unfold_locales (simp_all add: obs_config_value_def obs_config_of_def serde default_defs)

interpretation server_config: plain_codec server_config_value server_config_of
  by unfold_locales (simp_all add: server_config_value_def server_config_of_def serde default_defs)

interpretation vault_config: plain_codec vault_config_value vault_config_of
  by unfold_locales (simp_all add: vault_config_value_def vault_config_of_def serde default_defs)

interpretation grafana_config: plain_codec grafana_config_value grafana_config_of
  by unfold_locales (simp_all add: grafana_config_value_def grafana_config_of_def serde default_defs)

interpretation aegis_config: plain_codec aegis_config_value aegis_config_of
  by unfold_locales (simp_all add: aegis_config_value_def aegis_config_of_def serde default_defs)

interpretation network_config: plain_codec network_config_value network_config_of
  by unfold_locales (simp_all add: network_config_value_def network_config_of_def serde default_defs)

interpretation startup_config: plain_codec startup_config_value startup_config_of
  by unfold_locales (simp_all add: startup_config_value_def startup_config_of_def serde default_defs)

interpretation tray_config: plain_codec tray_config_value tray_config_of
  by unfold_locales (simp_all add: tray_config_value_def tray_config_of_def serde default_defs)

interpretation theme_config: plain_codec theme_config_value theme_config_of
  by unfold_locales (simp_all add: theme_config_value_def theme_config_of_def serde default_defs)

lemma names_value_ordered: "names_value names = JObject (map (apsnd JString) (ordered names))"
proof -
  have put: "put k (JString v) (map (apsnd JString) m) = map (apsnd JString) (put k v m)" for k v m
    by (induction m) auto
  have "fold (\<lambda>(k, v). put k v) (map (apsnd JString) names) (map (apsnd JString) m)
      = map (apsnd JString) (fold (\<lambda>(k, v). put k v) names m)" for m
    by (induction names arbitrary: m) (auto simp: put)
  from this [of "[]"] show ?thesis by (simp add: names_value_def object_def ordered_def)
qed

lemma names_read_back: "names_of (names_value names) = Some (ordered names)"
proof -
  have "those (map (\<lambda>(k, v). map_option (Pair k) (of_string v)) (map (apsnd JString) m)) = Some m" for m
    by (induction m) auto
  then show ?thesis by (simp add: names_value_ordered)
qed

text \<open>The map of output names is written in the order of its keys.\<close>

definition canonical :: "config \<Rightarrow> config" where
  "canonical c = c\<lparr>cf_output_names := ordered (cf_output_names c)\<rparr>"

lemma config_read_back: "config_of (config_value c) = Some (canonical c)"
  by (simp add: config_value_def config_of_def serde names_read_back canonical_def)

section \<open>Configuration files\<close>

text \<open>\<open>read\<close>: the values that a TOML text stands for.\<close>

definition toml_codecs :: "(string \<Rightarrow> json option) \<Rightarrow> os \<Rightarrow> bool" where
  "toml_codecs read os \<longleftrightarrow>
     (\<forall>raw. result_ok (os_toml_parse os raw) = Option.bind (read raw) config_of)
   \<and> (\<forall>c data. os_toml_print os c = Ok data \<longrightarrow> read data = Some (config_value c))
   \<and> (\<forall>path. os_unreadable os path = None)"

lemma canonical_canonical [simp]: "canonical (canonical c) = canonical c"
  by (simp add: canonical_def)

lemma apply_env_canonical: "apply_env_overrides os (canonical c) = canonical (apply_env_overrides os c)"
  by (simp add: apply_env_overrides_def canonical_def)

lemma valid_canonical: "valid_config (canonical c) = valid_config c"
  by (simp add: valid_config_def canonical_def)

lemma load_from:
  assumes "toml_codecs read os" and "fs (active_config_path os fs) = Some raw"
  shows "load os fs = (let c = apply_env_overrides os
      (case Option.bind (read raw) config_of of None \<Rightarrow> config_default | Some c \<Rightarrow> c)
    in and_then (validate c) (\<lambda>_. Ok c))"
proof -
  have "Option.bind (read raw) config_of = result_ok (os_toml_parse os raw)" "os_unreadable os p = None" for p
    using assms(1) by (simp_all add: toml_codecs_def)
  then show ?thesis
    using assms(2) by (cases "os_toml_parse os raw")
      (simp_all add: load_def fs_read_def Let_def result_ok_def split: option.splits)
qed

lemma validate_canonical: "validate (canonical c) = validate c"
  by (simp add: validate_def canonical_def)

lemma load_saved_any:
  assumes "save os fs c = (Ok (), fs')" and "toml_codecs read os"
  shows "load os fs' = and_then (validate (canonical (apply_env_overrides os c)))
    (\<lambda>_. Ok (canonical (apply_env_overrides os c)))"
proof -
  obtain data where d: "os_toml_print os c = Ok data" and fs': "fs' = fs(active_config_path os fs := Some data)"
    using assms(1) by (rule save_Ok)
  have "read data = Some (config_value c)"
    using assms(2) d by (simp add: toml_codecs_def)
  then show ?thesis
    using load_from [OF assms(2), of fs' data] active_path_after_save [of os fs data]
    by (simp add: fs' config_read_back apply_env_canonical Let_def)
qed

lemma load_saved:
  assumes "save os fs c = (Ok (), fs')" and "toml_codecs read os" and "valid_config (apply_env_overrides os c)"
  shows "load os fs' = Ok (canonical (apply_env_overrides os c))"
  using assms(3) validate_Ok [of "apply_env_overrides os c"]
  by (simp add: load_saved_any [OF assms(1,2)] validate_canonical)

interpretation toml_store: persistent "save os" "load os" "\<lambda>c. canonical (apply_env_overrides os c)"
  "\<lambda>c. toml_codecs read os \<and> valid_config (apply_env_overrides os c)" for os read
  by unfold_locales (auto simp: apply_env_idem apply_env_canonical valid_canonical intro: load_saved)

section \<open>Properties\<close>

text \<open>C12. Saving and loading round trip down to the keys and values of the file: a saved configuration
  is loaded back, every section, key and value of it, with the environment overrides applied; the output
  names come back as the same map; and saving what was loaded changes nothing any more. Only when the
  overridden configuration is not valid, which saving does not look at, loading fails, with the error of the
  validation. The TOML library is taken to read back the values it printed, files to be readable, and the output
  names to be a map, with every output once.\<close>

theorem config_file_roundtrip:
  assumes "save os fs c = (Ok (), fs1)" and "toml_codecs read os" and "distinct (map fst (cf_output_names c))"
  shows "case validate (apply_env_overrides os c) of
      Err e \<Rightarrow> load os fs1 = Err e
    | Ok _ \<Rightarrow> (\<exists>c'. load os fs1 = Ok c'
        \<and> c' = (apply_env_overrides os c)\<lparr>cf_output_names := cf_output_names c'\<rparr>
        \<and> map_of (cf_output_names c') = map_of (cf_output_names c)
        \<and> (\<forall>fs2. save os fs1 c' = (Ok (), fs2) \<longrightarrow> load os fs2 = Ok c'))"
proof (cases "validate (apply_env_overrides os c)")
  case (Inl e)
  then show ?thesis using load_saved_any [OF assms(1,2)] by (simp add: validate_canonical)
next
  case (Inr u)
  let ?c = "canonical (apply_env_overrides os c)"
  have good: "toml_codecs read os \<and> valid_config (apply_env_overrides os c)"
    using assms(2) Inr validate_Ok [of "apply_env_overrides os c"] by simp
  then have l: "load os fs1 = Ok ?c" using assms(1) by (blast intro: load_saved)
  have "load os fs2 = Ok ?c" if "save os fs1 ?c = (Ok (), fs2)" for fs2
    using toml_store.save_load_save [OF assms(1) good l that] by simp
  moreover have "?c = (apply_env_overrides os c)\<lparr>cf_output_names := cf_output_names ?c\<rparr>"
    by (simp add: canonical_def)
  moreover have "map_of (cf_output_names ?c) = map_of (cf_output_names c)"
    using assms(3) by (simp add: canonical_def apply_env_overrides_def map_of_ordered_distinct del: map_of_ordered)
  ultimately show ?thesis using l Inr by auto
qed

text \<open>C33. One bad value discards the whole file: when the file says something for the server port that is
  not a whole number from 0 to 65535, be it out of range, in quotes or with a decimal point, loading has the
  outcome it has without any file: the defaults with the environment overrides, if they are valid. The token, the
  vault path and everything else that the file says are ignored, and the bad port is not reported. (The file can
  be read, and the TOML library reads it as TOML.)\<close>

theorem bad_port_discards_file:
  assumes "toml_codecs read os" and "fs (active_config_path os fs) = Some raw" and "read raw = Some (JObject m)"
    and "map_of m ''server'' = Some (JObject sv)" and "map_of sv ''port'' = Some pv"
    and "\<forall>n. pv = JInt n \<longrightarrow> n < 0 \<or> 65535 < n"
  shows "load os fs = load os Map.empty
    \<and> load os fs = (let c = apply_env_overrides os config_default in
        case validate c of Ok _ \<Rightarrow> Ok c | Err e \<Rightarrow> Err e)"
proof -
  have "(of_word pv :: u16 option) = None"
    using assms(6) by (cases pv) auto
  then have "server_config_of (JObject sv) = None"
    using assms(5) by (simp add: server_config_of_def struct_def defaulted_lookup)
  then have "defaulted d i ''server'' server_config_of (JObject m) = None" for d i
    using assms(4) by (simp add: defaulted_lookup)
  then have "config_of (JObject m) = None"
    by (simp add: config_of_def struct_def Option.bind_rzero)
  with load_from [OF assms(1), of fs raw] assms(2,3)
  have l: "load os fs = and_then (validate (apply_env_overrides os config_default))
      (\<lambda>_. Ok (apply_env_overrides os config_default))"
    by (simp add: Let_def)
  moreover have "load os Map.empty = load os fs"
    unfolding l by (simp add: load_def fs_read_def Let_def split: option.split)
  ultimately show ?thesis
    by (cases "validate (apply_env_overrides os config_default)") (simp_all add: Let_def)
qed

text \<open>A setting that is not in the file has its default: the file need not have any section, and a section
  need not have any key.\<close>

lemma missing_settings:
  "config_of (JObject []) = Some config_default"
  "config_of (object [(''server'', object [(''token'', JString t)])]) = Some (token_config (Some t))"
  by (simp_all add: config_of_def serde token_config_def server_config_of_def config_default_def
      server_config_default_def str.of_option_enc)

section \<open>An instance\<close>

definition sample_read :: "string \<Rightarrow> json option" where
  "sample_read raw =
     (if raw = ''good'' then Some (config_value (token_config (Some ''x'')))
      else if raw = ''bad'' then
        Some (JObject [(''server'', JObject [(''port'', JString ''7070''), (''token'', JString ''x'')])])
      else None)"

definition toml_os :: os where
  "toml_os = sample_os\<lparr>os_toml_parse := (\<lambda>raw. ok_or (Option.bind (sample_read raw) config_of) ''invalid''),
     os_toml_print := (\<lambda>c. if c = token_config (Some ''x'') then Ok ''good'' else Err ''print'')\<rparr>"

lemma sample_toml: "toml_codecs sample_read toml_os"
  by (simp add: toml_codecs_def toml_os_def sample_read_def) (simp add: sample_os_def)

lemma toml_overrides: "apply_env_overrides toml_os c = apply_env_overrides sample_os c"
  by (simp add: apply_env_overrides_def obs_overrides_def server_overrides_def grafana_overrides_def
      aegis_overrides_def with_var_def telemy_var_def toml_os_def)

lemma sample_valid: "is_ok (validate (apply_env_overrides toml_os (token_config t)))"
  using token_config_valid [of "Some ''secret''"] by (simp add: toml_overrides sample_overrides validate_Ok [symmetric])

lemma toml_save:
  "save toml_os [CONFIG_FILE \<mapsto> old] (token_config (Some ''x'')) = (Ok (), [CONFIG_FILE \<mapsto> ''good''])"
proof -
  have "validate (token_config (Some ''x'')) = Ok ()"
    using token_config_valid by (simp add: validate_Ok)
  moreover have "os_toml_print toml_os (token_config (Some ''x'')) = Ok ''good''"
    by (simp add: toml_os_def)
  moreover have "os_create_dir_all toml_os p = None" "os_write_fault toml_os p d = None" for p d
    by (simp_all add: toml_os_def sample_os_def)
  ultimately show ?thesis
    by (simp add: save_def active_config_path_def ensure_parent_def fs_write_def Let_def split: option.split)
qed

theorem config_file_roundtrip_witness:
  "\<exists>c'. load toml_os [CONFIG_FILE \<mapsto> ''good''] = Ok c' \<and> sv_token (cf_server c') = Some ''secret''
     \<and> sv_port (cf_server c') = 7070"
proof -
  have "distinct (map fst (cf_output_names (token_config (Some ''x''))))"
    by (simp add: token_config_def config_default_def)
  moreover have "validate (token_config (Some ''secret'')) = Ok ()"
    using token_config_valid by (simp add: validate_Ok)
  ultimately obtain c' where c: "load toml_os [CONFIG_FILE \<mapsto> ''good''] = Ok c'"
    "c' = (token_config (Some ''secret''))\<lparr>cf_output_names := cf_output_names c'\<rparr>"
    using config_file_roundtrip [OF toml_save sample_toml]
    unfolding toml_overrides sample_overrides by auto
  have "cf_server c' = cf_server (token_config (Some ''secret''))"
    by (subst c(2)) simp
  with c(1) show ?thesis by (simp add: token_config_def server_config_default_def)
qed

theorem bad_port_discards_file_witness:
  "\<exists>c. load toml_os [CONFIG_FILE \<mapsto> ''bad''] = Ok c \<and> sv_token (cf_server c) = Some ''secret''
     \<and> sv_port (cf_server c) = 7070"
proof -
  have d: "config_default = token_config None"
    by (simp add: token_config_def config_default_def server_config_default_def)
  let ?sv = "[(''port'', JString ''7070''), (''token'', JString ''x'')]"
  have r: "[CONFIG_FILE \<mapsto> ''bad''] (active_config_path toml_os [CONFIG_FILE \<mapsto> ''bad'']) = Some ''bad''"
    "sample_read ''bad'' = Some (JObject [(''server'', JObject ?sv)])"
    by (simp_all add: active_config_path_def sample_read_def)
  have "load toml_os [CONFIG_FILE \<mapsto> ''bad''] = load toml_os Map.empty
    \<and> load toml_os [CONFIG_FILE \<mapsto> ''bad''] = (let c = apply_env_overrides toml_os config_default in
        case validate c of Ok _ \<Rightarrow> Ok c | Err e \<Rightarrow> Err e)"
    by (rule bad_port_discards_file [of sample_read toml_os "[CONFIG_FILE \<mapsto> ''bad'']" "''bad''"
        "[(''server'', JObject ?sv)]" ?sv "JString ''7070''", OF sample_toml r]) simp_all
  then have "load toml_os [CONFIG_FILE \<mapsto> ''bad''] = (let c = apply_env_overrides toml_os config_default in
      case validate c of Ok _ \<Rightarrow> Ok c | Err e \<Rightarrow> Err e)" by (rule conjunct2)
  moreover have "validate (token_config (Some ''secret'')) = Ok ()"
    using token_config_valid by (simp add: validate_Ok)
  ultimately show ?thesis
    unfolding d toml_overrides sample_overrides by (simp add: token_config_def server_config_default_def)
qed

end
