(* ===== verification/Aegis_Wire.thy ===== *)
theory Aegis_Wire
  imports Serde Aegis_Client
begin

text \<open>
  The JSON of the control plane: the derived codecs of the requests and responses in \<open>src/aegis/mod.rs\<close>.
  An optional value that is not there is written as null; when it is read, it may also be missing.
  What remains of \<open>serde_json\<close> is how a text is read as a tree of values.
\<close>

section \<open>The codecs\<close>

definition start_client_context_value :: "relay_start_client_context \<Rightarrow> json" where
  "start_client_context_value x = object
     [(''obs_connected'', to_option JBool (cc_obs_connected x)),
      (''mode'', to_option JString (cc_mode x)),
      (''requested_by'', to_option JString (cc_requested_by x))]"

definition start_client_context_of :: "json \<Rightarrow> relay_start_client_context option" where
  "start_client_context_of = struct 3 (\<lambda>v. do {
       obs_connected \<leftarrow> defaulted None 0 ''obs_connected'' (of_option of_bool) v;
       mode \<leftarrow> defaulted None 1 ''mode'' (of_option of_string) v;
       requested_by \<leftarrow> defaulted None 2 ''requested_by'' (of_option of_string) v;
       Some \<lparr>cc_obs_connected = obs_connected, cc_mode = mode,
         cc_requested_by = requested_by\<rparr>
     })"

interpretation start_client_context: plain_codec start_client_context_value start_client_context_of
  by unfold_locales (simp_all add: start_client_context_value_def start_client_context_of_def serde)

definition start_request_value :: "relay_start_request \<Rightarrow> json" where
  "start_request_value x = object
     [(''region_preference'', to_option JString (sq_region_preference x)),
      (''client_context'', to_option start_client_context_value (sq_client_context x))]"

definition start_request_of :: "json \<Rightarrow> relay_start_request option" where
  "start_request_of = struct 2 (\<lambda>v. do {
       region_preference \<leftarrow> defaulted None 0 ''region_preference'' (of_option of_string) v;
       client_context \<leftarrow> defaulted None 1 ''client_context'' (of_option start_client_context_of) v;
       Some \<lparr>sq_region_preference = region_preference, sq_client_context = client_context\<rparr>
     })"

interpretation start_request: plain_codec start_request_value start_request_of
  by unfold_locales (simp_all add: start_request_value_def start_request_of_def serde start_client_context.of_option_to_option)

definition stop_request_value :: "relay_stop_request \<Rightarrow> json" where
  "stop_request_value x = object
     [(''session_id'', JString (tq_session_id x)),
      (''reason'', JString (tq_reason x))]"

definition stop_request_of :: "json \<Rightarrow> relay_stop_request option" where
  "stop_request_of = struct 2 (\<lambda>v. do {
       session_id \<leftarrow> required 0 ''session_id'' of_string v;
       reason \<leftarrow> required 1 ''reason'' of_string v;
       Some \<lparr>tq_session_id = session_id, tq_reason = reason\<rparr>
     })"

interpretation stop_request: plain_codec stop_request_value stop_request_of
  by unfold_locales (simp_all add: stop_request_value_def stop_request_of_def serde)

definition stop_response_value :: "relay_stop_response \<Rightarrow> json" where
  "stop_response_value x = object
     [(''session_id'', JString (tr_session_id x)),
      (''status'', JString (tr_status x)),
      (''stopped_at'', to_option JString (tr_stopped_at x))]"

definition stop_response_of :: "json \<Rightarrow> relay_stop_response option" where
  "stop_response_of = struct 3 (\<lambda>v. do {
       session_id \<leftarrow> required 0 ''session_id'' of_string v;
       status \<leftarrow> required 1 ''status'' of_string v;
       stopped_at \<leftarrow> defaulted None 2 ''stopped_at'' (of_option of_string) v;
       Some \<lparr>tr_session_id = session_id, tr_status = status, tr_stopped_at = stopped_at\<rparr>
     })"

interpretation stop_response: plain_codec stop_response_value stop_response_of
  by unfold_locales (simp_all add: stop_response_value_def stop_response_of_def serde)

definition relay_endpoint_value :: "relay_endpoint \<Rightarrow> json" where
  "relay_endpoint_value x = object
     [(''instance_id'', to_option JString (re_instance_id x)),
      (''public_ip'', to_option JString (re_public_ip x)),
      (''srt_port'', to_option to_word (re_srt_port x)),
      (''ws_url'', to_option JString (re_ws_url x))]"

definition relay_endpoint_of :: "json \<Rightarrow> relay_endpoint option" where
  "relay_endpoint_of = struct 4 (\<lambda>v. do {
       instance_id \<leftarrow> defaulted None 0 ''instance_id'' (of_option of_string) v;
       public_ip \<leftarrow> defaulted None 1 ''public_ip'' (of_option of_string) v;
       srt_port \<leftarrow> defaulted None 2 ''srt_port'' (of_option of_word) v;
       ws_url \<leftarrow> defaulted None 3 ''ws_url'' (of_option of_string) v;
       Some \<lparr>re_instance_id = instance_id, re_public_ip = public_ip, re_srt_port = srt_port,
         re_ws_url = ws_url\<rparr>
     })"

interpretation relay_endpoint: plain_codec relay_endpoint_value relay_endpoint_of
  by unfold_locales (simp_all add: relay_endpoint_value_def relay_endpoint_of_def serde)

definition relay_credentials_value :: "relay_credentials \<Rightarrow> json" where
  "relay_credentials_value x = object
     [(''pair_token'', to_option JString (rc_pair_token x)),
      (''relay_ws_token'', to_option JString (rc_relay_ws_token x))]"

definition relay_credentials_of :: "json \<Rightarrow> relay_credentials option" where
  "relay_credentials_of = struct 2 (\<lambda>v. do {
       pair_token \<leftarrow> defaulted None 0 ''pair_token'' (of_option of_string) v;
       relay_ws_token \<leftarrow> defaulted None 1 ''relay_ws_token'' (of_option of_string) v;
       Some \<lparr>rc_pair_token = pair_token, rc_relay_ws_token = relay_ws_token\<rparr>
     })"

interpretation relay_credentials: plain_codec relay_credentials_value relay_credentials_of
  by unfold_locales (simp_all add: relay_credentials_value_def relay_credentials_of_def serde)

definition relay_timers_value :: "relay_timers \<Rightarrow> json" where
  "relay_timers_value x = object
     [(''grace_window_seconds'', to_option to_word (rt_grace_window_seconds x)),
      (''grace_remaining_seconds'', to_option to_word (rt_grace_remaining_seconds x)),
      (''max_session_seconds'', to_option to_word (rt_max_session_seconds x)),
      (''max_session_remaining_seconds'', to_option to_word (rt_max_session_remaining_seconds x))]"

definition relay_timers_of :: "json \<Rightarrow> relay_timers option" where
  "relay_timers_of = struct 4 (\<lambda>v. do {
       grace_window_seconds \<leftarrow> defaulted None 0 ''grace_window_seconds'' (of_option of_word) v;
       grace_remaining_seconds \<leftarrow> defaulted None 1 ''grace_remaining_seconds'' (of_option of_word) v;
       max_session_seconds \<leftarrow> defaulted None 2 ''max_session_seconds'' (of_option of_word) v;
       max_session_remaining_seconds \<leftarrow> defaulted None 3 ''max_session_remaining_seconds'' (of_option of_word) v;
       Some \<lparr>rt_grace_window_seconds = grace_window_seconds,
         rt_grace_remaining_seconds = grace_remaining_seconds,
         rt_max_session_seconds = max_session_seconds,
         rt_max_session_remaining_seconds = max_session_remaining_seconds\<rparr>
     })"

interpretation relay_timers: plain_codec relay_timers_value relay_timers_of
  by unfold_locales (simp_all add: relay_timers_value_def relay_timers_of_def serde)

definition relay_usage_value :: "relay_usage \<Rightarrow> json" where
  "relay_usage_value x = object
     [(''started_at'', to_option JString (ru_started_at x)),
      (''ended_at'', to_option JString (ru_ended_at x)),
      (''duration_seconds'', to_option to_word (ru_duration_seconds x))]"

definition relay_usage_of :: "json \<Rightarrow> relay_usage option" where
  "relay_usage_of = struct 3 (\<lambda>v. do {
       started_at \<leftarrow> defaulted None 0 ''started_at'' (of_option of_string) v;
       ended_at \<leftarrow> defaulted None 1 ''ended_at'' (of_option of_string) v;
       duration_seconds \<leftarrow> defaulted None 2 ''duration_seconds'' (of_option of_word) v;
       Some \<lparr>ru_started_at = started_at, ru_ended_at = ended_at,
         ru_duration_seconds = duration_seconds\<rparr>
     })"

interpretation relay_usage: plain_codec relay_usage_value relay_usage_of
  by unfold_locales (simp_all add: relay_usage_value_def relay_usage_of_def serde)

definition relay_session_value :: "relay_session \<Rightarrow> json" where
  "relay_session_value x = object
     [(''session_id'', JString (rs_session_id x)),
      (''status'', JString (rs_status x)),
      (''user_id'', to_option JString (rs_user_id x)),
      (''region'', to_option JString (rs_region x)),
      (''relay'', to_option relay_endpoint_value (rs_relay x)),
      (''credentials'', to_option relay_credentials_value (rs_credentials x)),
      (''timers'', to_option relay_timers_value (rs_timers x)),
      (''usage'', to_option relay_usage_value (rs_usage x))]"

definition relay_session_of :: "json \<Rightarrow> relay_session option" where
  "relay_session_of = struct 8 (\<lambda>v. do {
       session_id \<leftarrow> required 0 ''session_id'' of_string v;
       status \<leftarrow> required 1 ''status'' of_string v;
       user_id \<leftarrow> defaulted None 2 ''user_id'' (of_option of_string) v;
       region \<leftarrow> defaulted None 3 ''region'' (of_option of_string) v;
       relay \<leftarrow> defaulted None 4 ''relay'' (of_option relay_endpoint_of) v;
       credentials \<leftarrow> defaulted None 5 ''credentials'' (of_option relay_credentials_of) v;
       timers \<leftarrow> defaulted None 6 ''timers'' (of_option relay_timers_of) v;
       usage \<leftarrow> defaulted None 7 ''usage'' (of_option relay_usage_of) v;
       Some \<lparr>rs_session_id = session_id, rs_status = status, rs_user_id = user_id,
         rs_region = region, rs_relay = relay, rs_credentials = credentials,
         rs_timers = timers, rs_usage = usage\<rparr>
     })"

interpretation relay_session: plain_codec relay_session_value relay_session_of
  by unfold_locales (simp_all add: relay_session_value_def relay_session_of_def serde relay_endpoint.of_option_to_option relay_credentials.of_option_to_option relay_timers.of_option_to_option relay_usage.of_option_to_option)

definition session_envelope_value :: "relay_session_envelope \<Rightarrow> json" where
  "session_envelope_value x = object
     [(''session'', relay_session_value (rse_session x))]"

definition session_envelope_of :: "json \<Rightarrow> relay_session_envelope option" where
  "session_envelope_of = struct 1 (\<lambda>v. do {
       session \<leftarrow> required 0 ''session'' relay_session_of v;
       Some \<lparr>rse_session = session\<rparr>
     })"

interpretation session_envelope: plain_codec session_envelope_value session_envelope_of
  by unfold_locales (simp_all add: session_envelope_value_def session_envelope_of_def serde relay_session.of_option_to_option)

section \<open>Replies\<close>

definition aegis_codecs :: "(string \<Rightarrow> json option) \<Rightarrow> 'u http_lib \<Rightarrow> bool" where
  "aegis_codecs read L \<longleftrightarrow>
     (\<forall>r text. lib_json_start L r = Ok text \<longrightarrow> read text = Some (start_request_value r))
   \<and> (\<forall>r text. lib_json_stop L r = Ok text \<longrightarrow> read text = Some (stop_request_value r))
   \<and> (\<forall>text. result_ok (lib_parse_envelope L text) = Option.bind (read text) session_envelope_of)
   \<and> (\<forall>text. result_ok (lib_parse_stop L text) = Option.bind (read text) stop_response_of)"

lemma parse_envelope_Ok:
  "aegis_codecs read L \<Longrightarrow> lib_parse_envelope L text = Ok e \<longleftrightarrow> (\<exists>v. read text = Some v \<and> session_envelope_of v = Some e)"
  using result_ok_Some [of "lib_parse_envelope L text" e] by (simp add: aegis_codecs_def bind_eq_Some_conv)

text \<open>A reply needs the id and the status of the session and nothing more; what it has beyond the known
  fields is ignored.\<close>

lemma minimal_reply:
  assumes "map_of f ''session_id'' = Some (JString i)" and "map_of f ''status'' = Some (JString st)"
    and "\<forall>name \<in> {''user_id'', ''region'', ''relay'', ''credentials'', ''timers'', ''usage''}. map_of f name = None"
  shows "relay_session_of (JObject f) = Some (relay_session_default\<lparr>rs_session_id := i, rs_status := st\<rparr>)"
  using assms by (simp add: relay_session_of_def relay_session_default_def serde)

lemma reply_without_id:
  "map_of f ''session_id'' = None \<or> map_of f ''status'' = None \<Longrightarrow> relay_session_of (JObject f) = None"
  by (auto simp: relay_session_of_def struct_def required_def)

text \<open>The request of a relay start.\<close>

lemma build_relay_start_request_Ok:
  "build_relay_start_request L c key request = Ok req \<longleftrightarrow> trim key \<noteq> [] \<and>
    (\<exists>body url auth version platform. lib_json_start L request = Ok body
       \<and> lib_url_join L (cl_base_url c) ''api/v1/relay/start'' = Ok url
       \<and> lib_header_value L (''Bearer '' @ cl_access_jwt c) = Ok auth
       \<and> lib_header_value L (trim (cl_client_version c)) = Ok version
       \<and> lib_header_value L (trim (cl_client_platform c)) = Ok platform
       \<and> lib_request_build L \<lparr>rq_method = POST, rq_url = url,
            rq_headers = [(''authorization'', auth), (''x-aegis-client-version'', version),
              (''x-aegis-client-platform'', platform), (''idempotency-key'', trim key),
              (''content-type'', ''application/json'')],
            rq_body = Some body\<rparr> = Ok req)"
  by (auto simp: build_relay_start_request_def build_request_builder_def common_headers_def and_then_eq_Ok)

text \<open>C39. A relay start over the wire: it returns a session exactly when the idempotency key is not blank
  and the server answered 200 or 201, with JSON that has the fields of an envelope with a session, to a
  POST to \<open>api/v1/relay/start\<close> whose body is the JSON of what was asked for, with the bearer token, the
  trimmed client version and platform and the trimmed key in its headers, as the HTTP library made it; the
  session is the one in the reply with its address normalised.\<close>

theorem relay_start_over_the_wire:
  assumes "aegis_codecs read L"
  shows "relay_start L c key request = Ok s \<longleftrightarrow>
    trim key \<noteq> [] \<and>
    (\<exists>body url auth version platform req status reply v e.
         lib_json_start L request = Ok body \<and> read body = Some (start_request_value request)
       \<and> lib_url_join L (cl_base_url c) ''api/v1/relay/start'' = Ok url
       \<and> lib_header_value L (''Bearer '' @ cl_access_jwt c) = Ok auth
       \<and> lib_header_value L (trim (cl_client_version c)) = Ok version
       \<and> lib_header_value L (trim (cl_client_platform c)) = Ok platform
       \<and> lib_request_build L \<lparr>rq_method = POST, rq_url = url,
            rq_headers = [(''authorization'', auth), (''x-aegis-client-version'', version),
              (''x-aegis-client-platform'', platform), (''idempotency-key'', trim key),
              (''content-type'', ''application/json'')],
            rq_body = Some body\<rparr> = Ok req
       \<and> lib_execute L req = Ok (status, Ok reply) \<and> (status = 200 \<or> status = 201)
       \<and> read reply = Some v \<and> session_envelope_of v = Some e \<and> s = session_normalize (rse_session e))"
proof -
  have "\<And>body. lib_json_start L request = Ok body \<Longrightarrow> read body = Some (start_request_value request)"
    using assms by (simp add: aegis_codecs_def)
  then show ?thesis
    unfolding relay_start_ok [THEN conjunct1] parse_envelope_Ok [OF assms] build_relay_start_request_Ok by blast
qed

text \<open>A server that answers every request with the same session, in a reply with its id and status only.\<close>

definition sample_reply :: json where
  "sample_reply = object [(''session'', object [(''session_id'', JString ''ses_1''), (''status'', JString ''active'')])]"

definition sample_json :: "string \<Rightarrow> json option" where
  "sample_json text =
     (if text = ''reply'' then Some sample_reply
      else if text = ''start'' then Some (start_request_value \<lparr>sq_region_preference = None, sq_client_context = None\<rparr>)
      else None)"

definition wire_lib :: "string http_lib" where
  "wire_lib = sample_lib\<lparr>
     lib_execute := (\<lambda>_. Ok (201, Ok ''reply'')),
     lib_json_start := (\<lambda>r. if r = \<lparr>sq_region_preference = None, sq_client_context = None\<rparr> then Ok ''start'' else Err ''''),
     lib_json_stop := (\<lambda>_. Err ''''),
     lib_parse_envelope := (\<lambda>text. ok_or (Option.bind (sample_json text) session_envelope_of) ''invalid''),
     lib_parse_stop := (\<lambda>text. ok_or (Option.bind (sample_json text) stop_response_of) ''invalid'')\<rparr>"

lemma sample_aegis: "aegis_codecs sample_json wire_lib"
  by (simp add: aegis_codecs_def wire_lib_def sample_json_def)

theorem relay_start_over_the_wire_witness:
  "relay_start wire_lib sample_client ''k'' \<lparr>sq_region_preference = None, sq_client_context = None\<rparr>
     = Ok (relay_session_default\<lparr>rs_session_id := ''ses_1'', rs_status := ''active''\<rparr>)"
proof -
  let ?r = "\<lparr>sq_region_preference = None, sq_client_context = None\<rparr>"
  let ?s = "relay_session_default\<lparr>rs_session_id := ''ses_1'', rs_status := ''active''\<rparr>"
  have k: "trim ''k'' \<noteq> []"
    by (simp add: trim_id byte_def ws1_def ws2_def ws3_def)
  have b: "lib_json_start wire_lib ?r = Ok ''start''" "sample_json ''start'' = Some (start_request_value ?r)"
    by (simp_all add: wire_lib_def sample_json_def)
  have h: "lib_header_value wire_lib x = Ok x" "lib_request_build wire_lib q = Ok q" for x q
    by (simp_all add: wire_lib_def sample_lib_def)
  obtain url where u: "lib_url_join wire_lib (cl_base_url sample_client) ''api/v1/relay/start'' = Ok url"
    by (simp add: wire_lib_def sample_lib_def)
  have x: "lib_execute wire_lib req = Ok (201, Ok ''reply'')" for req by (simp add: wire_lib_def)
  have v: "sample_json ''reply'' = Some sample_reply" by (simp add: sample_json_def)
  have e: "session_envelope_of sample_reply = Some \<lparr>rse_session = ?s\<rparr>"
    by (simp add: sample_reply_def session_envelope_of_def relay_session_of_def serde relay_session_default_def)
  have n: "?s = session_normalize (rse_session \<lparr>rse_session = ?s\<rparr>)"
    by (simp add: session_normalize_def relay_session_default_def)
  show ?thesis
    unfolding relay_start_over_the_wire [OF sample_aegis]
    by (intro conjI exI) (rule k b h u x v e n disjI2 refl)+
qed

end
