(* ===== verification/Http_Wire.thy ===== *)
theory Http_Wire
  imports Bridge Config_Wire Aegis_Wire
begin

text \<open>
  The JSON bodies of the HTTP routes in \<open>src/server/mod.rs\<close>: what the derived codecs make of the bodies of
  requests, and the values that replies and the frames of the web socket are printed from. A body is
  read before the handler runs: one that is not of its type is answered by the extractor of the HTTP
  library, whose answer is a parameter.
\<close>

section \<open>Requests\<close>

definition switch_request_of :: "json \<Rightarrow> ipc_switch_scene_request option" where
  "switch_request_of = struct 4 (\<lambda>v. do {
       scene_name \<leftarrow> required 0 ''scene_name'' of_string v;
       reason \<leftarrow> defaulted None 1 ''reason'' (of_option of_string) v;
       deadline_ms \<leftarrow> defaulted None 2 ''deadline_ms'' (of_option of_word) v;
       allow_empty \<leftarrow> defaulted None 3 ''allow_empty'' (of_option of_bool) v;
       Some \<lparr>wr_scene_name = scene_name, wr_reason = reason, wr_deadline_ms = deadline_ms,
         wr_allow_empty = allow_empty\<rparr>
     })"

text \<open>A struct whose only field is flattened is read as that field, from an object.\<close>

definition output_names_payload_of :: "json \<Rightarrow> (string \<times> string) list option" where
  "output_names_payload_of v = names_of v"

text \<open>The two routes with a JSON body; \<open>rejection\<close> is the extractor's answer.\<close>

definition post_switch_json ::
    "'u http_env \<Rightarrow> response \<Rightarrow> http_get \<Rightarrow> json \<Rightarrow> server_state \<Rightarrow> response \<times> server_state" where
  "post_switch_json env rejection req v st =
     (case switch_request_of v of
        None \<Rightarrow> (rejection, st)
      | Some body \<Rightarrow> serve env req (Post_Ipc_Switch_Scene body) st)"

definition post_names_json ::
    "'u http_env \<Rightarrow> response \<Rightarrow> http_get \<Rightarrow> json \<Rightarrow> server_state \<Rightarrow> response \<times> server_state" where
  "post_names_json env rejection req v st =
     (case output_names_payload_of v of
        None \<Rightarrow> (rejection, st)
      | Some names \<Rightarrow> serve env req (Post_Output_Names names) st)"

section \<open>Replies\<close>

definition health_value :: "nat \<Rightarrow> json" where
  "health_value timestamp = object
     [(''status'', JString ''healthy''),
      (''timestamp'', JInt (int timestamp))]"

definition aegis_status_value :: "aegis_status_response \<Rightarrow> json" where
  "aegis_status_value x = object
     ([(''enabled'', JBool (sa_enabled x)),
       (''session'', to_option relay_session_value (sa_session x)),
       (''refreshed'', JBool (sa_refreshed x))]
      @ unless_none ''error'' JString (sa_error x))"

definition aegis_action_value :: "aegis_action_response \<Rightarrow> json" where
  "aegis_action_value x = object
     ([(''ok'', JBool (aa_ok x)),
       (''message'', JString (aa_message x))]
      @ unless_none ''session'' relay_session_value (aa_session x)
      @ unless_none ''error'' JString (aa_error x))"

definition switch_reply_value :: "ipc_switch_scene_response \<Rightarrow> json" where
  "switch_reply_value x = object
     [(''ok'', JBool (wo_ok x)),
      (''message'', JString (wo_message x))]"

definition switch_request_debug_value :: "ipc_switch_request_debug \<Rightarrow> json" where
  "switch_request_debug_value x = object
     [(''request_id'', JString (qd_request_id x)),
      (''scene_name'', JString (qd_scene_name x)),
      (''reason'', JString (qd_reason x)),
      (''deadline_ms'', to_word (qd_deadline_ms x)),
      (''ts_unix_ms'', to_word (qd_ts_unix_ms x))]"

definition switch_request_debug_of :: "json \<Rightarrow> ipc_switch_request_debug option" where
  "switch_request_debug_of = struct 5 (\<lambda>v. do {
       request_id \<leftarrow> required 0 ''request_id'' of_string v;
       scene_name \<leftarrow> required 1 ''scene_name'' of_string v;
       reason \<leftarrow> required 2 ''reason'' of_string v;
       deadline_ms \<leftarrow> required 3 ''deadline_ms'' of_word v;
       ts_unix_ms \<leftarrow> required 4 ''ts_unix_ms'' of_word v;
       Some \<lparr>qd_request_id = request_id, qd_scene_name = scene_name, qd_reason = reason,
         qd_deadline_ms = deadline_ms, qd_ts_unix_ms = ts_unix_ms\<rparr>
     })"

definition switch_result_debug_value :: "ipc_switch_result_debug \<Rightarrow> json" where
  "switch_result_debug_value x = object
     [(''request_id'', JString (rd_request_id x)),
      (''status'', JString (rd_status x)),
      (''error'', to_option JString (rd_error x)),
      (''ts_unix_ms'', to_word (rd_ts_unix_ms x))]"

definition switch_result_debug_of :: "json \<Rightarrow> ipc_switch_result_debug option" where
  "switch_result_debug_of = struct 4 (\<lambda>v. do {
       request_id \<leftarrow> required 0 ''request_id'' of_string v;
       status \<leftarrow> required 1 ''status'' of_string v;
       error \<leftarrow> nullable 2 ''error'' of_string v;
       ts_unix_ms \<leftarrow> required 3 ''ts_unix_ms'' of_word v;
       Some \<lparr>rd_request_id = request_id, rd_status = status, rd_error = error,
         rd_ts_unix_ms = ts_unix_ms\<rparr>
     })"

definition debug_status_value :: "ipc_debug_status \<Rightarrow> json" where
  "debug_status_value x = object
     [(''session_connected'', JBool (ds_session_connected x)),
      (''pending_switch_count'', to_word (ds_pending_switch_count x)),
      (''last_switch_request'', to_option switch_request_debug_value (ds_last_switch_request x)),
      (''last_switch_result'', to_option switch_result_debug_value (ds_last_switch_result x)),
      (''last_notice'', to_option JString (ds_last_notice x)),
      (''updated_ts_unix_ms'', to_option to_word (ds_updated_ts_unix_ms x))]"

definition debug_status_of :: "json \<Rightarrow> ipc_debug_status option" where
  "debug_status_of = struct 6 (\<lambda>v. do {
       session_connected \<leftarrow> required 0 ''session_connected'' of_bool v;
       pending_switch_count \<leftarrow> required 1 ''pending_switch_count'' of_word v;
       last_switch_request \<leftarrow> nullable 2 ''last_switch_request'' switch_request_debug_of v;
       last_switch_result \<leftarrow> nullable 3 ''last_switch_result'' switch_result_debug_of v;
       last_notice \<leftarrow> nullable 4 ''last_notice'' of_string v;
       updated_ts_unix_ms \<leftarrow> nullable 5 ''updated_ts_unix_ms'' of_word v;
       Some \<lparr>ds_session_connected = session_connected, ds_pending_switch_count = pending_switch_count,
         ds_last_switch_request = last_switch_request, ds_last_switch_result = last_switch_result,
         ds_last_notice = last_notice, ds_updated_ts_unix_ms = updated_ts_unix_ms\<rparr>
     })"

interpretation switch_request_debug: plain_codec switch_request_debug_value switch_request_debug_of
  by unfold_locales (simp_all add: switch_request_debug_value_def switch_request_debug_of_def serde)

interpretation switch_result_debug: plain_codec switch_result_debug_value switch_result_debug_of
  by unfold_locales (simp_all add: switch_result_debug_value_def switch_result_debug_of_def serde)

interpretation debug_status: plain_codec debug_status_value debug_status_of
  by unfold_locales (simp_all add: debug_status_value_def debug_status_of_def serde
      switch_request_debug.nullable_to_option switch_result_debug.nullable_to_option)

text \<open>The JSON of a reply, for those that have one.\<close>

fun reply_value :: "body \<Rightarrow> json option" where
  "reply_value (Health timestamp) = Some (health_value timestamp)"
| "reply_value (Names names) = Some (names_value names)"
| "reply_value (Aegis_Status x) = Some (aegis_status_value x)"
| "reply_value (Aegis_Action x) = Some (aegis_action_value x)"
| "reply_value (Ipc_Status x) = Some (debug_status_value x)"
| "reply_value (Switch_Scene_Reply x) = Some (switch_reply_value x)"
| "reply_value _ = None"

section \<open>Frames\<close>

text \<open>A float that is not a number of JSON is written as null.\<close>

fun float_value :: "f32 \<Rightarrow> json" where
  "float_value (Fin r) = JFloat r"
| "float_value _ = JNull"

definition obs_value :: "obs_frame \<Rightarrow> json" where
  "obs_value x = object
     [(''connected'', JBool (of_connected x)),
      (''streaming'', JBool (of_streaming x)),
      (''recording'', JBool (of_recording x)),
      (''studio_mode'', JBool (of_studio_mode x)),
      (''total_dropped_frames'', to_word (of_total_dropped_frames x)),
      (''total_frames'', to_word (of_total_frames x)),
      (''render_missed_frames'', to_word (of_render_missed_frames x)),
      (''render_total_frames'', to_word (of_render_total_frames x)),
      (''output_skipped_frames'', to_word (of_output_skipped_frames x)),
      (''output_total_frames'', to_word (of_output_total_frames x)),
      (''active_fps'', float_value (of_active_fps x)),
      (''available_disk_space_mb'', float_value (of_available_disk_space_mb x))]"

definition system_value :: "system_frame \<Rightarrow> json" where
  "system_value x = object
     [(''cpu_percent'', float_value (sf_cpu_percent x)),
      (''mem_percent'', float_value (sf_mem_percent x)),
      (''gpu_percent'', to_option float_value (sf_gpu_percent x)),
      (''gpu_temp_c'', to_option float_value (sf_gpu_temp_c x))]"

definition network_value :: "network_frame \<Rightarrow> json" where
  "network_value x = object
     [(''upload_mbps'', float_value (nf_upload_mbps x)),
      (''download_mbps'', float_value (nf_download_mbps x)),
      (''latency_ms'', float_value (nf_latency_ms x))]"

definition stream_value :: "stream_output \<Rightarrow> json" where
  "stream_value x = object
     [(''name'', JString (so_name x)),
      (''bitrate_kbps'', to_word (so_bitrate_kbps x)),
      (''drop_pct'', float_value (so_drop_pct x)),
      (''fps'', float_value (so_fps x)),
      (''encoding_lag_ms'', float_value (so_encoding_lag_ms x))]"

definition ws_payload_value :: "ws_payload \<Rightarrow> json" where
  "ws_payload_value x = object
     [(''ts'', to_word (wp_ts x)),
      (''health'', float_value (wp_health x)),
      (''obs'', obs_value (wp_obs x)),
      (''system'', system_value (wp_system x)),
      (''network'', network_value (wp_network x)),
      (''outputs'', to_list stream_value (wp_outputs x))]"

section \<open>A scene switch\<close>

text \<open>The deadline that a body asks for.\<close>

definition requested_deadline :: "json \<Rightarrow> int" where
  "requested_deadline v = (case field 2 ''deadline_ms'' v of Some (JInt n) \<Rightarrow> n | _ \<Rightarrow> 550)"

lemma of_option_word: "of_option of_word x = Some d \<Longrightarrow>
   x = JNull \<and> d = None \<or> (\<exists>n. x = JInt n \<and> 0 \<le> n \<and> n < 2 ^ LENGTH('a) \<and> d = Some (word_of_int n :: 'a::len word))"
  by (cases x) (auto simp: of_option_def split: if_splits)

lemma clamp_uint: "uint (clamp lo hi x) = max (uint lo) (min (uint hi) (uint x))" if "lo \<le> hi"
  using that by (auto simp: clamp_def word_le_def word_less_def)

lemma switch_request_read:
  assumes "switch_request_of v = Some body"
  shows "field 0 ''scene_name'' v = Some (JString (wr_scene_name body))"
    and "uint (clamp 50 5000 (unwrap_or (wr_deadline_ms body) 550)) = max 50 (min 5000 (requested_deadline v))"
proof -
  obtain deadline where d: "defaulted None 2 ''deadline_ms'' (of_option of_word) v = Some deadline"
    and b: "required 0 ''scene_name'' of_string v = Some (wr_scene_name body)" "wr_deadline_ms body = deadline"
    using assms by (auto simp: switch_request_of_def struct_def Option.bind_eq_Some_conv split: if_splits)
  from b(1) obtain x where "field 0 ''scene_name'' v = Some x" "of_string x = Some (wr_scene_name body)"
    by (auto simp: required_def Option.bind_eq_Some_conv)
  then show "field 0 ''scene_name'' v = Some (JString (wr_scene_name body))"
    by (cases x) simp_all
  have "uint (unwrap_or deadline 550) = requested_deadline v"
  proof (cases "field 2 ''deadline_ms'' v")
    case None
    with d show ?thesis by (simp add: defaulted_def requested_deadline_def)
  next
    case (Some x)
    with d have "of_option of_word x = Some deadline" by (simp add: defaulted_def)
    from of_option_word [OF this] Some show ?thesis
      by (auto simp: requested_deadline_def uint_word_of_int)
  qed
  then show "uint (clamp 50 5000 (unwrap_or (wr_deadline_ms body) 550)) = max 50 (min 5000 (requested_deadline v))"
    by (simp add: b(2) clamp_uint)
qed

text \<open>C9. From the JSON of an HTTP request to the plugin: a body that is answered with OK has a scene name,
  the answer says \<open>ok\<close>, the switch is the newest command of the channel, and once the session has sent
  it, it is announced to the plugin under a request id that stays pending until a deadline counted from
  the moment it was sent: the \<open>deadline_ms\<close> of the body brought between 50 and 5000 milliseconds, or 550
  milliseconds when there is none. That moment is the clock reading that follows the writing of the message,
  after the ids and times that were read to build it and last before the one that stamps the status. (A body
  that the HTTP library cannot read is taken not to be answered with OK.)\<close>

theorem switch_request_over_the_wire:
  assumes "post_switch_json henv rejection req v st = ((200, reply), st')" and "fst rejection \<noteq> 200"
    and "switch_scene env (last (hs_ipc_queue st')) s = (Proceed, t)"
  shows "\<exists>name r rid p sent. field 0 ''scene_name'' v = Some (JString name)
    \<and> reply_value reply = Some r \<and> field 0 ''ok'' r = Some (JBool True)
    \<and> map_of (is_pending_switches t) rid = Some p \<and> announced (is_evt_log t) rid (trim name)
    \<and> is_seq s + 4 \<le> sent \<and> sent + 2 = is_seq t
    \<and> ps_deadline_at p = ie_instant env sent + max 50 (min 5000 (requested_deadline v)) * 10 ^ 6"
proof -
  obtain body where body: "switch_request_of v = Some body"
    and post: "post_ipc_switch_scene henv req body st = ((200, reply), st')"
    using assms(1,2) by (auto simp: post_switch_json_def split: option.splits)
  obtain message rid sent where r: "reply = Switch_Scene_Reply \<lparr>wo_ok = True, wo_message = message\<rparr>"
    and sent: "is_seq s + 4 \<le> sent" "sent + 2 = is_seq t"
    and p: "map_of (is_pending_switches t) rid = Some \<lparr>ps_scene_name = trim (wr_scene_name body),
      ps_deadline_at = ie_instant env sent + uint (clamp 50 5000 (unwrap_or (wr_deadline_ms body) 550)) * 10 ^ 6\<rparr>"
    and a: "announced (is_evt_log t) rid (trim (wr_scene_name body))"
    by (rule accepted_switch_pending [OF post assms(3)])
  have "field 0 ''ok'' (switch_reply_value \<lparr>wo_ok = True, wo_message = message\<rparr>) = Some (JBool True)"
    by (simp add: switch_reply_value_def object_def serde)
  then show ?thesis
    using switch_request_read [OF body] p a sent
    by (intro exI [of _ "wr_scene_name body"] exI [of _ "switch_reply_value \<lparr>wo_ok = True, wo_message = message\<rparr>"]
        exI [of _ rid] exI [of _ sent] exI conjI) (assumption | simp add: r)+
qed

section \<open>Output names\<close>

lemma names_of_map:
  assumes "names_of (JObject m) = Some ns"
  shows "map fst ns = map fst m" "map_of m = map_option JString \<circ> map_of ns"
proof -
  have "map fst ns = map fst m \<and> map_of m = map_option JString \<circ> map_of ns"
    using assms
  proof (induction m arbitrary: ns)
    case (Cons kv m)
    obtain k v where kv: "kv = (k, v)" by (cases kv)
    then obtain s ns' where "v = JString s" "names_of (JObject m) = Some ns'" "ns = (k, s) # ns'"
      using Cons.prems by (cases v) (auto split: option.splits)
    with Cons.IH kv show ?case by (auto simp: fun_eq_iff)
  qed (auto simp: fun_eq_iff)
  then show "map fst ns = map fst m" "map_of m = map_option JString \<circ> map_of ns" by simp_all
qed

lemma map_of_names: "distinct (map fst names) \<Longrightarrow>
   map_of (map (apsnd JString) (ordered (ordered names))) = map_option JString \<circ> map_of names"
  by (simp add: apsnd_def map_prod_def map_of_map map_of_ordered_distinct del: map_of_ordered)

text \<open>C25. Output names over the wire: after a JSON object of names was accepted, a request for the names on the
  state it left is answered with a JSON object that has, for each output of the posted object, its new
  name, or nothing if that is blank, and for every other output the name it had; the names have gone
  through the configuration file in between.\<close>

theorem output_names_over_the_wire:
  assumes "post_names_json env rejection req (JObject m) st = ((200, reply), st')" and "fst rejection \<noteq> 200"
    and "toml_codecs read (he_os env)" and "load_config env st = Ok c"
    and "distinct (map fst m)" and "distinct (map fst (cf_output_names c))"
    and "authorized env req' st' Deny"
  shows "\<exists>reply' r. serve env req' Get_Output_Names st' = ((200, reply'), st') \<and> reply_value reply' = Some (JObject r)
    \<and> (\<forall>oid. map_of r oid = (case map_of m oid of
          Some (JString name) \<Rightarrow> if trim name = [] then None else Some (JString name)
        | _ \<Rightarrow> map_option JString (map_of (cf_output_names c) oid)))"
proof -
  obtain ns where ns: "names_of (JObject m) = Some ns"
    and post: "save_output_names env req ns st = ((200, reply), st')"
    using assms(1,2) by (auto simp: post_names_json_def output_names_payload_of_def split: option.splits)
  let ?names = "merge_names ns (cf_output_names c)"
  let ?c = "c\<lparr>cf_output_names := ?names\<rparr>"
  obtain fs' where sv: "save (he_os env) (hs_files st) ?c = (Ok (), fs')" and st': "hs_files st' = fs'"
    using post assms(4)
    by (cases "save (he_os env) (hs_files st) ?c")
       (auto simp: save_output_names_def save_config_def unauthorized_text_def split: if_splits sum.splits)
  have "load (he_os env) (hs_files st) = Ok c" using assms(4) by (simp add: load_config_def)
  then have "apply_env_overrides (he_os env) c = c" "valid_config c"
    by (rule loaded_overridden, rule load_Ok)
  then have "apply_env_overrides (he_os env) ?c = ?c" "valid_config ?c"
    by (simp_all add: overrides_names valid_config_def)
  then have "load_config env st' = Ok (canonical ?c)"
    using load_saved [OF sv assms(3)] by (simp add: load_config_def st')
  then have "serve env req' Get_Output_Names st' = ((200, Names (ordered ?names)), st')"
    using assms(7) by (simp add: get_output_names_def canonical_def)
  moreover have "map_of (map (apsnd JString) (ordered (ordered ?names))) = map_option JString \<circ> map_of ?names"
    using assms(6) by (intro map_of_names merge_names_distinct)
  moreover have "distinct (map fst ns)" using names_of_map [OF ns] assms(5) by simp
  then have "map_of ?names oid = (case map_of ns oid of None \<Rightarrow> map_of (cf_output_names c) oid
      | Some name \<Rightarrow> if trim name = [] then None else Some name)" for oid
    by (rule merge_names_map)
  ultimately show ?thesis
    using names_of_map(2) [OF ns]
    by (intro exI [of _ "Names (ordered ?names)"] exI [of _ "map (apsnd JString) (ordered (ordered ?names))"])
       (auto simp: names_value_ordered split: option.split)
qed

section \<open>An instance\<close>

theorem switch_request_over_the_wire_witness:
  "\<exists>st' reply rid p t.
     post_switch_json sample_http_env (422, No_Body) bearer_get (JObject [(''scene_name'', JString ''A'')]) sample_server
       = ((200, reply), st')
   \<and> switch_scene command_env (last (hs_ipc_queue st')) sample_state = (Proceed, t)
   \<and> map_of (is_pending_switches t) rid = Some p \<and> ps_deadline_at p = 550 * 10 ^ 6"
proof -
  let ?v = "JObject [(''scene_name'', JString ''A'')]"
  let ?st = "sample_server\<lparr>hs_ipc_queue := [SwitchScene ''A'' ''manual_debug'' 550]\<rparr>"
  obtain reply where "serve sample_http_env bearer_get switch_request sample_server = ((200, reply), ?st)"
    using request_accepted [of sample_server] by (auto simp: sample_server_def)
  then have p: "post_switch_json sample_http_env (422, No_Body) bearer_get ?v sample_server = ((200, reply), ?st)"
    by (simp add: post_switch_json_def switch_request_of_def serde switch_request_def)
  obtain t where t: "switch_scene command_env (last (hs_ipc_queue ?st)) sample_state = (Proceed, t)"
    using sample_switch_sent by auto
  have "ie_instant command_env q = 0" for q by (simp add: command_env_def)
  with switch_request_over_the_wire [OF p _ t] obtain rid p where
    "map_of (is_pending_switches t) rid = Some p" "ps_deadline_at p = 550 * 10 ^ 6"
    by (auto simp: requested_deadline_def)
  with p t show ?thesis by blast
qed

definition named_config :: config where
  "named_config = (token_config (Some ''secret''))\<lparr>cf_output_names := [(''a'', ''Main'')]\<rparr>"

definition names_read :: "string \<Rightarrow> json option" where
  "names_read raw =
     (if raw = ''named'' then Some (config_value named_config) else sample_read raw)"

definition names_env :: "string http_env" where
  "names_env = sample_http_env\<lparr>he_os := sample_os\<lparr>
     os_toml_parse := (\<lambda>raw. ok_or (Option.bind (names_read raw) config_of) ''invalid''),
     os_toml_print := (\<lambda>c. if c = named_config then Ok ''named'' else Err ''print'')\<rparr>\<rparr>"

definition names_server :: server_state where
  "names_server = sample_server\<lparr>hs_files := [CONFIG_FILE \<mapsto> ''good'']\<rparr>"

lemma names_toml: "toml_codecs names_read (he_os names_env)"
  by (simp add: toml_codecs_def names_env_def names_read_def) (simp add: sample_os_def)

lemma names_overrides: "apply_env_overrides (he_os names_env) c = apply_env_overrides sample_os c"
  by (simp add: apply_env_overrides_def obs_overrides_def server_overrides_def grafana_overrides_def
      aegis_overrides_def with_var_def telemy_var_def names_env_def)

lemma names_loaded: "load_config names_env names_server = Ok (token_config (Some ''secret''))"
proof -
  have "canonical (token_config (Some ''x'')) = token_config (Some ''x'')"
    by (simp add: canonical_def token_config_def config_default_def ordered_def)
  moreover have "validate (token_config (Some ''secret'')) = Ok ()"
    using token_config_valid by (simp add: validate_Ok)
  ultimately show ?thesis
    by (simp add: load_config_def load_from [OF names_toml, where raw = "''good''"] active_config_path_def
        names_server_def names_read_def sample_read_def names_overrides sample_overrides config_read_back)
qed

theorem output_names_over_the_wire_witness:
  "\<exists>reply st' reply' r.
     post_names_json names_env (422, No_Body) bearer_get (JObject [(''a'', JString ''Main'')]) names_server
       = ((200, reply), st')
   \<and> serve names_env bearer_get Get_Output_Names st' = ((200, reply'), st')
   \<and> reply_value reply' = Some (JObject r) \<and> map_of r ''a'' = Some (JString ''Main'')"
proof -
  let ?m = "[(''a'', JString ''Main'')]" and ?c = "token_config (Some ''secret'')"
  have c: "cf_output_names ?c = []" by (simp add: token_config_def config_default_def)
  have auth: "authorized names_env bearer_get st Deny = (hs_token st = ''tok'')" for st
    by (auto simp: auth_simps bearer_def bearer_get_def names_env_def sample_http_env_def strip_prefix_def)
  have "trim ''Main'' = ''Main''" by (rule trim_id) (simp_all add: byte_def ws1_def ws2_def ws3_def)
  then have "merge_names [(''a'', ''Main'')] [] = [(''a'', ''Main'')]" by (simp add: merge_names_def)
  then have n: "?c\<lparr>cf_output_names := merge_names [(''a'', ''Main'')] (cf_output_names ?c)\<rparr> = named_config"
    by (simp add: c named_config_def)
  have "valid_config named_config"
    using token_config_valid [of "Some ''secret''"] by (simp add: named_config_def valid_config_def)
  then have "\<exists>fs. save (he_os names_env) fs0 named_config = (Ok (), fs)" for fs0
    by (simp add: save_def validate_Ok [THEN iffD2] Let_def names_env_def ensure_parent_def fs_write_def
        sample_os_def split: option.split)
  then obtain fs where "save (he_os names_env) (hs_files names_server) named_config = (Ok (), fs)" by blast
  then have p: "post_names_json names_env (422, No_Body) bearer_get (JObject ?m) names_server
      = ((200, Text ''Output names saved''), names_server\<lparr>hs_files := fs\<rparr>)"
    by (simp add: post_names_json_def output_names_payload_of_def save_output_names_def auth names_loaded n
        save_config_def) (simp add: names_server_def sample_server_def)
  from output_names_over_the_wire [OF p _ names_toml names_loaded, of bearer_get] show ?thesis
    using p \<open>trim ''Main'' = ''Main''\<close> by (auto simp: c auth names_server_def sample_server_def)
qed

end
