(* ===== verification/End_To_End.thy ===== *)
theory End_To_End
  imports Wire_Link Http_Wire
begin

text \<open>
  The whole way of a scene switch through the program, from the JSON of an HTTP request over the bytes of
  both pipes and the development client back to the JSON of the status route.
\<close>

text \<open>The status route gives out what the session has left in the debug status.\<close>

lemma status_read_back:
  assumes "authorized henv req st Deny"
  shows "serve henv req Get_Ipc_Status st = ((200, Ipc_Status (hs_ipc_debug st)), st)"
    and "Option.bind (reply_value (Ipc_Status d)) debug_status_of = Some d"
  using assms by (simp_all add: get_ipc_status_def)

text \<open>C10. A scene switch goes all the way round, if the event pipe takes every write and the development
  client was started without \<open>--no-auto-ack\<close>, the codecs of both ends being those of their messages and a body
  that cannot be read not being answered with OK. When
  the body of a request is answered with OK and the session has sent the newest command: the body has a scene name; the bytes that the session added to the
  event pipe are one frame, which the development client reads as a switch to that scene under a
  request id that is pending, and which it answers with one message. Whenever the bytes of that answer
  are the next on the command pipe of a session in which the request is pending, the session resolves
  exactly that request, and the status route then says in its JSON that it ended with \<open>ok\<close>.\<close>

theorem http_switch_goes_round:
  assumes "core_codecs unpack env" and "client_codecs unpack denv" and "auto_ack denv"
    and "\<forall>q. ie_pipe_write env q = None"
    and "post_switch_json henv rejection req v st = ((200, reply), st')" and "fst rejection \<noteq> 200"
    and "switch_scene env (last (hs_ipc_queue st')) s = (Proceed, t)"
  shows "\<exists>name msg sp ack. field 0 ''scene_name'' v = Some (JString name)
    \<and> client_read_frame denv (drop (length (is_evt_bytes s)) (is_evt_bytes t)) = Ok (msg, [])
    \<and> client_switch_scene_of (ev_payload msg) = Some sp \<and> sp_scene_name sp = trim name
    \<and> map_of (is_pending_switches t) (sp_request_id sp) \<noteq> None
    \<and> client_on_event denv q msg = Ok [ack]
    \<and> (\<forall>k bytes u rest. client_write_frame denv k ack = (bytes, Ok ()) \<and> arrived env u = bytes @ rest
          \<and> map_of (is_pending_switches u) (sp_request_id sp) \<noteq> None \<longrightarrow>
        (\<exists>w. poll_command env u = (Proceed, w) \<and> is_cmd_buf w = rest
          \<and> map_of (is_pending_switches w) = (map_of (is_pending_switches u))(sp_request_id sp := None)
          \<and> (\<forall>req' st2. authorized henv req' st2 Deny \<and> hs_ipc_debug st2 = is_debug w \<longrightarrow>
              (\<exists>status d. serve henv req' Get_Ipc_Status st2 = ((200, status), st2)
                \<and> Option.bind (reply_value status) debug_status_of = Some d
                \<and> map_option (\<lambda>r. (rd_request_id r, rd_status r)) (ds_last_switch_result d) = Some (sp_request_id sp, ''ok'')))))"
proof -
  obtain body where body: "switch_request_of v = Some body"
    and post: "post_ipc_switch_scene henv req body st = ((200, reply), st')"
    using assms(5,6) by (auto simp: post_switch_json_def split: option.splits)
  let ?sp = "sent_payload env s (last (hs_ipc_queue st'))"
  let ?e = "envelope_at env (is_seq s + 2) ''switch_scene'' Critical (Switch_Scene ?sp)"
  obtain p where p: "encode_frame env ?e = Ok p" and bytes: "is_evt_bytes t = is_evt_bytes s @ frame_bytes p"
    and pending: "map_of (is_pending_switches t) (sp_request_id ?sp) \<noteq> None"
    using switch_sent [OF assms(4,7)] by (auto simp: sent_payload_def)
  have name: "field 0 ''scene_name'' v = Some (JString (wr_scene_name body))"
    using body by (rule switch_request_read)
  have scene: "sp_scene_name ?sp = trim (wr_scene_name body)"
    by (rule accepted_switch_queued [OF post]) (simp add: sent_payload_def)
  have frame: "client_read_frame denv (drop (length (is_evt_bytes s)) (is_evt_bytes t)) = Ok (with_value ?e, [])"
    using core_frame_read [OF assms(1,2) p, of "[]"] by (simp add: bytes)
  have answer: "client_on_event denv q (with_value ?e)
      = Ok [client_envelope denv q ''scene_switch_result'' High (client_result_value (ack_of ?sp))]"
    by (rule client_answers_switch [OF assms(2,3)]) simp_all
  have resolved: "\<exists>w. poll_command env u = (Proceed, w) \<and> is_cmd_buf w = rest
      \<and> map_of (is_pending_switches w) = (map_of (is_pending_switches u))(sp_request_id ?sp := None)
      \<and> (\<forall>req' st2. authorized henv req' st2 Deny \<and> hs_ipc_debug st2 = is_debug w \<longrightarrow>
          (\<exists>status d. serve henv req' Get_Ipc_Status st2 = ((200, status), st2)
            \<and> Option.bind (reply_value status) debug_status_of = Some d
            \<and> map_option (\<lambda>r. (rd_request_id r, rd_status r)) (ds_last_switch_result d) = Some (sp_request_id ?sp, ''ok'')))"
    if "client_write_frame denv k (client_envelope denv q ''scene_switch_result'' High
        (client_result_value (ack_of ?sp))) = (bytes, Ok ()) \<and> arrived env u = bytes @ rest
      \<and> map_of (is_pending_switches u) (sp_request_id ?sp) \<noteq> None" for k bytes u rest
  proof -
    from that obtain w where w: "poll_command env u = (Proceed, w)"
      "is_cmd_buf w = rest" "map_of (is_pending_switches w) = (map_of (is_pending_switches u))(sp_request_id ?sp := None)"
      "map_option (\<lambda>r. (rd_request_id r, rd_status r)) (ds_last_switch_result (is_debug w)) = Some (sp_request_id ?sp, ''ok'')"
      using answer_resolves [OF assms(1,2)] by blast
    have "\<exists>status d. serve henv req' Get_Ipc_Status st2 = ((200, status), st2)
        \<and> Option.bind (reply_value status) debug_status_of = Some d
        \<and> map_option (\<lambda>r. (rd_request_id r, rd_status r)) (ds_last_switch_result d) = Some (sp_request_id ?sp, ''ok'')"
      if "authorized henv req' st2 Deny \<and> hs_ipc_debug st2 = is_debug w" for req' st2
      using that w(4) status_read_back [of henv req' st2]
      by (intro exI [of _ "Ipc_Status (is_debug w)"] exI [of _ "is_debug w"]) simp
    with w(1-3) show ?thesis by blast
  qed
  have read: "client_switch_scene_of (ev_payload (with_value ?e)) = Some ?sp" by simp
  show ?thesis
    by (rule exI, rule exI, rule exI, rule exI, rule conjI, rule name, rule conjI, rule frame, rule conjI, rule read,
        rule conjI, rule scene, rule conjI, rule pending, rule conjI, rule answer, intro allI impI, rule resolved)
qed

lemma sample_sent:
  "\<exists>t. switch_scene wire_core_env (SwitchScene ''A'' ''manual_debug'' 550) s = (Proceed, t)
     \<and> is_evt_bytes t = is_evt_bytes s @ frame_bytes [2]
     \<and> is_pending_switches t = AList.update ''i'' \<lparr>ps_scene_name = ''A'', ps_deadline_at = 550 * 10 ^ 6\<rparr> (is_pending_switches s)"
  using sample_envelopes(2)
  by (simp add: switch_scene_def ipc_simps Let_def the_payload_def sample_writes try_io_def from_millis_def)

lemma sample_frame: "client_read_frame wire_dev_env (frame_bytes [2]) = Ok (with_value the_switch, [])"
  using core_frame_read [OF sample_core_codecs sample_client_codecs sample_encodes(2), of "[]"] by simp

lemma sample_answer: "client_on_event wire_dev_env 0 (with_value the_switch) = Ok [the_result]"
proof -
  have "client_envelope wire_dev_env 0 ''scene_switch_result'' High (client_result_value (ack_of the_payload)) = the_result"
    by (simp add: client_envelope_def the_result_def wire_dev_env_def IPC_PROTOCOL_VERSION_def)
  then show ?thesis
    using client_answers_switch [OF sample_client_codecs wire_env_sel(6), of the_switch the_payload 0]
    by (simp add: the_switch_def)
qed

lemma sample_result_frame: "client_write_frame wire_dev_env k the_result = (frame_bytes [4], Ok ())"
proof -
  have "the_result \<noteq> the_hello" by (simp add: the_result_def the_hello_def)
  then show ?thesis
    by (simp add: client_write_frame_def wire_dev_env_def frame_bytes_def MAX_FRAME_SIZE_def)
qed

theorem http_switch_goes_round_witness:
  "\<exists>st' reply t w status d.
     post_switch_json sample_http_env (422, No_Body) bearer_get (JObject [(''scene_name'', JString ''A'')]) sample_server
       = ((200, reply), st')
   \<and> switch_scene wire_core_env (last (hs_ipc_queue st')) (session_start wire_core_env new_debug_status 0) = (Proceed, t)
   \<and> poll_command wire_core_env (t\<lparr>is_cmd_buf := frame_bytes [4]\<rparr>) = (Proceed, w)
   \<and> serve sample_http_env bearer_get Get_Ipc_Status (st'\<lparr>hs_ipc_debug := is_debug w\<rparr>)
       = ((200, status), st'\<lparr>hs_ipc_debug := is_debug w\<rparr>)
   \<and> Option.bind (reply_value status) debug_status_of = Some d
   \<and> map_option rd_status (ds_last_switch_result d) = Some ''ok''"
proof -
  let ?st = "sample_server\<lparr>hs_ipc_queue := [SwitchScene ''A'' ''manual_debug'' 550]\<rparr>"
  obtain reply where "serve sample_http_env bearer_get switch_request sample_server = ((200, reply), ?st)"
    using request_accepted [of sample_server] by (auto simp: sample_server_def)
  then have p: "post_switch_json sample_http_env (422, No_Body) bearer_get (JObject [(''scene_name'', JString ''A'')])
      sample_server = ((200, reply), ?st)"
    by (simp add: post_switch_json_def switch_request_of_def serde switch_request_def)
  let ?s = "session_start wire_core_env new_debug_status 0"
  obtain t where t: "switch_scene wire_core_env (last (hs_ipc_queue ?st)) ?s = (Proceed, t)"
    "is_evt_bytes t = is_evt_bytes ?s @ frame_bytes [2]" "map_of (is_pending_switches t) ''i'' \<noteq> None"
    using sample_sent [of ?s] by (auto simp: map_of_update)
  let ?u = "t\<lparr>is_cmd_buf := frame_bytes [4]\<rparr>"
  have arrived: "arrived wire_core_env ?u = frame_bytes [4] @ frame_bytes [3]"
    by (simp add: arrived_def wire_core_env_def)
  obtain msg sp ack where g:
    "client_read_frame wire_dev_env (frame_bytes [2]) = Ok (msg, [])" "client_switch_scene_of (ev_payload msg) = Some sp"
    "client_on_event wire_dev_env 0 msg = Ok [ack]"
    and answered: "\<And>k bytes u rest. client_write_frame wire_dev_env k ack = (bytes, Ok ()) \<and> arrived wire_core_env u = bytes @ rest
      \<and> map_of (is_pending_switches u) (sp_request_id sp) \<noteq> None \<Longrightarrow>
        \<exists>w. poll_command wire_core_env u = (Proceed, w) \<and> is_cmd_buf w = rest
          \<and> map_of (is_pending_switches w) = (map_of (is_pending_switches u))(sp_request_id sp := None)
          \<and> (\<forall>req' st2. authorized sample_http_env req' st2 Deny \<and> hs_ipc_debug st2 = is_debug w \<longrightarrow>
              (\<exists>status d. serve sample_http_env req' Get_Ipc_Status st2 = ((200, status), st2)
                \<and> Option.bind (reply_value status) debug_status_of = Some d
                \<and> map_option (\<lambda>r. (rd_request_id r, rd_status r)) (ds_last_switch_result d) = Some (sp_request_id sp, ''ok'')))"
    using http_switch_goes_round [OF sample_core_codecs sample_client_codecs wire_env_sel(6) sample_reliable p _ t(1), of 0]
    by (simp only: t(2)) (simp, elim exE conjE, blast)
  have msg: "msg = with_value the_switch" using g(1) sample_frame by simp
  then have "ack = the_result" using g(3) sample_answer by simp
  moreover have "sp = the_payload" using g(2) by (simp add: msg the_switch_def)
  ultimately obtain w where w: "poll_command wire_core_env ?u = (Proceed, w)"
    "\<forall>req' st2. authorized sample_http_env req' st2 Deny \<and> hs_ipc_debug st2 = is_debug w \<longrightarrow>
       (\<exists>status d. serve sample_http_env req' Get_Ipc_Status st2 = ((200, status), st2)
         \<and> Option.bind (reply_value status) debug_status_of = Some d
         \<and> map_option (\<lambda>r. (rd_request_id r, rd_status r)) (ds_last_switch_result d) = Some (sp_request_id sp, ''ok''))"
    using answered [of 0 "frame_bytes [4]" ?u "frame_bytes [3]"] sample_result_frame arrived t(3)
    by (auto simp: the_payload_def)
  have "authorized sample_http_env bearer_get (?st\<lparr>hs_ipc_debug := is_debug w\<rparr>) Deny"
    by (simp add: auth_simps bearer_def bearer_get_def sample_http_env_def sample_server_def strip_prefix_def)
  with w(2) obtain status d where
    "serve sample_http_env bearer_get Get_Ipc_Status (?st\<lparr>hs_ipc_debug := is_debug w\<rparr>)
       = ((200, status), ?st\<lparr>hs_ipc_debug := is_debug w\<rparr>)"
    "Option.bind (reply_value status) debug_status_of = Some d" "map_option rd_status (ds_last_switch_result d) = Some ''ok''"
    by (fastforce simp: map_option_eq_Some)
  with p t(1) w(1) show ?thesis by blast
qed

end
