(* ===== verification/Spec2Isabelle.thy ===== *)
theory Spec2Isabelle
  imports Interleaving Ipc_Pipes Lifecycle End_To_End
begin

text \<open>
  A verification library for the telemetry bridge, the Rust program under
  \<open>src/obs-telemetry-bridge/src\<close>: a background process beside OBS that collects metrics, serves a
  dashboard and a settings page on a local HTTP port, talks to an OBS plugin over two named pipes,
  exports to Grafana, keeps its secrets in a vault and asks a remote control plane for relay sessions.

  \<^bold>\<open>Parts and theories\<close> (file and function names are those under \<open>src/\<close> of the bridge).

  \<^item> \<open>Telemy_Prelude\<close>: results as sums (\<open>Ok\<close>, \<open>Err\<close>, \<open>and_then\<close> for the \<open>?\<close> operator), the collections
    \<open>result_simps\<close>, \<open>rust_str\<close>, \<open>ipc_simps\<close>, \<open>auth_simps\<close>, and two contracts: \<open>invariant_system\<close> (an
    invariant of a step relation holds in every reachable state) and \<open>persistent\<close> (what is saved is
    loaded). \<open>Rust_Std\<close>: the operations of Rust's strings and integers that the program uses, on UTF-8
    bytes and words. \<open>Rust_Net\<close>: addresses and headers. \<open>Float32\<close>: \<open>f32\<close> with rounding on rationals.
  \<^item> \<open>Telemetry_Model\<close> (\<open>model/mod.rs\<close>): the frame. \<open>Metrics\<close> (\<open>metrics/mod.rs\<close>): \<open>metrics_hub\<close> and
    \<open>collect\<close> with every part of it. \<open>Exporter\<close> (\<open>exporters/mod.rs\<close> and the exporter task of
    \<open>app/mod.rs\<close>).
  \<^item> \<open>App_Config\<close> (\<open>config/mod.rs\<close>): the configuration, its overrides, validation, loading and saving.
    \<open>Vault\<close> (\<open>security/mod.rs\<close>): the secrets. \<open>Aegis_Client\<close> (\<open>aegis/mod.rs\<close>): the control-plane client,
    from request to parsed and normalised response.
  \<^item> \<open>Ipc_Types\<close>, \<open>Ipc_Framing\<close>, \<open>Ipc_Session\<close>, \<open>Ipc_Protocol\<close>, \<open>Ipc_Correctness\<close>, \<open>Ipc_Server\<close>,
    \<open>Ipc_Pipes\<close> (\<open>ipc/mod.rs\<close>): the payloads, the error tracker and the status snapshot; frames on bytes;
    the session state \<open>ipc_session\<close> with one definition per handler of \<open>handle_session_io\<close>, composed to
    \<open>session_iteration\<close> and \<open>session_loop\<close>; the step relation \<open>sstep\<close> the session refines; the properties
    of sessions; the server around them; the pipes it makes. \<open>Dev_Client\<close> (\<open>bin/ipc_dev_client.rs\<close>): the
    other end.
  \<^item> \<open>Http_Server\<close>, \<open>Http_Correctness\<close> (\<open>server/mod.rs\<close>): the state \<open>server_state\<close> shared by the handlers,
    one definition per route, composed by \<open>serve\<close>; the web socket. \<open>Settings_Page\<close>, \<open>Dashboard_Page\<close>: the
    texts of the two pages as templates and their rendering.
  \<^item> \<open>Autostart\<close> (\<open>startup/mod.rs\<close>), \<open>Tray\<close> (\<open>tray/mod.rs\<close>), \<open>App\<close> (\<open>app/mod.rs\<close>): the registry entry, the
    tray icon, the command line, everything that is launched, the metrics task and the end.
  \<^item> \<open>Bridge\<close>: the HTTP server and the IPC session over what they share, as \<open>run\<close> wires them: the debug
    status and the command channel, by whole iterations of the session; \<open>Interleaving\<close>: the same with
    requests between any two steps of a session, the expiry of a switch being two steps, since the session waits for the
    pipe between them; the former refines it. \<open>Lifecycle\<close> (\<open>app/mod.rs\<close>, \<open>main.rs\<close>): the tray thread, the server
    and the event loop up to the exit code, over the shutdown flag and channel.

  \<^item> What is on the wire and in the files. \<open>Serde\<close>: the generic data model that the derived codecs go
    through (\<open>json\<close>), its rules for fields that are missing, null or of the wrong kind, and the contract of
    a codec. \<open>Ipc_Wire\<close>: the derived codecs of every message of \<open>ipc/mod.rs\<close> and of the development
    client's own copies of them; \<open>Config_Wire\<close>: those of the sections of \<open>config.toml\<close>; \<open>Aegis_Wire\<close>:
    those of the control plane's requests and replies; \<open>Http_Wire\<close>: those of the bodies of the HTTP routes and
    of the frames of the web socket, with the two routes that read JSON. Each has one definition per struct and direction,
    with the attributes of its fields. \<open>Wire_Link\<close> puts the codecs of \<open>Ipc_Wire\<close> under the IPC session and
    the development client; \<open>End_To_End\<close> follows a scene switch from the JSON of its request over both pipes
    to the JSON of the status route.

  \<^bold>\<open>State and time.\<close> State is passed explicitly in records. What the program asks its surroundings
  (clocks, identifiers, what has arrived on a pipe, whether a write succeeds) is an environment record;
  in the IPC session the fields are functions of a counter that grows with every question, so that two
  questions may have different answers. The syntax of MessagePack, JSON, TOML, base64 and DPAPI's blobs, the
  HTTP library, \<open>obws\<close>, \<open>sysinfo\<close>, NVML and OpenTelemetry are fields of these records; a law that a
  property needs of one is a hypothesis of that property, with a witness. For the first three that law is
  that a text stands for the value it was printed from (\<open>core_codecs\<close>, \<open>client_codecs\<close>, \<open>toml_codecs\<close>,
  \<open>aegis_codecs\<close>); which value a struct is printed from and read as is defined, not assumed.

  \<^bold>\<open>What is shown.\<close> For sessions: the loop refines a small state machine in which only a completed
  handshake allows switches; the pending count the HTTP server sees is always the number of pending
  switches; each pending switch is resolved exactly once, by a result or at its deadline; the bytes on the
  event pipe are frames that the development client's codec reads as exactly the messages written; the
  handshake and a scene switch go round between the two programs on those bytes, the latter from the JSON
  of the HTTP request to the JSON of the status, and every switch is acknowledged; a client that stops pinging is disconnected; errors are counted in a sliding window. For the HTTP server: a route answers 401 exactly when the token is
  missing, and then changes nothing; a token in the query is only good for reading; queued switches have
  clamped deadlines, starting from the JSON of the request; output names that were posted are returned as
  posted, through the configuration file; escaping is injective, and no configured value but the theme can inject
  markup into the dashboard or the settings page; what the settings form changes and, when saving
  fails, what it leaves behind. For both together, over any interleaving of requests with the
  steps of sessions: a switch reaches the plugin only if an authorised request asked for it, the status route
  tells the truth, except that an expired switch is counted until its notice has been written, and an accepted
  switch gets a deadline, counted from when it was sent.
  For storage: configurations, down to the keys and values of the file, and secrets round trip and survive
  a restart, as far as they could be protected and written; one value of the wrong kind discards the whole
  file; the registry entry holds the executable's path, under the application's name. For the control plane: which replies start a relay, over all the values that
  a reply's body can stand for. For the launch: one token everywhere, the tray's URLs open if the
  token needs no encoding, the exporter and the hub get the secrets configured for them and no others, the exporter backs off and retries
  and exports every value of a frame under its name, frames on the watch channel always have
  a health between 0 and 1. For the end: the program fails only with the server's error, stops without one
  only after a click on \<open>Quit\<close> or when waiting for Ctrl-C is over, and \<open>Quit\<close> ends it. Some properties record
  faults of the program: bytes of a split frame are
  lost, network rates are differences of differences, an empty token opens the pages, a token with an ampersand
  breaks the tray's URLs, settings are not rolled back, overrides are written to disk.

  \<^bold>\<open>Contracts.\<close> The locales are \<open>framing\<close> (a writer and a reader on a stream), \<open>setting_slot\<close> (an override
  that is set when it changes), \<open>keyed_store\<close> (the vault as its clients see it), \<open>persistent\<close>,
  \<open>invariant_system\<close>, \<open>codec\<close> and \<open>plain_codec\<close> (what is written is read back; the latter for types that
  may stand in an optional field); each is interpreted on the model's own definitions in the theory of its provider.

  \<^bold>\<open>Fuel.\<close> \<open>session_loop\<close>, \<open>run_named_pipe_server\<close>, \<open>exporter_task\<close> and \<open>client_connect\<close> run for ever by
  design and take a bound on their iterations; \<open>None\<close> or \<open>Proceed\<close> means that the bound was reached. The
  properties hold for every bound, and those that state an end give one that is enough: the timeout of
  the heartbeat, the number of failing attempts, the number of windows of the tray. Every other
  recursion is structural or has a measure.

  \<^bold>\<open>Not modelled.\<close> What a browser makes of the pages and their scripts, logging and what is printed for the user's eyes only, the scheduling inside one step of a session, in which it
  does not wait for anything but the writing of one message (a request is served before or after it), a
  write on the event pipe that never comes to an end, as when the client keeps the pipe open and reads nothing (a write may take any time and may fail; the
  states of a session that hangs in one are those up to it), the bound of the broadcast channel beyond that it may drop commands, aggregation in OpenTelemetry.
  The Go control plane, the C++ plugin and the dock's script are other programs; their messages are
  arbitrary inputs here.

  \<^bold>\<open>Plan.\<close> The bounds of the broadcast channel, with the point at which it drops commands.
\<close>

end
